(* ===== verification/Claim_Ledger.thy ===== *)
theory Claim_Ledger
  imports Prelude
begin

text \<open>
  Tables with a unique key, as the SQLite statements of the source use them, and the
  contract of a claim ledger: a key is reserved before an action and the reservation
  succeeds at most once, whatever happens between the attempts. Signals, commands, order
  intents and exchange events are claimed this way.
\<close>

subsection \<open>Tables with a unique key\<close>

text \<open>\<open>INSERT OR IGNORE\<close>; the flag is \<open>rowcount == 1\<close>.\<close>

definition insert_or_ignore :: "('r \<Rightarrow> 'k) \<Rightarrow> 'r \<Rightarrow> 'r list \<Rightarrow> 'r list \<times> bool" where
  "insert_or_ignore key r rows =
     (if key r \<in> key ` set rows then (rows, False) else (rows @ [r], True))"

text \<open>\<open>INSERT ... ON CONFLICT(key) DO UPDATE\<close>.\<close>

definition insert_or_update :: "('r \<Rightarrow> 'k) \<Rightarrow> ('r \<Rightarrow> 'r) \<Rightarrow> 'r \<Rightarrow> 'r list \<Rightarrow> 'r list" where
  "insert_or_update key change r rows =
     (if key r \<in> key ` set rows then update_where (\<lambda>x. key x = key r) change rows else rows @ [r])"

definition row_with :: "('r \<Rightarrow> 'k) \<Rightarrow> 'k \<Rightarrow> 'r list \<Rightarrow> 'r option" where
  "row_with key k rows = List.find (\<lambda>r. key r = k) rows"

lemma find_append: "List.find p (xs @ ys) = (case List.find p xs of None \<Rightarrow> List.find p ys | Some x \<Rightarrow> Some x)"
  by (induction xs) auto

lemma row_with_None: "row_with key k rows = None \<longleftrightarrow> k \<notin> key ` set rows"
  by (auto simp: row_with_def find_None_iff)

lemma row_with_Some: "row_with key k rows = Some r \<Longrightarrow> r \<in> set rows \<and> key r = k"
  using find_Some_set by (fastforce simp: row_with_def)

lemma row_with_distinct: "distinct (map key rows) \<Longrightarrow> r \<in> set rows \<Longrightarrow> row_with key (key r) rows = Some r"
  by (simp add: row_with_def find_key_distinct)

lemma row_with_append:
  "row_with key k (rows @ [r]) = (case row_with key k rows of None \<Rightarrow> if key r = k then Some r else None | Some x \<Rightarrow> Some x)"
  by (simp add: row_with_def find_append split: option.splits)

lemma row_with_update:
  assumes "\<And>r. p r \<Longrightarrow> key (f r) = key r"
  shows "row_with key k (update_where p f rows) = map_option (\<lambda>r. if p r then f r else r) (row_with key k rows)"
  unfolding row_with_def by (rule find_update_where) (simp add: assms)

lemma insert_or_ignore_distinct:
  "distinct (map key rows) \<Longrightarrow> distinct (map key (fst (insert_or_ignore key r rows)))"
  by (auto simp: insert_or_ignore_def)

lemma insert_or_update_distinct:
  assumes "distinct (map key rows)" and "\<And>x. key (change x) = key x"
  shows "distinct (map key (insert_or_update key change r rows))"
  using assms by (auto simp: insert_or_update_def map_update_where)

lemma update_where_distinct:
  "(\<And>r. p r \<Longrightarrow> key (f r) = key r) \<Longrightarrow> distinct (map key (update_where p f rows)) = distinct (map key rows)"
  by (simp add: map_update_where)

subsection \<open>The contract\<close>

datatype ('c, 'o) ledger_op = Claim 'c | Other 'o

fun run_ledger ::
  "('c \<Rightarrow> 's \<Rightarrow> bool \<times> 's) \<Rightarrow> ('c \<Rightarrow> 'k) \<Rightarrow> ('o \<Rightarrow> 's \<Rightarrow> 's) \<Rightarrow> ('c, 'o) ledger_op list \<Rightarrow> 's \<Rightarrow>
   'k list \<times> 's" where
  "run_ledger claim key other [] s = ([], s)"
| "run_ledger claim key other (Claim c # ops) s =
     (let r = run_ledger claim key other ops (snd (claim c s)) in
      (if fst (claim c s) then key c # fst r else fst r, snd r))"
| "run_ledger claim key other (Other a # ops) s = run_ledger claim key other ops (other a s)"

text \<open>
  A request \<open>c\<close> claims the key \<open>key c\<close>; \<open>run_ledger\<close> lists the keys won.
  \<open>inv\<close> is the invariant of the table, \<open>seen\<close> says that the key is taken; any
  other operation of the component may run between two claims.
\<close>

locale claim_ledger =
  fixes claim :: "'c \<Rightarrow> 's \<Rightarrow> bool \<times> 's"
    and key :: "'c \<Rightarrow> 'k"
    and other :: "'o \<Rightarrow> 's \<Rightarrow> 's"
    and seen :: "'k \<Rightarrow> 's \<Rightarrow> bool"
    and inv :: "'s \<Rightarrow> bool"
  assumes claim_inv: "inv s \<Longrightarrow> inv (snd (claim c s))"
    and other_inv: "inv s \<Longrightarrow> inv (other a s)"
    and claim_fresh: "inv s \<Longrightarrow> fst (claim c s) \<Longrightarrow> \<not> seen (key c) s"
    and claim_seen: "inv s \<Longrightarrow> fst (claim c s) \<Longrightarrow> seen (key c) (snd (claim c s))"
    and claim_keeps: "inv s \<Longrightarrow> seen j s \<Longrightarrow> seen j (snd (claim c s))"
    and other_keeps: "inv s \<Longrightarrow> seen j s \<Longrightarrow> seen j (other a s)"
begin

lemmas laws = claim_inv other_inv claim_seen claim_keeps other_keeps

lemma run_inv: "inv s \<Longrightarrow> inv (snd (run_ledger claim key other ops s))"
proof (induction ops arbitrary: s)
  case (Cons op ops)
  then show ?case by (cases op) (simp_all add: Let_def laws)
qed simp

lemma run_keeps: "inv s \<Longrightarrow> seen j s \<Longrightarrow> seen j (snd (run_ledger claim key other ops s))"
proof (induction ops arbitrary: s)
  case (Cons op ops)
  then show ?case by (cases op) (simp_all add: Let_def laws)
qed simp

lemma run_seen_never_wins: "inv s \<Longrightarrow> seen j s \<Longrightarrow> j \<notin> set (fst (run_ledger claim key other ops s))"
proof (induction ops arbitrary: s)
  case (Cons op ops)
  then show ?case
    by (cases op) (auto simp: Let_def laws dest: claim_fresh split: if_splits)
qed simp

text \<open>Whatever is interleaved, a key is won at most once, and a won key is seen for good.\<close>

lemma at_most_once: "inv s \<Longrightarrow> distinct (fst (run_ledger claim key other ops s))"
proof (induction ops arbitrary: s)
  case (Cons op ops)
  then show ?case by (cases op) (simp_all add: Let_def run_seen_never_wins laws)
qed simp

lemma winners_seen:
  "inv s \<Longrightarrow> j \<in> set (fst (run_ledger claim key other ops s)) \<Longrightarrow> seen j (snd (run_ledger claim key other ops s))"
proof (induction ops arbitrary: s)
  case (Cons op ops)
  then show ?case
    by (cases op) (auto simp: Let_def laws intro: run_keeps split: if_splits)
qed simp

end

text \<open>A ledger whose claim never fails for another reason: a fresh key is won.\<close>

locale total_ledger = claim_ledger +
  assumes fresh_wins: "inv s \<Longrightarrow> \<not> seen (key c) s \<Longrightarrow> fst (claim c s)"
begin

lemma claim_iff: "inv s \<Longrightarrow> fst (claim c s) \<longleftrightarrow> \<not> seen (key c) s"
  using claim_fresh fresh_wins by blast

lemma claimed_seen: "inv s \<Longrightarrow> seen (key c) (snd (claim c s))"
  using claim_seen claim_keeps fresh_wins by blast

lemma claims_are_seen: "inv s \<Longrightarrow> Claim c \<in> set ops \<Longrightarrow> seen (key c) (snd (run_ledger claim key other ops s))"
proof (induction ops arbitrary: s)
  case (Cons op ops)
  then show ?case by (cases op) (auto simp: Let_def laws intro: run_keeps claimed_seen)
qed simp

end

end
