(* ===== verification/Py_Decimal.thy ===== *)
theory Py_Decimal
  imports Prelude
begin

text \<open>
  The standard library's \<open>decimal.Decimal\<close> as the source uses it: a finite decimal is
  an integer coefficient and an exponent, every arithmetic operation is rounded to the
  28 significant digits of the default context (half even), division follows the
  library's algorithm (29 or 30 quotient digits with a sticky digit, then the context
  rounding), \<open>%\<close> raises when the integer quotient has more than 28 digits, and
  \<open>Decimal(text)\<close>, \<open>str(d)\<close> and \<open>format(d, 'f')\<close> are the library's
  conversions. The zero has one sign (\<open>-0\<close> prints as \<open>0\<close>), and the exponent
  limits of the context (\<open>\<plusminus>999999\<close>), which no price or quantity approaches, are
  left out. \<open>dval\<close> is the rational a decimal denotes; the lemmas say how far each
  operation is from the exact one.
\<close>

datatype dec = Dec (coeff: int) (expo: int)

datatype dec_error = InvalidOperation | DivisionByZero

definition dval :: "dec \<Rightarrow> rat" where
  "dval d = of_int (coeff d) * 10 powi expo d"

definition of_int_dec :: "int \<Rightarrow> dec" where
  "of_int_dec n = Dec n 0"

definition dneg :: "dec \<Rightarrow> dec" where
  "dneg d = Dec (- coeff d) (expo d)"

subsection \<open>Digits and the context rounding\<close>

fun ndigits :: "nat \<Rightarrow> nat" where
  "ndigits n = (if n < 10 then 1 else Suc (ndigits (n div 10)))"

declare ndigits.simps [simp del]

text \<open>\<open>half_even n m\<close> is \<open>n / m\<close> rounded to the nearest integer, ties to even.\<close>

definition half_even :: "nat \<Rightarrow> nat \<Rightarrow> nat" where
  "half_even n m = (let q = n div m; r = n mod m in
     if m < 2 * r \<or> (2 * r = m \<and> odd q) then Suc q else q)"

abbreviation context_prec :: nat where
  "context_prec \<equiv> 28"

definition fix_coeff :: "nat \<Rightarrow> nat \<times> nat" where
  "fix_coeff n = (let k = ndigits n - context_prec in
     if k = 0 then (n, 0)
     else let q = half_even n (10 ^ k) in
       if context_prec < ndigits q then (q div 10, Suc k) else (q, k))"

definition dfix :: "dec \<Rightarrow> dec" where
  "dfix d = (case fix_coeff (nat \<bar>coeff d\<bar>) of
     (q, k) \<Rightarrow> Dec (sgn (coeff d) * int q) (expo d + int k))"

subsection \<open>Arithmetic and comparison\<close>

definition aligned :: "dec \<Rightarrow> int \<Rightarrow> int" where
  "aligned d e = coeff d * 10 ^ nat (expo d - e)"

definition dadd_raw :: "dec \<Rightarrow> dec \<Rightarrow> dec" where
  "dadd_raw a b = (let e = min (expo a) (expo b) in Dec (aligned a e + aligned b e) e)"

definition dmul_raw :: "dec \<Rightarrow> dec \<Rightarrow> dec" where
  "dmul_raw a b = Dec (coeff a * coeff b) (expo a + expo b)"

definition dadd :: "dec \<Rightarrow> dec \<Rightarrow> dec" where
  "dadd a b = dfix (dadd_raw a b)"

definition dsub :: "dec \<Rightarrow> dec \<Rightarrow> dec" where
  "dsub a b = dadd a (dneg b)"

definition dmul :: "dec \<Rightarrow> dec \<Rightarrow> dec" where
  "dmul a b = dfix (dmul_raw a b)"

definition dle :: "dec \<Rightarrow> dec \<Rightarrow> bool" where
  "dle a b \<longleftrightarrow> (let e = min (expo a) (expo b) in aligned a e \<le> aligned b e)"

definition dlt :: "dec \<Rightarrow> dec \<Rightarrow> bool" where
  "dlt a b \<longleftrightarrow> (let e = min (expo a) (expo b) in aligned a e < aligned b e)"

definition dec_eq :: "dec \<Rightarrow> dec \<Rightarrow> bool" where
  "dec_eq a b \<longleftrightarrow> (let e = min (expo a) (expo b) in aligned a e = aligned b e)"

abbreviation dzero :: dec where
  "dzero \<equiv> Dec 0 0"

text \<open>Python's \<open>max(a, b)\<close> keeps the first argument on ties.\<close>

definition dmax :: "dec \<Rightarrow> dec \<Rightarrow> dec" where
  "dmax a b = (if dlt a b then b else a)"

fun strip_zeros :: "nat \<Rightarrow> nat \<Rightarrow> nat \<times> nat" where
  "strip_zeros q b =
     (if 0 < b \<and> q mod 10 = 0 then strip_zeros (q div 10) (b - 1) else (q, b))"

declare strip_zeros.simps [simp del]

definition div_terms :: "nat \<Rightarrow> nat \<Rightarrow> nat \<times> nat \<times> int" where
  "div_terms na nb =
     (let shift = int (ndigits nb) - int (ndigits na) + int context_prec + 1 in
      if 0 \<le> shift then (na * 10 ^ nat shift, nb, shift)
      else (na, nb * 10 ^ nat (- shift), shift))"

definition ddiv_raw :: "dec \<Rightarrow> dec \<Rightarrow> dec" where
  "ddiv_raw a b =
     (if coeff a = 0 then Dec 0 (expo a - expo b)
      else case div_terms (nat \<bar>coeff a\<bar>) (nat \<bar>coeff b\<bar>) of
        (num, den, shift) \<Rightarrow>
          (let s = sgn (coeff a) * sgn (coeff b); q = num div den; e = expo a - expo b - shift in
           if num mod den \<noteq> 0 then Dec (s * int (if q mod 5 = 0 then q + 1 else q)) e
           else case strip_zeros q (nat shift) of
             (q', left) \<Rightarrow> Dec (s * int q') (e + int (nat shift - left))))"

definition ddiv :: "dec \<Rightarrow> dec \<Rightarrow> dec_error + dec" where
  "ddiv a b =
     (if coeff b = 0 then Inl (if coeff a = 0 then InvalidOperation else DivisionByZero)
      else Inr (dfix (ddiv_raw a b)))"

text \<open>\<open>a % b\<close>: the remainder of truncating division.\<close>

definition dmod :: "dec \<Rightarrow> dec \<Rightarrow> dec_error + dec" where
  "dmod a b =
     (if coeff b = 0 then Inl InvalidOperation
      else let e = min (expo a) (expo b); x = \<bar>aligned a e\<bar>; y = \<bar>aligned b e\<bar> in
        if 10 ^ context_prec \<le> x div y then Inl InvalidOperation
        else Inr (dfix (Dec (sgn (coeff a) * (x mod y)) e)))"

text \<open>\<open>to_integral_value(rounding=ROUND_DOWN)\<close>: exact, towards zero.\<close>

definition to_integral_down :: "dec \<Rightarrow> dec" where
  "to_integral_down d =
     (if 0 \<le> expo d then d
      else Dec (sgn (coeff d) * (\<bar>coeff d\<bar> div 10 ^ nat (- expo d))) 0)"

subsection \<open>Text\<close>

definition digit_char :: "nat \<Rightarrow> char" where
  "digit_char n = char_of (48 + n)"

definition digit_val :: "char \<Rightarrow> nat" where
  "digit_val c = of_char c - 48"

fun nat_text :: "nat \<Rightarrow> string" where
  "nat_text n = (if n < 10 then [digit_char n] else nat_text (n div 10) @ [digit_char (n mod 10)])"

declare nat_text.simps [simp del]

definition int_text :: "int \<Rightarrow> string" where
  "int_text i = (if i < 0 then CHR ''-'' # nat_text (nat (- i)) else nat_text (nat i))"

definition pad_zeros :: "nat \<Rightarrow> string \<Rightarrow> string" where
  "pad_zeros k s = replicate (k - length s) (CHR ''0'') @ s"

definition sign_text :: "int \<Rightarrow> string" where
  "sign_text c = (if c < 0 then ''-'' else [])"

text \<open>\<open>format(d, 'f')\<close>.\<close>

definition format_f :: "dec \<Rightarrow> string" where
  "format_f d = (let n = nat \<bar>coeff d\<bar> in
     if 0 \<le> expo d then sign_text (coeff d) @ nat_text (n * 10 ^ nat (expo d))
     else let k = nat (- expo d) in
       sign_text (coeff d) @ nat_text (n div 10 ^ k) @ CHR ''.'' # pad_zeros k (nat_text (n mod 10 ^ k)))"

text \<open>\<open>str(d)\<close>: plain notation for small negative exponents, scientific otherwise.\<close>

definition dec_str :: "dec \<Rightarrow> string" where
  "dec_str d = (let ds = nat_text (nat \<bar>coeff d\<bar>);
                    left = expo d + int (length ds) in
     if expo d \<le> 0 \<and> - 6 < left then format_f d
     else sign_text (coeff d) @ take 1 ds @
       (if length ds = 1 then [] else CHR ''.'' # drop 1 ds) @
       (if left = 1 then [] else CHR ''E'' # (if left - 1 < 0 then [] else ''+'') @ int_text (left - 1)))"

datatype pydec = Fin dec | Infinite bool | NotANumber

definition parse_nat :: "string \<Rightarrow> nat" where
  "parse_nat s = foldl (\<lambda>acc c. acc * 10 + digit_val c) 0 s"

definition parse_exponent :: "string \<Rightarrow> int option" where
  "parse_exponent s = (case s of
       [] \<Rightarrow> None
     | c # cs \<Rightarrow>
         (let neg = (c = CHR ''-''); body = (if c = CHR ''-'' \<or> c = CHR ''+'' then cs else s) in
          if body \<noteq> [] \<and> list_all is_digit body
          then Some ((if neg then -1 else 1) * int (parse_nat body)) else None))"

definition not_exp_char :: "char \<Rightarrow> bool" where
  "not_exp_char c = (c \<noteq> CHR ''e'' \<and> c \<noteq> CHR ''E'')"

definition parse_unsigned :: "bool \<Rightarrow> string \<Rightarrow> pydec option" where
  "parse_unsigned neg u =
     (let mant = takeWhile not_exp_char u; rest = dropWhile not_exp_char u;
          ip = before (CHR ''.'') mant; fp = after (CHR ''.'') mant in
      if list_all is_digit ip \<and> list_all is_digit fp \<and> ip @ fp \<noteq> [] then
        (case (if rest = [] then Some 0 else parse_exponent (tl rest)) of
           None \<Rightarrow> None
         | Some x \<Rightarrow> Some (Fin (Dec ((if neg then -1 else 1) * int (parse_nat (ip @ fp)))
                                   (x - int (length fp)))))
      else if lower u = ''inf'' \<or> lower u = ''infinity'' then Some (Infinite neg)
      else if take 3 (lower u) = ''nan'' \<and> list_all is_digit (drop 3 u) then Some NotANumber
      else if take 4 (lower u) = ''snan'' \<and> list_all is_digit (drop 4 u) then Some NotANumber
      else None)"

text \<open>\<open>Decimal(text)\<close>; \<open>None\<close> is \<open>InvalidOperation\<close> for malformed text.\<close>

definition parse_dec :: "string \<Rightarrow> pydec option" where
  "parse_dec s = (let t = remove_char (CHR ''_'') (strip s) in
     case t of
       [] \<Rightarrow> None
     | c # cs \<Rightarrow>
         if c = CHR ''-'' then parse_unsigned True cs
         else if c = CHR ''+'' then parse_unsigned False cs
         else parse_unsigned False t)"

lemmas ndigits_eval = ndigits.simps [of 0] ndigits.simps [of 1] ndigits.simps [of "Suc 0"]
  ndigits.simps [of "numeral n" for n]

lemmas strip_zeros_eval = strip_zeros.simps [of _ 0] strip_zeros.simps [of "Suc 0"]
  strip_zeros.simps [of "numeral n" "Suc 0" for n] strip_zeros.simps [of "numeral n" "numeral m" for n m]

lemmas nat_text_eval = nat_text.simps [of 0] nat_text.simps [of 1] nat_text.simps [of "Suc 0"]
  nat_text.simps [of "numeral n" for n]

lemmas dec_eval = dadd_def dsub_def dmul_def dadd_raw_def dmul_raw_def dneg_def aligned_def dfix_def
  fix_coeff_def ndigits_eval half_even_def ddiv_def ddiv_raw_def div_terms_def strip_zeros_eval
  dmod_def dle_def dlt_def dec_eq_def dmax_def to_integral_down_def of_int_dec_def Let_def

lemmas text_eval = nat_text_eval digit_char_def digit_val_def int_text_def format_f_def dec_str_def
  pad_zeros_def sign_text_def parse_dec_def parse_unsigned_def parse_exponent_def parse_nat_def
  not_exp_char_def is_digit_def is_space_def strip_def remove_char_def before_def after_def
  lower_def lower_char_def char_of_def bit_simps

subsection \<open>Values of the exact operations\<close>

lemma dval_Dec: "dval (Dec c e) = of_int c * 10 powi e"
  by (simp add: dval_def)

lemma powi_pos [simp]: "(0 :: rat) < 10 powi e"
  by (rule zero_less_power_int) simp

lemma powi_nonneg [simp]: "(0 :: rat) \<le> 10 powi e"
  by (rule less_imp_le) (rule powi_pos)

lemma powi_not_neg [simp]: "\<not> (10 :: rat) powi e \<le> 0" "\<not> (10 :: rat) powi e < 0"
  by (simp_all add: not_le not_less)

lemma dval_zero_iff [simp]: "dval d = 0 \<longleftrightarrow> coeff d = 0"
  by (simp add: dval_def)

lemma dval_pos_iff: "0 < dval d \<longleftrightarrow> 0 < coeff d"
  by (simp add: dval_def zero_less_mult_iff)

lemma dval_nonneg_iff: "0 \<le> dval d \<longleftrightarrow> 0 \<le> coeff d"
  by (simp add: dval_def zero_le_mult_iff)

lemma dval_of_int_dec [dec_val]: "dval (of_int_dec n) = of_int n"
  by (simp add: of_int_dec_def dval_def)

lemma dval_dneg [dec_val]: "dval (dneg d) = - dval d"
  by (simp add: dneg_def dval_def)

lemma pow_powi: "10 ^ nat k = (10 :: rat) powi k" if "0 \<le> k"
  using that by (simp add: power_int_def)

lemma aligned_dval: "of_int (aligned d e) * 10 powi e = dval d" if "e \<le> expo d"
proof -
  have "(10 :: rat) powi (expo d - e) * 10 powi e = 10 powi expo d"
    by (simp add: power_int_diff)
  then show ?thesis
    using that by (simp add: aligned_def dval_def pow_powi mult.assoc)
qed

lemma aligned_min1: "of_int (aligned a (min (expo a) (expo b))) = dval a * 10 powi - min (expo a) (expo b)"
  and aligned_min2: "of_int (aligned b (min (expo a) (expo b))) = dval b * 10 powi - min (expo a) (expo b)"
  by (simp_all flip: aligned_dval [of "min (expo a) (expo b)"] add: power_int_minus)

lemma dval_dadd_raw [dec_val]: "dval (dadd_raw a b) = dval a + dval b"
  by (simp add: dadd_raw_def Let_def dval_Dec distrib_right aligned_dval)

lemma dval_dmul_raw [dec_val]: "dval (dmul_raw a b) = dval a * dval b"
  by (simp add: dmul_raw_def dval_def power_int_add)

lemma dle_iff: "dle a b \<longleftrightarrow> dval a \<le> dval b"
proof -
  have "dle a b \<longleftrightarrow> (of_int (aligned a (min (expo a) (expo b))) :: rat) \<le> of_int (aligned b (min (expo a) (expo b)))"
    by (simp add: dle_def Let_def)
  also have "\<dots> \<longleftrightarrow> dval a \<le> dval b" unfolding aligned_min1 aligned_min2 by simp
  finally show ?thesis .
qed

lemma dlt_iff: "dlt a b \<longleftrightarrow> dval a < dval b"
proof -
  have "dlt a b \<longleftrightarrow> (of_int (aligned a (min (expo a) (expo b))) :: rat) < of_int (aligned b (min (expo a) (expo b)))"
    by (simp add: dlt_def Let_def)
  also have "\<dots> \<longleftrightarrow> dval a < dval b" unfolding aligned_min1 aligned_min2 by simp
  finally show ?thesis .
qed

lemma dec_eq_iff: "dec_eq a b \<longleftrightarrow> dval a = dval b"
proof -
  have "dec_eq a b \<longleftrightarrow> (of_int (aligned a (min (expo a) (expo b))) :: rat) = of_int (aligned b (min (expo a) (expo b)))"
    by (simp add: dec_eq_def Let_def)
  also have "\<dots> \<longleftrightarrow> dval a = dval b" unfolding aligned_min1 aligned_min2 by simp
  finally show ?thesis .
qed

lemma dval_dmax [dec_val]: "dval (dmax a b) = max (dval a) (dval b)"
  by (simp add: dmax_def dlt_iff max_def)

lemmas dec_compare = dle_iff dlt_iff dec_eq_iff

subsection \<open>The context rounding\<close>

lemma ndigits_bounds: "n < 10 ^ ndigits n" "0 < n \<Longrightarrow> 10 ^ (ndigits n - 1) \<le> n"
proof (induction n rule: ndigits.induct)
  case (1 n)
  { case 1 show ?case using "1.IH"(1) by (subst ndigits.simps) (auto simp: ndigits.simps [of n]) }
  { case 2 show ?case
    proof (cases "n < 10")
      case False
      then have "10 ^ (ndigits (n div 10) - 1) \<le> n div 10" using "1.IH"(2) by simp
      moreover have "0 < ndigits (n div 10)" by (subst ndigits.simps) simp
      ultimately have "10 * 10 ^ (ndigits (n div 10) - 1) \<le> n" by linarith
      then show ?thesis using False \<open>0 < ndigits (n div 10)\<close>
        by (subst ndigits.simps) (simp flip: power_Suc)
    qed (use 2 in \<open>subst ndigits.simps, simp\<close>) }
qed

lemma ndigits_pos [simp]: "0 < ndigits n"
  by (subst ndigits.simps) simp

lemma ndigits_le: "n < 10 ^ k \<Longrightarrow> 0 < k \<Longrightarrow> ndigits n \<le> k"
proof (rule ccontr)
  assume n: "n < 10 ^ k" "0 < k" "\<not> ndigits n \<le> k"
  then have "0 < n" by (cases "n = 0") (auto simp: ndigits_eval)
  then have "10 ^ (ndigits n - 1) \<le> n" by (rule ndigits_bounds)
  moreover have "(10 :: nat) ^ k \<le> 10 ^ (ndigits n - 1)" using n by (intro power_increasing) auto
  ultimately show False using n by linarith
qed

lemma half_even_error: "0 < m \<Longrightarrow> 2 * \<bar>int (half_even n m) * int m - int n\<bar> \<le> int m"
proof -
  assume "0 < m"
  define q r where "q = n div m" and "r = n mod m"
  have n: "n = q * m + r" and r: "r < m" using \<open>0 < m\<close> by (simp_all add: q_def r_def)
  show ?thesis
    unfolding half_even_def Let_def q_def [symmetric] r_def [symmetric] n
    using r by (auto simp: algebra_simps)
qed

lemma half_even_le: "0 < m \<Longrightarrow> n < c * m \<Longrightarrow> half_even n m \<le> c"
  using less_mult_imp_div_less [of n c m]
  by (auto simp: half_even_def Let_def)

text \<open>The value after rounding: \<open>q \<times> 10^k\<close> is within half a unit of the last kept digit.\<close>

lemma fix_coeff_error:
  assumes "fix_coeff n = (q, k)"
  shows "2 * 10 ^ 27 * \<bar>int q * 10 ^ k - int n\<bar> \<le> int n"
proof -
  define j where "j = ndigits n - context_prec"
  show ?thesis
  proof (cases "j = 0")
    case True
    then have "q = n" "k = 0" using assms by (auto simp: fix_coeff_def j_def)
    then show ?thesis by simp
  next
    case False
    define h where "h = half_even n (10 ^ j)"
    have "0 < n" using False by (cases "n = 0") (auto simp: j_def ndigits_eval)
    then have "10 ^ (ndigits n - 1) \<le> n" by (rule ndigits_bounds)
    moreover have "ndigits n - 1 = 27 + j" using False by (simp add: j_def)
    ultimately have big: "10 ^ 27 * 10 ^ j \<le> n" by (simp add: power_add)
    have "ndigits n = context_prec + j" using False by (simp add: j_def)
    then have "n < 10 ^ context_prec * 10 ^ j"
      using ndigits_bounds(1) [of n] by (simp only: power_add)
    then have hle: "h \<le> 10 ^ context_prec" unfolding h_def by (intro half_even_le) auto
    have "int q * 10 ^ k = int h * 10 ^ j"
    proof (cases "context_prec < ndigits h")
      case True
      have "\<not> h < 10 ^ context_prec" using True ndigits_le [of h context_prec] by fastforce
      then have "h = 10 ^ context_prec" using hle by simp
      then show ?thesis using assms True False
        by (simp add: fix_coeff_def Let_def flip: j_def h_def) auto
    next
      case False
      then show ?thesis using assms \<open>j \<noteq> 0\<close>
        by (simp add: fix_coeff_def Let_def flip: j_def h_def)
    qed
    moreover have "2 * \<bar>int h * 10 ^ j - int n\<bar> \<le> 10 ^ j"
      using half_even_error [of "10 ^ j" n] by (simp add: h_def)
    ultimately show ?thesis using big by (simp flip: of_nat_le_iff [where 'a = int])
  qed
qed

lemma fix_coeff_exact: "n < 10 ^ context_prec \<Longrightarrow> fix_coeff n = (n, 0)"
  using ndigits_le [of n context_prec] by (simp add: fix_coeff_def)

lemma dfix_exact: "\<bar>coeff d\<bar> < 10 ^ context_prec \<Longrightarrow> dfix d = d"
  by (cases d) (simp add: dfix_def fix_coeff_exact nat_less_iff sgn_if)

definition ulp_bound :: rat where
  "ulp_bound = 5 / 10 ^ 28"

lemma dfix_error: "\<bar>dval (dfix d) - dval d\<bar> \<le> ulp_bound * \<bar>dval d\<bar>"
proof -
  obtain q k where qk: "fix_coeff (nat \<bar>coeff d\<bar>) = (q, k)" by fastforce
  have i: "2 * 10 ^ 27 * \<bar>int q * 10 ^ k - \<bar>coeff d\<bar>\<bar> \<le> \<bar>coeff d\<bar>"
    using fix_coeff_error [OF qk] by simp
  have r: "2 * 10 ^ 27 * \<bar>of_nat q * 10 ^ k - \<bar>of_int (coeff d)\<bar>\<bar> \<le> \<bar>of_int (coeff d) :: rat\<bar>"
  proof -
    have "(of_int (2 * 10 ^ 27 * \<bar>int q * 10 ^ k - \<bar>coeff d\<bar>\<bar>) :: rat) \<le> of_int \<bar>coeff d\<bar>"
      using i by (simp only: of_int_le_iff)
    then show ?thesis by simp
  qed
  have "dval (dfix d) = of_int (sgn (coeff d)) * (of_nat q * 10 ^ k) * 10 powi expo d"
    by (simp add: dfix_def qk dval_def power_int_add)
  moreover have "dval d = of_int (sgn (coeff d)) * \<bar>of_int (coeff d)\<bar> * 10 powi expo d"
    by (simp add: dval_def sgn_if)
  ultimately have "dval (dfix d) - dval d =
      of_int (sgn (coeff d)) * (of_nat q * 10 ^ k - \<bar>of_int (coeff d)\<bar>) * 10 powi expo d"
    by (simp add: left_diff_distrib right_diff_distrib)
  then have "\<bar>dval (dfix d) - dval d\<bar> \<le> \<bar>of_nat q * 10 ^ k - \<bar>of_int (coeff d)\<bar>\<bar> * 10 powi expo d"
    by (simp add: abs_mult sgn_if)
  also have "\<dots> \<le> ulp_bound * \<bar>of_int (coeff d)\<bar> * 10 powi expo d"
    using r by (intro mult_right_mono) (simp_all add: ulp_bound_def)
  finally show ?thesis by (simp add: dval_def abs_mult)
qed
lemma sgn_close:
  fixes x y u :: rat
  assumes "\<bar>y - x\<bar> \<le> u * \<bar>x\<bar>" and "u < 1"
  shows "sgn y = sgn x"
proof (cases x "0 :: rat" rule: linorder_cases)
  case less
  then have "u * - x < 1 * - x" using assms(2) by (intro mult_strict_right_mono) auto
  then have "y < 0" using less assms(1) unfolding abs_of_neg [OF less] by linarith
  then show ?thesis using less by simp
next
  case equal
  then show ?thesis using assms(1) by simp
next
  case greater
  then have "u * x < 1 * x" using assms(2) by (intro mult_strict_right_mono) auto
  then have "0 < y" using greater assms(1) unfolding abs_of_pos [OF greater] by linarith
  then show ?thesis using greater by simp
qed

lemma dfix_sign: "sgn (dval (dfix d)) = sgn (dval d)"
  by (rule sgn_close [OF dfix_error]) (simp add: ulp_bound_def)

lemma dfix_zero_iff [simp]: "coeff (dfix d) = 0 \<longleftrightarrow> coeff d = 0"
  using dfix_sign [of d] by (metis dval_zero_iff sgn_0_0)

lemma dval_dmul_exact:
  "\<bar>coeff a * coeff b\<bar> < 10 ^ context_prec \<Longrightarrow> dval (dmul a b) = dval a * dval b"
  by (simp add: dmul_def dfix_exact dmul_raw_def flip: dval_dmul_raw)

lemma dmul_sign: "sgn (dval (dmul a b)) = sgn (dval a) * sgn (dval b)"
  by (simp add: dmul_def dfix_sign dval_dmul_raw sgn_mult)

lemma dadd_sign: "sgn (dval (dadd a b)) = sgn (dval a + dval b)"
  by (simp add: dadd_def dfix_sign dval_dadd_raw)

lemma dadd_error: "\<bar>dval (dadd a b) - (dval a + dval b)\<bar> \<le> ulp_bound * \<bar>dval a + dval b\<bar>"
  using dfix_error [of "dadd_raw a b"] by (simp add: dadd_def dval_dadd_raw)

lemma dmul_error: "\<bar>dval (dmul a b) - dval a * dval b\<bar> \<le> ulp_bound * \<bar>dval a * dval b\<bar>"
  using dfix_error [of "dmul_raw a b"] by (simp add: dmul_def dval_dmul_raw)

subsection \<open>Truncation and remainder\<close>

definition trunc :: "rat \<Rightarrow> int" where
  "trunc x = (if 0 \<le> x then \<lfloor>x\<rfloor> else \<lceil>x\<rceil>)"

lemma floor_div_powi: "\<lfloor>of_int c * (10 :: rat) powi - int k\<rfloor> = c div 10 ^ k"
proof -
  have "of_int c * (10 :: rat) powi - int k = of_int c / of_int (10 ^ k)"
    by (simp add: power_int_minus field_simps)
  then show ?thesis by (simp only: floor_divide_of_int_eq)
qed

lemma to_integral_down_nonneg:
  assumes "0 \<le> coeff d"
  shows "dval (to_integral_down d) = of_int \<lfloor>dval d\<rfloor>"
proof (cases "0 \<le> expo d")
  case True
  then have "dval d = of_int (coeff d * 10 ^ nat (expo d))"
    by (simp add: dval_def pow_powi)
  moreover have "to_integral_down d = d" using True by (simp add: to_integral_down_def)
  ultimately show ?thesis by simp
next
  case False
  define k where "k = nat (- expo d)"
  have "dval d = of_int (coeff d) * 10 powi - int k"
    using False by (simp add: k_def dval_def)
  then have "\<lfloor>dval d\<rfloor> = coeff d div 10 ^ k" by (simp add: floor_div_powi)
  then show ?thesis using False assms
    by (simp add: to_integral_down_def dval_def sgn_if flip: k_def) 
qed

lemma dmod_zero_iff:
  assumes "dmod a b = Inr r"
  shows "coeff r = 0 \<longleftrightarrow> (\<exists>n :: int. dval a = of_int n * dval b)"
proof -
  define e where "e = min (expo a) (expo b)"
  define x y where "x = aligned a e" and "y = aligned b e"
  have xy: "dval a = of_int x * 10 powi e" "dval b = of_int y * 10 powi e"
    by (simp_all add: x_def y_def e_def aligned_dval)
  have b0: "coeff b \<noteq> 0" and r: "r = dfix (Dec (sgn (coeff a) * (\<bar>x\<bar> mod \<bar>y\<bar>)) e)"
    using assms by (auto simp: dmod_def Let_def x_def y_def e_def split: if_splits)
  have "coeff r = 0 \<longleftrightarrow> sgn (coeff a) * (\<bar>x\<bar> mod \<bar>y\<bar>) = 0"
    by (simp add: r)
  also have "\<dots> \<longleftrightarrow> y dvd x"
  proof (cases "coeff a = 0")
    case True
    then show ?thesis by (simp add: x_def aligned_def)
  next
    case False
    then have "sgn (coeff a) * (\<bar>x\<bar> mod \<bar>y\<bar>) = 0 \<longleftrightarrow> \<bar>y\<bar> dvd \<bar>x\<bar>"
      by (simp add: dvd_eq_mod_eq_0 sgn_eq_0_iff)
    then show ?thesis by simp
  qed
  also have "\<dots> \<longleftrightarrow> (\<exists>n :: int. dval a = of_int n * dval b)"
  proof -
    have "dval a = of_int n * dval b \<longleftrightarrow> x = n * y" for n
      unfolding xy by (simp flip: of_int_mult)
    then show ?thesis by (auto simp: dvd_def mult.commute)
  qed
  finally show ?thesis .
qed

lemma dmod_defined:
  assumes "coeff b \<noteq> 0" and "\<bar>dval a\<bar> < 10 ^ context_prec * \<bar>dval b\<bar>"
  shows "\<exists>r. dmod a b = Inr r"
proof -
  define e where "e = min (expo a) (expo b)"
  define x y where "x = aligned a e" and "y = aligned b e"
  have xy: "dval a = of_int x * 10 powi e" "dval b = of_int y * 10 powi e"
    by (simp_all add: x_def y_def e_def aligned_dval)
  have "(of_int \<bar>x\<bar> :: rat) < of_int (10 ^ context_prec * \<bar>y\<bar>)"
    using assms(2) unfolding xy by (simp add: abs_mult)
  then have lt: "\<bar>x\<bar> < 10 ^ context_prec * \<bar>y\<bar>" by (simp only: of_int_less_iff)
  moreover have "0 < \<bar>y\<bar>" using assms(1) by (simp add: y_def aligned_def)
  moreover have "\<bar>x\<bar> div \<bar>y\<bar> * \<bar>y\<bar> \<le> \<bar>x\<bar>"
    using \<open>0 < \<bar>y\<bar>\<close> by (metis minus_mod_eq_div_mult pos_mod_sign diff_ge_0_iff_ge minus_div_mult_eq_mod)
  ultimately have "\<bar>x\<bar> div \<bar>y\<bar> < 10 ^ context_prec"
    by (meson le_less_trans mult_right_less_imp_less less_imp_le)
  then show ?thesis using assms(1)
    by (simp add: dmod_def Let_def x_def y_def e_def)
qed

subsection \<open>Division\<close>

lemma strip_zeros_spec:
  "strip_zeros q b = (q', l) \<Longrightarrow> l \<le> b \<and> q' * 10 ^ (b - l) = q"
proof (induction q b arbitrary: q' l rule: strip_zeros.induct)
  case (1 q b)
  show ?case
  proof (cases "0 < b \<and> q mod 10 = 0")
    case True
    then have "strip_zeros (q div 10) (b - 1) = (q', l)"
      using "1.prems" by (subst (asm) strip_zeros.simps) simp
    with "1.IH" [OF True] have "l \<le> b - 1" "q' * 10 ^ (b - 1 - l) = q div 10" by auto
    moreover from \<open>l \<le> b - 1\<close> True have "b - l = Suc (b - 1 - l)" by linarith
    ultimately show ?thesis using True by auto
  next
    case False
    then show ?thesis using "1.prems" by (subst (asm) strip_zeros.simps) auto
  qed
qed

lemma div_terms_spec:
  assumes "0 < na" "0 < nb" and "div_terms na nb = (num, den, shift)"
  shows "0 < den" and "10 ^ context_prec * den \<le> num"
    and "(of_nat num / of_nat den :: rat) = of_nat na / of_nat nb * 10 powi shift"
proof -
  define dn db where "dn = ndigits na" and "db = ndigits nb"
  have na: "10 ^ (dn - 1) \<le> na" and nb: "nb < 10 ^ db"
    using assms ndigits_bounds unfolding dn_def db_def by auto
  have sh: "shift = int db - int dn + 29"
    using assms(3) by (auto simp: div_terms_def Let_def dn_def db_def split: if_splits)
  have "0 < den \<and> 10 ^ context_prec * den \<le> num \<and>
    (of_nat num / of_nat den :: rat) = of_nat na / of_nat nb * 10 powi shift"
  proof (cases "0 \<le> shift")
    case True
    define s where "s = nat shift"
    have eq: "num = na * 10 ^ s" "den = nb"
      using assms(3) True sh by (auto simp: div_terms_def Let_def dn_def db_def s_def)
    have "10 ^ context_prec * nb \<le> 10 ^ context_prec * 10 ^ db" using nb by (intro mult_left_mono) auto
    also have "\<dots> = (10 :: nat) ^ (dn - 1 + s)"
    proof -
      have "context_prec + db = dn - 1 + s"
        using True sh ndigits_pos [of na] unfolding s_def dn_def [symmetric] by linarith
      then show ?thesis by (simp only: flip: power_add)
    qed
    also have "\<dots> \<le> na * 10 ^ s" using na by (simp add: power_add)
    finally show ?thesis using assms eq True by (simp add: s_def pow_powi)
  next
    case False
    define t where "t = nat (- shift)"
    have eq: "num = na" "den = nb * 10 ^ t"
      using assms(3) False sh by (auto simp: div_terms_def Let_def dn_def db_def t_def)
    have "10 ^ context_prec * (nb * 10 ^ t) \<le> 10 ^ context_prec * (10 ^ db * 10 ^ t)"
      using nb by (intro mult_left_mono mult_right_mono) auto
    also have "\<dots> = (10 :: nat) ^ (dn - 1)"
    proof -
      have "context_prec + (db + t) = dn - 1"
        using False sh ndigits_pos [of na] unfolding t_def dn_def [symmetric] by linarith
      then show ?thesis by (simp only: flip: power_add)
    qed
    also note na
    finally have "10 ^ context_prec * den \<le> num" using eq by simp
    moreover have "(10 :: rat) powi shift = 1 / 10 ^ t"
      using False by (simp add: t_def power_int_def field_simps)
    ultimately show ?thesis using assms eq by simp
  qed
  then show "0 < den" "10 ^ context_prec * den \<le> num"
    "(of_nat num / of_nat den :: rat) = of_nat na / of_nat nb * 10 powi shift" by auto
qed

lemma ddiv_raw_coeff:
  assumes "coeff a \<noteq> 0" "coeff b \<noteq> 0"
    and t: "div_terms (nat \<bar>coeff a\<bar>) (nat \<bar>coeff b\<bar>) = (num, den, shift)"
  shows "\<exists>c :: nat. dval (ddiv_raw a b) =
      of_int (sgn (coeff a) * sgn (coeff b)) * of_nat c * 10 powi (expo a - expo b - shift)
    \<and> \<bar>of_nat c - of_nat num / of_nat den\<bar> \<le> (1 :: rat)"
proof -
  define q where "q = num div den"
  have den: "0 < den" using div_terms_spec(1) [OF _ _ t] assms by simp
  have Q: "(of_nat num / of_nat den :: rat) = of_nat q + of_nat (num mod den) / of_nat den"
    using den by (simp add: q_def field_simps flip: of_nat_mult of_nat_add)
  show ?thesis
  proof (cases "num mod den = 0")
    case False
    define c where "c = (if q mod 5 = 0 then q + 1 else q)"
    define f where "f = (of_nat (num mod den) / of_nat den :: rat)"
    have "0 \<le> f" "f < 1" using den by (simp_all add: f_def)
    then have "\<bar>of_nat c - of_nat num / of_nat den\<bar> \<le> (1 :: rat)"
      unfolding Q f_def [symmetric] c_def by (cases "q mod 5 = 0") auto
    moreover have "ddiv_raw a b =
        Dec (sgn (coeff a) * sgn (coeff b) * int c) (expo a - expo b - shift)"
      using assms False by (simp add: ddiv_raw_def Let_def c_def q_def)
    ultimately show ?thesis by (intro exI [of _ c]) (simp add: dval_def)
  next
    case True
    obtain q' l where st: "strip_zeros q (nat shift) = (q', l)" by fastforce
    from strip_zeros_spec [OF st] have l: "l \<le> nat shift" "q' * 10 ^ (nat shift - l) = q" by auto
    have "ddiv_raw a b = Dec (sgn (coeff a) * sgn (coeff b) * int q')
        (expo a - expo b - shift + int (nat shift - l))"
      using assms True st by (simp add: ddiv_raw_def Let_def q_def)
    then have "dval (ddiv_raw a b) = of_int (sgn (coeff a) * sgn (coeff b)) *
        of_nat (q' * 10 ^ (nat shift - l)) * 10 powi (expo a - expo b - shift)"
      by (simp add: dval_def power_int_add)
    then show ?thesis using l True Q by (intro exI [of _ q]) simp
  qed
qed

definition div_bound :: rat where
  "div_bound = 7 / 10 ^ 28"

lemma ddiv_raw_error:
  assumes "coeff a \<noteq> 0" "coeff b \<noteq> 0"
  shows "\<bar>dval (ddiv_raw a b) - dval a / dval b\<bar> \<le> \<bar>dval a / dval b\<bar> / 10 ^ context_prec"
proof -
  obtain num den shift where
    t: "div_terms (nat \<bar>coeff a\<bar>) (nat \<bar>coeff b\<bar>) = (num, den, shift)"
    by (metis prod_cases3)
  note spec = div_terms_spec [OF _ _ t]
  define s E Q where "s = (of_int (sgn (coeff a) * sgn (coeff b)) :: rat)"
    and "E = (10 :: rat) powi (expo a - expo b - shift)"
    and "Q = (of_nat num / of_nat den :: rat)"
  obtain c :: nat where c: "dval (ddiv_raw a b) = s * of_nat c * E"
    and err: "\<bar>of_nat c - Q\<bar> \<le> 1"
    using ddiv_raw_coeff [OF assms t] unfolding s_def E_def Q_def by blast
  have s: "\<bar>s\<bar> = 1" using assms by (simp add: s_def sgn_if)
  have E: "0 < E" by (simp add: E_def)
  have den: "0 < den" and big: "10 ^ context_prec * den \<le> num" using spec assms by auto
  have "(of_nat (10 ^ context_prec * den) :: rat) \<le> of_nat num" using big by (simp only: of_nat_le_iff)
  then have Q: "10 ^ context_prec \<le> Q" using den by (simp add: Q_def field_simps)
  have sQE: "dval a / dval b = s * Q * E"
  proof -
    have "Q = \<bar>of_int (coeff a)\<bar> / \<bar>of_int (coeff b)\<bar> * 10 powi shift"
      using spec(3) assms by (simp add: Q_def)
    then have "Q * E = \<bar>of_int (coeff a)\<bar> / \<bar>of_int (coeff b)\<bar> * 10 powi (expo a - expo b)"
      by (simp add: E_def flip: power_int_add)
    moreover have "dval a / dval b = of_int (coeff a) / of_int (coeff b) * 10 powi (expo a - expo b)"
      by (simp add: dval_def power_int_diff)
    moreover have "s * (\<bar>of_int (coeff a)\<bar> / \<bar>of_int (coeff b)\<bar>) = (of_int (coeff a) / of_int (coeff b) :: rat)"
      by (auto simp: s_def sgn_if)
    ultimately show ?thesis by (metis mult.assoc)
  qed
  have "dval (ddiv_raw a b) - dval a / dval b = s * (of_nat c - Q) * E"
    and ab: "\<bar>dval a / dval b\<bar> = Q * E"
    using s E Q unfolding sQE c by (simp_all add: algebra_simps abs_mult)
  then have "\<bar>dval (ddiv_raw a b) - dval a / dval b\<bar> = \<bar>of_nat c - Q\<bar> * E"
    using s E by (simp add: abs_mult)
  also have "\<dots> \<le> Q / 10 ^ context_prec * E"
    using err Q E by (intro mult_right_mono) auto
  finally show ?thesis using ab by simp
qed

lemma ddiv_error:
  assumes "ddiv a b = Inr r"
  shows "\<bar>dval r - dval a / dval b\<bar> \<le> div_bound * \<bar>dval a / dval b\<bar>"
proof (cases "coeff a = 0")
  case True
  then show ?thesis using assms by (auto simp: ddiv_def ddiv_raw_def dfix_def dval_def split: if_splits prod.splits)
next
  case False
  define q w where "q = dval a / dval b" and "w = dval (ddiv_raw a b)"
  have b: "coeff b \<noteq> 0" and r: "r = dfix (ddiv_raw a b)"
    using assms by (auto simp: ddiv_def split: if_splits)
  have e1: "\<bar>w - q\<bar> \<le> \<bar>q\<bar> / 10 ^ 28" using ddiv_raw_error [OF False b] by (simp add: q_def w_def)
  have e2: "\<bar>dval r - w\<bar> \<le> 5 * (\<bar>w\<bar> / 10 ^ 28)"
    using dfix_error [of "ddiv_raw a b"] by (simp add: r w_def ulp_bound_def)
  have "\<bar>w\<bar> \<le> \<bar>q\<bar> + \<bar>q\<bar> / 10 ^ 28" using e1 by linarith
  then have "5 * (\<bar>w\<bar> / 10 ^ 28) \<le> 6 * (\<bar>q\<bar> / 10 ^ 28)" by simp
  then have "\<bar>dval r - q\<bar> \<le> 7 * (\<bar>q\<bar> / 10 ^ 28)" using e1 e2 by linarith
  then show ?thesis by (simp add: div_bound_def q_def)
qed

lemma ddiv_sign: "ddiv a b = Inr r \<Longrightarrow> sgn (dval r) = sgn (dval a / dval b)"
  by (erule sgn_close [OF ddiv_error]) (simp add: div_bound_def)

lemma ddiv_Inr_iff: "(\<exists>r. ddiv a b = Inr r) \<longleftrightarrow> coeff b \<noteq> 0"
  by (simp add: ddiv_def)

subsection \<open>Digits as text\<close>

lemma is_digit_char [simp]: "n < 10 \<Longrightarrow> is_digit (digit_char n)"
  by (simp add: is_digit_def digit_char_def of_char_of)

lemma digit_val_char [simp]: "n < 10 \<Longrightarrow> digit_val (digit_char n) = n"
  by (simp add: digit_val_def digit_char_def of_char_of)

lemma nat_text_digits [simp]: "list_all is_digit (nat_text n)"
  by (induction n rule: nat_text.induct) (subst nat_text.simps, simp)

lemma nat_text_nonempty [simp]: "nat_text n \<noteq> []"
  by (subst nat_text.simps) simp

lemma length_nat_text: "length (nat_text n) = ndigits n"
proof (induction n rule: nat_text.induct)
  case (1 n)
  then show ?case by (simp add: nat_text.simps [of n] ndigits.simps [of n])
qed

lemma foldl_digits:
  "foldl (\<lambda>acc c. acc * 10 + digit_val c) a t =
     a * 10 ^ length t + foldl (\<lambda>acc c. acc * 10 + digit_val c) 0 t"
  by (induction t rule: rev_induct) (simp_all add: distrib_right)

lemma parse_nat_append: "parse_nat (s @ t) = parse_nat s * 10 ^ length t + parse_nat t"
  unfolding parse_nat_def foldl_append by (subst foldl_digits) simp

lemma parse_nat_simps [simp]: "parse_nat [] = 0" "parse_nat [c] = digit_val c"
  by (simp_all add: parse_nat_def)

lemma parse_nat_zeros [simp]: "parse_nat (replicate k (CHR ''0'')) = 0"
  by (induction k) (simp_all add: parse_nat_def digit_val_def)

lemma parse_nat_text [simp]: "parse_nat (nat_text n) = n"
proof (induction n rule: nat_text.induct)
  case (1 n)
  then show ?case by (subst nat_text.simps) (simp add: parse_nat_append)
qed

lemma is_digit_zero [simp]: "is_digit (CHR ''0'')"
  by (simp add: is_digit_def)

lemma pad_zeros_digits [simp]: "list_all is_digit (pad_zeros k (nat_text n))"
  using nat_text_digits [of n] by (auto simp: pad_zeros_def list_all_iff)

lemma parse_pad_zeros [simp]: "parse_nat (pad_zeros k (nat_text n)) = n"
  by (simp add: pad_zeros_def parse_nat_append)

lemma length_pad_zeros: "n < 10 ^ k \<Longrightarrow> 0 < k \<Longrightarrow> length (pad_zeros k (nat_text n)) = k"
  using ndigits_le [of n k] by (simp add: pad_zeros_def length_nat_text)

lemma digit_facts:
  assumes "is_digit c"
  shows "\<not> is_space c" "c \<noteq> CHR ''_''" "c \<noteq> CHR ''.''" "c \<noteq> CHR ''-''" "c \<noteq> CHR ''+''"
    "not_exp_char c"
  using assms by (auto simp: is_digit_def is_space_def not_exp_char_def Let_def)

lemma dropWhile_hd_not: "xs \<noteq> [] \<Longrightarrow> \<not> P (hd xs) \<Longrightarrow> dropWhile P xs = xs"
  by (cases xs) auto

lemma sign_chars [simp]: "\<not> is_space (CHR ''-'')" "not_exp_char (CHR ''.'')"
  by (simp_all add: is_space_def not_exp_char_def)

lemma strip_id: "s \<noteq> [] \<Longrightarrow> \<not> is_space (hd s) \<Longrightarrow> \<not> is_space (last s) \<Longrightarrow> strip s = s"
  by (simp add: strip_def dropWhile_hd_not hd_rev)

text \<open>The text of a number, sign and digits and an optional fraction, is read back exactly.\<close>

definition plain_text :: "int \<Rightarrow> string \<Rightarrow> string \<Rightarrow> string" where
  "plain_text c ip fp = sign_text c @ ip @ (if fp = [] then [] else CHR ''.'' # fp)"

lemma parse_unsigned_plain:
  assumes "list_all is_digit ip" "list_all is_digit fp" "ip \<noteq> []"
  shows "parse_unsigned neg (ip @ (if fp = [] then [] else CHR ''.'' # fp)) =
    Some (Fin (Dec ((if neg then -1 else 1) * int (parse_nat (ip @ fp))) (- int (length fp))))"
proof -
  let ?u = "ip @ (if fp = [] then [] else CHR ''.'' # fp)"
  have all: "\<forall>c \<in> set ?u. not_exp_char c"
    using assms by (auto simp: list_all_iff digit_facts split: if_splits)
  then have tw: "takeWhile not_exp_char ?u = ?u" and dw: "dropWhile not_exp_char ?u = []"
    by (simp_all add: takeWhile_eq_all_conv del: set_append)
  have "\<forall>c \<in> set ip. c \<noteq> CHR ''.''" using assms by (auto simp: list_all_iff digit_facts)
  then have ba: "before (CHR ''.'') ?u = ip" "after (CHR ''.'') ?u = fp"
    by (simp_all add: before_def after_def takeWhile_append2 dropWhile_append2)
  show ?thesis unfolding parse_unsigned_def Let_def tw dw ba using assms by simp
qed

lemma digits_no_underscore: "list_all is_digit s \<Longrightarrow> CHR ''_'' \<notin> set s"
  by (auto simp: list_all_iff is_digit_def)

lemma parse_dec_plain:
  assumes "list_all is_digit ip" "list_all is_digit fp" "ip \<noteq> []"
  shows "parse_dec (plain_text c ip fp) =
    Some (Fin (Dec ((if c < 0 then -1 else 1) * int (parse_nat (ip @ fp))) (- int (length fp))))"
proof -
  let ?u = "ip @ (if fp = [] then [] else CHR ''.'' # fp)"
  obtain d ds where ip: "ip = d # ds" using assms by (cases ip) auto
  have d: "is_digit d" using assms ip by simp
  have "is_digit (last ?u)"
    using assms by (cases "fp = []") (auto simp: list_all_iff)
  then have "strip (plain_text c ip fp) = plain_text c ip fp"
    using d ip by (intro strip_id) (auto simp: plain_text_def sign_text_def digit_facts)
  moreover have "CHR ''_'' \<notin> set (plain_text c ip fp)"
    using assms by (simp add: plain_text_def sign_text_def digits_no_underscore)
  ultimately have "remove_char (CHR ''_'') (strip (plain_text c ip fp)) = plain_text c ip fp"
    by (simp add: remove_char_notin)
  then show ?thesis
    using parse_unsigned_plain [OF assms] d ip
    by (cases "c < 0") (auto simp: parse_dec_def plain_text_def sign_text_def digit_facts)
qed

lemma format_f_plain:
  "format_f d = (let n = nat \<bar>coeff d\<bar>; k = nat (- expo d) in
     plain_text (coeff d) (nat_text (if 0 \<le> expo d then n * 10 ^ nat (expo d) else n div 10 ^ k))
       (if 0 \<le> expo d then [] else pad_zeros k (nat_text (n mod 10 ^ k))))"
proof -
  have "pad_zeros k (nat_text n) \<noteq> []" for k n by (simp add: pad_zeros_def)
  then show ?thesis by (simp add: format_f_def plain_text_def Let_def)
qed

lemma sign_abs_nat: "(if c < 0 then -1 else 1) * int (nat \<bar>c\<bar>) = c"
  by simp

text \<open>\<open>Decimal(format(d, 'f'))\<close> is \<open>d\<close> again, with a positive exponent written out.\<close>

lemma parse_format_f:
  "parse_dec (format_f d) =
     Some (Fin (if 0 \<le> expo d then Dec (coeff d * 10 ^ nat (expo d)) 0 else d))"
proof -
  define n k where "n = nat \<bar>coeff d\<bar>" and "k = nat (- expo d)"
  have c: "coeff d = (if coeff d < 0 then -1 else 1) * int n" by (simp add: n_def)
  show ?thesis
  proof (cases "0 \<le> expo d")
    case True
    then show ?thesis
      by (simp add: format_f_plain Let_def parse_dec_plain)
  next
    case False
    then have k: "0 < k" "expo d = - int k" by (simp_all add: k_def)
    have len: "length (pad_zeros k (nat_text (n mod 10 ^ k))) = k"
      using k by (intro length_pad_zeros) auto
    have "parse_nat (nat_text (n div 10 ^ k) @ pad_zeros k (nat_text (n mod 10 ^ k))) = n"
      by (simp only: parse_nat_append len parse_nat_text parse_pad_zeros div_mult_mod_eq)
    then have "parse_dec (format_f d) = Some (Fin (Dec (coeff d) (expo d)))"
      using False k by (simp add: format_f_plain Let_def parse_dec_plain len flip: n_def k_def c)
    then show ?thesis using False by simp
  qed
qed

corollary parse_format_f_value: "\<exists>d'. parse_dec (format_f d) = Some (Fin d') \<and> dval d' = dval d"
  by (simp add: parse_format_f dval_def pow_powi)

end
