(* ===== verification/Py_Value.thy ===== *)
theory Py_Value
  imports Py_Decimal "HOL-Library.List_Lexorder"
begin

text \<open>
  Dynamically typed values: what \<open>json.loads\<close> and the exchange's responses give the
  source. A float is kept as the decimal its \<open>repr\<close> writes, since the source only
  converts such values with \<open>Decimal(str(v))\<close>, \<open>int(v)\<close> and \<open>str(v)\<close>
  (below \<open>2^53\<close> the integer part of the two agrees). The text of a list or mapping
  is only ever compared with tokens or parsed as a number, which no bracketed text
  matches, so it is left as brackets.
\<close>

datatype pyval =
    PNone
  | PBool bool
  | PInt int
  | PFloat pydec
  | PStr string
  | PList "pyval list"
  | PDict "(string \<times> pyval) list"

type_synonym pydict = "(string \<times> pyval) list"

fun is_dict :: "pyval \<Rightarrow> bool" where
  "is_dict (PDict _) = True"
| "is_dict _ = False"

fun is_list :: "pyval \<Rightarrow> bool" where
  "is_list (PList _) = True"
| "is_list _ = False"

fun is_int :: "pyval \<Rightarrow> bool" where
  "is_int (PInt _) = True"
| "is_int (PBool _) = True"
| "is_int _ = False"

fun items :: "pyval \<Rightarrow> pydict" where
  "items (PDict kvs) = kvs"
| "items _ = []"

fun elems :: "pyval \<Rightarrow> pyval list" where
  "elems (PList xs) = xs"
| "elems _ = []"

text \<open>\<open>d.get(k, default)\<close> and \<open>d.get(k)\<close>.\<close>

definition get_or :: "pydict \<Rightarrow> string \<Rightarrow> pyval \<Rightarrow> pyval" where
  "get_or d k v = (case map_of d k of None \<Rightarrow> v | Some x \<Rightarrow> x)"

definition get :: "pydict \<Rightarrow> string \<Rightarrow> pyval" where
  "get d k = get_or d k PNone"

fun truthy :: "pyval \<Rightarrow> bool" where
  "truthy PNone = False"
| "truthy (PBool b) = b"
| "truthy (PInt i) = (i \<noteq> 0)"
| "truthy (PFloat (Fin d)) = (coeff d \<noteq> 0)"
| "truthy (PFloat _) = True"
| "truthy (PStr s) = (s \<noteq> [])"
| "truthy (PList xs) = (xs \<noteq> [])"
| "truthy (PDict kvs) = (kvs \<noteq> [])"

text \<open>Python's \<open>a or b\<close>.\<close>

definition por :: "pyval \<Rightarrow> pyval \<Rightarrow> pyval" where
  "por a b = (if truthy a then a else b)"

text \<open>\<open>str(v)\<close>.\<close>

fun pstr :: "pyval \<Rightarrow> string" where
  "pstr PNone = ''None''"
| "pstr (PBool b) = (if b then ''True'' else ''False'')"
| "pstr (PInt i) = int_text i"
| "pstr (PFloat (Fin d)) = dec_str d"
| "pstr (PFloat (Infinite neg)) = (if neg then ''-inf'' else ''inf'')"
| "pstr (PFloat NotANumber) = ''nan''"
| "pstr (PStr s) = s"
| "pstr (PList _) = ''[]''"
| "pstr (PDict _) = ''{}''"

text \<open>\<open>Decimal(str(v))\<close>; \<open>None\<close> where it raises.\<close>

fun to_dec :: "pyval \<Rightarrow> pydec option" where
  "to_dec (PInt i) = Some (Fin (Dec i 0))"
| "to_dec (PFloat x) = Some x"
| "to_dec (PStr s) = parse_dec s"
| "to_dec _ = None"

text \<open>\<open>float(v)\<close>; \<open>None\<close> where it raises.\<close>

fun to_float :: "pyval \<Rightarrow> pydec option" where
  "to_float (PBool b) = Some (Fin (Dec (if b then 1 else 0) 0))"
| "to_float v = to_dec v"

text \<open>A finite decimal, or \<open>None\<close> for a raise, an infinity or a NaN.\<close>

definition to_finite :: "pyval \<Rightarrow> dec option" where
  "to_finite v = (case to_dec v of Some (Fin d) \<Rightarrow> Some d | _ \<Rightarrow> None)"

fun underscores_ok :: "bool \<Rightarrow> string \<Rightarrow> bool" where
  "underscores_ok prev [] = prev"
| "underscores_ok prev (c # cs) =
     (if c = CHR ''_'' then prev \<and> underscores_ok False cs else is_digit c \<and> underscores_ok True cs)"

text \<open>\<open>int(text)\<close> in base ten.\<close>

definition parse_int :: "string \<Rightarrow> int option" where
  "parse_int s = (let t = strip s in case t of
       [] \<Rightarrow> None
     | c # cs \<Rightarrow>
         (let body = (if c = CHR ''-'' \<or> c = CHR ''+'' then cs else t) in
          if underscores_ok False body
          then Some ((if c = CHR ''-'' then -1 else 1) * int (parse_nat (remove_char (CHR ''_'') body)))
          else None))"

text \<open>\<open>int(v)\<close>; a float is truncated.\<close>

fun to_int :: "pyval \<Rightarrow> int option" where
  "to_int (PBool b) = Some (if b then 1 else 0)"
| "to_int (PInt i) = Some i"
| "to_int (PFloat (Fin d)) =
     Some (let t = to_integral_down d in coeff t * 10 ^ nat (expo t))"
| "to_int (PStr s) = parse_int s"
| "to_int _ = None"

text \<open>\<open>==\<close>: numbers of different types are compared by value.\<close>

fun num_of :: "pyval \<Rightarrow> dec option" where
  "num_of (PBool b) = Some (Dec (if b then 1 else 0) 0)"
| "num_of (PInt i) = Some (Dec i 0)"
| "num_of (PFloat (Fin d)) = Some d"
| "num_of _ = None"

definition py_eq :: "pyval \<Rightarrow> pyval \<Rightarrow> bool" where
  "py_eq a b = (case (num_of a, num_of b) of
       (Some x, Some y) \<Rightarrow> dec_eq x y
     | _ \<Rightarrow> a = b)"

definition py_in :: "pyval \<Rightarrow> pyval list \<Rightarrow> bool" where
  "py_in v xs = list_ex (py_eq v) xs"

definition is_true :: "pyval \<Rightarrow> bool" where
  "is_true v \<longleftrightarrow> v = PBool True"

text \<open>\<open>str(d.get(k, '')).upper()\<close>, the form in which the source reads tokens.\<close>

definition token :: "pydict \<Rightarrow> string \<Rightarrow> string" where
  "token d k = upper (pstr (get_or d k (PStr [])))"

lemma py_eq_refl [simp]: "py_eq a a"
  by (cases "num_of a") (simp_all add: py_eq_def dec_eq_iff)

lemma to_finite_Some: "to_finite v = Some d \<longleftrightarrow> to_dec v = Some (Fin d)"
  by (auto simp: to_finite_def split: option.splits pydec.splits)

lemma to_finite_int [simp]: "to_finite (PInt i) = Some (Dec i 0)"
  by (simp add: to_finite_def)

lemma get_or_Nil [simp]: "get_or [] k v = v" "get [] k = PNone"
  by (simp_all add: get_or_def get_def)

lemma get_or_Cons: "get_or ((k', x) # d) k v = (if k = k' then x else get_or d k v)"
  by (simp add: get_or_def)

lemma parse_int_text: "parse_int (int_text i) = Some i"
proof -
  have ok: "underscores_ok p ds = (ds \<noteq> [] \<or> p)" if "list_all is_digit ds" for p ds
    using that by (induction ds arbitrary: p) (simp_all add: digit_facts)
  obtain d ds where n: "nat_text (nat \<bar>i\<bar>) = d # ds" by (meson list.exhaust nat_text_nonempty)
  have all: "list_all is_digit (d # ds)" using nat_text_digits [of "nat \<bar>i\<bar>"] n by simp
  have "strip (int_text i) = int_text i"
    using n all by (intro strip_id) (auto simp: int_text_def digit_facts list_all_iff)
  moreover have "remove_char (CHR ''_'') (d # ds) = d # ds"
    using digits_no_underscore [OF all] by (rule remove_char_notin)
  moreover have "parse_nat (d # ds) = nat \<bar>i\<bar>" using parse_nat_text [of "nat \<bar>i\<bar>"] n by simp
  ultimately show ?thesis
    using n all ok [OF all, of False] by (cases "i < 0") (auto simp: parse_int_def int_text_def digit_facts)
qed

subsection \<open>Canonical JSON\<close>

text \<open>
  \<open>json.dumps(v, sort_keys=True, separators=(',', ':'))\<close>: the text that is hashed and
  signed.
\<close>

definition hex_digit :: "nat \<Rightarrow> char" where
  "hex_digit n = (if n < 10 then char_of (48 + n) else char_of (87 + n))"

definition json_escape :: "char \<Rightarrow> string" where
  "json_escape c = (let n = (of_char c :: nat) in
     if n = 34 then [CHR 0x5C, CHR 0x22]
     else if n = 92 then [CHR 0x5C, CHR 0x5C]
     else if n = 10 then CHR 0x5C # ''n''
     else if n = 13 then CHR 0x5C # ''r''
     else if n = 9 then CHR 0x5C # ''t''
     else if n = 8 then CHR 0x5C # ''b''
     else if n = 12 then CHR 0x5C # ''f''
     else if n < 32 \<or> 126 < n
       then CHR 0x5C # ''u00'' @ [hex_digit (n div 16), hex_digit (n mod 16)]
     else [c])"

definition json_string :: "string \<Rightarrow> string" where
  "json_string s = CHR 0x22 # concat (map json_escape s) @ [CHR 0x22]"

fun comma_join :: "string list \<Rightarrow> string" where
  "comma_join [] = []"
| "comma_join [x] = x"
| "comma_join (x # y # ys) = x @ CHR '','' # comma_join (y # ys)"

fun json_dumps :: "pyval \<Rightarrow> string" where
  "json_dumps PNone = ''null''"
| "json_dumps (PBool b) = (if b then ''true'' else ''false'')"
| "json_dumps (PInt i) = int_text i"
| "json_dumps (PFloat (Fin d)) = dec_str d"
| "json_dumps (PFloat (Infinite neg)) = (if neg then ''-Infinity'' else ''Infinity'')"
| "json_dumps (PFloat NotANumber) = ''NaN''"
| "json_dumps (PStr s) = json_string s"
| "json_dumps (PList xs) = CHR ''['' # comma_join (map json_dumps xs) @ '']''"
| "json_dumps (PDict kvs) =
     CHR ''{'' # comma_join (map (\<lambda>(k, t). json_string k @ CHR '':'' # t)
       (sort_key fst (map (\<lambda>(k, v). (k, json_dumps v)) kvs))) @ ''}''"

lemmas value_eval = get_def get_or_Cons token_def por_def to_finite_def py_eq_def py_in_def
  parse_int_def is_true_def

end
