(* ===== verification/Intents.thy ===== *)
theory Intents
  imports Claim_Ledger Py_Value
begin

text \<open>
  The order-intent table of \<open>services/execution_sidecar/state_store.py\<close>: the complete
  request is committed before any network call, the row moves to \<open>SUBMITTING\<close> right
  before the POST, and a terminal state is recorded afterwards. Rows keep insertion order,
  which is the order of \<open>created_at\<close>; the clock of a call is an integer argument.
\<close>

datatype intent_state =
    PREPARED | SUBMITTING | CONFIRMED | DEFINITE_REJECT | INTENT_AMBIGUOUS | ABORTED

record intent_row =
  i_id :: string
  i_operation :: string
  i_trade :: "string option"
  i_symbol :: string
  i_endpoint :: string
  i_request :: string
  i_sha256 :: string
  i_client :: "string option"
  i_list_client :: "string option"
  i_parent :: "string option"
  i_state :: intent_state
  i_order :: pyval
  i_order_list :: pyval
  i_error :: "string option"
  i_created :: int
  i_updated :: int

type_synonym intents = "intent_row list"

datatype intent_error = ParentNotPrepared | NotUniquelyPrepared string | UnsupportedState string | UnknownIntent string

definition text_or_null :: "string \<Rightarrow> string option" where
  "text_or_null s = (if s = [] then None else Some s)"

record intent_request =
  q_id :: string
  q_operation :: string
  q_trade :: "string option"
  q_symbol :: string
  q_endpoint :: string
  q_params :: pydict
  q_client :: string
  q_list_client :: string
  q_parent :: string
  q_close_parent :: string

definition new_intent :: "(string \<Rightarrow> string) \<Rightarrow> int \<Rightarrow> intent_request \<Rightarrow> intent_row" where
  "new_intent sha256 now q = (let payload = json_dumps (PDict (q_params q)) in
     \<lparr>i_id = q_id q, i_operation = q_operation q, i_trade = q_trade q, i_symbol = upper (q_symbol q),
      i_endpoint = q_endpoint q, i_request = payload, i_sha256 = sha256 payload,
      i_client = text_or_null (q_client q), i_list_client = text_or_null (q_list_client q),
      i_parent = text_or_null (q_parent q), i_state = PREPARED, i_order = PNone, i_order_list = PNone,
      i_error = None, i_created = now, i_updated = now\<rparr>)"

definition is_prepared :: "string \<Rightarrow> intent_row \<Rightarrow> bool" where
  "is_prepared k r \<longleftrightarrow> i_id r = k \<and> i_state r = PREPARED"

text \<open>
  The insertion and the closing of the parent are one transaction: when the parent is not
  uniquely PREPARED the child is rolled back.
\<close>

definition prepare_intent ::
  "(string \<Rightarrow> string) \<Rightarrow> int \<Rightarrow> intent_request \<Rightarrow> intents \<Rightarrow> intent_error + bool \<times> intents" where
  "prepare_intent sha256 now q t =
     (let (t', won) = insert_or_ignore i_id (new_intent sha256 now q) t; parent = q_close_parent q in
      if won \<and> parent \<noteq> [] then
        (if rowcount (is_prepared parent) t' = 1 then
           Inr (True, update_where (is_prepared parent)
             (\<lambda>r. r\<lparr>i_state := ABORTED, i_error := Some (''resumed atomically into child intent '' @ q_id q),
                    i_updated := now\<rparr>) t')
         else Inl ParentNotPrepared)
      else Inr (won, t'))"

definition mark_intent_submitting :: "int \<Rightarrow> string \<Rightarrow> intents \<Rightarrow> intent_error + intents" where
  "mark_intent_submitting now k t =
     (if rowcount (is_prepared k) t = 1
      then Inr (update_where (is_prepared k) (\<lambda>r. r\<lparr>i_state := SUBMITTING, i_updated := now\<rparr>) t)
      else Inl (NotUniquelyPrepared k))"

definition finish_state :: "string \<Rightarrow> intent_state option" where
  "finish_state s = (let u = upper s in
     if u = ''CONFIRMED'' then Some CONFIRMED else if u = ''DEFINITE_REJECT'' then Some DEFINITE_REJECT
     else if u = ''AMBIGUOUS'' then Some INTENT_AMBIGUOUS else if u = ''ABORTED'' then Some ABORTED else None)"

definition finish_intent ::
  "int \<Rightarrow> string \<Rightarrow> string \<Rightarrow> pyval \<Rightarrow> pyval \<Rightarrow> string \<Rightarrow> intents \<Rightarrow> intent_error + intents" where
  "finish_intent now k state order order_list error t =
     (case finish_state state of
        None \<Rightarrow> Inl (UnsupportedState (upper state))
      | Some st \<Rightarrow>
          if rowcount (\<lambda>r. i_id r = k) t = 1 then
            Inr (update_where (\<lambda>r. i_id r = k)
              (\<lambda>r. r\<lparr>i_state := st, i_order := order, i_order_list := order_list,
                     i_error := text_or_null error, i_updated := now\<rparr>) t)
          else Inl (UnknownIntent k))"

definition intent :: "string \<Rightarrow> intents \<Rightarrow> intent_row option" where
  "intent k t = row_with i_id k t"

definition is_unresolved :: "intent_row \<Rightarrow> bool" where
  "is_unresolved r \<longleftrightarrow> i_state r \<in> {PREPARED, SUBMITTING, INTENT_AMBIGUOUS}"

definition unresolved_intents :: "intents \<Rightarrow> intent_row list" where
  "unresolved_intents t = sort_key i_created (List.filter is_unresolved t)"

definition intents_for_trade :: "string \<Rightarrow> intents \<Rightarrow> intent_row list" where
  "intents_for_trade k t = sort_key i_created (List.filter (\<lambda>r. i_trade r = Some k) t)"

subsection \<open>Invariant and transitions\<close>

definition intents_ok :: "intents \<Rightarrow> bool" where
  "intents_ok t \<longleftrightarrow> distinct (map i_id t)"

lemma i_id_new [simp]: "i_id (new_intent sha256 now q) = q_id q" "i_state (new_intent sha256 now q) = PREPARED"
  by (simp_all add: new_intent_def Let_def)

lemma prepare_cases:
  assumes "prepare_intent sha256 now q t = Inr (b, t')"
  obtains (seen) "b = False" "t' = t" "q_id q \<in> i_id ` set t"
  | (fresh) "b = True" "q_id q \<notin> i_id ` set t" "q_close_parent q = []" "t' = t @ [new_intent sha256 now q]"
  | (resumed) "b = True" "q_id q \<notin> i_id ` set t" "q_close_parent q \<noteq> []"
      "rowcount (is_prepared (q_close_parent q)) (t @ [new_intent sha256 now q]) = 1"
      "t' = update_where (is_prepared (q_close_parent q))
             (\<lambda>r. r\<lparr>i_state := ABORTED, i_error := Some (''resumed atomically into child intent '' @ q_id q),
                    i_updated := now\<rparr>) (t @ [new_intent sha256 now q])"
  using assms by (auto simp: prepare_intent_def insert_or_ignore_def Let_def split: if_splits)

lemma prepare_ok [inv_intro]: "intents_ok t \<Longrightarrow> prepare_intent sha256 now q t = Inr (b, t') \<Longrightarrow> intents_ok t'"
  by (erule prepare_cases) (auto simp: intents_ok_def map_update_where is_prepared_def)

lemma submitting_ok [inv_intro]: "intents_ok t \<Longrightarrow> mark_intent_submitting now k t = Inr t' \<Longrightarrow> intents_ok t'"
  by (auto simp: mark_intent_submitting_def intents_ok_def map_update_where is_prepared_def split: if_splits)

lemma finish_ok [inv_intro]: "intents_ok t \<Longrightarrow> finish_intent now k st a b e t = Inr t' \<Longrightarrow> intents_ok t'"
  by (auto simp: finish_intent_def intents_ok_def map_update_where split: if_splits option.splits)

text \<open>The state of one intent.\<close>

definition state_of :: "string \<Rightarrow> intents \<Rightarrow> intent_state option" where
  "state_of k t = map_option i_state (intent k t)"

lemma state_of_append:
  "state_of k (t @ [r]) = (case state_of k t of None \<Rightarrow> if i_id r = k then Some (i_state r) else None | Some s \<Rightarrow> Some s)"
  by (simp add: state_of_def intent_def row_with_append split: option.splits)

lemma state_of_update:
  assumes "\<And>r. p r \<Longrightarrow> i_id (f r) = i_id r"
  shows "state_of k (update_where p f t) = map_option (\<lambda>r. i_state (if p r then f r else r)) (intent k t)"
  by (simp add: state_of_def intent_def row_with_update assms comp_def option.map_comp)

lemma state_of_None: "state_of k t = None \<longleftrightarrow> k \<notin> i_id ` set t"
  by (simp add: state_of_def intent_def row_with_None)

lemma intent_id: "intent k t = Some r \<Longrightarrow> i_id r = k"
  by (auto simp: intent_def dest: row_with_Some)

text \<open>An update of the one PREPARED row of a key.\<close>

lemma intent_update:
  assumes "\<And>r. p r \<Longrightarrow> i_id (f r) = i_id r"
  shows "intent j (update_where p f t) = map_option (\<lambda>r. if p r then f r else r) (intent j t)"
  unfolding intent_def by (rule row_with_update) (rule assms)

lemma prepared_row:
  assumes "intents_ok t" and "rowcount (is_prepared k) t = 1"
  shows "\<exists>r. intent k t = Some r \<and> is_prepared k r" and "state_of k t = Some PREPARED"
proof -
  obtain r where r: "r \<in> set t" "i_id r = k" "i_state r = PREPARED"
    using rowcount_one_ex [OF assms(2)] by (auto simp: is_prepared_def)
  then have "intent k t = Some r"
    using assms(1) row_with_distinct [of i_id t r] by (simp add: intent_def intents_ok_def)
  then show "\<exists>r. intent k t = Some r \<and> is_prepared k r" "state_of k t = Some PREPARED"
    using r by (auto simp: is_prepared_def state_of_def)
qed

lemma state_of_update_prepared:
  assumes ok: "intents_ok t" and one: "rowcount (is_prepared k) t = 1"
    and f: "\<And>r. i_id (f r) = i_id r" "\<And>r. i_state (f r) = st"
  shows "state_of j (update_where (is_prepared k) f t) = (if j = k then Some st else state_of j t)"
proof -
  have i: "intent j (update_where (is_prepared k) f t) = map_option (\<lambda>r. if is_prepared k r then f r else r) (intent j t)"
    by (rule intent_update) (rule f)
  obtain r where r: "intent k t = Some r" "is_prepared k r" using prepared_row [OF ok one] by blast
  show ?thesis
  proof (cases "j = k")
    case True
    then show ?thesis using r i by (simp add: state_of_def f)
  next
    case False
    then have "map_option (\<lambda>r. if is_prepared k r then f r else r) (intent j t) = intent j t"
      by (cases "intent j t") (auto simp: is_prepared_def dest: intent_id)
    then show ?thesis using False i by (simp add: state_of_def)
  qed
qed

lemma state_after_prepare:
  assumes ok: "intents_ok t" and "prepare_intent sha256 now q t = Inr (b, t')"
  shows "state_of k t' =
    (if b \<and> k = q_close_parent q \<and> k \<noteq> [] then Some ABORTED
     else if b \<and> k = q_id q then Some PREPARED else state_of k t)"
    and "b \<longleftrightarrow> state_of (q_id q) t = None"
    and "b \<Longrightarrow> q_close_parent q \<notin> {[], q_id q} \<Longrightarrow> state_of (q_close_parent q) t = Some PREPARED"
proof -
  let ?t = "t @ [new_intent sha256 now q]"
  have new: "state_of k ?t = (if k = q_id q then Some PREPARED else state_of k t)"
    if "q_id q \<notin> i_id ` set t" for k
    using that state_of_None [of k t] by (auto simp: state_of_append split: option.splits)
  have ok': "intents_ok ?t" if "q_id q \<notin> i_id ` set t"
    using that ok by (simp add: intents_ok_def)
  have "state_of k t' = (if b \<and> k = q_close_parent q \<and> k \<noteq> [] then Some ABORTED
     else if b \<and> k = q_id q then Some PREPARED else state_of k t)
    \<and> (b \<longleftrightarrow> state_of (q_id q) t = None)
    \<and> (b \<longrightarrow> q_close_parent q \<notin> {[], q_id q} \<longrightarrow> state_of (q_close_parent q) t = Some PREPARED)"
    using assms(2)
  proof (cases rule: prepare_cases)
    case seen
    then show ?thesis by (auto simp: state_of_None)
  next
    case fresh
    then show ?thesis using new [of k] by (auto simp: state_of_None)
  next
    case resumed
    note o = ok' [OF resumed(2)]
    have "state_of k t' = (if k = q_close_parent q then Some ABORTED else state_of k ?t)"
      unfolding resumed(5) by (rule state_of_update_prepared [OF o resumed(4)]) simp_all
    moreover have "state_of (q_close_parent q) ?t = Some PREPARED" by (rule prepared_row [OF o resumed(4)])
    ultimately show ?thesis using resumed new [of k] new [of "q_close_parent q"]
      by (auto simp: state_of_None)
  qed
  then show "state_of k t' = (if b \<and> k = q_close_parent q \<and> k \<noteq> [] then Some ABORTED
     else if b \<and> k = q_id q then Some PREPARED else state_of k t)"
    "b \<longleftrightarrow> state_of (q_id q) t = None"
    "b \<Longrightarrow> q_close_parent q \<notin> {[], q_id q} \<Longrightarrow> state_of (q_close_parent q) t = Some PREPARED"
    by blast+
qed

lemma state_after_submitting:
  assumes "intents_ok t" and "mark_intent_submitting now k t = Inr t'"
  shows "state_of k t = Some PREPARED"
    and "state_of j t' = (if j = k then Some SUBMITTING else state_of j t)"
proof -
  have one: "rowcount (is_prepared k) t = 1"
    and t': "t' = update_where (is_prepared k) (\<lambda>r. r\<lparr>i_state := SUBMITTING, i_updated := now\<rparr>) t"
    using assms(2) by (auto simp: mark_intent_submitting_def split: if_splits)
  show "state_of k t = Some PREPARED" by (rule prepared_row [OF assms(1) one])
  show "state_of j t' = (if j = k then Some SUBMITTING else state_of j t)"
    unfolding t' by (rule state_of_update_prepared [OF assms(1) one]) simp_all
qed

definition terminal_states :: "intent_state set" where
  "terminal_states = {CONFIRMED, DEFINITE_REJECT, INTENT_AMBIGUOUS, ABORTED}"

lemma finish_state_terminal: "finish_state s = Some st \<Longrightarrow> st \<in> terminal_states"
  by (auto simp: finish_state_def terminal_states_def Let_def split: if_splits)

lemma state_after_finish:
  assumes "finish_intent now k s a b e t = Inr t'"
  shows "\<exists>st. finish_state s = Some st \<and> state_of k t \<noteq> None
    \<and> (\<forall>j. state_of j t' = (if j = k then Some st else state_of j t))"
proof -
  obtain st where st: "finish_state s = Some st" "rowcount (\<lambda>r. i_id r = k) t = 1"
    "t' = update_where (\<lambda>r. i_id r = k) (\<lambda>r. r\<lparr>i_state := st, i_order := a, i_order_list := b,
       i_error := text_or_null e, i_updated := now\<rparr>) t"
    using assms by (auto simp: finish_intent_def split: option.splits if_splits)
  have ex: "state_of k t \<noteq> None" using rowcount_one_ex [OF st(2)] by (auto simp: state_of_None)
  have "state_of j t' = (if j = k then Some st else state_of j t)" for j
  proof -
    have i: "intent j t' = map_option (\<lambda>r. if i_id r = k then r\<lparr>i_state := st, i_order := a, i_order_list := b,
       i_error := text_or_null e, i_updated := now\<rparr> else r) (intent j t)"
      unfolding st(3) by (rule intent_update) simp
    show ?thesis
    proof (cases "intent j t")
      case None
      then show ?thesis using ex by (auto simp: state_of_def i)
    next
      case (Some r)
      then show ?thesis using intent_id [OF Some] by (simp add: state_of_def i)
    qed
  qed
  then show ?thesis using st ex by blast
qed

subsection \<open>One submission per intent\<close>

text \<open>
  Every operation of the component between two submissions. A refused operation is rolled
  back, so it leaves the table as it was.
\<close>

datatype intent_op =
    Tick int
  | Prepare intent_request
  | Finish string string pyval pyval string

type_synonym clocked = "int \<times> intents"

definition submit_claim :: "string \<Rightarrow> clocked \<Rightarrow> bool \<times> clocked" where
  "submit_claim k s = (case mark_intent_submitting (fst s) k (snd s) of
     Inl _ \<Rightarrow> (False, s) | Inr t' \<Rightarrow> (True, (fst s, t')))"

definition intent_other :: "(string \<Rightarrow> string) \<Rightarrow> intent_op \<Rightarrow> clocked \<Rightarrow> clocked" where
  "intent_other sha256 a s = (case a of
     Tick now \<Rightarrow> (now, snd s)
   | Prepare q \<Rightarrow> (case prepare_intent sha256 (fst s) q (snd s) of Inl _ \<Rightarrow> s | Inr (_, t') \<Rightarrow> (fst s, t'))
   | Finish k st x y e \<Rightarrow> (case finish_intent (fst s) k st x y e (snd s) of Inl _ \<Rightarrow> s | Inr t' \<Rightarrow> (fst s, t')))"

text \<open>An intent whose request may have been sent, or never will be.\<close>

definition left_prepared :: "string \<Rightarrow> clocked \<Rightarrow> bool" where
  "left_prepared k s \<longleftrightarrow> state_of k (snd s) \<notin> {None, Some PREPARED}"

lemma left_prepared_prepare:
  assumes "intents_ok t" "prepare_intent sha256 now q t = Inr (b, t')" "state_of j t \<notin> {None, Some PREPARED}"
  shows "state_of j t' \<notin> {None, Some PREPARED}"
  using state_after_prepare [OF assms(1,2)] assms(3) by auto

lemma left_prepared_finish:
  assumes "finish_intent now k s a b e t = Inr t'" "state_of j t \<notin> {None, Some PREPARED}"
  shows "state_of j t' \<notin> {None, Some PREPARED}"
proof -
  obtain st where "finish_state s = Some st" "\<forall>j. state_of j t' = (if j = k then Some st else state_of j t)"
    using state_after_finish [OF assms(1)] by blast
  then show ?thesis using assms(2) finish_state_terminal [of s st] by (cases "j = k") (auto simp: terminal_states_def)
qed

interpretation submissions: claim_ledger submit_claim "\<lambda>k. k" "intent_other sha256" left_prepared "\<lambda>s. intents_ok (snd s)"
proof
  fix s :: clocked and k j :: string and a :: intent_op
  assume ok: "intents_ok (snd s)"
  show "intents_ok (snd (snd (submit_claim k s)))"
    using ok by (auto simp: submit_claim_def intro: inv_intro split: sum.splits)
  show "intents_ok (snd (intent_other sha256 a s))"
    using ok by (auto simp: intent_other_def intro: inv_intro split: intent_op.splits sum.splits prod.splits)
  show "fst (submit_claim k s) \<Longrightarrow> \<not> left_prepared k s"
    using state_after_submitting(1) [OF ok]
    by (auto simp: submit_claim_def left_prepared_def split: sum.splits)
  show "fst (submit_claim k s) \<Longrightarrow> left_prepared k (snd (submit_claim k s))"
    using state_after_submitting(2) [OF ok]
    by (auto simp: submit_claim_def left_prepared_def split: sum.splits)
  show "left_prepared j s \<Longrightarrow> left_prepared j (snd (submit_claim k s))"
    using state_after_submitting(2) [OF ok]
    by (auto simp: submit_claim_def left_prepared_def split: sum.splits)
  show "left_prepared j s \<Longrightarrow> left_prepared j (intent_other sha256 a s)"
    using left_prepared_prepare [OF ok] left_prepared_finish
    unfolding intent_other_def left_prepared_def
    by (auto split: intent_op.splits sum.splits prod.splits simp del: insert_iff)
qed

text \<open>The part of a row that is committed with the request and never rewritten.\<close>

definition request_part :: "intent_row \<Rightarrow> string \<times> string option \<times> string \<times> string \<times> string \<times> string \<times> string option \<times> string option" where
  "request_part r = (i_operation r, i_trade r, i_symbol r, i_endpoint r, i_request r, i_sha256 r, i_client r, i_list_client r)"

definition committed_request :: "string \<Rightarrow> intents \<Rightarrow> (string \<times> string option \<times> string \<times> string \<times> string \<times> string \<times> string option \<times> string option) option" where
  "committed_request k t = map_option request_part (intent k t)"

lemma committed_update:
  assumes "\<And>r. i_id (f r) = i_id r" and "\<And>r. request_part (f r) = request_part r"
  shows "committed_request k (update_where p f t) = committed_request k t"
proof -
  have "intent k (update_where p f t) = map_option (\<lambda>r. if p r then f r else r) (intent k t)"
    by (rule intent_update) (rule assms(1))
  then show ?thesis by (cases "intent k t") (simp_all add: committed_request_def assms(2))
qed

lemma committed_append:
  "committed_request k t = Some x \<Longrightarrow> committed_request k (t @ [r]) = Some x"
  by (auto simp: committed_request_def intent_def row_with_append split: option.splits)

lemma committed_submit: "mark_intent_submitting now j t = Inr t' \<Longrightarrow> committed_request k t' = committed_request k t"
  by (auto simp: mark_intent_submitting_def request_part_def intro!: committed_update split: if_splits)

lemma committed_finish: "finish_intent now j s a b e t = Inr t' \<Longrightarrow> committed_request k t' = committed_request k t"
  by (auto simp: finish_intent_def request_part_def intro!: committed_update split: if_splits option.splits)

lemma committed_prepare:
  assumes "prepare_intent sha256 now q t = Inr (b, t')" "committed_request k t = Some x"
  shows "committed_request k t' = Some x"
  using assms(1)
proof (cases rule: prepare_cases)
  case resumed
  have "committed_request k t' = committed_request k (t @ [new_intent sha256 now q])"
    unfolding resumed(5) by (rule committed_update) (simp_all add: request_part_def)
  then show ?thesis using committed_append [OF assms(2)] by simp
qed (simp_all add: assms(2) committed_append)

lemma committed_run:
  "committed_request k (snd s) = Some x \<Longrightarrow>
   committed_request k (snd (snd (run_ledger submit_claim (\<lambda>k. k) (intent_other sha256) ops s))) = Some x"
proof (induction ops arbitrary: s)
  case (Cons op ops)
  have "committed_request k (snd (snd (submit_claim j s))) = Some x" for j
    using Cons.prems by (auto simp: submit_claim_def committed_submit split: sum.splits)
  moreover have "committed_request k (snd (intent_other sha256 a s)) = Some x" for a
    using Cons.prems
    by (auto simp: intent_other_def committed_finish intro: committed_prepare
        split: intent_op.splits sum.splits prod.splits)
  ultimately show ?case by (cases op) (simp_all add: Let_def Cons.IH)
qed simp

lemma new_request: "prepare_intent sha256 now q t = Inr (True, t') \<Longrightarrow>
    committed_request (q_id q) t' = Some (request_part (new_intent sha256 now q))"
proof (erule prepare_cases)
  assume f: "q_id q \<notin> i_id ` set t" "t' = t @ [new_intent sha256 now q]"
  then have "row_with i_id (q_id q) t = None" by (simp add: row_with_None)
  then show ?thesis by (simp add: f committed_request_def intent_def row_with_append)
next
  assume f: "q_id q \<notin> i_id ` set t"
    and t': "t' = update_where (is_prepared (q_close_parent q))
             (\<lambda>r. r\<lparr>i_state := ABORTED, i_error := Some (''resumed atomically into child intent '' @ q_id q),
                    i_updated := now\<rparr>) (t @ [new_intent sha256 now q])"
  have "committed_request (q_id q) t' = committed_request (q_id q) (t @ [new_intent sha256 now q])"
    unfolding t' by (rule committed_update) (simp_all add: request_part_def)
  moreover have "row_with i_id (q_id q) t = None" using f by (simp add: row_with_None)
  ultimately show ?thesis by (simp add: committed_request_def intent_def row_with_append)
qed simp

subsection \<open>Guarantees\<close>

text \<open>C20: However submissions are interleaved with preparations, terminal records and clock
  ticks, an order intent moves from PREPARED to SUBMITTING at most once: a committed request
  is never offered to the exchange twice.\<close>

theorem intent_submitted_once:
  assumes "intents_ok t"
  shows "distinct (fst (run_ledger submit_claim (\<lambda>k. k) (intent_other sha256) ops (now, t)))"
  using submissions.at_most_once [where s = "(now, t)"] assms by simp

definition demo_intent :: intent_request where
  "demo_intent = \<lparr>q_id = ''i1'', q_operation = ''ENTRY'', q_trade = Some ''t1'', q_symbol = ''btcusdc'',
     q_endpoint = ''order'', q_params = [(''symbol'', PStr ''BTCUSDC'')], q_client = ''c1'',
     q_list_client = [], q_parent = [], q_close_parent = []\<rparr>"

lemma intent_submitted_once_witness:
  "distinct (fst (run_ledger submit_claim (\<lambda>k. k) (intent_other (\<lambda>t. t))
      [Other (Prepare demo_intent), Claim ''i1'', Claim ''i1''] (5, [])))
   \<and> fst (run_ledger submit_claim (\<lambda>k. k) (intent_other (\<lambda>t. t))
      [Other (Prepare demo_intent), Claim ''i1'', Claim ''i1''] (5, [])) = [''i1'']"
proof
  show "distinct (fst (run_ledger submit_claim (\<lambda>k. k) (intent_other (\<lambda>t. t))
      [Other (Prepare demo_intent), Claim ''i1'', Claim ''i1''] (5, [])))"
    by (rule intent_submitted_once) (simp add: intents_ok_def)
qed code_simp

text \<open>The request of an intent is committed with its row and is never rewritten afterwards,
  whatever operations follow.\<close>

theorem intent_request_immutable:
  assumes "prepare_intent sha256 now q t = Inr (True, t')"
  shows "committed_request (q_id q)
     (snd (snd (run_ledger submit_claim (\<lambda>k. k) (intent_other sha256) ops (now, t'))))
     = Some (request_part (new_intent sha256 now q))"
  by (rule committed_run) (simp add: new_request [OF assms])

lemma intent_request_immutable_witness:
  "committed_request ''i1'' (snd (snd (run_ledger submit_claim (\<lambda>k. k) (intent_other (\<lambda>t. t))
     [Claim ''i1'', Other (Finish ''i1'' ''confirmed'' (PInt 7) PNone [])] (5, [new_intent (\<lambda>t. t) 5 demo_intent]))))
   = Some (request_part (new_intent (\<lambda>t. t) 5 demo_intent))"
  using intent_request_immutable [of "\<lambda>t. t" 5 demo_intent "[]" "[new_intent (\<lambda>t. t) 5 demo_intent]"
      "[Claim ''i1'', Other (Finish ''i1'' ''confirmed'' (PInt 7) PNone [])]"]
  by (simp add: prepare_intent_def insert_or_ignore_def demo_intent_def)

lemma rowcount_key_le_one:
  assumes "distinct (map key rows)" and "\<And>r. p r \<Longrightarrow> key r = k"
  shows "rowcount p rows \<le> 1"
  using assms(1)
proof (induction rows)
  case (Cons r rows)
  then show ?case using assms(2) by (cases "p r") (auto simp: rowcount_def filter_empty_conv image_iff)
qed (simp add: rowcount_def)

lemma prepared_iff:
  assumes "intents_ok t"
  shows "rowcount (is_prepared k) t = 1 \<longleftrightarrow> state_of k t = Some PREPARED"
proof
  show "rowcount (is_prepared k) t = 1 \<Longrightarrow> state_of k t = Some PREPARED" by (rule prepared_row [OF assms])
  assume "state_of k t = Some PREPARED"
  then obtain r where "intent k t = Some r" "i_state r = PREPARED" by (auto simp: state_of_def)
  then have "0 < rowcount (is_prepared k) t"
    by (auto simp: rowcount_pos_iff intent_def is_prepared_def dest!: row_with_Some)
  moreover have "rowcount (is_prepared k) t \<le> 1"
    using assms by (intro rowcount_key_le_one [of i_id]) (auto simp: intents_ok_def is_prepared_def)
  ultimately show "rowcount (is_prepared k) t = 1" by simp
qed

text \<open>C25: Preparing a child that resumes a parent is atomic: either the child is new and PREPARED
  and the parent, which was PREPARED, is ABORTED, or the table is unchanged; every other intent keeps
  its state.\<close>

theorem resume_is_atomic:
  assumes ok: "intents_ok t" and parent: "q_close_parent q \<noteq> []" "q_close_parent q \<noteq> q_id q"
  shows "case prepare_intent sha256 now q t of
      Inl _ \<Rightarrow> state_of (q_id q) t = None \<and> state_of (q_close_parent q) t \<noteq> Some PREPARED
    | Inr (won, t') \<Rightarrow>
        if won then state_of (q_id q) t = None \<and> state_of (q_id q) t' = Some PREPARED
          \<and> state_of (q_close_parent q) t = Some PREPARED \<and> state_of (q_close_parent q) t' = Some ABORTED
          \<and> (\<forall>k. k \<notin> {q_id q, q_close_parent q} \<longrightarrow> state_of k t' = state_of k t)
        else t' = t"
proof (cases "prepare_intent sha256 now q t")
  case (Inl e)
  let ?t = "t @ [new_intent sha256 now q]"
  have new: "q_id q \<notin> i_id ` set t" and n: "rowcount (is_prepared (q_close_parent q)) ?t \<noteq> 1"
    using Inl by (auto simp: prepare_intent_def insert_or_ignore_def Let_def split: if_splits)
  have "intents_ok ?t" using new ok by (simp add: intents_ok_def)
  then have "state_of (q_close_parent q) ?t \<noteq> Some PREPARED" using n prepared_iff by blast
  then have "state_of (q_close_parent q) t \<noteq> Some PREPARED" by (auto simp: state_of_append)
  then show ?thesis using Inl new by (simp add: state_of_None)
next
  case (Inr r)
  obtain won t' where r: "r = (won, t')" by (cases r)
  note p = Inr [unfolded r]
  have "t' = t" if "\<not> won" using p that by (auto elim: prepare_cases)
  then show ?thesis
    using state_after_prepare [OF ok p] parent by (auto simp: p)
qed

definition demo_child :: intent_request where
  "demo_child = demo_intent\<lparr>q_id := ''i2'', q_close_parent := ''i1''\<rparr>"

lemma resume_is_atomic_witness:
  "\<exists>t'. prepare_intent (\<lambda>t. t) 6 demo_child [new_intent (\<lambda>t. t) 5 demo_intent] = Inr (True, t')
     \<and> state_of ''i2'' t' = Some PREPARED \<and> state_of ''i1'' t' = Some ABORTED"
  using resume_is_atomic [of "[new_intent (\<lambda>t. t) 5 demo_intent]" demo_child "\<lambda>t. t" 6]
  by (simp add: prepare_intent_def insert_or_ignore_def demo_child_def demo_intent_def intents_ok_def Let_def
      rowcount_def is_prepared_def)

end
