(* ===== verification/Py_Decimal_Exact.thy ===== *)
theory Py_Decimal_Exact
  imports Py_Decimal
begin

text \<open>
  Where decimal arithmetic loses nothing: a value with at most 28 significant digits
  (\<open>representable\<close>) survives the context rounding, so sums, products and quotients
  with such a value are exact. \<open>decimals k x\<close> bounds the digits after the point and
  is closed under the operations; with a bound on the magnitude it gives
  \<open>representable\<close>.
\<close>

definition representable :: "rat \<Rightarrow> bool" where
  "representable x \<longleftrightarrow> (\<exists>m j. x = of_int m * 10 powi j \<and> \<bar>m\<bar> < 10 ^ context_prec)"

text \<open>\<open>decimals k x\<close>: at most \<open>k\<close> digits after the point.\<close>

definition decimals :: "nat \<Rightarrow> rat \<Rightarrow> bool" where
  "decimals k x \<longleftrightarrow> (\<exists>m :: int. x = of_int m / 10 ^ k)"

lemma fix_coeff_divisible:
  assumes n: "n = m * 10 ^ i" "m < 10 ^ context_prec" and f: "fix_coeff n = (q, k)"
  shows "q * 10 ^ k = n"
proof -
  define j where "j = ndigits n - context_prec"
  show ?thesis
  proof (cases "j = 0")
    case True
    then show ?thesis using f by (auto simp: fix_coeff_def j_def)
  next
    case False
    have D: "ndigits n = context_prec + j" using False by (simp add: j_def)
    have "0 < n" using False by (cases "n = 0") (auto simp: j_def ndigits_eval)
    then have low: "10 ^ (27 + j) \<le> n" using ndigits_bounds(2) [of n] False by (simp add: D)
    have "n < 10 ^ (context_prec + i)"
      using n by (simp only: power_add) simp
    with low have "(10 :: nat) ^ (27 + j) < 10 ^ (context_prec + i)" by (rule le_less_trans)
    then have "j \<le> i" by (simp only: power_strict_increasing_iff)
    then obtain c where c: "n = c * 10 ^ j"
      using n(1) by (metis add.commute le_add_diff_inverse2 mult.assoc power_add)
    have h: "half_even n (10 ^ j) = c" unfolding c by (simp add: half_even_def)
    have "c < 10 ^ context_prec"
    proof -
      have "c * 10 ^ j < 10 ^ context_prec * 10 ^ j"
        using ndigits_bounds(1) [of n] unfolding D c [symmetric] by (simp only: power_add)
      then show ?thesis by simp
    qed
    then have "\<not> context_prec < ndigits c" using ndigits_le [of c context_prec] by simp
    moreover have "fix_coeff n = (let q = half_even n (10 ^ j) in
        if context_prec < ndigits q then (q div 10, Suc j) else (q, j))"
      using False by (simp add: fix_coeff_def Let_def flip: j_def)
    ultimately have "(c, j) = (q, k)" using f unfolding h Let_def by simp
    then show ?thesis using c by simp
  qed
qed

lemma dfix_representable:
  assumes "representable (dval d)"
  shows "dval (dfix d) = dval d"
proof -
  obtain m j where mj: "dval d = of_int m * 10 powi j" "\<bar>m\<bar> < 10 ^ context_prec"
    using assms by (auto simp: representable_def)
  obtain q k where f: "fix_coeff (nat \<bar>coeff d\<bar>) = (q, k)" by fastforce
  have "q * 10 ^ k = nat \<bar>coeff d\<bar>"
  proof (cases "expo d \<le> j")
    case True
    define i where "i = nat (j - expo d)"
    have "(10 :: rat) powi j = 10 ^ i * 10 powi expo d"
      using True by (simp add: i_def pow_powi flip: power_int_add)
    then have "of_int (coeff d) = (of_int (m * 10 ^ i) :: rat)"
      using mj(1) by (simp add: dval_def)
    then have "coeff d = m * 10 ^ i" by (simp only: of_int_eq_iff)
    then have "nat \<bar>coeff d\<bar> = nat \<bar>m\<bar> * 10 ^ i" by (simp add: abs_mult nat_mult_distrib nat_power_eq)
    moreover have "nat \<bar>m\<bar> < 10 ^ context_prec" using mj(2) by simp
    ultimately show ?thesis using f by (rule fix_coeff_divisible)
  next
    case False
    define i where "i = nat (expo d - j)"
    have "(10 :: rat) powi expo d = 10 ^ i * 10 powi j"
      using False by (simp add: i_def pow_powi flip: power_int_add)
    then have "of_int m = (of_int (coeff d * 10 ^ i) :: rat)"
      using mj(1) by (simp add: dval_def)
    then have "m = coeff d * 10 ^ i" by (simp only: of_int_eq_iff)
    moreover have "\<bar>coeff d\<bar> * 1 \<le> \<bar>coeff d\<bar> * 10 ^ i" by (rule mult_left_mono) simp_all
    ultimately have "\<bar>coeff d\<bar> \<le> \<bar>m\<bar>" by (simp add: abs_mult)
    then have "nat \<bar>coeff d\<bar> < 10 ^ context_prec" using mj(2) by simp
    then show ?thesis using f by (simp add: fix_coeff_exact)
  qed
  then have "int q * 10 ^ k = \<bar>coeff d\<bar>" by (metis int_nat_eq of_nat_mult of_nat_numeral of_nat_power abs_ge_zero)
  then have "(of_nat q * 10 ^ k :: rat) = \<bar>of_int (coeff d)\<bar>"
    by (metis of_int_abs of_int_mult of_int_numeral of_int_of_nat_eq of_int_power)
  then have "dval (dfix d) = of_int (sgn (coeff d)) * \<bar>of_int (coeff d)\<bar> * 10 powi expo d"
    by (simp add: dfix_def f dval_def power_int_add)
  then show ?thesis by (simp add: dval_def sgn_if)
qed

lemma dadd_exact: "representable (dval a + dval b) \<Longrightarrow> dval (dadd a b) = dval a + dval b"
  by (simp add: dadd_def dfix_representable dval_dadd_raw)

lemma dsub_exact: "representable (dval a - dval b) \<Longrightarrow> dval (dsub a b) = dval a - dval b"
  by (simp add: dsub_def dadd_exact dval_dneg)

lemma dmul_exact: "representable (dval a * dval b) \<Longrightarrow> dval (dmul a b) = dval a * dval b"
  by (simp add: dmul_def dfix_representable dval_dmul_raw)

lemma ddiv_raw_exact:
  assumes b: "coeff b \<noteq> 0" and a: "coeff a \<noteq> 0"
    and t: "div_terms (nat \<bar>coeff a\<bar>) (nat \<bar>coeff b\<bar>) = (num, den, shift)"
    and dvd: "num mod den = 0"
  shows "dval (ddiv_raw a b) = dval a / dval b"
proof -
  define q where "q = num div den"
  have den: "0 < den" using div_terms_spec(1) [OF _ _ t] assms by simp
  obtain q' l where st: "strip_zeros q (nat shift) = (q', l)" by fastforce
  from strip_zeros_spec [OF st] have l: "l \<le> nat shift" "q' * 10 ^ (nat shift - l) = q" by auto
  have "ddiv_raw a b = Dec (sgn (coeff a) * sgn (coeff b) * int q')
      (expo a - expo b - shift + int (nat shift - l))"
    using assms st by (simp add: ddiv_raw_def Let_def q_def)
  then have raw: "dval (ddiv_raw a b) = of_int (sgn (coeff a) * sgn (coeff b)) *
      of_nat q * 10 powi (expo a - expo b - shift)"
    by (simp add: dval_def power_int_add flip: l(2))
  have "(of_nat q :: rat) = of_nat num / of_nat den"
    using den dvd by (auto simp: q_def field_simps simp flip: of_nat_mult)
  also have "\<dots> = \<bar>of_int (coeff a)\<bar> / \<bar>of_int (coeff b)\<bar> * 10 powi shift"
    using div_terms_spec(3) [OF _ _ t] assms by simp
  finally have "dval (ddiv_raw a b) = of_int (sgn (coeff a) * sgn (coeff b)) *
      (\<bar>of_int (coeff a)\<bar> / \<bar>of_int (coeff b)\<bar>) * (10 powi shift * 10 powi (expo a - expo b - shift))"
    by (simp add: raw)
  also have "(10 :: rat) powi shift * 10 powi (expo a - expo b - shift) = 10 powi (expo a - expo b)"
    by (simp flip: power_int_add)
  also have "(of_int (sgn (coeff a) * sgn (coeff b)) * (\<bar>of_int (coeff a)\<bar> / \<bar>of_int (coeff b)\<bar>) :: rat)
      = of_int (coeff a) / of_int (coeff b)"
    by (auto simp: sgn_if)
  finally show ?thesis by (simp add: dval_def power_int_diff)
qed

lemma ddiv_exact:
  assumes b: "coeff b \<noteq> 0" and r: "representable (dval a / dval b)"
  shows "\<exists>d. ddiv a b = Inr d \<and> dval d = dval a / dval b"
proof (cases "coeff a = 0")
  case True
  then show ?thesis using b by (simp add: ddiv_def ddiv_raw_def dfix_def dval_def split: prod.splits)
next
  case False
  obtain m j where mj: "dval a / dval b = of_int m * 10 powi j" "\<bar>m\<bar> < 10 ^ context_prec"
    using r by (auto simp: representable_def)
  obtain num den shift where
    t: "div_terms (nat \<bar>coeff a\<bar>) (nat \<bar>coeff b\<bar>) = (num, den, shift)"
    by (metis prod_cases3)
  note spec = div_terms_spec [OF _ _ t]
  have den: "0 < den" and big: "10 ^ context_prec * den \<le> num" using spec b False by auto
  define i where "i = j + expo b - expo a + shift"
  have ab: "\<bar>of_int (coeff a)\<bar> / \<bar>of_int (coeff b)\<bar> = \<bar>of_int m\<bar> * (10 :: rat) powi (j + expo b - expo a)"
  proof -
    define A where "A = (\<bar>of_int (coeff a)\<bar> / \<bar>of_int (coeff b)\<bar> :: rat)"
    have "\<bar>dval a / dval b\<bar> = \<bar>of_int m\<bar> * 10 powi j" by (simp add: mj(1) abs_mult)
    then have "A * 10 powi (expo a - expo b) = \<bar>of_int m\<bar> * 10 powi j"
      by (simp add: A_def dval_def abs_mult power_int_diff)
    then have "A * 10 powi (expo a - expo b) * 10 powi (expo b - expo a)
        = \<bar>of_int m\<bar> * 10 powi j * 10 powi (expo b - expo a)" by simp
    moreover have "(10 :: rat) powi (expo a - expo b) * 10 powi (expo b - expo a) = 1"
      by (simp flip: power_int_add)
    ultimately show ?thesis
      by (simp add: A_def mult.assoc) (simp add: power_int_diff power_int_add)
  qed
  have Q: "(of_nat num / of_nat den :: rat) = \<bar>of_int m\<bar> * 10 powi i"
  proof -
    have "(of_nat num / of_nat den :: rat) = \<bar>of_int (coeff a)\<bar> / \<bar>of_int (coeff b)\<bar> * 10 powi shift"
      using spec(3) b False by simp
    then show ?thesis unfolding ab i_def by (simp add: power_int_add)
  qed
  have "(of_nat (10 ^ context_prec * den) :: rat) \<le> of_nat num" using big by (simp only: of_nat_le_iff)
  then have "10 ^ context_prec \<le> (of_nat num / of_nat den :: rat)" using den by (simp add: field_simps)
  moreover have "(of_int \<bar>m\<bar> :: rat) < of_int (10 ^ context_prec)" using mj(2) by (simp only: of_int_less_iff)
  ultimately have "\<bar>of_int m\<bar> < \<bar>of_int m\<bar> * (10 :: rat) powi i" unfolding Q by simp
  then have "1 < (10 :: rat) powi i" by (cases "m = 0") auto
  moreover have "(10 :: rat) powi i \<le> 1" if "i < 0"
    using that by (simp add: power_int_def field_simps)
  ultimately have "0 \<le> i" by (meson not_le)
  then have "(of_nat num :: rat) = of_nat (nat \<bar>m\<bar> * 10 ^ nat i * den)"
    using Q den by (simp add: field_simps pow_powi)
  then have "num = nat \<bar>m\<bar> * 10 ^ nat i * den" by (simp only: of_nat_eq_iff)
  then have "num mod den = 0" by simp
  then have raw: "dval (ddiv_raw a b) = dval a / dval b" using ddiv_raw_exact [OF b False t] by simp
  then show ?thesis using b r dfix_representable [of "ddiv_raw a b"] by (simp add: ddiv_def)
qed

lemma decimals_representable:
  assumes "decimals k x" and "\<bar>x\<bar> * 10 ^ k < 10 ^ context_prec"
  shows "representable x"
proof -
  obtain m :: int where m: "x = of_int m / 10 ^ k" using assms(1) by (auto simp: decimals_def)
  then have "(of_int \<bar>m\<bar> :: rat) < of_int (10 ^ context_prec)" using assms(2) by (simp add: abs_divide)
  then have "\<bar>m\<bar> < 10 ^ context_prec" by (simp only: of_int_less_iff)
  moreover have "x = of_int m * 10 powi - int k" by (simp add: m power_int_minus field_simps)
  ultimately show ?thesis unfolding representable_def by blast
qed

lemma decimals_add: "decimals k x \<Longrightarrow> decimals k y \<Longrightarrow> decimals k (x + y)"
  unfolding decimals_def by (metis add_divide_distrib of_int_add)

lemma decimals_uminus: "decimals k x \<Longrightarrow> decimals k (- x)"
  unfolding decimals_def by (metis minus_divide_left of_int_minus)

lemma decimals_diff: "decimals k x \<Longrightarrow> decimals k y \<Longrightarrow> decimals k (x - y)"
  using decimals_add [OF _ decimals_uminus] by fastforce

lemma decimals_mult: "decimals k x \<Longrightarrow> decimals l y \<Longrightarrow> decimals (k + l) (x * y)"
  unfolding decimals_def by (metis of_int_mult power_add times_divide_times_eq)

lemma decimals_mono: "decimals k x \<Longrightarrow> k \<le> l \<Longrightarrow> decimals l x"
proof -
  assume "decimals k x" "k \<le> l"
  then obtain m :: int where m: "x = of_int m / 10 ^ k" by (auto simp: decimals_def)
  have "(10 :: rat) ^ l = 10 ^ k * 10 ^ (l - k)" using \<open>k \<le> l\<close> by (simp flip: power_add)
  then have "x = of_int (m * 10 ^ (l - k)) / 10 ^ l" by (simp add: m)
  then show ?thesis unfolding decimals_def by blast
qed

lemma decimals_int [simp]: "decimals k (of_int n)" "decimals k (of_nat i)" "decimals k (numeral w)"
  "decimals k 1" "decimals k 0"
proof -
  show *: "decimals k (of_int n)" for n
    unfolding decimals_def by (intro exI [of _ "n * 10 ^ k"]) simp
  show "decimals k (of_nat i)" "decimals k (numeral w)" "decimals k 1" "decimals k 0"
    using * [of "int i"] * [of "numeral w"] * [of 1] * [of 0] by simp_all
qed

lemma decimals_mult_int: "decimals k x \<Longrightarrow> decimals k (of_int n * x)"
  using decimals_mult [of 0 "of_int n" k x] by simp

lemma decimals_div_pow: "decimals k x \<Longrightarrow> decimals (k + j) (x / 10 ^ j)"
  unfolding decimals_def by (metis divide_divide_eq_left power_add)

lemma decimals_expo: "- int k \<le> expo d \<Longrightarrow> decimals k (dval d)"
proof -
  assume "- int k \<le> expo d"
  then have "(10 :: rat) powi expo d = 10 ^ nat (expo d + int k) / 10 ^ k"
    by (simp add: pow_powi power_int_add)
  then have "dval d = of_int (coeff d * 10 ^ nat (expo d + int k)) / 10 ^ k"
    by (simp add: dval_def)
  then show ?thesis unfolding decimals_def by blast
qed
end
