(* ===== verification/Models.thy ===== *)
theory Models
  imports Py_Value Py_Decimal_Exact
begin

text \<open>
  The shared enumerations of \<open>services/common/models.py\<close>, the bounded configuration
  helpers of \<open>services/common/config_bounds.py\<close>, the package interlock of
  \<open>services/execution_sidecar/package_mode.py\<close> and the client-order identifiers of
  \<open>services/execution_sidecar/client_ids.py\<close>. The process environment is a partial
  map from names to texts.
\<close>

datatype protection_mode = FIXED_OCO | TRAILING_ONLY | OCO_TRAILING

datatype execution_mode = SIMULATION | TESTNET | LIVE

datatype lifecycle =
    SIGNAL_APPROVED | ENTRY_SUBMITTED | ENTRY_PARTIALLY_FILLED | ENTRY_FILLED
  | PROTECTION_ACTIVE | BREAK_EVEN_ARMED | PROFIT_LOCKED | TRAILING_ACTIVE
  | EXIT_FILLED | ENTRY_REJECTED | AMBIGUOUS | RECONCILED | LC_ERROR

fun mode_value :: "protection_mode \<Rightarrow> string" where
  "mode_value FIXED_OCO = ''FIXED_OCO''"
| "mode_value TRAILING_ONLY = ''TRAILING_ONLY''"
| "mode_value OCO_TRAILING = ''OCO_TRAILING''"

definition mode_of :: "string \<Rightarrow> protection_mode option" where
  "mode_of s = (if s = ''FIXED_OCO'' then Some FIXED_OCO
     else if s = ''TRAILING_ONLY'' then Some TRAILING_ONLY
     else if s = ''OCO_TRAILING'' then Some OCO_TRAILING else None)"

fun lc_value :: "lifecycle \<Rightarrow> string" where
  "lc_value SIGNAL_APPROVED = ''SIGNAL_APPROVED''"
| "lc_value ENTRY_SUBMITTED = ''ENTRY_SUBMITTED''"
| "lc_value ENTRY_PARTIALLY_FILLED = ''ENTRY_PARTIALLY_FILLED''"
| "lc_value ENTRY_FILLED = ''ENTRY_FILLED''"
| "lc_value PROTECTION_ACTIVE = ''PROTECTION_ACTIVE''"
| "lc_value BREAK_EVEN_ARMED = ''BREAK_EVEN_ARMED''"
| "lc_value PROFIT_LOCKED = ''PROFIT_LOCKED''"
| "lc_value TRAILING_ACTIVE = ''TRAILING_ACTIVE''"
| "lc_value EXIT_FILLED = ''EXIT_FILLED''"
| "lc_value ENTRY_REJECTED = ''ENTRY_REJECTED''"
| "lc_value AMBIGUOUS = ''AMBIGUOUS''"
| "lc_value RECONCILED = ''RECONCILED''"
| "lc_value LC_ERROR = ''ERROR''"

definition all_lifecycles :: "lifecycle list" where
  "all_lifecycles = [SIGNAL_APPROVED, ENTRY_SUBMITTED, ENTRY_PARTIALLY_FILLED, ENTRY_FILLED,
     PROTECTION_ACTIVE, BREAK_EVEN_ARMED, PROFIT_LOCKED, TRAILING_ACTIVE, EXIT_FILLED, ENTRY_REJECTED,
     AMBIGUOUS, RECONCILED, LC_ERROR]"

definition lc_of :: "string \<Rightarrow> lifecycle option" where
  "lc_of s = List.find (\<lambda>l. lc_value l = s) all_lifecycles"

lemma lc_of_value [simp]: "lc_of (lc_value l) = Some l"
  by (cases l) (simp_all add: lc_of_def all_lifecycles_def)

lemma lc_of_Some: "lc_of s = Some l \<Longrightarrow> s = lc_value l"
  by (auto simp: lc_of_def dest: find_Some_set)

lemma lc_value_inj [simp]: "lc_value a = lc_value b \<longleftrightarrow> a = b"
  by (metis lc_of_value option.inject)

fun execution_value :: "execution_mode \<Rightarrow> string" where
  "execution_value SIMULATION = ''simulation''"
| "execution_value TESTNET = ''testnet''"
| "execution_value LIVE = ''live''"

lemma mode_of_value [simp]: "mode_of (mode_value m) = Some m"
  by (cases m) (simp_all add: mode_of_def)

lemma mode_of_Some: "mode_of s = Some m \<longleftrightarrow> s = mode_value m"
  by (cases m) (auto simp: mode_of_def)

subsection \<open>Bounded configuration\<close>

type_synonym environ = "string \<Rightarrow> string option"

datatype config_error = ConfigError string

definition blank :: "string option \<Rightarrow> bool" where
  "blank raw = (case raw of None \<Rightarrow> True | Some s \<Rightarrow> strip s = [])"

definition env_int :: "environ \<Rightarrow> string \<Rightarrow> int \<Rightarrow> int \<Rightarrow> int \<Rightarrow> config_error + int" where
  "env_int env name dflt minimum maximum =
     bindE (if blank (env name) then Inr dflt
            else of_option (ConfigError name) (parse_int (strip (the (env name))))) (\<lambda>value.
     if minimum \<le> value \<and> value \<le> maximum then Inr value else Inl (ConfigError name))"

text \<open>
  \<open>env_float\<close>: the number the text denotes; a NaN or an infinity is refused before
  the bounds are looked at.
\<close>

definition env_float :: "environ \<Rightarrow> string \<Rightarrow> dec \<Rightarrow> dec \<Rightarrow> dec \<Rightarrow> config_error + dec" where
  "env_float env name dflt minimum maximum =
     bindE (if blank (env name) then Inr (Fin dflt)
            else of_option (ConfigError name) (parse_dec (strip (the (env name))))) (\<lambda>value.
     case value of
       Fin d \<Rightarrow> if dle minimum d \<and> dle d maximum then Inr d else Inl (ConfigError name)
     | _ \<Rightarrow> Inl (ConfigError name))"

definition env_choice :: "environ \<Rightarrow> string \<Rightarrow> string \<Rightarrow> string list \<Rightarrow> config_error + string" where
  "env_choice env name dflt choices =
     (let raw = (case env name of None \<Rightarrow> dflt | Some s \<Rightarrow> if s = [] then dflt else s);
          value = lower (strip raw) in
      if value \<in> set (map lower choices) then Inr value else Inl (ConfigError name))"

text \<open>A configured value is inside its bounds, whatever the environment holds.\<close>

lemma env_int_bounds: "env_int env name d lo hi = Inr v \<Longrightarrow> lo \<le> v \<and> v \<le> hi"
  by (auto simp: env_int_def bindE_Inr_iff split: if_splits)

lemma env_float_bounds:
  assumes "env_float env name d lo hi = Inr v"
  shows "dval lo \<le> dval v \<and> dval v \<le> dval hi"
proof -
  obtain x where "(case x of Fin d \<Rightarrow> if dle lo d \<and> dle d hi then Inr d else Inl (ConfigError name)
      | _ \<Rightarrow> Inl (ConfigError name)) = Inr v"
    using assms unfolding env_float_def bindE_Inr_iff by blast
  then show ?thesis by (cases x) (auto simp: dle_iff split: if_splits)
qed

lemma env_choice_member: "env_choice env name d cs = Inr v \<Longrightarrow> v \<in> set (map lower cs)"
  by (auto simp: env_choice_def Let_def split: if_splits)

subsection \<open>Package mode\<close>

text \<open>
  \<open>RELEASE_MODE\<close> is the text of the file, \<open>None\<close> where it cannot be read. Every
  refusal is a \<open>SystemExit\<close>.
\<close>

datatype package_exit = ReleaseModeUnreadable | ReleaseModeInvalid | LiveBlocked | ModeNotPermitted

definition allowed_execution_modes :: "string \<Rightarrow> string list" where
  "allowed_execution_modes package =
     (if package = ''live'' then [''live'', ''simulation'']
      else if package = ''testnet'' then [''testnet'', ''simulation''] else [])"

definition load_package_mode :: "string option \<Rightarrow> package_exit + string" where
  "load_package_mode file =
     bindE (of_option ReleaseModeUnreadable file) (\<lambda>text.
     let mode = lower (strip text) in
     if mode \<in> set [''live'', ''testnet''] then Inr mode else Inl ReleaseModeInvalid)"

definition enforce_package_mode :: "string \<Rightarrow> string option \<Rightarrow> package_exit + string" where
  "enforce_package_mode execution_mode file =
     bindE (load_package_mode file) (\<lambda>package.
     let execution = lower (strip execution_mode) in
     if execution \<notin> set (allowed_execution_modes package)
     then Inl (if package = ''testnet'' \<and> execution = ''live'' then LiveBlocked else ModeNotPermitted)
     else Inr package)"

lemma enforce_package_mode_Inr:
  "enforce_package_mode m f = Inr p \<longleftrightarrow>
     load_package_mode f = Inr p \<and> lower (strip m) \<in> set (allowed_execution_modes p)"
  by (auto simp: enforce_package_mode_def bindE_Inr_iff Let_def split: if_splits)

subsection \<open>Client-order identifiers\<close>

text \<open>
  The clock and the random part are arguments; the counter wraps at 16 bits. The source
  formats the stamp with 8 hexadecimal digits, the counter with 4 and appends the 12
  digits of the random part, then cuts the whole at 36 characters.
\<close>

record client_ids =
  cid_prefix :: string
  cid_counter :: int

definition safe_label :: "string \<Rightarrow> bool" where
  "safe_label s \<longleftrightarrow> 1 \<le> length s \<and> length s \<le> 12 \<and>
     list_all (\<lambda>c. is_upper_alnum c \<or> c = CHR ''_'' \<or> c = CHR ''-'') s"

datatype id_error = BadPrefix | BadRole

definition client_ids_init :: "string \<Rightarrow> id_error + client_ids" where
  "client_ids_init prefix = (let p = upper prefix in
     if safe_label p then Inr \<lparr>cid_prefix = p, cid_counter = 0\<rparr> else Inl BadPrefix)"

definition upper_hex :: "nat \<Rightarrow> char" where
  "upper_hex n = (if n < 10 then char_of (48 + n) else char_of (55 + n))"

fun hex_fixed :: "nat \<Rightarrow> nat \<Rightarrow> string" where
  "hex_fixed 0 n = []"
| "hex_fixed (Suc w) n = hex_fixed w (n div 16) @ [upper_hex (n mod 16)]"

definition new_client_id :: "client_ids \<Rightarrow> string \<Rightarrow> nat \<Rightarrow> string \<Rightarrow> id_error + string \<times> client_ids" where
  "new_client_id s role time_ns random_part =
     (let r = upper role in
      if \<not> safe_label r then Inl BadRole
      else let counter = (cid_counter s + 1) mod 65536; stamp = time_ns mod 4294967296;
               value = cid_prefix s @ ''-'' @ r @ ''-'' @ hex_fixed 8 stamp @ hex_fixed 4 (nat counter)
                 @ upper random_part in
        Inr (take 36 value, s\<lparr>cid_counter := counter\<rparr>))"

definition looks_owned :: "string \<Rightarrow> string \<Rightarrow> bool" where
  "looks_owned value prefix = starts_with (upper prefix @ ''-'') value"

lemma length_hex_fixed [simp]: "length (hex_fixed w n) = w"
  by (induction w arbitrary: n) auto

text \<open>An identifier fits Binance's 36 characters and starts with the owner's prefix.\<close>

lemma new_client_id_owned:
  assumes "client_ids_init prefix = Inr s0" and "cid_prefix s = cid_prefix s0"
    and "new_client_id s role t rnd = Inr (v, s')"
  shows "length v \<le> 36 \<and> looks_owned v prefix \<and> cid_prefix s' = cid_prefix s"
proof -
  have p: "cid_prefix s = upper prefix" "length (upper prefix) \<le> 12"
    using assms by (auto simp: client_ids_init_def safe_label_def Let_def split: if_splits)
  then show ?thesis using assms(3)
    by (auto simp: new_client_id_def looks_owned_def starts_with_def Let_def split: if_splits)
qed

subsection \<open>Guarantees\<close>

lemma of_char_small: "m < 256 \<Longrightarrow> (of_char (char_of m :: char) :: nat) = m"
  unfolding of_char_of by (rule mod_less)

lemma upper_hex_inj:
  assumes "a < 16" "b < 16" "upper_hex a = upper_hex b"
  shows "a = b"
proof -
  have v: "(of_char (upper_hex n) :: nat) = (if n < 10 then 48 + n else 55 + n)" if "n < 16" for n
  proof (cases "n < 10")
    case True
    then have "48 + n < 256" by linarith
    from of_char_small [OF this] True show ?thesis unfolding upper_hex_def by (simp only: if_True)
  next
    case False
    from that have "55 + n < 256" by linarith
    from of_char_small [OF this] False show ?thesis unfolding upper_hex_def by (simp only: if_False)
  qed
  have "(if a < 10 then 48 + a else 55 + a) = (if b < 10 then 48 + b else 55 + b)"
    using v [OF assms(1)] v [OF assms(2)] assms(3) by metis
  then show ?thesis by (simp split: if_splits)
qed

lemma hex_fixed_inj: "a < 16 ^ w \<Longrightarrow> b < 16 ^ w \<Longrightarrow> hex_fixed w a = hex_fixed w b \<Longrightarrow> a = b"
proof (induction w arbitrary: a b)
  case (Suc w)
  have "a div 16 < 16 ^ w" "b div 16 < 16 ^ w" using Suc.prems by (simp_all add: less_mult_imp_div_less)
  then have "a div 16 = b div 16" using Suc by simp
  moreover have "a mod 16 = b mod 16" using Suc.prems(3) by (auto intro: upper_hex_inj)
  ultimately show ?case by (metis div_mult_mod_eq)
qed simp

text \<open>Client-order identifiers fit Binance's 36 characters and carry the owner's prefix; when
  prefix and role leave room for stamp and counter (22 characters in all), identifiers of one role
  drawn at different counter values are different whatever clock and random part they use.\<close>

theorem client_ids_distinct:
  assumes "client_ids_init prefix = Inr s0" "cid_prefix s = cid_prefix s0" "cid_prefix s' = cid_prefix s0"
    and "new_client_id s role t r = Inr (v, s1)" "new_client_id s' role t' r' = Inr (v', s1')"
  shows "length v \<le> 36 \<and> looks_owned v prefix
    \<and> (length prefix + length role \<le> 22 \<and> cid_counter s1 \<noteq> cid_counter s1' \<longrightarrow> v \<noteq> v')"
proof -
  have own: "length v \<le> 36 \<and> looks_owned v prefix" using new_client_id_owned assms by blast
  have p: "cid_prefix s0 = upper prefix" using assms(1) by (auto simp: client_ids_init_def Let_def split: if_splits)
  define pre where "pre = upper prefix @ ''-'' @ upper role @ ''-''"
  have v: "v = take 36 (pre @ hex_fixed 8 (t mod 4294967296) @ hex_fixed 4 (nat (cid_counter s1)) @ upper r)"
    and v': "v' = take 36 (pre @ hex_fixed 8 (t' mod 4294967296) @ hex_fixed 4 (nat (cid_counter s1')) @ upper r')"
    and c: "0 \<le> cid_counter s1" "cid_counter s1 < 65536" "0 \<le> cid_counter s1'" "cid_counter s1' < 65536"
    using assms p by (auto simp: new_client_id_def Let_def pre_def split: if_splits)
  have "v \<noteq> v'" if l: "length prefix + length role \<le> 22" and n: "cid_counter s1 \<noteq> cid_counter s1'"
  proof
    assume eq: "v = v'"
    have lp: "length pre \<le> 24" "length pre = length prefix + length role + 2" using l by (simp_all add: pre_def)
    have "take 4 (drop (length pre + 8) v) = hex_fixed 4 (nat (cid_counter s1))"
      using lp by (simp add: v take_drop drop_take min_def)
    moreover have "take 4 (drop (length pre + 8) v') = hex_fixed 4 (nat (cid_counter s1'))"
      using lp by (simp add: v' take_drop drop_take min_def)
    ultimately have "hex_fixed 4 (nat (cid_counter s1)) = hex_fixed 4 (nat (cid_counter s1'))" using eq by simp
    then have "nat (cid_counter s1) = nat (cid_counter s1')" using c by (intro hex_fixed_inj) simp_all
    then show False using c n by simp
  qed
  then show ?thesis using own by blast
qed

lemma client_ids_distinct_witness:
  "\<exists>v v' s1 s2. new_client_id \<lparr>cid_prefix = ''BTCB'', cid_counter = 0\<rparr> ''TP'' 5 ''00ff00ff00ff'' = Inr (v, s1)
    \<and> new_client_id s1 ''TP'' 5 ''00ff00ff00ff'' = Inr (v', s2) \<and> v \<noteq> v' \<and> looks_owned v ''BTCB''"
proof -
  let ?s = "\<lparr>cid_prefix = ''BTCB'', cid_counter = 0\<rparr>"
  have i: "client_ids_init ''BTCB'' = Inr ?s" by code_simp
  have ok: "safe_label (upper ''TP'')" by code_simp
  have "\<exists>v s1. new_client_id ?s ''TP'' 5 ''00ff00ff00ff'' = Inr (v, s1) \<and> cid_counter s1 = 1 \<and> cid_prefix s1 = ''BTCB''"
    using ok by (simp add: new_client_id_def Let_def)
  then obtain v s1 where 1: "new_client_id ?s ''TP'' 5 ''00ff00ff00ff'' = Inr (v, s1)" "cid_counter s1 = 1" "cid_prefix s1 = ''BTCB''"
    by blast
  have "\<exists>v s2. new_client_id s1 ''TP'' 5 ''00ff00ff00ff'' = Inr (v, s2) \<and> cid_counter s2 = 2"
    using ok 1 by (simp add: new_client_id_def Let_def)
  then obtain v' s2 where 2: "new_client_id s1 ''TP'' 5 ''00ff00ff00ff'' = Inr (v', s2)" "cid_counter s2 = 2" by blast
  show ?thesis using client_ids_distinct [OF i _ _ 1(1) 2(1)] 1 2 by auto
qed

text \<open>The testnet package never admits live execution, and every admitted mode is one the package
  lists, whatever the release file and the configured mode contain.\<close>

theorem package_interlock:
  "case enforce_package_mode m file of
     Inr p \<Rightarrow> p \<in> {''live'', ''testnet''} \<and> lower (strip m) \<in> {p, ''simulation''}
   | Inl e \<Rightarrow> (load_package_mode file = Inr ''testnet'' \<and> lower (strip m) = ''live'') = (e = LiveBlocked)"
proof (cases "load_package_mode file")
  case (Inl e)
  then show ?thesis by (auto simp: enforce_package_mode_def load_package_mode_def bindE_Inl_iff Let_def split: if_splits)
next
  case (Inr p)
  have p: "p \<in> {''live'', ''testnet''}" using Inr by (auto simp: load_package_mode_def bindE_Inr_iff Let_def split: if_splits)
  then show ?thesis
  proof
    assume "p = ''live''"
    then show ?thesis by (simp add: enforce_package_mode_def allowed_execution_modes_def Inr Let_def)
  next
    assume "p \<in> {''testnet''}"
    then show ?thesis by (simp add: enforce_package_mode_def allowed_execution_modes_def Inr Let_def)
  qed
qed

end
