(* ===== verification/State_Store.thy ===== *)
theory State_Store
  imports Intents Models
begin

text \<open>
  The execution state of \<open>services/execution_sidecar/state_store.py\<close>: the JSON settings
  file, the tables of processed signals and commands, the authoritative risk state, the
  trade records and the exchange events applied to them (the order intents are in
  \<open>Intents\<close>). A transaction that raises is rolled back, so a refused operation returns
  no new store. \<open>now\<close> is the integer clock of the call; timestamps are only compared.
\<close>

datatype store_error =
    UnsupportedSchema | LegacyStateMissing | CannotMigrate | ReadBackMismatch | RiskRowMissing
  | RiskChecksum | RiskMalformed | RiskUninitialized | BadMode | BadPairMapping | NoPairMapping
  | NotNullColumn | Unbindable

subsection \<open>Rows\<close>

record trade_row =
  t_id :: string
  t_pair :: string
  t_updated :: int
  t_cols :: "string \<Rightarrow> pyval"

record processed_row =
  p_key :: string
  p_what :: string
  p_candle :: pyval
  p_result :: string
  p_at :: int

record event_row =
  e_key :: string
  e_type :: string
  e_symbol :: pyval
  e_order :: pyval
  e_list :: pyval
  e_commission_asset :: pyval
  e_commission :: pyval
  e_time :: string
  e_payload :: pydict

record store =
  st_data :: pydict
  st_version :: int
  st_risk :: "(string \<times> string) option"
  st_migration :: "string option option"
  st_signals :: "processed_row list"
  st_commands :: "processed_row list"
  st_trades :: "trade_row list"
  st_events :: "event_row list"
  st_intents :: intents

subsection \<open>Opening and the settings file\<close>

definition set_default :: "string \<Rightarrow> pyval \<Rightarrow> pydict \<Rightarrow> pydict" where
  "set_default k v d = (if k \<in> fst ` set d then d else d @ [(k, v)])"

definition default_data :: "pydict \<Rightarrow> pydict" where
  "default_data d =
     set_default ''symbol_pairs'' (PDict [])
     (set_default ''last_reconciliation_status'' (PStr ''NOT_RUN'')
     (set_default ''pause_reason'' (PStr ''startup-safe-default'')
     (set_default ''simulation'' (PBool True)
     (set_default ''entries_enabled'' (PBool False)
     (set_default ''protection_mode'' (PStr (mode_value OCO_TRAILING)) d)))))"

text \<open>\<open>__init__\<close> on a database that passed the integrity check; a new one has version 0.\<close>

definition open_store :: "store \<Rightarrow> store_error + store" where
  "open_store s =
     (if st_version s \<notin> {0, 1, 2} then Inl UnsupportedSchema
      else Inr (s\<lparr>st_data := default_data (st_data s),
                  st_version := (if st_version s = 0 then 1 else st_version s)\<rparr>))"

definition get_mode :: "store \<Rightarrow> string" where
  "get_mode s = pstr (get_or (st_data s) ''protection_mode'' (PStr (mode_value OCO_TRAILING)))"

definition set_mode :: "string \<Rightarrow> store \<Rightarrow> store_error + store" where
  "set_mode m s = bindE (of_option BadMode (mode_of m)) (\<lambda>mode.
     Inr (s\<lparr>st_data := alist_put ''protection_mode'' (PStr (mode_value mode)) (st_data s)\<rparr>))"

definition entries_on :: "store \<Rightarrow> bool" where
  "entries_on s = truthy (get_or (st_data s) ''entries_enabled'' (PBool False))"

definition set_entries :: "bool \<Rightarrow> string \<Rightarrow> store \<Rightarrow> store" where
  "set_entries value reason s =
     s\<lparr>st_data := alist_put ''pause_reason''
         (PStr (if value then [] else if reason = [] then ''operator-paused'' else reason))
         (alist_put ''entries_enabled'' (PBool value) (st_data s))\<rparr>"

definition register_symbol_pair :: "string \<Rightarrow> string \<Rightarrow> store \<Rightarrow> store_error + store" where
  "register_symbol_pair symbol pair s =
     (let sym = upper symbol; p = upper pair in
      if sym = [] \<or> CHR ''/'' \<notin> set p \<or> remove_char (CHR ''/'') p \<noteq> sym then Inl BadPairMapping
      else Inr (s\<lparr>st_data := alist_put ''symbol_pairs''
             (PDict (alist_put sym (PStr p) (items (get (st_data s) ''symbol_pairs'')))) (st_data s)\<rparr>))"

definition pair_for_symbol :: "string \<Rightarrow> store \<Rightarrow> store_error + string" where
  "pair_for_symbol symbol s =
     (let pair = pstr (get_or (items (get (st_data s) ''symbol_pairs'')) (upper symbol) (PStr [])) in
      if pair = [] then Inl NoPairMapping else Inr pair)"

subsection \<open>Processed signals and commands\<close>

record signal_ref =
  sig_id :: string
  sig_pair :: string
  sig_candle :: pyval

definition processed :: "int \<Rightarrow> string \<Rightarrow> string \<Rightarrow> pyval \<Rightarrow> string \<Rightarrow> processed_row" where
  "processed now key what candle result =
     \<lparr>p_key = key, p_what = what, p_candle = candle, p_result = result, p_at = now\<rparr>"

definition result_of :: "string \<Rightarrow> processed_row list \<Rightarrow> string option" where
  "result_of key rows = map_option p_result (row_with p_key key rows)"

definition signal_result :: "string \<Rightarrow> store \<Rightarrow> string option" where
  "signal_result key s = result_of key (st_signals s)"

definition signal_seen :: "string \<Rightarrow> store \<Rightarrow> bool" where
  "signal_seen key s \<longleftrightarrow> signal_result key s \<noteq> None"

definition claim_signal :: "int \<Rightarrow> signal_ref \<Rightarrow> store \<Rightarrow> bool \<times> store" where
  "claim_signal now sig s =
     (let (rows, won) = insert_or_ignore p_key
            (processed now (sig_id sig) (sig_pair sig) (sig_candle sig) ''IN_PROGRESS'') (st_signals s) in
      (won, s\<lparr>st_signals := rows\<rparr>))"

definition record_signal :: "int \<Rightarrow> signal_ref \<Rightarrow> string \<Rightarrow> store \<Rightarrow> store" where
  "record_signal now sig result s =
     s\<lparr>st_signals := insert_or_update p_key (\<lambda>r. r\<lparr>p_result := result, p_at := now\<rparr>)
         (processed now (sig_id sig) (sig_pair sig) (sig_candle sig) result) (st_signals s)\<rparr>"

definition command_result :: "string \<Rightarrow> store \<Rightarrow> string option" where
  "command_result key s = result_of key (st_commands s)"

definition command_seen :: "string \<Rightarrow> store \<Rightarrow> bool" where
  "command_seen key s \<longleftrightarrow> command_result key s \<noteq> None"

definition claim_command :: "int \<Rightarrow> string \<Rightarrow> string \<Rightarrow> store \<Rightarrow> bool \<times> store" where
  "claim_command now key command s =
     (let (rows, won) = insert_or_ignore p_key (processed now key command PNone ''IN_PROGRESS'') (st_commands s) in
      (won, s\<lparr>st_commands := rows\<rparr>))"

definition record_command :: "int \<Rightarrow> string \<Rightarrow> string \<Rightarrow> string \<Rightarrow> store \<Rightarrow> store" where
  "record_command now key command result s =
     s\<lparr>st_commands := insert_or_update p_key (\<lambda>r. r\<lparr>p_result := result, p_at := now\<rparr>)
         (processed now key command PNone result) (st_commands s)\<rparr>"

subsection \<open>The authoritative risk state\<close>

text \<open>
  \<open>sha256\<close> is the digest and \<open>loads\<close> is \<open>json.loads\<close> restricted to mappings
  (\<open>None\<close> where the text is malformed or not a mapping).
\<close>

definition read_risk_guard_state ::
  "(string \<Rightarrow> string) \<Rightarrow> (string \<Rightarrow> pydict option) \<Rightarrow> store \<Rightarrow> store_error + pydict" where
  "read_risk_guard_state sha256 loads s = (case st_risk s of
       None \<Rightarrow> Inl RiskRowMissing
     | Some (text, digest) \<Rightarrow>
         if sha256 text \<noteq> digest then Inl RiskChecksum else of_option RiskMalformed (loads text))"

definition risk_guard_state ::
  "(string \<Rightarrow> string) \<Rightarrow> (string \<Rightarrow> pydict option) \<Rightarrow> store \<Rightarrow> store_error + pydict" where
  "risk_guard_state sha256 loads s =
     (if st_version s \<noteq> 2 then Inl RiskUninitialized else read_risk_guard_state sha256 loads s)"

definition save_risk_guard_state :: "(string \<Rightarrow> string) \<Rightarrow> pydict \<Rightarrow> store \<Rightarrow> store_error + store" where
  "save_risk_guard_state sha256 payload s =
     (let text = json_dumps (PDict payload) in
      if st_version s \<noteq> 2 then Inl RiskUninitialized
      else if st_risk s = None then Inl RiskRowMissing
      else Inr (s\<lparr>st_risk := Some (text, sha256 text)\<rparr>))"

definition initialize_risk_guard_state ::
  "(string \<Rightarrow> string) \<Rightarrow> (string \<Rightarrow> pydict option) \<Rightarrow> pydict \<Rightarrow> string option \<Rightarrow> bool \<Rightarrow> store \<Rightarrow>
   store_error + pydict \<times> store" where
  "initialize_risk_guard_state sha256 loads payload source allow_new s =
     (if source = None \<and> \<not> allow_new then Inl LegacyStateMissing
      else if st_version s = 2 then
        bindE (read_risk_guard_state sha256 loads s) (\<lambda>p. Inr (p, s))
      else if st_version s \<noteq> 1 then Inl CannotMigrate
      else let text = json_dumps (PDict payload);
               s' = s\<lparr>st_risk := Some (text, sha256 text), st_migration := Some source, st_version := 2\<rparr> in
        bindE (read_risk_guard_state sha256 loads s') (\<lambda>restored.
        if restored \<noteq> payload then Inl ReadBackMismatch else Inr (restored, s')))"

definition risk_guard_migration :: "store \<Rightarrow> string option option" where
  "risk_guard_migration s = (if st_version s < 2 then None else st_migration s)"

subsection \<open>Trade records\<close>

definition int_columns :: "string list" where
  "int_columns = [''entry_order_id'', ''order_list_id'', ''take_profit_order_id'', ''stop_order_id'',
     ''trailing_delta'']"

definition trade_columns :: "string list" where
  "trade_columns = [''lifecycle_state'', ''entry_client_order_id'', ''entry_submitted_at'', ''entry_order_id'',
     ''order_list_id'', ''take_profit_order_id'', ''stop_order_id'', ''filled_quantity'', ''protected_quantity'',
     ''average_entry_price'', ''protection_mode'', ''trailing_delta'', ''commission_asset'',
     ''last_exchange_event_id'', ''last_event_time'', ''reconciliation_status'']"

text \<open>Column affinity: what SQLite stores and compares in an INTEGER and in a TEXT column.\<close>

definition int_affinity :: "pyval \<Rightarrow> pyval" where
  "int_affinity v = (case v of
       PStr t \<Rightarrow> (case parse_int t of Some i \<Rightarrow> PInt i | None \<Rightarrow> v)
     | PBool b \<Rightarrow> PInt (if b then 1 else 0)
     | _ \<Rightarrow> v)"

definition text_affinity :: "pyval \<Rightarrow> pyval" where
  "text_affinity v = (case v of
       PInt i \<Rightarrow> PStr (int_text i)
     | PBool b \<Rightarrow> PStr (if b then ''1'' else ''0'')
     | PFloat (Fin d) \<Rightarrow> PStr (dec_str d)
     | _ \<Rightarrow> v)"

definition stored :: "string \<Rightarrow> pyval \<Rightarrow> pyval" where
  "stored col v = (if col \<in> set int_columns then int_affinity v else text_affinity v)"

fun bindable :: "pyval \<Rightarrow> bool" where
  "bindable (PList _) = False"
| "bindable (PDict _) = False"
| "bindable (PInt i) = (- (2 ^ 63) \<le> i \<and> i < 2 ^ 63)"
| "bindable _ = True"

fun set_columns :: "pydict \<Rightarrow> (string \<Rightarrow> pyval) \<Rightarrow> (string \<Rightarrow> pyval)" where
  "set_columns [] cols = cols"
| "set_columns ((c, v) # kvs) cols = set_columns kvs (cols(c := stored c v))"

definition lifecycle_of :: "trade_row \<Rightarrow> string" where
  "lifecycle_of r = pstr (t_cols r ''lifecycle_state'')"

definition terminal_lifecycles :: "string list" where
  "terminal_lifecycles = [lc_value EXIT_FILLED, lc_value ENTRY_REJECTED]"

text \<open>
  \<open>upsert_trade\<close>: unknown fields are dropped; a new row starts as SIGNAL_APPROVED, and
  an existing row keeps its lifecycle unless the caller names one.
\<close>

definition upsert_trade :: "int \<Rightarrow> string \<Rightarrow> string \<Rightarrow> pydict \<Rightarrow> store \<Rightarrow> store_error + store" where
  "upsert_trade now tid pair given s =
     (let clean = List.filter (\<lambda>(k, v). k \<in> set trade_columns) given;
          full = set_default ''lifecycle_state'' (PStr (lc_value SIGNAL_APPROVED)) clean in
      if \<not> list_all (\<lambda>(k, v). bindable v) full then Inl Unbindable
      else if get full ''lifecycle_state'' = PNone then Inl NotNullColumn
      else Inr (s\<lparr>st_trades := insert_or_update t_id
             (\<lambda>r. r\<lparr>t_updated := now, t_cols := set_columns clean (t_cols r)\<rparr>)
             \<lparr>t_id = tid, t_pair = pair, t_updated = now, t_cols = set_columns full (\<lambda>_. PNone)\<rparr>
             (st_trades s)\<rparr>))"

definition trade :: "string \<Rightarrow> store \<Rightarrow> trade_row option" where
  "trade tid s = row_with t_id tid (st_trades s)"

definition active_trade_rows :: "store \<Rightarrow> trade_row list" where
  "active_trade_rows s = sort_key t_updated
     (List.filter (\<lambda>r. lifecycle_of r \<notin> set terminal_lifecycles) (st_trades s))"

text \<open>\<open>ORDER BY updated_at DESC LIMIT 1\<close>.\<close>

fun newest :: "trade_row list \<Rightarrow> trade_row option" where
  "newest [] = None"
| "newest (r # rs) = (case newest rs of
     None \<Rightarrow> Some r | Some r' \<Rightarrow> if t_updated r' \<le> t_updated r then Some r else Some r')"

definition active_trade_id :: "string \<Rightarrow> store \<Rightarrow> string option" where
  "active_trade_id pair s = map_option t_id (newest
     (List.filter (\<lambda>r. t_pair r = pair \<and> lifecycle_of r \<notin> set terminal_lifecycles) (st_trades s)))"

definition active_trade_for_symbol :: "string \<Rightarrow> store \<Rightarrow> store_error + trade_row option" where
  "active_trade_for_symbol symbol s = bindE (pair_for_symbol symbol s) (\<lambda>pair.
     case active_trade_id pair s of
       None \<Rightarrow> Inr None
     | Some tid \<Rightarrow> if tid = [] then Inr None else Inr (trade tid s))"

definition average_entry_price_for_symbol :: "string \<Rightarrow> store \<Rightarrow> store_error + pydec option" where
  "average_entry_price_for_symbol symbol s = bindE (pair_for_symbol symbol s) (\<lambda>pair.
     case newest (List.filter (\<lambda>r. t_pair r = pair) (st_trades s)) of
       None \<Rightarrow> Inr None
     | Some r \<Rightarrow> (let v = t_cols r ''average_entry_price'' in
         if v = PNone \<or> v = PStr [] then Inr None else Inr (to_dec v)))"

subsection \<open>Exchange events\<close>

definition lc_rank :: "lifecycle \<Rightarrow> int" where
  "lc_rank l = (case l of
     SIGNAL_APPROVED \<Rightarrow> 0 | ENTRY_SUBMITTED \<Rightarrow> 1 | ENTRY_PARTIALLY_FILLED \<Rightarrow> 2 | ENTRY_FILLED \<Rightarrow> 3
   | RECONCILED \<Rightarrow> 4 | PROTECTION_ACTIVE \<Rightarrow> 5 | BREAK_EVEN_ARMED \<Rightarrow> 6 | PROFIT_LOCKED \<Rightarrow> 7
   | TRAILING_ACTIVE \<Rightarrow> 8 | EXIT_FILLED \<Rightarrow> 9 | ENTRY_REJECTED \<Rightarrow> 9 | AMBIGUOUS \<Rightarrow> 10 | LC_ERROR \<Rightarrow> 10)"

definition state_rank :: "string \<Rightarrow> int" where
  "state_rank s = (case lc_of s of None \<Rightarrow> -1 | Some l \<Rightarrow> lc_rank l)"

text \<open>\<open>a if a is not None else b\<close>.\<close>

definition not_none :: "pyval \<Rightarrow> pyval \<Rightarrow> pyval" where
  "not_none a b = (if a \<noteq> PNone then a else b)"

fun colon_join :: "string list \<Rightarrow> string" where
  "colon_join [] = []"
| "colon_join [x] = x"
| "colon_join (x # y # ys) = x @ CHR '':'' # colon_join (y # ys)"

record event_ids =
  ev_type :: string
  ev_order :: pyval
  ev_list :: pyval
  ev_time :: pyval
  ev_raw :: pyval
  ev_symbol :: pyval
  ev_key :: string

definition either_key :: "pydict \<Rightarrow> string \<Rightarrow> string \<Rightarrow> pyval" where
  "either_key e a b = por (get e a) (get e b)"

definition event_identity :: "pydict \<Rightarrow> event_ids" where
  "event_identity e =
     (let type = pstr (por (either_key e ''e'' ''eventType'') (PStr ''unknown''));
          order = not_none (get e ''i'') (get e ''orderId'');
          lst = not_none (get e ''g'') (get e ''orderListId'');
          time = not_none (get e ''E'') (get e ''eventTime'');
          raw = not_none (get e ''I'') (get e ''u'');
          symbol = either_key e ''s'' ''symbol'' in
      \<lparr>ev_type = type, ev_order = order, ev_list = lst, ev_time = time, ev_raw = raw, ev_symbol = symbol,
       ev_key = colon_join (map pstr [PStr type, symbol, order, lst, raw, time,
         either_key e ''l'' ''listStatusType'', either_key e ''L'' ''listOrderStatus'',
         either_key e ''C'' ''listClientOrderId'', either_key e ''r'' ''rejectReason'',
         either_key e ''x'' ''executionType'', either_key e ''X'' ''orderStatus'',
         either_key e ''z'' ''executedQty''])\<rparr>)"

text \<open>A finite number that is not negative, from an event field.\<close>

definition nonneg :: "pyval \<Rightarrow> dec option" where
  "nonneg v = (case to_finite v of Some d \<Rightarrow> if dlt d dzero then None else Some d | None \<Rightarrow> None)"

definition present :: "pyval \<Rightarrow> bool" where
  "present v \<longleftrightarrow> v \<noteq> PNone \<and> v \<noteq> PStr []"

definition ended :: "string list" where
  "ended = [''CANCELED'', ''EXPIRED'', ''EXPIRED_IN_MATCH'', ''REJECTED'']"

definition protective_types :: "string list" where
  "protective_types = [''STOP_LOSS'', ''STOP_LOSS_LIMIT'', ''TAKE_PROFIT'', ''TAKE_PROFIT_LIMIT'', ''LIMIT_MAKER'']"

definition status_update :: "string \<Rightarrow> pydict" where
  "status_update t = [(''reconciliation_status'', PStr t)]"

text \<open>The numeric columns of one execution report, and its executed quantity.\<close>

definition fill_updates :: "string \<Rightarrow> string \<Rightarrow> pydict \<Rightarrow> dec \<times> pydict" where
  "fill_updates side status e =
     (let cumulative = not_none (get e ''z'') (get e ''executedQty'');
          quote = not_none (get e ''Z'') (get e ''cummulativeQuoteQty'');
          original = not_none (get e ''q'') (get e ''origQty'');
          parsed = nonneg (por cumulative (PStr ''0''));
          executed = (case parsed of Some d \<Rightarrow> d | None \<Rightarrow> dzero);
          u1 = (if parsed = None then status_update ''MALFORMED_FILL_NUMERIC_RECONCILE_REQUIRED'' else []);
          u2 = (if side = ''BUY'' \<and> present cumulative then [(''filled_quantity'', PStr (dec_str executed))] else []);
          u3 = (if side = ''BUY'' \<and> dlt dzero executed \<and> present quote then
                  (case nonneg quote of
                     None \<Rightarrow> status_update ''MALFORMED_FILL_NUMERIC_RECONCILE_REQUIRED''
                   | Some q \<Rightarrow> (case ddiv q executed of
                       Inl _ \<Rightarrow> status_update ''MALFORMED_FILL_NUMERIC_RECONCILE_REQUIRED''
                     | Inr avg \<Rightarrow> [(''average_entry_price'', PStr (dec_str avg))]))
                else []);
          u4 = (if side = ''SELL'' \<and> present original \<and> status \<in> {''NEW'', ''PARTIALLY_FILLED''} then
                  (case nonneg original of
                     Some q \<Rightarrow> if dle q dzero
                       then status_update ''MALFORMED_PROTECTION_NUMERIC_RECONCILE_REQUIRED''
                       else [(''protected_quantity'', PStr (dec_str q))]
                   | None \<Rightarrow> status_update ''MALFORMED_PROTECTION_NUMERIC_RECONCILE_REQUIRED'')
                else []) in
      (executed, u1 @ u2 @ u3 @ u4))"

definition report_lifecycle :: "string \<Rightarrow> string \<Rightarrow> string \<Rightarrow> dec \<Rightarrow> lifecycle option \<times> pydict" where
  "report_lifecycle side status order_type executed =
     (if side = ''BUY'' \<and> status = ''PARTIALLY_FILLED'' then
        (Some ENTRY_PARTIALLY_FILLED, status_update ''ENTRY_PARTIAL_FILL_CANCEL_AND_PROTECT_REQUIRED'')
      else if side = ''BUY'' \<and> status = ''FILLED'' then (Some ENTRY_FILLED, [])
      else if side = ''BUY'' \<and> status \<in> set ended then
        (if dlt dzero executed
         then (Some ENTRY_PARTIALLY_FILLED, status_update ''ENTRY_TERMINAL_PARTIAL_FILL_RECONCILE_REQUIRED'')
         else (Some ENTRY_REJECTED, status_update ''ENTRY_TERMINAL_NO_FILL''))
      else if side = ''SELL'' \<and> status \<in> {''NEW'', ''PARTIALLY_FILLED''} \<and> order_type \<in> set protective_types then
        (Some PROTECTION_ACTIVE, [])
      else if side = ''SELL'' \<and> status = ''FILLED'' then (Some EXIT_FILLED, [])
      else if side = ''SELL'' \<and> status \<in> set ended then
        (None, status_update ''SELL_PROTECTION_TERMINAL_RECONCILE_REQUIRED'')
      else if status = ''REJECTED'' then (None, status_update ''UNMATCHED_REJECTION_RECONCILE_REQUIRED'')
      else (None, []))"

definition list_updates :: "string \<Rightarrow> pydict \<Rightarrow> pydict" where
  "list_updates lifecycle e =
     (let list_status = upper (pstr (por (either_key e ''l'' ''listStatusType'') (PStr [])));
          order_status = upper (pstr (por (either_key e ''L'' ''listOrderStatus'') (PStr []))) in
      if list_status \<in> {''EXEC_STARTED'', ''UPDATED''} \<and> order_status = ''EXECUTING'' then
        status_update ''ORDER_LIST_EXECUTING_PHASE_UNPROVEN''
      else if list_status = ''ALL_DONE'' \<or> order_status = ''ALL_DONE'' then
        status_update (if lifecycle = lc_value EXIT_FILLED then ''ORDER_LIST_TERMINAL_EXIT_CONFIRMED''
                       else ''ORDER_LIST_TERMINAL_RECONCILE_REQUIRED'')
      else if list_status = ''RESPONSE'' \<or> order_status = ''REJECT'' then
        status_update ''ORDER_LIST_ACTION_REJECTED_RECONCILE_REQUIRED''
      else [])"

text \<open>The lifecycle an event moves a trade to, if it may move it at all.\<close>

definition admitted :: "string \<Rightarrow> lifecycle option \<Rightarrow> lifecycle option" where
  "admitted old new = (case new of
     None \<Rightarrow> None
   | Some l \<Rightarrow> if old \<notin> set terminal_lifecycles \<and>
        (old = lc_value RECONCILED \<or> state_rank old \<le> lc_rank l) then Some l else None)"

definition event_updates :: "int \<Rightarrow> string \<Rightarrow> pydict \<Rightarrow> string \<Rightarrow> pydict" where
  "event_updates now old e key =
     (let idn = event_identity e; asset = either_key e ''N'' ''commissionAsset'';
          side = upper (pstr (por (either_key e ''S'' ''side'') (PStr [])));
          status = upper (pstr (por (por (either_key e ''X'' ''orderStatus'') (get e ''status'')) (PStr [])));
          order_type = upper (pstr (por (por (either_key e ''o'' ''orderType'') (get e ''type'')) (PStr [])));
          base = [(''last_exchange_event_id'', if ev_raw idn \<noteq> PNone then PStr (pstr (ev_raw idn)) else PStr key),
                  (''last_event_time'', if truthy (ev_time idn) then PStr (pstr (ev_time idn)) else PStr (int_text now)),
                  (''reconciliation_status'', PStr ''USER_STREAM_EVENT_APPLIED'')]
                 @ (if truthy asset then [(''commission_asset'', PStr (pstr asset))] else []) in
      if ev_type idn = ''executionReport'' then
        (let (executed, fills) = fill_updates side status e;
             (lifecycle, notes) = report_lifecycle side status order_type executed in
         base @ fills @ notes @ (case admitted old lifecycle of
           None \<Rightarrow> [] | Some l \<Rightarrow> [(''lifecycle_state'', PStr (lc_value l))]))
      else if ev_type idn = ''listStatus'' then base @ list_updates old e
      else base)"

definition apply_event :: "int \<Rightarrow> pydict \<Rightarrow> string \<Rightarrow> trade_row \<Rightarrow> trade_row" where
  "apply_event now e key r =
     r\<lparr>t_updated := now, t_cols := set_columns (event_updates now (lifecycle_of r) e key) (t_cols r)\<rparr>"

text \<open>SQL equality is never true of NULL.\<close>

definition sql_eq :: "pyval \<Rightarrow> pyval \<Rightarrow> bool" where
  "sql_eq a b \<longleftrightarrow> a \<noteq> PNone \<and> b \<noteq> PNone \<and> a = b"

definition real_id :: "pyval \<Rightarrow> bool" where
  "real_id v \<longleftrightarrow> \<not> py_in v [PNone, PInt (-1), PStr ''-1'']"

definition matches_event :: "pyval \<Rightarrow> pyval \<Rightarrow> pyval \<Rightarrow> trade_row \<Rightarrow> bool" where
  "matches_event order lst symbol r \<longleftrightarrow>
     sql_eq (PStr (remove_char (CHR ''/'') (t_pair r))) (text_affinity symbol) \<and>
     ((real_id order \<and> list_ex (\<lambda>c. sql_eq (t_cols r c) (int_affinity order))
         [''entry_order_id'', ''take_profit_order_id'', ''stop_order_id''])
      \<or> (real_id lst \<and> sql_eq (t_cols r ''order_list_id'') (int_affinity lst)))"

definition event_bindable :: "event_ids \<Rightarrow> pydict \<Rightarrow> bool" where
  "event_bindable idn e = list_all bindable [ev_symbol idn, ev_order idn, ev_list idn,
     either_key e ''N'' ''commissionAsset'', either_key e ''n'' ''commission'']"

definition stored_event :: "int \<Rightarrow> pydict \<Rightarrow> event_row" where
  "stored_event now e = (let idn = event_identity e in
     \<lparr>e_key = ev_key idn, e_type = ev_type idn, e_symbol = text_affinity (ev_symbol idn),
      e_order = int_affinity (ev_order idn), e_list = int_affinity (ev_list idn),
      e_commission_asset = text_affinity (either_key e ''N'' ''commissionAsset''),
      e_commission = text_affinity (either_key e ''n'' ''commission''),
      e_time = (if truthy (ev_time idn) then pstr (ev_time idn) else int_text now),
      e_payload = e\<rparr>)"

definition record_exchange_event :: "int \<Rightarrow> pydict \<Rightarrow> store \<Rightarrow> store_error + bool \<times> store" where
  "record_exchange_event now e s =
     (let idn = event_identity e in
      if \<not> event_bindable idn e then Inl Unbindable
      else let (rows, fresh) = insert_or_ignore e_key (stored_event now e) (st_events s) in
        if \<not> fresh then Inr (False, s)
        else Inr (True, s\<lparr>st_events := rows,
            st_trades := update_where (matches_event (ev_order idn) (ev_list idn) (ev_symbol idn))
              (apply_event now e (ev_key idn)) (st_trades s)\<rparr>))"

definition stored_id :: "pyval \<Rightarrow> bool" where
  "stored_id v \<longleftrightarrow> \<not> py_in v [PNone, PStr [], PInt 0, PStr ''0'']"

definition event_of_trade :: "trade_row \<Rightarrow> event_row \<Rightarrow> bool" where
  "event_of_trade r ev \<longleftrightarrow>
     sql_eq (e_symbol ev) (PStr (remove_char (CHR ''/'') (t_pair r))) \<and>
     (list_ex (\<lambda>c. stored_id (t_cols r c) \<and> sql_eq (e_order ev) (t_cols r c))
        [''entry_order_id'', ''take_profit_order_id'', ''stop_order_id'']
      \<or> (stored_id (t_cols r ''order_list_id'') \<and> sql_eq (e_list ev) (t_cols r ''order_list_id'')))"

definition replay_exchange_events_for_trade :: "int \<Rightarrow> string \<Rightarrow> store \<Rightarrow> nat \<times> store" where
  "replay_exchange_events_for_trade now tid s = (case trade tid s of
       None \<Rightarrow> (0, s)
     | Some r \<Rightarrow>
         (let evs = List.filter (event_of_trade r) (st_events s) in
          (length evs, s\<lparr>st_trades := fold (\<lambda>ev rows. update_where (\<lambda>x. t_id x = tid)
              (apply_event now (e_payload ev) (e_key ev)) rows) evs (st_trades s)\<rparr>)))"

end
