(* ===== verification/Store_Safety.thy ===== *)
theory Store_Safety
  imports State_Store
begin

text \<open>
  What the execution store guarantees, whatever operations are interleaved: the table
  invariant, the claim contract of signals, commands and exchange events, and the
  monotone lifecycle of a trade under exchange events.
\<close>

subsection \<open>One event on one trade\<close>

lemma set_columns_append: "set_columns (a @ b) cols = set_columns b (set_columns a cols)"
  by (induction a arbitrary: cols) auto

lemma set_columns_other: "c \<notin> fst ` set kvs \<Longrightarrow> set_columns kvs cols c = cols c"
  by (induction kvs arbitrary: cols) auto

lemma stored_text [simp]: "c \<notin> set int_columns \<Longrightarrow> stored c (PStr t) = PStr t"
  by (simp add: stored_def text_affinity_def)

lemma status_update_keys [simp]: "fst ` set (status_update t) = {''reconciliation_status''}"
  by (simp add: status_update_def)

lemma fill_updates_keys:
  "fst ` set (snd (fill_updates side status e)) \<subseteq>
     {''reconciliation_status'', ''filled_quantity'', ''average_entry_price'', ''protected_quantity''}"
  by (auto simp: fill_updates_def Let_def status_update_def split: option.splits sum.splits if_splits)

lemma report_notes_keys: "fst ` set (snd (report_lifecycle side status ty ex)) \<subseteq> {''reconciliation_status''}"
  by (auto simp: report_lifecycle_def status_update_def split: if_splits)

lemma list_updates_keys: "fst ` set (list_updates lc e) \<subseteq> {''reconciliation_status''}"
  by (auto simp: list_updates_def status_update_def Let_def split: if_splits)

text \<open>The lifecycle the report asks for.\<close>

definition requested_lifecycle :: "pydict \<Rightarrow> lifecycle option" where
  "requested_lifecycle e =
     (let side = upper (pstr (por (either_key e ''S'' ''side'') (PStr [])));
          status = upper (pstr (por (por (either_key e ''X'' ''orderStatus'') (get e ''status'')) (PStr [])));
          order_type = upper (pstr (por (por (either_key e ''o'' ''orderType'') (get e ''type'')) (PStr []))) in
      if ev_type (event_identity e) = ''executionReport''
      then fst (report_lifecycle side status order_type (fst (fill_updates side status e))) else None)"

lemma apply_event_lifecycle:
  "lifecycle_of (apply_event now e key r) =
     (case admitted (lifecycle_of r) (requested_lifecycle e) of None \<Rightarrow> lifecycle_of r | Some l \<Rightarrow> lc_value l)"
proof -
  define old where "old = lifecycle_of r"
  have *: "set_columns (event_updates now old e key) cols ''lifecycle_state'' =
      (case admitted old (requested_lifecycle e) of None \<Rightarrow> cols ''lifecycle_state'' | Some l \<Rightarrow> PStr (lc_value l))" for cols
  proof (cases "ev_type (event_identity e) = ''executionReport''")
    case True
    let ?side = "upper (pstr (por (either_key e ''S'' ''side'') (PStr [])))"
    let ?status = "upper (pstr (por (por (either_key e ''X'' ''orderStatus'') (get e ''status'')) (PStr [])))"
    let ?type = "upper (pstr (por (por (either_key e ''o'' ''orderType'') (get e ''type'')) (PStr [])))"
    obtain ex fills where f: "fill_updates ?side ?status e = (ex, fills)" by fastforce
    obtain lc ns where n: "report_lifecycle ?side ?status ?type ex = (lc, ns)" by fastforce
    have k: "''lifecycle_state'' \<notin> fst ` set fills" "''lifecycle_state'' \<notin> fst ` set ns"
      using fill_updates_keys [of ?side ?status e] report_notes_keys [of ?side ?status ?type ex] f n by auto
    have "requested_lifecycle e = lc" using True f n by (simp add: requested_lifecycle_def)
    then show ?thesis
      using True f n k
      by (auto simp: event_updates_def Let_def set_columns_append set_columns_other int_columns_def split: option.splits)
  next
    case False
    have "''lifecycle_state'' \<notin> fst ` set (list_updates old e)" using list_updates_keys [of old e] by auto
    then show ?thesis using False
      by (auto simp: event_updates_def Let_def set_columns_append set_columns_other requested_lifecycle_def admitted_def)
  qed
  show ?thesis by (simp add: apply_event_def lifecycle_of_def * [of "t_cols r", unfolded old_def lifecycle_of_def] split: option.splits)
qed

lemma report_lifecycle_range:
  "fst (report_lifecycle side status ty ex) = Some l \<Longrightarrow>
     l \<in> {ENTRY_PARTIALLY_FILLED, ENTRY_FILLED, ENTRY_REJECTED, PROTECTION_ACTIVE, EXIT_FILLED}"
  by (auto simp: report_lifecycle_def split: if_splits)

lemma if_SomeD: "(if b then x else None) = Some y \<Longrightarrow> b \<and> x = Some y"
  by (simp split: if_splits)

lemma requested_range:
  "requested_lifecycle e = Some l \<Longrightarrow>
     l \<in> {ENTRY_PARTIALLY_FILLED, ENTRY_FILLED, ENTRY_REJECTED, PROTECTION_ACTIVE, EXIT_FILLED}"
  unfolding requested_lifecycle_def Let_def by (drule if_SomeD) (blast dest: report_lifecycle_range)

text \<open>
  An event never reopens a closed trade, never overrides an operator-visible AMBIGUOUS or
  ERROR, and otherwise only moves the lifecycle forward (a RECONCILED trade excepted).
\<close>

lemma apply_event_safe:
  fixes now e key r
  defines "old \<equiv> lifecycle_of r" and "new \<equiv> lifecycle_of (apply_event now e key r)"
  shows "old \<in> set (terminal_lifecycles @ [lc_value AMBIGUOUS, lc_value LC_ERROR]) \<Longrightarrow> new = old"
    and "new = old \<or> old = lc_value RECONCILED \<or> state_rank old \<le> state_rank new"
proof -
  have n: "new = (case admitted old (requested_lifecycle e) of None \<Rightarrow> old | Some l \<Rightarrow> lc_value l)"
    unfolding new_def old_def by (rule apply_event_lifecycle)
  have adm: "old \<notin> set terminal_lifecycles \<and> (old = lc_value RECONCILED \<or> state_rank old \<le> lc_rank l) \<and> lc_rank l \<le> 9"
    if "admitted old (requested_lifecycle e) = Some l" for l
    using that requested_range [of e l]
    by (auto simp: admitted_def lc_rank_def split: option.splits if_splits)
  have rank: "state_rank (lc_value l) = lc_rank l" for l by (simp add: state_rank_def)
  show "new = old" if "old \<in> set (terminal_lifecycles @ [lc_value AMBIGUOUS, lc_value LC_ERROR])"
  proof (cases "admitted old (requested_lifecycle e)")
    case (Some l)
    then show ?thesis using adm [OF Some] that rank [of AMBIGUOUS] rank [of LC_ERROR]
      by (auto simp: lc_rank_def simp del: lc_value.simps)
  qed (simp add: n)
  show "new = old \<or> old = lc_value RECONCILED \<or> state_rank old \<le> state_rank new"
    using adm by (auto simp: n rank split: option.splits simp del: lc_value.simps)
qed

subsection \<open>Every operation of the store\<close>

datatype store_op =
    OpSetMode string
  | OpSetEntries bool string
  | OpRegister string string
  | OpClaimSignal int signal_ref
  | OpRecordSignal int signal_ref string
  | OpClaimCommand int string string
  | OpRecordCommand int string string string
  | OpUpsert int string string pydict
  | OpEvent int pydict
  | OpReplay int string
  | OpPrepare int intent_request
  | OpSubmit int string
  | OpFinish int string string pyval pyval string
  | OpInitRisk pydict "string option" bool
  | OpSaveRisk pydict

definition or_keep :: "store \<Rightarrow> 'e + store \<Rightarrow> store" where
  "or_keep s r = (case r of Inl _ \<Rightarrow> s | Inr s' \<Rightarrow> s')"

definition with_intents :: "store \<Rightarrow> 'e + intents \<Rightarrow> store" where
  "with_intents s r = (case r of Inl _ \<Rightarrow> s | Inr t \<Rightarrow> s\<lparr>st_intents := t\<rparr>)"

definition apply_op ::
  "(string \<Rightarrow> string) \<Rightarrow> (string \<Rightarrow> pydict option) \<Rightarrow> store_op \<Rightarrow> store \<Rightarrow> store" where
  "apply_op sha256 loads op s = (case op of
     OpSetMode m \<Rightarrow> or_keep s (set_mode m s)
   | OpSetEntries b r \<Rightarrow> set_entries b r s
   | OpRegister sy p \<Rightarrow> or_keep s (register_symbol_pair sy p s)
   | OpClaimSignal now sig \<Rightarrow> snd (claim_signal now sig s)
   | OpRecordSignal now sig r \<Rightarrow> record_signal now sig r s
   | OpClaimCommand now k c \<Rightarrow> snd (claim_command now k c s)
   | OpRecordCommand now k c r \<Rightarrow> record_command now k c r s
   | OpUpsert now tid p fs \<Rightarrow> or_keep s (upsert_trade now tid p fs s)
   | OpEvent now e \<Rightarrow> (case record_exchange_event now e s of Inl _ \<Rightarrow> s | Inr (_, s') \<Rightarrow> s')
   | OpReplay now tid \<Rightarrow> snd (replay_exchange_events_for_trade now tid s)
   | OpPrepare now q \<Rightarrow> (case prepare_intent sha256 now q (st_intents s) of Inl _ \<Rightarrow> s | Inr (_, t) \<Rightarrow> s\<lparr>st_intents := t\<rparr>)
   | OpSubmit now k \<Rightarrow> with_intents s (mark_intent_submitting now k (st_intents s))
   | OpFinish now k st x y e \<Rightarrow> with_intents s (finish_intent now k st x y e (st_intents s))
   | OpInitRisk p src new \<Rightarrow> (case initialize_risk_guard_state sha256 loads p src new s of Inl _ \<Rightarrow> s | Inr (_, s') \<Rightarrow> s')
   | OpSaveRisk p \<Rightarrow> or_keep s (save_risk_guard_state sha256 p s))"

definition store_ok :: "store \<Rightarrow> bool" where
  "store_ok s \<longleftrightarrow> distinct (map p_key (st_signals s)) \<and> distinct (map p_key (st_commands s))
     \<and> distinct (map t_id (st_trades s)) \<and> distinct (map e_key (st_events s)) \<and> intents_ok (st_intents s)"

lemma t_id_apply_event [simp]: "t_id (apply_event now e k r) = t_id r"
  by (simp add: apply_event_def)

lemma p_key_processed [simp]: "p_key (processed now k w c r) = k"
  by (simp add: processed_def)

text \<open>The tables each operation touches; the others are as they were.\<close>

lemma signals_after:
  "st_signals (apply_op sha256 loads op s) = (case op of
     OpClaimSignal now sig \<Rightarrow> fst (insert_or_ignore p_key
       (processed now (sig_id sig) (sig_pair sig) (sig_candle sig) ''IN_PROGRESS'') (st_signals s))
   | OpRecordSignal now sig r \<Rightarrow> insert_or_update p_key (\<lambda>x. x\<lparr>p_result := r, p_at := now\<rparr>)
       (processed now (sig_id sig) (sig_pair sig) (sig_candle sig) r) (st_signals s)
   | _ \<Rightarrow> st_signals s)"
  by (cases op)
     (auto simp: apply_op_def or_keep_def with_intents_def set_mode_def set_entries_def register_symbol_pair_def
       claim_signal_def record_signal_def claim_command_def record_command_def upsert_trade_def
       record_exchange_event_def replay_exchange_events_for_trade_def initialize_risk_guard_state_def
       save_risk_guard_state_def Let_def bindE_def split: sum.splits option.splits prod.splits if_splits)

lemma commands_after:
  "st_commands (apply_op sha256 loads op s) = (case op of
     OpClaimCommand now k c \<Rightarrow> fst (insert_or_ignore p_key (processed now k c PNone ''IN_PROGRESS'') (st_commands s))
   | OpRecordCommand now k c r \<Rightarrow> insert_or_update p_key (\<lambda>x. x\<lparr>p_result := r, p_at := now\<rparr>)
       (processed now k c PNone r) (st_commands s)
   | _ \<Rightarrow> st_commands s)"
  by (cases op)
     (auto simp: apply_op_def or_keep_def with_intents_def set_mode_def set_entries_def register_symbol_pair_def
       claim_signal_def record_signal_def claim_command_def record_command_def upsert_trade_def
       record_exchange_event_def replay_exchange_events_for_trade_def initialize_risk_guard_state_def
       save_risk_guard_state_def Let_def bindE_def split: sum.splits option.splits prod.splits if_splits)

lemma trades_after:
  "st_trades (apply_op sha256 loads op s) = (case op of
     OpUpsert now tid p fs \<Rightarrow> st_trades (or_keep s (upsert_trade now tid p fs s))
   | OpEvent now e \<Rightarrow> st_trades (case record_exchange_event now e s of Inl _ \<Rightarrow> s | Inr (_, s') \<Rightarrow> s')
   | OpReplay now tid \<Rightarrow> st_trades (snd (replay_exchange_events_for_trade now tid s))
   | _ \<Rightarrow> st_trades s)"
  by (cases op)
     (auto simp: apply_op_def or_keep_def with_intents_def set_mode_def set_entries_def register_symbol_pair_def
       claim_signal_def record_signal_def claim_command_def record_command_def
       initialize_risk_guard_state_def
       save_risk_guard_state_def Let_def bindE_def split: sum.splits option.splits prod.splits if_splits)

lemma events_after:
  "st_events (apply_op sha256 loads op s) = (case op of
     OpEvent now e \<Rightarrow> st_events (case record_exchange_event now e s of Inl _ \<Rightarrow> s | Inr (_, s') \<Rightarrow> s')
   | _ \<Rightarrow> st_events s)"
  by (cases op)
     (auto simp: apply_op_def or_keep_def with_intents_def set_mode_def set_entries_def register_symbol_pair_def
       claim_signal_def record_signal_def claim_command_def record_command_def upsert_trade_def
       replay_exchange_events_for_trade_def initialize_risk_guard_state_def
       save_risk_guard_state_def Let_def bindE_def split: sum.splits option.splits prod.splits if_splits)

lemma intents_after:
  "intents_ok (st_intents s) \<Longrightarrow> intents_ok (st_intents (apply_op sha256 loads op s))"
  by (cases op)
     (auto simp: apply_op_def or_keep_def with_intents_def set_mode_def set_entries_def register_symbol_pair_def
       claim_signal_def record_signal_def claim_command_def record_command_def upsert_trade_def
       record_exchange_event_def replay_exchange_events_for_trade_def initialize_risk_guard_state_def
       save_risk_guard_state_def Let_def bindE_def intro: inv_intro split: sum.splits option.splits prod.splits if_splits)

text \<open>The rewriting of trade rows by each operation keeps their identifiers.\<close>

lemma replay_rows:
  "fold (\<lambda>ev rows. update_where (\<lambda>x. t_id x = tid) (f ev) rows) evs rows
     = update_where (\<lambda>x. t_id x = tid) (\<lambda>r. fold f evs r) rows"
  if "\<And>ev r. t_id (f ev r) = t_id r"
proof (induction evs arbitrary: rows)
  case Nil
  then show ?case by (simp add: update_where_def map_idI)
next
  case (Cons ev evs)
  then show ?case using that by (auto simp: update_where_def)
qed

lemma t_id_fold: "(\<And>ev r. t_id (f ev r) = t_id r) \<Longrightarrow> t_id (fold f evs r) = t_id r"
  by (induction evs arbitrary: r) auto

lemma replay_trades:
  "st_trades (snd (replay_exchange_events_for_trade now tid s)) = (case trade tid s of
     None \<Rightarrow> st_trades s
   | Some r \<Rightarrow> update_where (\<lambda>x. t_id x = tid)
       (\<lambda>x. fold (\<lambda>ev. apply_event now (e_payload ev) (e_key ev)) (List.filter (event_of_trade r) (st_events s)) x)
       (st_trades s))"
  by (simp add: replay_exchange_events_for_trade_def Let_def replay_rows split: option.splits)

lemma upsert_trades:
  "st_trades (or_keep s (upsert_trade now tid p fs s)) = st_trades s \<or>
   (\<exists>full. st_trades (or_keep s (upsert_trade now tid p fs s)) = insert_or_update t_id
      (\<lambda>r. r\<lparr>t_updated := now, t_cols := set_columns (List.filter (\<lambda>(k, v). k \<in> set trade_columns) fs) (t_cols r)\<rparr>)
      \<lparr>t_id = tid, t_pair = p, t_updated = now, t_cols = set_columns full (\<lambda>_. PNone)\<rparr> (st_trades s))"
  by (auto simp: upsert_trade_def or_keep_def Let_def split: if_splits)

lemma event_trades:
  "st_trades (case record_exchange_event now e s of Inl _ \<Rightarrow> s | Inr (_, s') \<Rightarrow> s') = st_trades s \<or>
   (\<exists>p key. st_trades (case record_exchange_event now e s of Inl _ \<Rightarrow> s | Inr (_, s') \<Rightarrow> s')
      = update_where p (apply_event now e key) (st_trades s))"
  by (auto simp: record_exchange_event_def Let_def split: if_splits prod.splits)

lemma e_key_stored [simp]: "e_key (stored_event now e) = ev_key (event_identity e)"
  by (simp add: stored_event_def Let_def)

lemma event_events:
  "st_events (case record_exchange_event now e s of Inl _ \<Rightarrow> s | Inr (_, s') \<Rightarrow> s') = st_events s \<or>
   st_events (case record_exchange_event now e s of Inl _ \<Rightarrow> s | Inr (_, s') \<Rightarrow> s')
     = fst (insert_or_ignore e_key (stored_event now e) (st_events s))"
  by (auto simp: record_exchange_event_def insert_or_ignore_def Let_def split: if_splits prod.splits)

lemma store_ok_step: "store_ok s \<Longrightarrow> store_ok (apply_op sha256 loads op s)"
proof -
  assume ok: "store_ok s"
  have "distinct (map p_key (st_signals (apply_op sha256 loads op s)))"
    using ok by (auto simp: signals_after store_ok_def intro: insert_or_ignore_distinct insert_or_update_distinct split: store_op.splits)
  moreover have "distinct (map p_key (st_commands (apply_op sha256 loads op s)))"
    using ok by (auto simp: commands_after store_ok_def intro: insert_or_ignore_distinct insert_or_update_distinct split: store_op.splits)
  moreover have "distinct (map e_key (st_events (apply_op sha256 loads op s)))"
  proof (cases op)
    case (OpEvent now e)
    then show ?thesis using ok event_events [where now = now and e = e and s = s] insert_or_ignore_distinct
      by (auto simp: events_after store_ok_def)
  qed (use ok in \<open>simp_all add: events_after store_ok_def\<close>)
  moreover have "distinct (map t_id (st_trades (apply_op sha256 loads op s)))"
  proof (cases op)
    case (OpEvent now e)
    then show ?thesis using ok event_trades [where now = now and e = e and s = s]
      by (auto simp: trades_after store_ok_def update_where_distinct)
  next
    case (OpUpsert now tid p fs)
    then show ?thesis using ok upsert_trades [where s = s and now = now and tid = tid and p = p and fs = fs]
      by (auto simp: trades_after store_ok_def) (rule insert_or_update_distinct; simp)
  next
    case (OpReplay now tid)
    then show ?thesis using ok
      by (auto simp: trades_after store_ok_def replay_trades update_where_distinct t_id_fold split: option.splits)
  qed (use ok in \<open>simp_all add: trades_after store_ok_def\<close>)
  ultimately show ?thesis using ok intents_after by (simp add: store_ok_def)
qed

subsection \<open>Closed trades stay closed\<close>

definition settled :: "string \<Rightarrow> bool" where
  "settled lc \<longleftrightarrow> lc \<in> set (terminal_lifecycles @ [lc_value AMBIGUOUS, lc_value LC_ERROR])"

text \<open>The operation names a lifecycle for the trade.\<close>

definition names_lifecycle :: "string \<Rightarrow> store_op \<Rightarrow> bool" where
  "names_lifecycle tid op \<longleftrightarrow> (case op of
     OpUpsert _ k _ fs \<Rightarrow> k = tid \<and> ''lifecycle_state'' \<in> fst ` set fs | _ \<Rightarrow> False)"

lemma settled_event: "settled (lifecycle_of r) \<Longrightarrow> lifecycle_of (apply_event now e key r) = lifecycle_of r"
  using apply_event_safe(1) by (simp add: settled_def)

lemma settled_fold:
  "settled (lifecycle_of r) \<Longrightarrow> lifecycle_of (fold (\<lambda>ev. apply_event now (e_payload ev) (e_key ev)) evs r) = lifecycle_of r"
  by (induction evs arbitrary: r) (simp_all add: settled_event)

lemma trade_update:
  assumes "\<And>r. t_id (f r) = t_id r"
  shows "row_with t_id tid (update_where p f rows) = map_option (\<lambda>r. if p r then f r else r) (row_with t_id tid rows)"
  by (rule row_with_update) (rule assms)

lemma set_columns_lifecycle:
  "''lifecycle_state'' \<notin> fst ` set fs \<Longrightarrow>
   set_columns (List.filter (\<lambda>(k, v). k \<in> set trade_columns) fs) cols ''lifecycle_state'' = cols ''lifecycle_state''"
  by (rule set_columns_other) force

lemma settled_step:
  assumes "trade tid s = Some r" and "settled (lifecycle_of r)" and "\<not> names_lifecycle tid op"
  shows "\<exists>r'. trade tid (apply_op sha256 loads op s) = Some r' \<and> lifecycle_of r' = lifecycle_of r"
proof (cases op)
  case (OpEvent now e)
  have "st_trades (apply_op sha256 loads op s) = st_trades s \<or>
    (\<exists>p key. st_trades (apply_op sha256 loads op s) = update_where p (apply_event now e key) (st_trades s))"
    using event_trades [where now = now and e = e and s = s] by (simp add: trades_after OpEvent)
  then show ?thesis using assms(1,2) by (auto simp: trade_def trade_update settled_event)
next
  case (OpReplay now k)
  then show ?thesis using assms(1,2)
    by (auto simp: trade_def trades_after replay_trades trade_update t_id_fold settled_fold split: option.splits)
next
  case (OpUpsert now k p fs)
  have "st_trades (apply_op sha256 loads op s) = st_trades s \<or>
   (\<exists>full. st_trades (apply_op sha256 loads op s) = insert_or_update t_id
      (\<lambda>r. r\<lparr>t_updated := now, t_cols := set_columns (List.filter (\<lambda>(k, v). k \<in> set trade_columns) fs) (t_cols r)\<rparr>)
      \<lparr>t_id = k, t_pair = p, t_updated = now, t_cols = set_columns full (\<lambda>_. PNone)\<rparr> (st_trades s))"
    using upsert_trades [where s = s and now = now and tid = k and p = p and fs = fs] by (simp add: trades_after OpUpsert)
  moreover have "k = tid \<Longrightarrow> ''lifecycle_state'' \<notin> fst ` set fs" using assms(3) by (simp add: names_lifecycle_def OpUpsert)
  moreover have "t_id r = tid" using assms(1) by (auto simp: trade_def dest: row_with_Some)
  ultimately show ?thesis using assms(1)
    by (auto simp: trade_def insert_or_update_def trade_update row_with_append lifecycle_of_def set_columns_lifecycle)
qed (use assms(1) in \<open>simp_all add: trade_def trades_after\<close>)

lemma settled_run:
  assumes "trade tid s = Some r" "settled (lifecycle_of r)" "list_all (\<lambda>op. \<not> names_lifecycle tid op) ops"
  shows "\<exists>r'. trade tid (fold (apply_op sha256 loads) ops s) = Some r' \<and> lifecycle_of r' = lifecycle_of r"
  using assms
proof (induction ops arbitrary: s r)
  case (Cons op ops)
  then obtain r' where r': "trade tid (apply_op sha256 loads op s) = Some r'" "lifecycle_of r' = lifecycle_of r"
    using settled_step [where tid = tid and s = s and r = r and op = op and ?sha256.0 = sha256 and loads = loads] by auto
  then show ?case using Cons.IH [OF r'(1)] Cons.prems by auto
qed simp

subsection \<open>Claims\<close>

lemma insert_or_ignore_keeps: "k \<in> key ` set rows \<Longrightarrow> k \<in> key ` set (fst (insert_or_ignore key r rows))"
  by (auto simp: insert_or_ignore_def)

lemma insert_or_update_keeps:
  "(\<And>r. key (f r) = key r) \<Longrightarrow> k \<in> key ` set rows \<Longrightarrow> k \<in> key ` set (insert_or_update key f r rows)"
proof -
  assume f: "\<And>r. key (f r) = key r" and k: "k \<in> key ` set rows"
  have "key ` set (update_where p f rows) = key ` set rows" for p
    unfolding set_update_where image_image by (rule image_cong) (simp_all add: f)
  then show ?thesis using k by (simp add: insert_or_update_def)
qed

interpretation signals: total_ledger "\<lambda>(now, sig). claim_signal now sig" "\<lambda>(now, sig). sig_id sig"
  "apply_op sha256 loads" "\<lambda>k s. k \<in> p_key ` set (st_signals s)" store_ok
proof
  fix s :: store and c :: "int \<times> signal_ref" and j :: string and a :: store_op
  assume ok: "store_ok s"
  obtain now sig where c: "c = (now, sig)" by (cases c)
  have step: "snd (claim_signal now sig s) = apply_op sha256 loads (OpClaimSignal now sig) s" by (simp add: apply_op_def)
  show "store_ok (snd ((case c of (now, sig) \<Rightarrow> claim_signal now sig) s))"
    using store_ok_step [OF ok] by (simp add: c step)
  show "store_ok (apply_op sha256 loads a s)" by (rule store_ok_step [OF ok])
  show "fst ((case c of (now, sig) \<Rightarrow> claim_signal now sig) s) \<Longrightarrow> (case c of (now, sig) \<Rightarrow> sig_id sig) \<notin> p_key ` set (st_signals s)"
    by (auto simp: c claim_signal_def insert_or_ignore_def Let_def split: if_splits)
  show "fst ((case c of (now, sig) \<Rightarrow> claim_signal now sig) s) \<Longrightarrow>
      (case c of (now, sig) \<Rightarrow> sig_id sig) \<in> p_key ` set (st_signals (snd ((case c of (now, sig) \<Rightarrow> claim_signal now sig) s)))"
    by (auto simp: c claim_signal_def insert_or_ignore_def Let_def split: if_splits)
  show "j \<in> p_key ` set (st_signals s) \<Longrightarrow> j \<in> p_key ` set (st_signals (snd ((case c of (now, sig) \<Rightarrow> claim_signal now sig) s)))"
    by (auto simp: c claim_signal_def insert_or_ignore_def Let_def split: if_splits)
  show "j \<in> p_key ` set (st_signals s) \<Longrightarrow> j \<in> p_key ` set (st_signals (apply_op sha256 loads a s))"
    by (cases a) (simp_all add: signals_after insert_or_ignore_keeps insert_or_update_keeps)
  show "(case c of (now, sig) \<Rightarrow> sig_id sig) \<notin> p_key ` set (st_signals s) \<Longrightarrow> fst ((case c of (now, sig) \<Rightarrow> claim_signal now sig) s)"
    by (auto simp: c claim_signal_def insert_or_ignore_def Let_def split: if_splits)
qed

interpretation commands: total_ledger "\<lambda>(now, k, cmd). claim_command now k cmd" "\<lambda>(now, k, cmd). k"
  "apply_op sha256 loads" "\<lambda>k s. k \<in> p_key ` set (st_commands s)" store_ok
proof
  fix s :: store and c :: "int \<times> string \<times> string" and j :: string and a :: store_op
  assume ok: "store_ok s"
  obtain now k cmd where c: "c = (now, k, cmd)" by (metis prod_cases3)
  have step: "snd (claim_command now k cmd s) = apply_op sha256 loads (OpClaimCommand now k cmd) s" by (simp add: apply_op_def)
  show "store_ok (snd ((case c of (now, k, cmd) \<Rightarrow> claim_command now k cmd) s))"
    using store_ok_step [OF ok] by (simp add: c step)
  show "store_ok (apply_op sha256 loads a s)" by (rule store_ok_step [OF ok])
  show "fst ((case c of (now, k, cmd) \<Rightarrow> claim_command now k cmd) s) \<Longrightarrow> (case c of (now, k, cmd) \<Rightarrow> k) \<notin> p_key ` set (st_commands s)"
    by (auto simp: c claim_command_def insert_or_ignore_def Let_def split: if_splits)
  show "fst ((case c of (now, k, cmd) \<Rightarrow> claim_command now k cmd) s) \<Longrightarrow>
      (case c of (now, k, cmd) \<Rightarrow> k) \<in> p_key ` set (st_commands (snd ((case c of (now, k, cmd) \<Rightarrow> claim_command now k cmd) s)))"
    by (auto simp: c claim_command_def insert_or_ignore_def Let_def split: if_splits)
  show "j \<in> p_key ` set (st_commands s) \<Longrightarrow> j \<in> p_key ` set (st_commands (snd ((case c of (now, k, cmd) \<Rightarrow> claim_command now k cmd) s)))"
    by (auto simp: c claim_command_def insert_or_ignore_def Let_def split: if_splits)
  show "j \<in> p_key ` set (st_commands s) \<Longrightarrow> j \<in> p_key ` set (st_commands (apply_op sha256 loads a s))"
    by (cases a) (simp_all add: commands_after insert_or_ignore_keeps insert_or_update_keeps)
  show "(case c of (now, k, cmd) \<Rightarrow> k) \<notin> p_key ` set (st_commands s) \<Longrightarrow> fst ((case c of (now, k, cmd) \<Rightarrow> claim_command now k cmd) s)"
    by (auto simp: c claim_command_def insert_or_ignore_def Let_def split: if_splits)
qed

definition event_claim :: "int \<times> pydict \<Rightarrow> store \<Rightarrow> bool \<times> store" where
  "event_claim c s = (case record_exchange_event (fst c) (snd c) s of Inl _ \<Rightarrow> (False, s) | Inr r \<Rightarrow> r)"

lemma event_claim_state: "snd (event_claim c s) = apply_op sha256 loads (OpEvent (fst c) (snd c)) s"
  by (auto simp: event_claim_def apply_op_def split: sum.splits prod.splits)

lemma event_claim_cases:
  "fst (event_claim c s) \<longleftrightarrow> event_bindable (event_identity (snd c)) (snd c)
      \<and> ev_key (event_identity (snd c)) \<notin> e_key ` set (st_events s)"
  by (auto simp: event_claim_def record_exchange_event_def insert_or_ignore_def Let_def split: if_splits)

interpretation exchange_events: claim_ledger event_claim "\<lambda>c. ev_key (event_identity (snd c))"
  "apply_op sha256 loads" "\<lambda>k s. k \<in> e_key ` set (st_events s)" store_ok
proof
  fix s :: store and c :: "int \<times> pydict" and j :: string and a :: store_op
  assume ok: "store_ok s"
  have keeps: "j \<in> e_key ` set (st_events s) \<Longrightarrow> j \<in> e_key ` set (st_events (apply_op sha256 loads a s))" for a
  proof (cases a)
    case (OpEvent now e)
    assume j: "j \<in> e_key ` set (st_events s)"
    show ?thesis using event_events [where now = now and e = e and s = s] insert_or_ignore_keeps [OF j] j
      by (auto simp: events_after OpEvent)
  qed (simp_all add: events_after)
  show "store_ok (snd (event_claim c s))"
    unfolding event_claim_state [of c s sha256 loads] by (rule store_ok_step [OF ok])
  show "store_ok (apply_op sha256 loads a s)" by (rule store_ok_step [OF ok])
  show "fst (event_claim c s) \<Longrightarrow> ev_key (event_identity (snd c)) \<notin> e_key ` set (st_events s)"
    by (simp add: event_claim_cases)
  show "fst (event_claim c s) \<Longrightarrow> ev_key (event_identity (snd c)) \<in> e_key ` set (st_events (snd (event_claim c s)))"
    using e_key_stored
    by (auto simp: event_claim_def record_exchange_event_def insert_or_ignore_def Let_def split: if_splits)
  show "j \<in> e_key ` set (st_events s) \<Longrightarrow> j \<in> e_key ` set (st_events (snd (event_claim c s)))"
    unfolding event_claim_state [of c s sha256 loads] by (rule keeps)
  show "j \<in> e_key ` set (st_events s) \<Longrightarrow> j \<in> e_key ` set (st_events (apply_op sha256 loads a s))" by (rule keeps)
qed

subsection \<open>Guarantees\<close>

text \<open>The store of a fresh installation.\<close>

definition empty_store :: store where
  "empty_store = \<lparr>st_data = default_data [], st_version = 1, st_risk = None, st_migration = None,
     st_signals = [], st_commands = [], st_trades = [], st_events = [], st_intents = []\<rparr>"

lemma signal_seen_iff: "signal_seen k s \<longleftrightarrow> k \<in> p_key ` set (st_signals s)"
  by (simp add: signal_seen_def signal_result_def result_of_def row_with_None)

lemma command_seen_iff: "command_seen k s \<longleftrightarrow> k \<in> p_key ` set (st_commands s)"
  by (simp add: command_seen_def command_result_def result_of_def row_with_None)

text \<open>A signal is claimed at most once over any run of store operations, and a signal whose
  claim was attempted is seen afterwards.\<close>

theorem signal_claimed_once:
  assumes "store_ok s"
  shows "distinct (fst (run_ledger (\<lambda>(now, sig). claim_signal now sig) (\<lambda>(now, sig). sig_id sig)
      (apply_op sha256 loads) ops s))
    \<and> (\<forall>c \<in> set ops. case c of Claim (now, sig) \<Rightarrow> signal_seen (sig_id sig)
        (snd (run_ledger (\<lambda>(now, sig). claim_signal now sig) (\<lambda>(now, sig). sig_id sig) (apply_op sha256 loads) ops s))
      | Other _ \<Rightarrow> True)"
  using signals.at_most_once [OF assms] signals.claims_are_seen [OF assms]
  by (fastforce simp: signal_seen_iff split: ledger_op.splits)

definition demo_signal :: signal_ref where
  "demo_signal = \<lparr>sig_id = ''s1'', sig_pair = ''BTC/USDC'', sig_candle = PNone\<rparr>"

lemma store_ok_empty: "store_ok empty_store"
  by (simp add: store_ok_def empty_store_def intents_ok_def)

lemma signal_claimed_once_witness:
  "signal_seen ''s1'' (snd (run_ledger (\<lambda>(now, sig). claim_signal now sig) (\<lambda>(now, sig). sig_id sig)
     (apply_op (\<lambda>t. t) (\<lambda>_. None)) [Claim (1, demo_signal), Claim (2, demo_signal)] empty_store))"
  using signal_claimed_once [OF store_ok_empty, of "\<lambda>t. t" "\<lambda>_. None" "[Claim (1, demo_signal), Claim (2, demo_signal)]"]
  by (simp add: demo_signal_def)


definition demo_event :: pydict where
  "demo_event = [(''e'', PStr ''executionReport''), (''s'', PStr ''BTCUSDC''), (''i'', PInt 7), (''S'', PStr ''BUY''),
     (''X'', PStr ''FILLED''), (''z'', PStr ''0.5''), (''Z'', PStr ''50'')]"


text \<open>An exchange event never reopens a trade whose exit is filled or whose entry is rejected,
  never overrides AMBIGUOUS or ERROR, and otherwise only moves the lifecycle forward in rank unless
  the trade was RECONCILED.\<close>

theorem event_lifecycle_monotone:
  "(settled (lifecycle_of r) \<longrightarrow> lifecycle_of (apply_event now e key r) = lifecycle_of r)
   \<and> (lifecycle_of (apply_event now e key r) = lifecycle_of r \<or> lifecycle_of r = lc_value RECONCILED
      \<or> state_rank (lifecycle_of r) \<le> state_rank (lifecycle_of (apply_event now e key r)))"
  using settled_event apply_event_safe(2) by blast

definition demo_row :: trade_row where
  "demo_row = \<lparr>t_id = ''t1'', t_pair = ''BTC/USDC'', t_updated = 1,
     t_cols = (\<lambda>c. if c = ''lifecycle_state'' then PStr ''EXIT_FILLED'' else PNone)\<rparr>"

lemma event_lifecycle_monotone_witness:
  "lifecycle_of (apply_event 3 demo_event ''k'' demo_row) = ''EXIT_FILLED''"
  using event_lifecycle_monotone [of demo_row 3 demo_event "''k''"]
  by (simp add: settled_def terminal_lifecycles_def lifecycle_of_def demo_row_def)

text \<open>C21: A closed, AMBIGUOUS or ERROR trade keeps its lifecycle over any run of store operations in
  which no update names a lifecycle for it.\<close>

theorem settled_trade_stays:
  assumes "trade tid s = Some r" "settled (lifecycle_of r)" "list_all (\<lambda>op. \<not> names_lifecycle tid op) ops"
  shows "\<exists>r'. trade tid (fold (apply_op sha256 loads) ops s) = Some r' \<and> lifecycle_of r' = lifecycle_of r"
  by (rule settled_run [OF assms])

lemma settled_trade_stays_witness:
  "\<exists>r'. trade ''t1'' (fold (apply_op (\<lambda>t. t) (\<lambda>_. None))
     [OpEvent 3 demo_event, OpUpsert 4 ''t1'' ''BTC/USDC'' [(''entry_order_id'', PInt 7)], OpReplay 5 ''t1'']
     (empty_store\<lparr>st_trades := [demo_row]\<rparr>)) = Some r' \<and> lifecycle_of r' = ''EXIT_FILLED''"
  using settled_trade_stays [of "''t1''" "empty_store\<lparr>st_trades := [demo_row]\<rparr>" demo_row
     "[OpEvent 3 demo_event, OpUpsert 4 ''t1'' ''BTC/USDC'' [(''entry_order_id'', PInt 7)], OpReplay 5 ''t1'']"]
  by (simp add: settled_def terminal_lifecycles_def lifecycle_of_def demo_row_def trade_def row_with_def
      names_lifecycle_def)

end
