(* ===== verification/Market_Policy.thy ===== *)
theory Market_Policy
  imports Models
begin

text \<open>
  The Bitcoin pair policy of \<open>services/common/market_policy.py\<close>: canonical pair
  names, the operator's quote allowlist, validation of the exchange's symbol metadata and
  the two pair hashes. SHA-256 is a parameter, a function from texts to digests; no
  property of it is assumed.
\<close>

datatype policy_error =
    BadAllowlist | BadPairForm | QuoteNotAllowed | SymbolMismatch | NotTrading | BaseNotBtc
  | QuoteMismatch | SpotPermissionMissing | PermissionSetsWithoutSpot | SpotDisabled
  | OcoUnsupported | OtoUnsupported | FiltersMissing | RequiredFilterMissing string
  | PolicyTypeError

definition alnum_between :: "nat \<Rightarrow> nat \<Rightarrow> string \<Rightarrow> bool" where
  "alnum_between lo hi s \<longleftrightarrow> lo \<le> length s \<and> length s \<le> hi \<and> list_all is_upper_alnum s"

abbreviation valid_quote :: "string \<Rightarrow> bool" where
  "valid_quote \<equiv> alnum_between 2 12"

definition quotes_of :: "string list \<Rightarrow> bool \<Rightarrow> policy_error + string list" where
  "quotes_of values allow_empty =
     (let cleaned = rev (remdups (rev (List.filter (\<lambda>v. v \<noteq> []) (map (\<lambda>v. upper (strip v)) values)))) in
      if (cleaned = [] \<and> \<not> allow_empty) \<or> \<not> list_all valid_quote cleaned
      then Inl BadAllowlist else Inr cleaned)"

definition allowed_quotes_from_env :: "environ \<Rightarrow> policy_error + string list" where
  "allowed_quotes_from_env env =
     (let raw = (case env ''BTC_QUOTE_ALLOWLIST'' of
          Some s \<Rightarrow> s
        | None \<Rightarrow> (case env ''ALLOWED_STABLE_QUOTES'' of Some s \<Rightarrow> s | None \<Rightarrow> [])) in
      quotes_of (split_on (CHR '','') raw) True)"

definition normalize_pair :: "string \<Rightarrow> string" where
  "normalize_pair value =
     (let raw = replace_char (CHR ''_'') (CHR ''/'')
                  (replace_char (CHR ''-'') (CHR ''/'') (upper (strip value))) in
      if CHR ''/'' \<notin> set raw \<and> starts_with ''BTC'' raw \<and> alnum_between 5 15 raw
      then ''BTC/'' @ drop 3 raw else raw)"

text \<open>
  \<open>canonical_pair(value, allowed_quotes)\<close>; the \<open>None\<close> allowlist is read from the
  environment.
\<close>

definition canonical_pair :: "environ \<Rightarrow> string \<Rightarrow> string list option \<Rightarrow> policy_error + string" where
  "canonical_pair env value allowed =
     (let raw = normalize_pair value in
      if \<not> (starts_with ''BTC/'' raw \<and> valid_quote (drop 4 raw)) then Inl BadPairForm
      else bindE (case allowed of None \<Rightarrow> allowed_quotes_from_env env | Some qs \<Rightarrow> quotes_of qs True)
        (\<lambda>quotes. if quotes \<noteq> [] \<and> drop 4 raw \<notin> set quotes then Inl QuoteNotAllowed else Inr raw))"

definition symbol_of :: "string \<Rightarrow> string" where
  "symbol_of pair = remove_char (CHR ''/'') pair"

definition quote_of :: "string \<Rightarrow> string" where
  "quote_of pair = after (CHR ''/'') pair"

definition symbol_for_pair :: "environ \<Rightarrow> string \<Rightarrow> string list option \<Rightarrow> policy_error + string" where
  "symbol_for_pair env pair allowed =
     bindE (canonical_pair env pair allowed) (\<lambda>p. Inr (symbol_of p))"

definition quote_for_pair :: "environ \<Rightarrow> string \<Rightarrow> string list option \<Rightarrow> policy_error + string" where
  "quote_for_pair env pair allowed =
     bindE (canonical_pair env pair allowed) (\<lambda>p. Inr (quote_of p))"

subsection \<open>Exchange metadata\<close>

text \<open>\<open>{str(value).upper() for value in v}\<close>; a value that cannot be iterated raises.\<close>

fun upper_texts :: "pyval \<Rightarrow> policy_error + string list" where
  "upper_texts (PList xs) = Inr (map (\<lambda>x. upper (pstr x)) xs)"
| "upper_texts (PStr s) = Inr (map (\<lambda>c. upper [c]) s)"
| "upper_texts (PDict kvs) = Inr (map (\<lambda>kv. upper (fst kv)) kvs)"
| "upper_texts _ = Inl PolicyTypeError"

definition permits_spot :: "pyval \<Rightarrow> bool" where
  "permits_spot g \<longleftrightarrow> is_list g \<and> ''SPOT'' \<in> set (map (\<lambda>x. upper (pstr x)) (elems g))"

definition check_permissions :: "pydict \<Rightarrow> policy_error + unit" where
  "check_permissions md =
     bindE (upper_texts (por (get md ''permissions'') (PList []))) (\<lambda>permissions.
     bindE (assertE (permissions = [] \<or> ''SPOT'' \<in> set permissions) SpotPermissionMissing) (\<lambda>_.
     let sets = por (get md ''permissionSets'') (PList []) in
     assertE (\<not> truthy sets \<or> (is_list sets \<and> list_ex permits_spot (elems sets)))
       PermissionSetsWithoutSpot))"

definition filter_names :: "pyval \<Rightarrow> string list" where
  "filter_names fs = map (\<lambda>f. pstr (get (items f) ''filterType'')) (List.filter is_dict (elems fs))"

definition check_filters :: "pydict \<Rightarrow> policy_error + unit" where
  "check_filters md = (let fs = get md ''filters'' in
     if \<not> is_list fs then Inl FiltersMissing
     else forE (\<lambda>required. assertE (required \<in> set (filter_names fs)) (RequiredFilterMissing required))
       [''PRICE_FILTER'', ''LOT_SIZE''])"

definition validate_exchange_symbol ::
  "environ \<Rightarrow> string \<Rightarrow> pyval \<Rightarrow> string list option \<Rightarrow> bool \<Rightarrow> policy_error + pydict" where
  "validate_exchange_symbol env pair metadata allowed require_order_lists =
     bindE (canonical_pair env pair allowed) (\<lambda>p.
     let symbol = symbol_of p; quote = quote_of p; md = items metadata in
     bindE (assertE (is_dict metadata \<and> token md ''symbol'' = symbol) SymbolMismatch) (\<lambda>_.
     bindE (assertE (token md ''status'' = ''TRADING'') NotTrading) (\<lambda>_.
     bindE (assertE (token md ''baseAsset'' = ''BTC'') BaseNotBtc) (\<lambda>_.
     bindE (assertE (token md ''quoteAsset'' = quote) QuoteMismatch) (\<lambda>_.
     bindE (check_permissions md) (\<lambda>_.
     bindE (assertE (is_true (get md ''isSpotTradingAllowed'')) SpotDisabled) (\<lambda>_.
     bindE (assertE (require_order_lists \<longrightarrow> truthy (get md ''ocoAllowed'')) OcoUnsupported) (\<lambda>_.
     bindE (assertE (require_order_lists \<longrightarrow> truthy (get md ''otoAllowed'')) OtoUnsupported) (\<lambda>_.
     bindE (check_filters md) (\<lambda>_. Inr md))))))))))"

subsection \<open>Hashes\<close>

definition pair_state_bound :: "pydict \<Rightarrow> pyval" where
  "pair_state_bound state = PDict (map (\<lambda>k. (k, get state k))
     [''schema_version'', ''pair'', ''symbol'', ''base'', ''quote'', ''generation'', ''pair_config_hash''])"

definition pair_state_hash :: "(string \<Rightarrow> string) \<Rightarrow> pydict \<Rightarrow> string" where
  "pair_state_hash sha256 state = sha256 (json_dumps (pair_state_bound state))"

definition pair_config_hash ::
  "(string \<Rightarrow> string) \<Rightarrow> environ \<Rightarrow> string \<Rightarrow> string list option \<Rightarrow> policy_error + string" where
  "pair_config_hash sha256 env pair allowed =
     bindE (canonical_pair env pair allowed) (\<lambda>p.
     Inr (sha256 (json_dumps (PDict [(''pair'', PStr p), (''symbol'', PStr (symbol_of p)),
       (''stake_currency'', PStr (quote_of p)), (''pair_whitelist'', PList [PStr p])]))))"


subsection \<open>Properties of canonical pairs\<close>

lemma valid_quote_no_slash: "valid_quote q \<Longrightarrow> CHR ''/'' \<notin> set q"
  by (auto simp: alnum_between_def list_all_iff is_upper_alnum_def)

lemma symbol_of_pair [simp]: "valid_quote q \<Longrightarrow> symbol_of (''BTC/'' @ q) = ''BTC'' @ q"
  by (drule valid_quote_no_slash) (auto simp: symbol_of_def remove_char_def filter_id_conv)

lemma quote_of_pair [simp]: "quote_of (''BTC/'' @ q) = q"
  by (simp add: quote_of_def after_def)

lemma canonical_pair_form:
  assumes "canonical_pair env s allowed = Inr p"
  shows "p = ''BTC/'' @ quote_of p" and "valid_quote (quote_of p)"
proof -
  have "starts_with ''BTC/'' p" and v: "valid_quote (drop 4 p)"
    using assms by (auto simp: canonical_pair_def Let_def bindE_Inr_iff split: if_splits)
  then have p: "p = ''BTC/'' @ drop 4 p"
  proof -
    have "length ''BTC/'' = 4" by simp
    then show ?thesis using starts_with_split \<open>starts_with ''BTC/'' p\<close> by metis
  qed
  then have "quote_of p = drop 4 p" by (metis quote_of_pair)
  then show "p = ''BTC/'' @ quote_of p" "valid_quote (quote_of p)" using p v by simp_all
qed

lemma canonical_pair_symbol:
  assumes "canonical_pair env s allowed = Inr p"
  shows "symbol_of p = ''BTC'' @ quote_of p"
  using canonical_pair_form [OF assms] by (metis symbol_of_pair)

text \<open>Upper-case alphanumerics are untouched by \<open>strip\<close>, \<open>upper\<close> and \<open>replace\<close>.\<close>

lemma upper_alnum_char:
  assumes "is_upper_alnum c"
  shows "upper_char c = c" "\<not> is_space c" "c \<noteq> CHR ''-''" "c \<noteq> CHR ''_''" "c \<noteq> CHR ''/''"
  using assms by (auto simp: is_upper_alnum_def upper_char_def is_space_def Let_def)

lemma normalize_canonical:
  assumes "valid_quote q"
  shows "normalize_pair (''BTC/'' @ q) = ''BTC/'' @ q" and "normalize_pair (''BTC'' @ q) = ''BTC/'' @ q"
proof -
  have q: "q \<noteq> []" "\<And>c. c \<in> set q \<Longrightarrow> is_upper_alnum c" "2 \<le> length q" "length q \<le> 12"
    using assms by (auto simp: alnum_between_def list_all_iff)
  have s: "strip (pre @ q) = pre @ q" if "\<not> is_space (hd (pre @ q))" for pre
    using q that by (intro strip_id) (auto simp: upper_alnum_char)
  have sp: "\<not> is_space (CHR ''B'')" by (simp add: is_space_def)
  have u: "upper q = q" "replace_char CHR ''-'' CHR ''/'' q = q" "replace_char CHR ''_'' CHR ''/'' q = q"
    using q by (auto simp: upper_def replace_char_def upper_alnum_char intro!: map_idI)
  have up: "upper (''BTC/'' @ q) = ''BTC/'' @ upper q" "upper (''BTC'' @ q) = ''BTC'' @ upper q"
    by (simp_all add: upper_eval Let_def)
  have rp: "replace_char a b (x @ y) = replace_char a b x @ replace_char a b y" for a b x y
    by (simp add: replace_char_def)
  have base: "replace_char CHR ''-'' CHR ''/'' ''BTC/'' = ''BTC/''" "replace_char CHR ''_'' CHR ''/'' ''BTC/'' = ''BTC/''"
    "replace_char CHR ''-'' CHR ''/'' ''BTC'' = ''BTC''" "replace_char CHR ''_'' CHR ''/'' ''BTC'' = ''BTC''"
    by (simp_all add: replace_char_def)
  show "normalize_pair (''BTC/'' @ q) = ''BTC/'' @ q"
    unfolding normalize_pair_def s [of "''BTC/''", simplified, OF sp, folded append_Cons] Let_def
    using s [of "''BTC/''"] sp by (simp add: up [simplified] u rp [of _ _ "''BTC/''" q, simplified] base [simplified])
  have btc: "is_upper_alnum (CHR ''B'')" "is_upper_alnum (CHR ''T'')" "is_upper_alnum (CHR ''C'')"
    by (simp_all add: is_upper_alnum_def)
  have "CHR ''/'' \<notin> set q" using assms by (rule valid_quote_no_slash)
  moreover have "alnum_between 5 15 (''BTC'' @ q)"
    using q btc by (auto simp: alnum_between_def list_all_iff)
  ultimately show "normalize_pair (''BTC'' @ q) = ''BTC/'' @ q"
    unfolding normalize_pair_def Let_def
    using s [of "''BTC''"] sp
    by (simp add: up [simplified] u rp [of _ _ "''BTC''" q, simplified] base [simplified] starts_with_def)
qed


lemma canonical_pair_fixpoint:
  assumes "canonical_pair env s allowed = Inr p"
  shows "canonical_pair env p allowed = Inr p" and "canonical_pair env (symbol_of p) allowed = Inr p"
proof -
  note form = canonical_pair_form [OF assms]
  have n: "normalize_pair p = p" "normalize_pair (symbol_of p) = p"
    using normalize_canonical [OF form(2)] form(1) canonical_pair_symbol [OF assms] by auto
  have "normalize_pair s = p"
    using assms by (auto simp: canonical_pair_def Let_def bindE_Inr_iff split: if_splits)
  then show "canonical_pair env p allowed = Inr p" "canonical_pair env (symbol_of p) allowed = Inr p"
    using assms unfolding canonical_pair_def n by simp_all
qed

lemma canonical_pair_injective:
  assumes "canonical_pair env s al = Inr p" "canonical_pair env' s' al' = Inr p'"
    and "symbol_of p = symbol_of p'"
  shows "p = p'"
proof -
  have "quote_of p = quote_of p'"
    using canonical_pair_symbol [OF assms(1)] canonical_pair_symbol [OF assms(2)] assms(3) by simp
  then show ?thesis
    using canonical_pair_form(1) [OF assms(1)] canonical_pair_form(1) [OF assms(2)] by metis
qed

lemma canonical_pair_allowed:
  "canonical_pair env s (Some qs) = Inr p \<Longrightarrow> quotes_of qs True = Inr cleaned \<Longrightarrow>
   cleaned = [] \<or> quote_of p \<in> set cleaned"
proof -
  assume a: "canonical_pair env s (Some qs) = Inr p" and "quotes_of qs True = Inr cleaned"
  then have "cleaned = [] \<or> drop 4 p \<in> set cleaned"
    by (auto simp: canonical_pair_def Let_def split: if_splits)
  moreover have "drop 4 p = quote_of p"
  proof -
    have "drop 4 (''BTC/'' @ quote_of p) = quote_of p" by simp
    then show ?thesis using canonical_pair_form(1) [OF a] by metis
  qed
  ultimately show ?thesis by simp
qed

text \<open>What accepted metadata guarantees.\<close>

lemma validate_exchange_symbol_Inr:
  assumes "validate_exchange_symbol env pair metadata allowed order_lists = Inr md"
  shows "\<exists>p. canonical_pair env pair allowed = Inr p \<and> is_dict metadata \<and> md = items metadata
    \<and> token md ''symbol'' = symbol_of p \<and> token md ''status'' = ''TRADING''
    \<and> token md ''baseAsset'' = ''BTC'' \<and> token md ''quoteAsset'' = quote_of p
    \<and> is_true (get md ''isSpotTradingAllowed'')
    \<and> (order_lists \<longrightarrow> truthy (get md ''ocoAllowed'') \<and> truthy (get md ''otoAllowed''))
    \<and> {''PRICE_FILTER'', ''LOT_SIZE''} \<subseteq> set (filter_names (get md ''filters''))"
proof -
  have filters: "check_filters md = Inr () \<Longrightarrow>
      {''PRICE_FILTER'', ''LOT_SIZE''} \<subseteq> set (filter_names (get md ''filters''))" for md
    by (auto simp: check_filters_def Let_def forE_Inr_iff bindE_Inr_iff split: if_splits)
  show ?thesis using assms
    unfolding validate_exchange_symbol_def Let_def bindE_Inr_iff assertE_Inr_iff
    by (elim exE conjE) (auto dest: filters)
qed

subsection \<open>Guarantees\<close>

text \<open>A canonical pair is \<open>BTC/\<close> and an allowed quote, canonicalising it or its exchange symbol gives it
  back, and distinct canonical pairs have distinct exchange symbols.\<close>

theorem canonical_pair_sound:
  assumes "canonical_pair env s (Some qs) = Inr p" "canonical_pair env' s' al' = Inr p'"
  shows "p = ''BTC/'' @ quote_of p \<and> valid_quote (quote_of p) \<and> symbol_of p = ''BTC'' @ quote_of p
    \<and> (\<forall>cleaned. quotes_of qs True = Inr cleaned \<longrightarrow> cleaned = [] \<or> quote_of p \<in> set cleaned)
    \<and> canonical_pair env p (Some qs) = Inr p \<and> canonical_pair env (symbol_of p) (Some qs) = Inr p
    \<and> (symbol_of p = symbol_of p' \<longrightarrow> p = p')"
  using canonical_pair_form [OF assms(1)] canonical_pair_symbol [OF assms(1)] canonical_pair_allowed [OF assms(1)]
    canonical_pair_fixpoint [OF assms(1)] canonical_pair_injective [OF assms] by blast

lemma canonical_pair_sound_witness:
  "canonical_pair (\<lambda>_. None) '' btc-usdc'' (Some [''usdc'', ''FDUSD'']) = Inr ''BTC/USDC''
   \<and> canonical_pair (\<lambda>_. None) ''BTCUSDC'' (Some [''usdc'', ''FDUSD'']) = Inr ''BTC/USDC''"
proof -
  have a: "canonical_pair (\<lambda>_. None) '' btc-usdc'' (Some [''usdc'', ''FDUSD'']) = Inr ''BTC/USDC''" by code_simp
  have s: "symbol_of ''BTC/USDC'' = ''BTCUSDC''" by code_simp
  show ?thesis using canonical_pair_sound [OF a a] a s by simp
qed

text \<open>Exchange metadata is accepted only for the exact symbol of the canonical pair, trading, with base
  BTC and the pair's quote, with Spot and (where required) OCO and OTO enabled, and with the price and lot filters.\<close>

theorem exchange_metadata_accepted:
  assumes "validate_exchange_symbol env pair metadata allowed order_lists = Inr md"
  shows "\<exists>p. canonical_pair env pair allowed = Inr p \<and> is_dict metadata \<and> md = items metadata
    \<and> token md ''symbol'' = symbol_of p \<and> token md ''status'' = ''TRADING''
    \<and> token md ''baseAsset'' = ''BTC'' \<and> token md ''quoteAsset'' = quote_of p
    \<and> is_true (get md ''isSpotTradingAllowed'')
    \<and> (order_lists \<longrightarrow> truthy (get md ''ocoAllowed'') \<and> truthy (get md ''otoAllowed''))
    \<and> {''PRICE_FILTER'', ''LOT_SIZE''} \<subseteq> set (filter_names (get md ''filters''))"
  by (rule validate_exchange_symbol_Inr [OF assms])

definition demo_metadata :: pydict where
  "demo_metadata = [(''symbol'', PStr ''BTCUSDC''), (''status'', PStr ''TRADING''), (''baseAsset'', PStr ''BTC''),
     (''quoteAsset'', PStr ''USDC''), (''isSpotTradingAllowed'', PBool True), (''ocoAllowed'', PBool True),
     (''otoAllowed'', PBool True), (''filters'', PList [PDict [(''filterType'', PStr ''PRICE_FILTER'')],
       PDict [(''filterType'', PStr ''LOT_SIZE'')]])]"

lemma exchange_metadata_accepted_witness:
  "token demo_metadata ''status'' = ''TRADING'' \<and> is_true (get demo_metadata ''isSpotTradingAllowed'')"
proof -
  have "(case validate_exchange_symbol (\<lambda>_. None) ''BTC/USDC'' (PDict demo_metadata) None True of
      Inr md \<Rightarrow> md = demo_metadata | Inl _ \<Rightarrow> False)" by code_simp
  then have "validate_exchange_symbol (\<lambda>_. None) ''BTC/USDC'' (PDict demo_metadata) None True = Inr demo_metadata"
    by (simp split: sum.splits)
  from exchange_metadata_accepted [OF this] show ?thesis by auto
qed

end
