(* ===== verification/Protection_Modes.thy ===== *)
theory Protection_Modes
  imports Market_Policy
begin

text \<open>
  Request construction of \<open>services/execution_sidecar/protection_modes.py\<close>: rounding
  down to an exchange step, the text of a decimal, the OTO/OTOCO entry and the
  order/OCO replacement requests of the three protection modes, and the fee-adjusted
  break-even price. Within one request the source draws one client identifier per role,
  so the identifier source is a function from roles to texts.
\<close>

datatype factory_error =
    Arith dec_error | StepNotPositive | FeeOutOfRange | ProtectiveQtyZero
  | ReplacementNotPositive | StopNotBelowCurrent | BreakEvenInputs | NoProceeds

definition arith :: "dec_error + 'a \<Rightarrow> factory_error + 'a" where
  "arith x = (case x of Inl e \<Rightarrow> Inl (Arith e) | Inr v \<Rightarrow> Inr v)"

definition floor_step :: "dec \<Rightarrow> dec \<Rightarrow> factory_error + dec" where
  "floor_step v step =
     (if dle step dzero then Inl StepNotPositive
      else bindE (arith (ddiv v step)) (\<lambda>q. Inr (dmul (to_integral_down q) step)))"

definition decimal_text :: "dec \<Rightarrow> string" where
  "decimal_text v = (let t = format_f v in
     if CHR ''.'' \<in> set t then rstrip_char (CHR ''.'') (rstrip_char (CHR ''0'') t) else t)"

record protection_settings =
  take_profit_pct :: dec
  fixed_stop_pct :: dec
  trailing_delta_bips :: int
  limit_fill_buffer_bips :: int
  fee_pct_per_side :: dec

definition default_settings :: protection_settings where
  "default_settings = \<lparr>take_profit_pct = Dec 12 (-1), fixed_stop_pct = Dec 20 (-1),
     trailing_delta_bips = 40, limit_fill_buffer_bips = 20, fee_pct_per_side = Dec 1 (-1)\<rparr>"

text \<open>The exchange rules of one symbol (\<open>SymbolRules\<close> of the adapter).\<close>

record symbol_rules =
  r_symbol :: string
  r_quote :: string
  r_tick :: dec
  r_step :: dec
  r_min_qty :: dec
  r_max_qty :: dec
  r_min_notional :: dec
  r_max_notional :: dec
  r_trail_min :: int
  r_trail_max :: int
  r_oco_allowed :: bool
  r_oto_allowed :: bool
  r_trailing_allowed :: bool

definition clamp_delta :: "symbol_rules \<Rightarrow> int \<Rightarrow> int" where
  "clamp_delta rules requested = max (r_trail_min rules) (min requested (r_trail_max rules))"

text \<open>\<open>1 + p / 100\<close>, \<open>1 - p / 100\<close> and \<open>1 - bips / 10000\<close>.\<close>

definition plus_pct :: "dec \<Rightarrow> factory_error + dec" where
  "plus_pct p = bindE (arith (ddiv p (of_int_dec 100))) (\<lambda>x. Inr (dadd (of_int_dec 1) x))"

definition minus_pct :: "dec \<Rightarrow> factory_error + dec" where
  "minus_pct p = bindE (arith (ddiv p (of_int_dec 100))) (\<lambda>x. Inr (dsub (of_int_dec 1) x))"

definition minus_bips :: "int \<Rightarrow> factory_error + dec" where
  "minus_bips b = bindE (arith (ddiv (of_int_dec b) (of_int_dec 10000))) (\<lambda>x. Inr (dsub (of_int_dec 1) x))"

definition scaled :: "dec \<Rightarrow> factory_error + dec \<Rightarrow> dec \<Rightarrow> factory_error + dec" where
  "scaled v factor step = bindE factor (\<lambda>f. floor_step (dmul v f) step)"

definition pending_qty :: "protection_settings \<Rightarrow> symbol_rules \<Rightarrow> dec \<Rightarrow> factory_error + dec" where
  "pending_qty s rules qty = (let fee = fee_pct_per_side s in
     if dlt fee dzero \<or> dle (of_int_dec 100) fee then Inl FeeOutOfRange
     else scaled qty (minus_pct fee) (r_step rules))"

type_synonym order_request = "string \<times> pydict"

definition dtext :: "dec \<Rightarrow> pyval" where
  "dtext d = PStr (decimal_text d)"

definition entry_common ::
  "(string \<Rightarrow> string) \<Rightarrow> symbol_rules \<Rightarrow> dec \<Rightarrow> dec \<Rightarrow> dec \<Rightarrow> pydict" where
  "entry_common ids rules entry qty pending =
     [(''symbol'', PStr (r_symbol rules)),
      (''listClientOrderId'', PStr (ids ''ENTRYLIST'')),
      (''workingClientOrderId'', PStr (ids ''ENTRY'')),
      (''workingType'', PStr ''LIMIT''), (''workingSide'', PStr ''BUY''),
      (''workingPrice'', dtext entry), (''workingQuantity'', dtext qty),
      (''workingTimeInForce'', PStr ''GTC''),
      (''pendingSide'', PStr ''SELL''), (''pendingQuantity'', dtext pending),
      (''newOrderRespType'', PStr ''FULL'')]"

text \<open>The request once the quantities and the target are rounded.\<close>

definition entry_tail ::
  "(string \<Rightarrow> string) \<Rightarrow> protection_settings \<Rightarrow> protection_mode \<Rightarrow> symbol_rules \<Rightarrow> dec \<Rightarrow> dec \<Rightarrow> dec \<Rightarrow> dec \<Rightarrow>
   factory_error + order_request" where
  "entry_tail ids s mode rules qty entry pending tp =
     (let delta = clamp_delta rules (trailing_delta_bips s); common = entry_common ids rules entry qty pending in
     if mode = TRAILING_ONLY then
       bindE (scaled entry (minus_bips (delta + limit_fill_buffer_bips s)) (r_tick rules)) (\<lambda>floor_price.
       Inr (''orderList/oto'', common @
         [(''pendingClientOrderId'', PStr (ids ''TRAIL'')),
          (''pendingType'', PStr ''STOP_LOSS_LIMIT''), (''pendingPrice'', dtext floor_price),
          (''pendingTrailingDelta'', PInt delta), (''pendingTimeInForce'', PStr ''GTC'')]))
     else let brackets = common @
         [(''pendingAboveClientOrderId'', PStr (ids ''TP'')),
          (''pendingAboveType'', PStr ''LIMIT_MAKER''), (''pendingAbovePrice'', dtext tp),
          (''pendingBelowClientOrderId'', PStr (ids ''STOP'')),
          (''pendingBelowType'', PStr ''STOP_LOSS_LIMIT''), (''pendingBelowTimeInForce'', PStr ''GTC'')] in
     if mode = FIXED_OCO then
       bindE (scaled entry (minus_pct (fixed_stop_pct s)) (r_tick rules)) (\<lambda>stop.
       bindE (scaled stop (minus_bips (limit_fill_buffer_bips s)) (r_tick rules)) (\<lambda>floor_price.
       Inr (''orderList/otoco'', brackets @
         [(''pendingBelowStopPrice'', dtext stop), (''pendingBelowPrice'', dtext floor_price)])))
     else
       bindE (scaled entry (minus_bips (delta + limit_fill_buffer_bips s)) (r_tick rules)) (\<lambda>floor_price.
       Inr (''orderList/otoco'', brackets @
         [(''pendingBelowTrailingDelta'', PInt delta), (''pendingBelowPrice'', dtext floor_price)])))"

definition entry_request ::
  "(string \<Rightarrow> string) \<Rightarrow> protection_settings \<Rightarrow> protection_mode \<Rightarrow> symbol_rules \<Rightarrow> dec \<Rightarrow> dec \<Rightarrow>
   factory_error + order_request" where
  "entry_request ids s mode rules qty0 entry0 =
     bindE (floor_step qty0 (r_step rules)) (\<lambda>qty.
     bindE (floor_step entry0 (r_tick rules)) (\<lambda>entry.
     bindE (pending_qty s rules qty) (\<lambda>pending.
     if dle pending dzero then Inl ProtectiveQtyZero
     else bindE (scaled entry (plus_pct (take_profit_pct s)) (r_tick rules)) (\<lambda>tp.
       entry_tail ids s mode rules qty entry pending tp))))"

definition replacement_request ::
  "(string \<Rightarrow> string) \<Rightarrow> protection_settings \<Rightarrow> protection_mode \<Rightarrow> symbol_rules \<Rightarrow> dec \<Rightarrow> dec \<Rightarrow> dec \<Rightarrow>
   dec option \<Rightarrow> int option \<Rightarrow> factory_error + order_request" where
  "replacement_request ids s mode rules qty0 entry current stop_price trailing =
     bindE (floor_step qty0 (r_step rules)) (\<lambda>qty.
     if dle qty dzero \<or> dle entry dzero \<or> dle current dzero then Inl ReplacementNotPositive
     else let requested = (case trailing of Some t \<Rightarrow> if t \<noteq> 0 then t else trailing_delta_bips s
                             | None \<Rightarrow> trailing_delta_bips s);
              delta = clamp_delta rules requested in
     if mode = TRAILING_ONLY then
       bindE (scaled current (minus_bips (delta + limit_fill_buffer_bips s)) (r_tick rules)) (\<lambda>floor_price.
       Inr (''order'',
         [(''symbol'', PStr (r_symbol rules)), (''side'', PStr ''SELL''), (''type'', PStr ''STOP_LOSS_LIMIT''),
          (''quantity'', dtext qty), (''price'', dtext floor_price),
          (''trailingDelta'', PInt delta), (''timeInForce'', PStr ''GTC''),
          (''newClientOrderId'', PStr (ids ''TRAIL''))]))
     else
       bindE (plus_pct (take_profit_pct s)) (\<lambda>tp_factor.
       bindE (floor_step (dmax (dmul entry tp_factor)
           (dmul current (dadd (of_int_dec 1) (Dec 2 (-3))))) (r_tick rules)) (\<lambda>tp.
       let params =
         [(''symbol'', PStr (r_symbol rules)), (''side'', PStr ''SELL''), (''quantity'', dtext qty),
          (''listClientOrderId'', PStr (ids ''PROTECT'')),
          (''aboveClientOrderId'', PStr (ids ''TP'')),
          (''aboveType'', PStr ''LIMIT_MAKER''), (''abovePrice'', dtext tp),
          (''belowClientOrderId'', PStr (ids ''STOP'')),
          (''belowType'', PStr ''STOP_LOSS_LIMIT''), (''belowTimeInForce'', PStr ''GTC''),
          (''newOrderRespType'', PStr ''FULL'')] in
       if mode = FIXED_OCO then
         bindE (case stop_price of Some p \<Rightarrow> floor_step p (r_tick rules)
            | None \<Rightarrow> scaled entry (minus_pct (fixed_stop_pct s)) (r_tick rules)) (\<lambda>stop.
         if dle current stop then Inl StopNotBelowCurrent
         else bindE (scaled stop (minus_bips (limit_fill_buffer_bips s)) (r_tick rules)) (\<lambda>floor_price.
           Inr (''orderList/oco'', params @
             [(''belowStopPrice'', dtext stop), (''belowPrice'', dtext floor_price)])))
       else
         bindE (scaled current (minus_bips (delta + limit_fill_buffer_bips s)) (r_tick rules)) (\<lambda>floor_price.
         Inr (''orderList/oco'', params @
           [(''belowTrailingDelta'', PInt delta), (''belowPrice'', dtext floor_price)])))))"

definition pct_invalid :: "dec \<Rightarrow> bool" where
  "pct_invalid v \<longleftrightarrow> dlt v dzero \<or> dle (of_int_dec 100) v"

definition fee_adjusted_break_even ::
  "dec \<Rightarrow> dec \<Rightarrow> dec \<Rightarrow> dec \<Rightarrow> factory_error + dec" where
  "fee_adjusted_break_even entry buy_fee sell_fee slippage =
     (if dle entry dzero \<or> list_ex pct_invalid [buy_fee, sell_fee, slippage] then Inl BreakEvenInputs
      else bindE (plus_pct (dadd buy_fee slippage)) (\<lambda>up.
           let cost = dmul entry up in
           bindE (minus_pct (dadd sell_fee slippage)) (\<lambda>proceeds_ratio.
           if dle proceeds_ratio dzero then Inl NoProceeds
           else arith (ddiv cost proceeds_ratio))))"

subsection \<open>Rounding to a step is exact on exchange values\<close>

text \<open>
  The source divides at 28 digits and truncates. For a value with at most \<open>k\<close> decimals
  below \<open>10^(27-k)\<close> the rounded quotient has the integer part of the true one:
  either the step divides the value, and the quotient is exact, or the true quotient is
  farther from every integer than the rounding error.
\<close>

lemma arith_iff [simp]: "arith x = Inr v \<longleftrightarrow> x = Inr v" "arith x = Inl e \<longleftrightarrow> (\<exists>d. x = Inl d \<and> e = Arith d)"
  by (auto simp: arith_def split: sum.splits)

lemma arith_simps [simp]: "arith (Inr v) = Inr v" "arith (Inl d) = Inl (Arith d)"
  by (simp_all add: arith_def)

lemma floor_close:
  fixes m n :: int and q :: rat
  assumes n: "0 < n" and m: "0 \<le> m" "m < 10 ^ 27"
    and q: "\<bar>q - of_int m / of_int n\<bar> \<le> div_bound * \<bar>of_int m / of_int n\<bar>"
    and nd: "\<not> n dvd m"
  shows "\<lfloor>q\<rfloor> = m div n"
proof -
  have mod: "1 \<le> m mod n" "m mod n \<le> n - 1"
    using nd n pos_mod_bound [of n m] pos_mod_sign [of n m] by (auto simp: dvd_eq_mod_eq_0 simp del: pos_mod_bound pos_mod_sign)
  have m': "(of_int m :: rat) = of_int n * of_int (m div n) + of_int (m mod n)"
    by (metis mult_div_mod_eq of_int_add of_int_mult)
  have small: "div_bound * of_int m < 1"
  proof -
    have "(of_int m :: rat) < of_int (10 ^ 27)" using m(2) by (simp only: of_int_less_iff)
    then show ?thesis by (simp add: div_bound_def)
  qed
  have abs: "\<bar>of_int m / of_int n :: rat\<bar> = of_int m / of_int n" using m n by simp
  have e: "\<bar>q * of_int n - of_int m\<bar> < 1"
  proof -
    have "q * of_int n - of_int m = (q - of_int m / of_int n) * of_int n"
      using n by (simp add: field_simps)
    then have "\<bar>q * of_int n - of_int m\<bar> = \<bar>q - of_int m / of_int n\<bar> * of_int n"
      using n by (simp add: abs_mult)
    also have "\<dots> \<le> div_bound * (of_int m / of_int n) * of_int n"
      using q n abs by (intro mult_right_mono) auto
    also have "\<dots> = div_bound * of_int m" using n by simp
    finally show ?thesis using small by linarith
  qed
  obtain x where x: "x = (of_int (m mod n) :: rat)" by blast
  have l: "1 \<le> x" "x \<le> of_int n - 1"
    unfolding x using mod by (metis of_int_1 of_int_le_iff, metis mod(2) of_int_1 of_int_diff of_int_le_iff)
  define a y where "a = (of_int (m div n) * of_int n :: rat)" and "y = q * of_int n"
  have "of_int m = a + x" using m' by (simp add: a_def x)
  then have "a < y" "y < a + of_int n" using e l unfolding y_def [symmetric] abs_less_iff by linarith+
  then have "of_int (m div n) * of_int n < q * of_int n" "q * of_int n < (of_int (m div n) + 1) * of_int n"
    by (simp_all only: a_def y_def distrib_right mult_1)
  then have "of_int (m div n) < q" "q < of_int (m div n) + 1" using n by simp_all
  then show ?thesis by (simp add: floor_eq_iff)
qed

lemma floor_step_exact:
  assumes v: "decimals k (dval v)" "0 \<le> dval v" "dval v * 10 ^ k < 10 ^ 27"
    and s: "decimals k (dval step)" "0 < dval step"
  shows "\<exists>r. floor_step v step = Inr r \<and> dval r = of_int \<lfloor>dval v / dval step\<rfloor> * dval step"
proof -
  obtain m n where mn: "dval v = of_int m / 10 ^ k" "dval step = of_int n / 10 ^ k"
    using v(1) s(1) by (auto simp: decimals_def)
  have pos: "0 < n" "0 \<le> m" using mn v(2) s(2)
    by (auto simp: zero_less_divide_iff zero_le_divide_iff) (metis linorder_not_le zero_less_numeral zero_less_power)
  have "(of_int m :: rat) < of_int (10 ^ 27)" using v(3) mn by simp
  then have m: "m < 10 ^ 27" by (simp only: of_int_less_iff)
  have ratio: "dval v / dval step = of_int m / of_int n" using mn by simp
  have fl: "\<lfloor>dval v / dval step\<rfloor> = m div n" by (simp add: ratio floor_divide_of_int_eq)
  have c: "coeff step \<noteq> 0" using s(2) dval_pos_iff by force
  obtain q where q: "ddiv v step = Inr q" using c ddiv_Inr_iff by blast
  have "0 \<le> dval q" using ddiv_sign [OF q] v(2) s(2) by (metis divide_nonneg_pos sgn_less not_le)
  then have qn: "0 \<le> coeff q" by (simp add: dval_nonneg_iff)
  have fq: "\<lfloor>dval q\<rfloor> = m div n"
  proof (cases "n dvd m")
    case True
    then have r: "dval v / dval step = of_int (m div n)"
      using pos by (auto simp: ratio elim!: dvdE)
    have "m div n \<le> m" using True pos by (auto elim!: dvdE simp: mult_le_cancel_right1 zero_le_mult_iff)
    moreover have "0 \<le> m div n" using pos by (simp add: pos_imp_zdiv_nonneg_iff)
    ultimately have "\<bar>m div n\<bar> < 10 ^ context_prec" using m by simp
    then have "(of_int \<bar>m div n\<bar> :: rat) < of_int (10 ^ context_prec)" by (simp only: of_int_less_iff)
    then have "representable (dval v / dval step)"
      unfolding r by (intro decimals_representable [of 0]) (auto simp: )
    then show ?thesis using ddiv_exact [OF c, of v] q r by auto
  next
    case False
    then show ?thesis using floor_close [OF pos(1) pos(2) m] ddiv_error [OF q] ratio by simp
  qed
  have "dval (dmul (to_integral_down q) step) = of_int (m div n) * dval step"
  proof -
    have t: "dval (to_integral_down q) = of_int (m div n)"
      using to_integral_down_nonneg [OF qn] fq by simp
    have "m div n * n + m mod n = m" "0 \<le> m mod n" "0 \<le> m div n * n"
      using pos by (simp_all add: pos_imp_zdiv_nonneg_iff)
    then have "m div n * n \<le> m" "0 \<le> m div n * n" by linarith+
    then have "\<bar>m div n * n\<bar> < 10 ^ context_prec" using m by simp
    then have "(of_int \<bar>m div n * n\<bar> :: rat) < of_int (10 ^ context_prec)" by (simp only: of_int_less_iff)
    then have "representable (dval (to_integral_down q) * dval step)"
      unfolding t by (intro decimals_representable [of k] decimals_mult_int s(1)) (simp add: mn(2) abs_mult)
    then show ?thesis using dmul_exact t by metis
  qed
  then show ?thesis using q s(2) fl by (simp add: floor_step_def dec_compare dval_Dec)
qed

lemma rstrip_append_replicate:
  "last s \<noteq> c \<Longrightarrow> s \<noteq> [] \<Longrightarrow> rstrip_char c (s @ replicate k c) = s"
proof -
  assume "last s \<noteq> c" "s \<noteq> []"
  then have "dropWhile (\<lambda>x. x = c) (rev s) = rev s" by (intro dropWhile_hd_not) (simp_all add: hd_rev)
  moreover have "dropWhile (\<lambda>x. x = c) (replicate k c @ ys) = dropWhile (\<lambda>x. x = c) ys" for ys
    by (induction k) simp_all
  ultimately show ?thesis by (simp add: rstrip_char_def)
qed

lemma split_trailing: "\<exists>s' k. s = s' @ replicate k c \<and> (s' = [] \<or> last s' \<noteq> c)"
proof (induction s rule: rev_induct)
  case (snoc x s)
  then obtain s' k where s: "s = s' @ replicate k c" "s' = [] \<or> last s' \<noteq> c" by blast
  show ?case
  proof (cases "x = c")
    case True
    have "s @ [x] = s' @ replicate (Suc k) c" using True s by (simp add: replicate_append_same)
    then show ?thesis using s(2) by blast
  next
    case False
    then have "s @ [x] = (s @ [x]) @ replicate 0 c" "last (s @ [x]) \<noteq> c" by simp_all
    then show ?thesis by blast
  qed
qed simp

lemma no_dot: "list_all is_digit s \<Longrightarrow> CHR ''.'' \<notin> set s"
  using digit_facts(3) by (auto simp: list_all_iff)

lemma last_digit: "list_all is_digit s \<Longrightarrow> s \<noteq> [] \<Longrightarrow> is_digit (last s)"
  by (simp add: list_all_iff)

lemma strip_fraction:
  assumes ip: "list_all is_digit ip" "ip \<noteq> []" and fp: "list_all is_digit fp" "fp = fp' @ replicate k (CHR ''0'')"
    and l: "fp' = [] \<or> last fp' \<noteq> CHR ''0''"
  shows "rstrip_char (CHR ''.'') (rstrip_char (CHR ''0'') (sign_text c @ ip @ CHR ''.'' # fp)) = plain_text c ip fp'"
proof (cases "fp' = []")
  case True
  have "last ip \<noteq> CHR ''.''" using last_digit [OF ip] digit_facts by blast
  then have "rstrip_char (CHR ''.'') ((sign_text c @ ip) @ replicate 1 (CHR ''.'')) = sign_text c @ ip"
    using ip by (intro rstrip_append_replicate) simp_all
  moreover have "rstrip_char (CHR ''0'') ((sign_text c @ ip @ ''.'') @ replicate k (CHR ''0'')) = sign_text c @ ip @ ''.''"
    by (intro rstrip_append_replicate) simp_all
  ultimately show ?thesis using True fp(2) by (simp add: plain_text_def)
next
  case False
  then have nz: "last fp' \<noteq> CHR ''0''" and d: "is_digit (last fp')" using l fp by (auto intro!: last_digit)
  have "rstrip_char (CHR ''0'') ((sign_text c @ ip @ CHR ''.'' # fp') @ replicate k (CHR ''0''))
      = sign_text c @ ip @ CHR ''.'' # fp'"
    using False nz by (intro rstrip_append_replicate) simp_all
  moreover have "rstrip_char (CHR ''.'') ((sign_text c @ ip @ CHR ''.'' # fp') @ replicate 0 (CHR ''.''))
      = sign_text c @ ip @ CHR ''.'' # fp'"
    using False digit_facts(3) [OF d] by (intro rstrip_append_replicate) simp_all
  ultimately show ?thesis using False fp(2) by (simp add: plain_text_def)
qed

lemma decimal_text_plain:
  "\<exists>ip fp fp' k. format_f v = plain_text (coeff v) ip fp \<and> decimal_text v = plain_text (coeff v) ip fp'
     \<and> fp = fp' @ replicate k (CHR ''0'') \<and> list_all is_digit ip \<and> ip \<noteq> [] \<and> list_all is_digit fp"
proof -
  define ip where "ip = nat_text (if 0 \<le> expo v then nat \<bar>coeff v\<bar> * 10 ^ nat (expo v)
    else nat \<bar>coeff v\<bar> div 10 ^ nat (- expo v))"
  define fp where "fp = (if 0 \<le> expo v then [] else
    pad_zeros (nat (- expo v)) (nat_text (nat \<bar>coeff v\<bar> mod 10 ^ nat (- expo v))))"
  have f: "format_f v = plain_text (coeff v) ip fp" by (simp add: format_f_plain ip_def fp_def Let_def)
  have d: "list_all is_digit ip" "ip \<noteq> []" "list_all is_digit fp" by (simp_all add: ip_def fp_def)
  obtain fp' k where k: "fp = fp' @ replicate k (CHR ''0'')" "fp' = [] \<or> last fp' \<noteq> CHR ''0''"
    using split_trailing [of fp "CHR ''0''"] by blast
  have "decimal_text v = plain_text (coeff v) ip fp'"
  proof (cases "fp = []")
    case True
    have "CHR ''.'' \<notin> set ip" by (rule no_dot [OF d(1)])
    with True have "CHR ''.'' \<notin> set (format_f v)" unfolding f by (simp add: plain_text_def sign_text_def)
    moreover have "fp' = []" using True k by simp
    ultimately show ?thesis using True f by (simp add: decimal_text_def)
  next
    case False
    then have t: "format_f v = sign_text (coeff v) @ ip @ CHR ''.'' # fp" by (simp add: f plain_text_def)
    show ?thesis unfolding decimal_text_def Let_def t
      by (simp only: strip_fraction [OF d(1) d(2) d(3) k]) simp
  qed
  then show ?thesis using f d k by blast
qed

lemma integral_shift: "c * 10 ^ k = (i :: int) \<Longrightarrow> (of_int i :: rat) = of_int c * 10 ^ k"
  by (metis of_int_mult of_int_numeral of_int_power)

lemma decimal_text_parses:
  "\<exists>d. parse_dec (decimal_text v) = Some (Fin d) \<and> dval d = dval v"
proof -
  obtain ip fp fp' k where f: "format_f v = plain_text (coeff v) ip fp"
      "decimal_text v = plain_text (coeff v) ip fp'" "fp = fp' @ replicate k (CHR ''0'')"
    and d: "list_all is_digit ip" "ip \<noteq> []" "list_all is_digit fp"
    using decimal_text_plain by blast
  have d': "list_all is_digit fp'" using d f(3) by simp
  define s where "s = (if coeff v < 0 then -1 else 1 :: int)"
  have p: "parse_dec (decimal_text v) = Some (Fin (Dec (s * int (parse_nat (ip @ fp'))) (- int (length fp'))))"
    unfolding f(2) s_def by (rule parse_dec_plain [OF d(1) d' d(2)])
  have "parse_dec (format_f v) = Some (Fin (Dec (s * int (parse_nat (ip @ fp))) (- int (length fp))))"
    unfolding f(1) s_def by (rule parse_dec_plain [OF d(1) d(3) d(2)])
  then have "dval (Dec (s * int (parse_nat (ip @ fp))) (- int (length fp))) = dval v"
    unfolding parse_format_f
    by (cases "0 \<le> expo v") (auto simp: dval_def pow_powi [symmetric] dest!: integral_shift)
  moreover have "parse_nat (ip @ fp) = parse_nat (ip @ fp') * 10 ^ k"
    unfolding f(3) append_assoc [symmetric] by (subst parse_nat_append) simp
  moreover have "(10 :: rat) powi - int (length fp) * 10 ^ k = 10 powi - int (length fp')"
    by (simp add: f(3) power_int_minus power_int_diff)
  ultimately show ?thesis using p by (simp add: dval_Dec mult_ac)
qed

subsection \<open>The bracket as numbers\<close>

definition grid_floor :: "rat \<Rightarrow> rat \<Rightarrow> rat" where
  "grid_floor x s = of_int \<lfloor>x / s\<rfloor> * s"

lemma grid_floor_le: "0 < s \<Longrightarrow> grid_floor x s \<le> x"
  unfolding grid_floor_def by (metis mult.commute of_int_floor_le pos_le_divide_eq mult.commute)

lemma grid_floor_nonneg: "0 < s \<Longrightarrow> 0 \<le> x \<Longrightarrow> 0 \<le> grid_floor x s"
  by (simp add: grid_floor_def)

lemma grid_floor_mono: "0 < s \<Longrightarrow> x \<le> y \<Longrightarrow> grid_floor x s \<le> grid_floor y s"
  by (simp add: grid_floor_def floor_mono divide_right_mono)

lemma grid_floor_idem: "0 < s \<Longrightarrow> grid_floor (grid_floor x s) s = grid_floor x s"
  by (simp add: grid_floor_def)

lemma grid_floor_gt: "0 < s \<Longrightarrow> x - s < grid_floor x s"
proof -
  assume s: "0 < s"
  have "x / s < of_int \<lfloor>x / s\<rfloor> + 1" by linarith
  then have "x < (of_int \<lfloor>x / s\<rfloor> + 1) * s" using s by (simp add: pos_divide_less_eq)
  then show ?thesis by (simp add: grid_floor_def algebra_simps)
qed

lemma decimals_grid: "decimals k s \<Longrightarrow> decimals k (grid_floor x s)"
  by (simp add: grid_floor_def decimals_mult_int)

text \<open>An amount as the exchange writes it: at most eight decimals, below \<open>b\<close>.\<close>

definition amount :: "rat \<Rightarrow> dec \<Rightarrow> bool" where
  "amount b d \<longleftrightarrow> decimals 8 (dval d) \<and> 0 \<le> dval d \<and> dval d < b"

definition step_ok :: "dec \<Rightarrow> bool" where
  "step_ok d \<longleftrightarrow> decimals 8 (dval d) \<and> 0 < dval d"

abbreviation "max_amount \<equiv> 10 ^ 8 :: rat"

text \<open>The factors are computed without rounding.\<close>

definition factor_is :: "factory_error + dec \<Rightarrow> rat \<Rightarrow> bool" where
  "factor_is f x \<longleftrightarrow> (\<exists>d. f = Inr d \<and> dval d = x) \<and> decimals 10 x \<and> 0 \<le> x \<and> x \<le> 2"

lemma div_pow10:
  assumes d: "decimals k (dval d)" "0 \<le> dval d" "dval d * 10 ^ k < 10 ^ 27" and n: "dval h = 10 ^ j"
  shows "\<exists>x. ddiv d h = Inr x \<and> dval x = dval d / 10 ^ j"
proof -
  have c: "coeff h \<noteq> 0" using n dval_zero_iff [of h] by simp
  have "\<bar>dval d / 10 ^ j\<bar> * 10 ^ (k + j) < 10 ^ context_prec" using d by (simp add: power_add)
  then have "representable (dval d / dval h)"
    unfolding n by (intro decimals_representable [of "k + j"] decimals_div_pow d)
  then show ?thesis using ddiv_exact [OF c] n by metis
qed

lemma factor_is_plus_pct:
  assumes "amount 100 p" shows "factor_is (plus_pct p) (1 + dval p / 100)"
proof -
  have p: "decimals 8 (dval p)" "0 \<le> dval p" "dval p < 100" using assms by (simp_all add: amount_def)
  obtain x where x: "ddiv p (of_int_dec 100) = Inr x" "dval x = dval p / 10 ^ 2"
    using div_pow10 [of 8 p "of_int_dec 100" 2] p by (auto simp: dec_val)
  have dec: "decimals 10 (1 + dval p / 10 ^ 2)" using decimals_div_pow [OF p(1), of 2] by (intro decimals_add) simp_all
  have "dval (dadd (of_int_dec 1) x) = 1 + dval p / 10 ^ 2"
    using dadd_exact [of "of_int_dec 1" x] decimals_representable [OF dec] p by (simp add: dec_val x)
  then show ?thesis using p dec x by (auto simp: factor_is_def plus_pct_def)
qed

lemma factor_is_minus:
  assumes x: "dval x = y" "0 \<le> y" "y \<le> 1" "decimals 10 y"
  shows "dval (dsub (of_int_dec 1) x) = 1 - y" "decimals 10 (1 - y)"
proof -
  show dec: "decimals 10 (1 - y)" using x by (intro decimals_diff) simp_all
  show "dval (dsub (of_int_dec 1) x) = 1 - y"
    using dsub_exact [of "of_int_dec 1" x] decimals_representable [OF dec] x by (simp add: dec_val)
qed

lemma factor_is_minus_pct:
  assumes "amount 100 p" shows "factor_is (minus_pct p) (1 - dval p / 100)"
proof -
  have p: "decimals 8 (dval p)" "0 \<le> dval p" "dval p < 100" using assms by (simp_all add: amount_def)
  obtain x where x: "ddiv p (of_int_dec 100) = Inr x" "dval x = dval p / 10 ^ 2"
    using div_pow10 [of 8 p "of_int_dec 100" 2] p by (auto simp: dec_val)
  have "decimals 10 (dval p / 10 ^ 2)" using decimals_div_pow [OF p(1), of 2] by simp
  then show ?thesis using factor_is_minus [OF x(2)] p x by (auto simp: factor_is_def minus_pct_def)
qed

lemma factor_is_minus_bips:
  assumes "0 \<le> b" "b \<le> 10000" shows "factor_is (minus_bips b) (1 - of_int b / 10000)"
proof -
  have v: "dval (of_int_dec b) = of_int b" "(of_int b :: rat) \<le> 10000" "(0 :: rat) \<le> of_int b" using assms by (simp_all add: dec_val)
  obtain x where x: "ddiv (of_int_dec b) (of_int_dec 10000) = Inr x" "dval x = of_int b / 10 ^ 4"
    using div_pow10 [of 0 "of_int_dec b" "of_int_dec 10000" 4] v by (auto simp: dec_val)
  have "decimals 4 (of_int b / 10 ^ 4)" using decimals_div_pow [of 0 "of_int b" 4] by simp
  then have "decimals 10 (of_int b / 10 ^ 4)" by (rule decimals_mono) simp
  then show ?thesis using factor_is_minus [OF x(2)] v x by (auto simp: factor_is_def minus_bips_def)
qed

lemma floor_step_amount:
  assumes "amount b v" "b \<le> max_amount" "step_ok step"
  shows "\<exists>r. floor_step v step = Inr r \<and> dval r = grid_floor (dval v) (dval step) \<and> amount b r"
proof -
  have v: "decimals 8 (dval v)" "0 \<le> dval v" "dval v < b" "0 < dval step" "decimals 8 (dval step)"
    using assms by (simp_all add: amount_def step_ok_def)
  obtain r where r: "floor_step v step = Inr r" "dval r = grid_floor (dval v) (dval step)"
    using floor_step_exact [of 8 v step] v assms(2) by (auto simp: grid_floor_def)
  then show ?thesis
    using v grid_floor_le [of "dval step" "dval v"] grid_floor_nonneg [of "dval step" "dval v"]
    by (auto simp: amount_def decimals_grid intro: le_less_trans)
qed

lemma scaled_amount:
  assumes v: "amount max_amount v" and f: "factor_is f x" and s: "step_ok step"
  shows "\<exists>r. scaled v f step = Inr r \<and> dval r = grid_floor (dval v * x) (dval step)
    \<and> (x \<le> 1 \<longrightarrow> amount max_amount r)"
proof -
  obtain d where d: "f = Inr d" "dval d = x" and x: "decimals 10 x" "0 \<le> x" "x \<le> 2"
    using f by (auto simp: factor_is_def)
  have v': "decimals 8 (dval v)" "0 \<le> dval v" "dval v < 10 ^ 8" using v by (simp_all add: amount_def)
  have dec: "decimals 18 (dval v * x)" using decimals_mult [OF v'(1) x(1)] by simp
  have "dval v * x \<le> dval v * 2" using x v' by (intro mult_left_mono)
  then have "dval v * x < 10 ^ 9" using v'(3) by simp
  then have b: "0 \<le> dval v * x" "dval v * x * 10 ^ 18 < 10 ^ 27"
    using v' x by (simp_all add: mult.commute [of x])
  then have m: "dval (dmul v d) = dval v * x"
    using dmul_exact [of v d] decimals_representable [OF dec] d by simp
  have s': "decimals 18 (dval step)" "0 < dval step" "decimals 8 (dval step)"
    using s by (auto simp: step_ok_def intro: decimals_mono)
  obtain r where r: "floor_step (dmul v d) step = Inr r" "dval r = grid_floor (dval v * x) (dval step)"
    using floor_step_exact [of 18 "dmul v d" step] m dec b s' by (auto simp: grid_floor_def)
  have "amount max_amount r" if "x \<le> 1"
  proof -
    have "dval v * x \<le> dval v" using that v' by (simp add: mult_left_le)
    then show ?thesis
      using grid_floor_le [OF s'(2), of "dval v * x"] grid_floor_nonneg [OF s'(2) b(1)] v' s' r
      by (simp add: amount_def decimals_grid)
  qed
  then show ?thesis using r d by (simp add: scaled_def)
qed

text \<open>The number a request parameter carries.\<close>

definition num_param :: "pydict \<Rightarrow> string \<Rightarrow> rat option" where
  "num_param params k = map_option dval (to_finite (get params k))"

lemma to_finite_dtext: "map_option dval (to_finite (dtext d)) = Some (dval d)"
  using decimal_text_parses [of d] by (auto simp: dtext_def to_finite_def)

lemma num_param_simps [simp]:
  "num_param ((k, dtext d) # ps) k = Some (dval d)"
  "k' \<noteq> k \<Longrightarrow> num_param ((k', v) # ps) k = num_param ps k"
  by (simp_all add: num_param_def get_def get_or_def to_finite_dtext)

record entry_plan =
  p_qty :: rat
  p_price :: rat
  p_pending :: rat
  p_target :: rat
  p_stop :: rat
  p_limit :: rat

definition plan_entry :: "protection_settings \<Rightarrow> protection_mode \<Rightarrow> symbol_rules \<Rightarrow> rat \<Rightarrow> rat \<Rightarrow> entry_plan" where
  "plan_entry s mode rules qty price = (
     let q = grid_floor qty (dval (r_step rules)); e = grid_floor price (dval (r_tick rules));
         delta = clamp_delta rules (trailing_delta_bips s);
         stop = grid_floor (e * (1 - dval (fixed_stop_pct s) / 100)) (dval (r_tick rules)) in
     \<lparr>p_qty = q, p_price = e,
      p_pending = grid_floor (q * (1 - dval (fee_pct_per_side s) / 100)) (dval (r_step rules)),
      p_target = grid_floor (e * (1 + dval (take_profit_pct s) / 100)) (dval (r_tick rules)),
      p_stop = stop,
      p_limit = (if mode = FIXED_OCO
        then grid_floor (stop * (1 - of_int (limit_fill_buffer_bips s) / 10000)) (dval (r_tick rules))
        else grid_floor (e * (1 - of_int (delta + limit_fill_buffer_bips s) / 10000)) (dval (r_tick rules)))\<rparr>)"

definition settings_ok :: "protection_settings \<Rightarrow> symbol_rules \<Rightarrow> bool" where
  "settings_ok s rules \<longleftrightarrow> amount 100 (take_profit_pct s) \<and> amount 100 (fixed_stop_pct s)
     \<and> amount 100 (fee_pct_per_side s) \<and> 0 \<le> limit_fill_buffer_bips s
     \<and> 0 \<le> r_trail_min rules \<and> max (r_trail_min rules) (r_trail_max rules) + limit_fill_buffer_bips s \<le> 10000"

definition rules_ok :: "symbol_rules \<Rightarrow> bool" where
  "rules_ok rules \<longleftrightarrow> step_ok (r_tick rules) \<and> step_ok (r_step rules)"

text \<open>The parameters of a bracket of each mode, as the plan's numbers.\<close>

fun carries :: "protection_mode \<Rightarrow> pydict \<Rightarrow> entry_plan \<Rightarrow> bool" where
  "carries FIXED_OCO ps p \<longleftrightarrow> num_param ps ''pendingAbovePrice'' = Some (p_target p)
     \<and> num_param ps ''pendingBelowStopPrice'' = Some (p_stop p) \<and> num_param ps ''pendingBelowPrice'' = Some (p_limit p)"
| "carries OCO_TRAILING ps p \<longleftrightarrow> num_param ps ''pendingAbovePrice'' = Some (p_target p)
     \<and> num_param ps ''pendingBelowPrice'' = Some (p_limit p)"
| "carries TRAILING_ONLY ps p \<longleftrightarrow> num_param ps ''pendingPrice'' = Some (p_limit p)"

lemma clamp_delta_range:
  assumes "r_trail_min rules \<le> r_trail_max rules"
  shows "r_trail_min rules \<le> clamp_delta rules d \<and> clamp_delta rules d \<le> r_trail_max rules"
    and "r_trail_min rules \<le> d \<Longrightarrow> d \<le> r_trail_max rules \<Longrightarrow> clamp_delta rules d = d"
  using assms by (auto simp: clamp_delta_def)

lemma clamp_delta_bounds:
  "r_trail_min rules \<le> clamp_delta rules d" "clamp_delta rules d \<le> max (r_trail_min rules) (r_trail_max rules)"
  by (auto simp: clamp_delta_def)

lemma mult_ratio_le: "0 \<le> (x :: rat) \<Longrightarrow> 0 \<le> y \<Longrightarrow> x * (1 - y / c) \<le> x" if "0 < c"
  using that by (simp add: algebra_simps)

lemma entry_request_refines:
  assumes s: "settings_ok s rules" and r: "rules_ok rules"
    and q: "amount max_amount qty" and e: "amount max_amount price"
    and p: "p = plan_entry s mode rules (dval qty) (dval price)"
  shows "if p_pending p = 0 then entry_request ids s mode rules qty price = Inl ProtectiveQtyZero
    else \<exists>path ps. entry_request ids s mode rules qty price = Inr (path, ps)
      \<and> path = (if mode = TRAILING_ONLY then ''orderList/oto'' else ''orderList/otoco'')
      \<and> num_param ps ''workingQuantity'' = Some (p_qty p) \<and> num_param ps ''workingPrice'' = Some (p_price p)
      \<and> num_param ps ''pendingQuantity'' = Some (p_pending p) \<and> carries mode ps p"
proof -
  have st: "step_ok (r_tick rules)" "step_ok (r_step rules)" using r by (simp_all add: rules_ok_def)
  have ok: "amount 100 (take_profit_pct s)" "amount 100 (fixed_stop_pct s)" "amount 100 (fee_pct_per_side s)"
    using s by (simp_all add: settings_ok_def)
  define delta where "delta = clamp_delta rules (trailing_delta_bips s)"
  have delta: "0 \<le> delta + limit_fill_buffer_bips s" "delta + limit_fill_buffer_bips s \<le> 10000"
    and buf: "0 \<le> limit_fill_buffer_bips s" "limit_fill_buffer_bips s \<le> 10000"
    using s clamp_delta_bounds [of rules "trailing_delta_bips s"]
    by (auto simp: settings_ok_def delta_def)
  obtain q' where q': "floor_step qty (r_step rules) = Inr q'" "dval q' = p_qty p" "amount max_amount q'"
    using floor_step_amount [OF q _ st(2)] by (auto simp: p plan_entry_def Let_def)
  obtain e' where e': "floor_step price (r_tick rules) = Inr e'" "dval e' = p_price p" "amount max_amount e'"
    using floor_step_amount [OF e _ st(1)] by (auto simp: p plan_entry_def Let_def)
  have ge: "p_qty p = grid_floor (dval qty) (dval (r_step rules))" "p_price p = grid_floor (dval price) (dval (r_tick rules))"
    by (simp_all add: p plan_entry_def Let_def)
  have fee: "\<not> dlt (fee_pct_per_side s) dzero" "\<not> dle (of_int_dec 100) (fee_pct_per_side s)"
    using ok(3) by (simp_all add: dec_compare dec_val amount_def dval_Dec)
  obtain pd where pd: "pending_qty s rules q' = Inr pd" "dval pd = p_pending p"
    using scaled_amount [OF q'(3) factor_is_minus_pct [OF ok(3)] st(2)] fee q'(2) ge
    by (auto simp: pending_qty_def Let_def p plan_entry_def)
  have pd0: "0 \<le> dval pd"
    using scaled_amount [OF q'(3) factor_is_minus_pct [OF ok(3)] st(2)] fee pd(1) ok(3)
    by (auto simp: pending_qty_def Let_def amount_def)
  obtain tp where tp: "scaled e' (plus_pct (take_profit_pct s)) (r_tick rules) = Inr tp" "dval tp = p_target p"
    using scaled_amount [OF e'(3) factor_is_plus_pct [OF ok(1)] st(1)] e'(2) ge
    by (auto simp: p plan_entry_def Let_def)
  obtain sp where sp: "scaled e' (minus_pct (fixed_stop_pct s)) (r_tick rules) = Inr sp" "dval sp = p_stop p"
      "amount max_amount sp"
    using scaled_amount [OF e'(3) factor_is_minus_pct [OF ok(2)] st(1)] e'(2) ge ok(2)
    by (auto simp: p plan_entry_def Let_def amount_def [of 100])
  obtain fl where fl: "scaled sp (minus_bips (limit_fill_buffer_bips s)) (r_tick rules) = Inr fl"
      "mode = FIXED_OCO \<Longrightarrow> dval fl = p_limit p"
    using scaled_amount [OF sp(3) factor_is_minus_bips [OF buf] st(1)] sp(2)
    by (auto simp: p plan_entry_def Let_def)
  obtain ft where ft: "scaled e' (minus_bips (delta + limit_fill_buffer_bips s)) (r_tick rules) = Inr ft"
      "mode \<noteq> FIXED_OCO \<Longrightarrow> dval ft = p_limit p"
    using scaled_amount [OF e'(3) factor_is_minus_bips [OF delta] st(1)] e'(2) ge
    by (auto simp: p plan_entry_def Let_def delta_def)
  note steps = q'(1) e'(1) pd(1) tp(1) sp(1) fl(1) ft(1)
  show ?thesis
  proof (cases "p_pending p = 0")
    case True
    then have "dle pd dzero" using pd(2) by (simp only: dec_compare) (simp add: dval_Dec)
    then show ?thesis using True by (simp add: entry_request_def steps)
  next
    case False
    then have "\<not> dle pd dzero" using pd pd0 by (simp add: dec_compare dval_Dec)
    note req = entry_request_def entry_tail_def steps Let_def delta_def [symmetric] this entry_common_def
    show ?thesis
      using False by (cases mode) (simp_all add: req q' e' pd tp sp fl ft)
  qed
qed

lemma plan_entry_ordered:
  assumes s: "settings_ok s rules" and r: "rules_ok rules" and "0 \<le> qty" "0 \<le> price"
    and p: "p = plan_entry s mode rules qty price"
  shows "p_pending p \<le> p_qty p" "p_qty p \<le> qty" "p_price p \<le> price" "p_price p \<le> p_target p"
    "p_stop p \<le> p_price p" "p_limit p \<le> p_price p" "mode = FIXED_OCO \<Longrightarrow> p_limit p \<le> p_stop p"
proof -
  have st: "0 < dval (r_tick rules)" "0 < dval (r_step rules)" using r by (simp_all add: rules_ok_def step_ok_def)
  have pct: "0 \<le> dval (take_profit_pct s)" "0 \<le> dval (fixed_stop_pct s)" "0 \<le> dval (fee_pct_per_side s)"
      "dval (fixed_stop_pct s) < 100"
    and buf: "0 \<le> limit_fill_buffer_bips s" and tmin: "0 \<le> r_trail_min rules"
    using s by (auto simp: settings_ok_def amount_def)
  define e q where "e = p_price p" and "q = p_qty p"
  have e: "e = grid_floor price (dval (r_tick rules))" and q: "q = grid_floor qty (dval (r_step rules))"
    by (simp_all add: e_def q_def p plan_entry_def Let_def)
  have eq0: "0 \<le> e" "0 \<le> q" using st assms(3,4) by (simp_all add: e q grid_floor_nonneg)
  show "p_qty p \<le> qty" "p_price p \<le> price"
    using st by (simp_all add: e q e_def [symmetric] q_def [symmetric] grid_floor_le)
  show "p_pending p \<le> p_qty p"
  proof -
    have "p_pending p \<le> q * (1 - dval (fee_pct_per_side s) / 100)"
      using st by (simp add: p plan_entry_def Let_def q grid_floor_le)
    also have "\<dots> \<le> q" using eq0 pct by (intro mult_ratio_le) simp_all
    finally show ?thesis by (simp add: q_def)
  qed
  show "p_price p \<le> p_target p"
  proof -
    have "e \<le> e * (1 + dval (take_profit_pct s) / 100)" using eq0 pct by (simp add: algebra_simps)
    then have "grid_floor e (dval (r_tick rules)) \<le> p_target p"
      using st by (simp add: p plan_entry_def Let_def e grid_floor_mono)
    then show ?thesis using st by (simp add: e_def [symmetric] e grid_floor_idem)
  qed
  show stop: "p_stop p \<le> p_price p"
  proof -
    have "p_stop p \<le> e * (1 - dval (fixed_stop_pct s) / 100)"
      using st by (simp add: p plan_entry_def Let_def e grid_floor_le)
    also have "\<dots> \<le> e" using eq0 pct by (intro mult_ratio_le) simp_all
    finally show ?thesis by (simp add: e_def)
  qed
  have sp0: "0 \<le> p_stop p"
    using eq0 pct st by (simp add: p plan_entry_def Let_def e [symmetric] grid_floor_nonneg)
  show lim: "p_limit p \<le> p_stop p" if "mode = FIXED_OCO"
  proof -
    have "p_limit p \<le> p_stop p * (1 - of_int (limit_fill_buffer_bips s) / 10000)"
      using st that by (simp add: p plan_entry_def Let_def grid_floor_le)
    also have "\<dots> \<le> p_stop p" using sp0 buf by (intro mult_ratio_le) simp_all
    finally show ?thesis .
  qed
  show "p_limit p \<le> p_price p"
  proof (cases "mode = FIXED_OCO")
    case True then show ?thesis using lim stop by simp
  next
    case False
    define b where "b = clamp_delta rules (trailing_delta_bips s) + limit_fill_buffer_bips s"
    have "0 \<le> b" using tmin buf by (simp add: b_def clamp_delta_def)
    then have "e * (1 - of_int b / 10000) \<le> e" using eq0 by (intro mult_ratio_le) simp_all
    moreover have "p_limit p \<le> e * (1 - of_int b / 10000)"
      using st False by (simp add: p plan_entry_def Let_def e b_def grid_floor_le del: of_int_add)
    ultimately show ?thesis by (simp add: e_def)
  qed
qed

text \<open>A bracket that is sent protects no more than is bought and brackets the entry price.\<close>

lemma entry_bracket_ordered:
  assumes "settings_ok s rules" "rules_ok rules" "amount max_amount qty" "amount max_amount price"
    and req: "entry_request ids s mode rules qty price = Inr (path, ps)"
  shows "\<exists>q e pd. num_param ps ''workingQuantity'' = Some q \<and> num_param ps ''workingPrice'' = Some e
    \<and> num_param ps ''pendingQuantity'' = Some pd \<and> 0 < pd \<and> pd \<le> q \<and> q \<le> dval qty \<and> e \<le> dval price
    \<and> (mode \<noteq> TRAILING_ONLY \<longrightarrow> (\<exists>tp fl. num_param ps ''pendingAbovePrice'' = Some tp
          \<and> num_param ps ''pendingBelowPrice'' = Some fl \<and> fl \<le> e \<and> e \<le> tp
          \<and> (mode = FIXED_OCO \<longrightarrow> (\<exists>sp. num_param ps ''pendingBelowStopPrice'' = Some sp \<and> fl \<le> sp \<and> sp \<le> e))))
    \<and> (mode = TRAILING_ONLY \<longrightarrow> (\<exists>fl. num_param ps ''pendingPrice'' = Some fl \<and> fl \<le> e))"
proof -
  define p where "p = plan_entry s mode rules (dval qty) (dval price)"
  have nn: "0 \<le> dval qty" "0 \<le> dval price" using assms by (simp_all add: amount_def)
  note o = plan_entry_ordered [OF assms(1,2) nn p_def]
  have st: "0 < dval (r_step rules)" and fee: "dval (fee_pct_per_side s) < 100"
    using assms by (simp_all add: rules_ok_def step_ok_def settings_ok_def amount_def)
  have "0 \<le> p_pending p"
    using st fee nn by (simp add: p_def plan_entry_def Let_def grid_floor_nonneg)
  then show ?thesis
    using entry_request_refines [OF assms(1-4) p_def, of ids] req o
    by (cases mode) (auto split: if_splits)
qed
subsection \<open>Replacement orders and the break-even price\<close>

lemma dmul_amount:
  assumes "decimals 8 (dval a)" "0 \<le> dval a" "dval a < 10 ^ 8" "decimals 10 (dval f)" "0 \<le> dval f" "dval f \<le> 2"
  shows "dval (dmul a f) = dval a * dval f" "decimals 18 (dval a * dval f)" "dval a * dval f < 10 ^ 9" "0 \<le> dval a * dval f"
proof -
  show dec: "decimals 18 (dval a * dval f)" using decimals_mult [OF assms(1,4)] by simp
  have "dval a * dval f \<le> dval a * 2" using assms by (intro mult_left_mono)
  then show lt: "dval a * dval f < 10 ^ 9" using assms(3) by simp
  show "0 \<le> dval a * dval f" using assms by simp
  then show "dval (dmul a f) = dval a * dval f"
    using dmul_exact [of a f] decimals_representable [OF dec] lt by (simp add: mult.commute [of "dval f"])
qed

definition replacement_stop :: "protection_settings \<Rightarrow> symbol_rules \<Rightarrow> dec \<Rightarrow> dec option \<Rightarrow> rat" where
  "replacement_stop s rules entry stop_price = grid_floor
     (case stop_price of Some p \<Rightarrow> dval p | None \<Rightarrow> dval entry * (1 - dval (fixed_stop_pct s) / 100))
     (dval (r_tick rules))"

lemma replacement_target:
  assumes "amount max_amount entry" "amount max_amount current" "amount 100 (take_profit_pct s)" "step_ok step"
  shows "\<exists>f tp. plus_pct (take_profit_pct s) = Inr f
     \<and> floor_step (dmax (dmul entry f) (dmul current (dadd (of_int_dec 1) (Dec 2 (-3))))) step = Inr tp
     \<and> dval tp = grid_floor (max (dval entry * (1 + dval (take_profit_pct s) / 100)) (dval current * (1 + 2 / 1000))) (dval step)"
proof -
  obtain f where f: "plus_pct (take_profit_pct s) = Inr f" "dval f = 1 + dval (take_profit_pct s) / 100"
    and fb: "decimals 10 (dval f)" "0 \<le> dval f" "dval f \<le> 2"
    using factor_is_plus_pct [OF assms(3)] by (auto simp: factor_is_def)
  define g where "g = dadd (of_int_dec 1) (Dec 2 (-3))"
  have g: "dval g = 1 + 2 / 1000" by (simp add: g_def dec_eval dval_Dec)
  have "(1 + 2 / 1000 :: rat) = of_int 10020000000 / 10 ^ 10" by simp
  then have gd: "decimals 10 (dval g)" unfolding g decimals_def by blast
  define v where "v = dmax (dmul entry f) (dmul current g)"
  have ab: "decimals 8 (dval entry)" "0 \<le> dval entry" "dval entry < 10 ^ 8"
      "decimals 8 (dval current)" "0 \<le> dval current" "dval current < 10 ^ 8"
    using assms by (simp_all add: amount_def)
  have gb: "0 \<le> dval g" "dval g \<le> 2" by (simp_all add: g)
  note m = dmul_amount [OF ab(1-3) fb] dmul_amount [OF ab(4-6) gd gb]
  have v: "dval v = max (dval entry * dval f) (dval current * dval g)"
    by (simp only: v_def dval_dmax m)
  have vd: "decimals 18 (dval v)" "0 \<le> dval v" "dval v < 10 ^ 9"
    unfolding v using m by (auto simp: max_def)
  have "decimals 18 (dval step)" "0 < dval step" using assms(4) by (auto simp: step_ok_def intro: decimals_mono)
  then obtain tp where "floor_step v step = Inr tp" "dval tp = grid_floor (dval v) (dval step)"
    using floor_step_exact [of 18 v step] vd by (auto simp: grid_floor_def)
  then have "floor_step v step = Inr tp \<and> dval tp = grid_floor
      (max (dval entry * (1 + dval (take_profit_pct s) / 100)) (dval current * (1 + 2 / 1000))) (dval step)"
    by (simp only: v f(2) g)
  then show ?thesis using f(1) unfolding v_def g_def by blast
qed

text \<open>
  The replacement order of the fixed mode: refused exactly when its stop, rounded to the
  tick, is not below the current price.
\<close>

lemma replacement_fixed:
  assumes s: "settings_ok s rules" and r: "rules_ok rules"
    and q: "amount max_amount qty" and e: "amount max_amount entry" and c: "amount max_amount current"
    and sp: "\<And>p. stop_price = Some p \<Longrightarrow> amount max_amount p"
    and pos: "dval (r_step rules) \<le> dval qty" "0 < dval entry" "0 < dval current"
  defines "stop \<equiv> replacement_stop s rules entry stop_price"
  shows "if dval current \<le> stop
    then replacement_request ids s FIXED_OCO rules qty entry current stop_price trailing = Inl StopNotBelowCurrent
    else \<exists>ps q fl. replacement_request ids s FIXED_OCO rules qty entry current stop_price trailing
        = Inr (''orderList/oco'', ps)
      \<and> num_param ps ''quantity'' = Some q \<and> 0 < q \<and> q \<le> dval qty
      \<and> num_param ps ''belowStopPrice'' = Some stop \<and> stop < dval current
      \<and> num_param ps ''belowPrice'' = Some fl \<and> fl \<le> stop
      \<and> num_param ps ''abovePrice'' = Some (grid_floor (max (dval entry * (1 + dval (take_profit_pct s) / 100))
            (dval current * (1 + 2 / 1000))) (dval (r_tick rules)))"
proof -
  have st: "step_ok (r_tick rules)" "step_ok (r_step rules)" using r by (simp_all add: rules_ok_def)
  have ok: "amount 100 (take_profit_pct s)" "amount 100 (fixed_stop_pct s)"
    and buf: "0 \<le> limit_fill_buffer_bips s" "limit_fill_buffer_bips s \<le> 10000"
    using s by (auto simp: settings_ok_def)
  obtain q' where q': "floor_step qty (r_step rules) = Inr q'" "dval q' = grid_floor (dval qty) (dval (r_step rules))"
    using floor_step_amount [OF q _ st(2)] by auto
  have "1 \<le> dval qty / dval (r_step rules)" using pos(1) st(2) by (simp add: step_ok_def)
  then have qpos: "0 < dval q'" "dval q' \<le> dval qty"
    using st(2) q' grid_floor_le [of "dval (r_step rules)" "dval qty"]
    by (simp_all add: step_ok_def grid_floor_def mult_pos_pos)
  have nz: "\<not> dle q' dzero" "\<not> dle entry dzero" "\<not> dle current dzero"
    using qpos pos by (simp_all only: dec_compare) (simp_all add: dval_Dec)
  obtain f tp where tp: "plus_pct (take_profit_pct s) = Inr f"
     "floor_step (dmax (dmul entry f) (dmul current (dadd (of_int_dec 1) (Dec 2 (-3))))) (r_tick rules) = Inr tp"
     "dval tp = grid_floor (max (dval entry * (1 + dval (take_profit_pct s) / 100)) (dval current * (1 + 2 / 1000))) (dval (r_tick rules))"
    using replacement_target [OF e c ok(1) st(1)] by blast
  obtain sd where sd: "(case stop_price of Some p \<Rightarrow> floor_step p (r_tick rules)
      | None \<Rightarrow> scaled entry (minus_pct (fixed_stop_pct s)) (r_tick rules)) = Inr sd" "dval sd = stop" "amount max_amount sd"
  proof (cases stop_price)
    case None
    then show ?thesis
      using that scaled_amount [OF e factor_is_minus_pct [OF ok(2)] st(1)] ok(2)
      by (auto simp: stop_def replacement_stop_def amount_def [of 100])
  next
    case (Some p)
    then show ?thesis
      using that floor_step_amount [OF sp [OF Some] _ st(1)] by (auto simp: stop_def replacement_stop_def)
  qed
  obtain fl where fl: "scaled sd (minus_bips (limit_fill_buffer_bips s)) (r_tick rules) = Inr fl"
      "dval fl = grid_floor (stop * (1 - of_int (limit_fill_buffer_bips s) / 10000)) (dval (r_tick rules))"
    using scaled_amount [OF sd(3) factor_is_minus_bips [OF buf] st(1)] sd(2) by auto
  have "0 \<le> stop" using sd by (auto simp: amount_def)
  then have "dval fl \<le> stop"
    using grid_floor_le [of "dval (r_tick rules)" "stop * (1 - of_int (limit_fill_buffer_bips s) / 10000)"]
      mult_ratio_le [of 10000 stop "of_int (limit_fill_buffer_bips s)"] buf st(1) fl(2)
    by (simp add: step_ok_def)
  note req = replacement_request_def q'(1) nz tp(1,2) sd(1) fl(1) Let_def
  show ?thesis
  proof (cases "dval current \<le> stop")
    case True
    then have "dle current sd" by (simp only: dec_compare sd(2))
    then show ?thesis using True by (simp add: req)
  next
    case False
    then have "\<not> dle current sd" by (simp add: dle_iff sd(2))
    then show ?thesis using False qpos tp sd fl \<open>dval fl \<le> stop\<close> by (simp add: req)
  qed
qed

lemma pct_invalid_amount: "amount 100 v \<Longrightarrow> \<not> pct_invalid v"
  unfolding pct_invalid_def dec_compare amount_def by (simp add: dec_val dval_Dec)

text \<open>
  The break-even price is the entry cost over the proceeds ratio, up to the rounding of
  the one division; combined sell fees of 100 percent or more are refused.
\<close>

lemma break_even_value:
  assumes e: "amount max_amount entry" "0 < dval entry"
    and fees: "amount 100 b" "amount 100 l" "amount 100 sl"
  defines "buy \<equiv> (dval b + dval sl) / 100" and "sell \<equiv> (dval l + dval sl) / 100"
  shows "if 1 \<le> sell then fee_adjusted_break_even entry b l sl = Inl NoProceeds
    else \<exists>r. fee_adjusted_break_even entry b l sl = Inr r
      \<and> \<bar>dval r - dval entry * (1 + buy) / (1 - sell)\<bar> \<le> div_bound * (dval entry * (1 + buy) / (1 - sell))"
proof -
  have a: "decimals 8 (dval b)" "decimals 8 (dval l)" "decimals 8 (dval sl)"
    "0 \<le> dval b" "0 \<le> dval l" "0 \<le> dval sl" "dval b < 100" "dval l < 100" "dval sl < 100"
    using fees by (simp_all add: amount_def)
  have sums: "dval (dadd b sl) = dval b + dval sl" "dval (dadd l sl) = dval l + dval sl"
    using a by (intro dadd_exact decimals_representable [of 8] decimals_add; simp)+
  obtain x where x: "ddiv (dadd b sl) (of_int_dec 100) = Inr x" "dval x = buy"
    using div_pow10 [of 8 "dadd b sl" "of_int_dec 100" 2] a by (auto simp: sums decimals_add dec_val buy_def)
  obtain y where y: "ddiv (dadd l sl) (of_int_dec 100) = Inr y" "dval y = sell"
    using div_pow10 [of 8 "dadd l sl" "of_int_dec 100" 2] a by (auto simp: sums decimals_add dec_val sell_def)
  have db: "decimals 10 buy" "decimals 10 sell"
    using decimals_div_pow [OF decimals_add [OF a(1,3)], of 2] decimals_div_pow [OF decimals_add [OF a(2,3)], of 2]
    by (simp_all add: buy_def sell_def)
  have bb: "0 \<le> buy" "buy < 2" "0 \<le> sell" "sell < 2" using a by (simp_all add: buy_def sell_def)
  define up ratio where "up = dadd (of_int_dec 1) x" and "ratio = dsub (of_int_dec 1) y"
  have dup: "decimals 10 (1 + buy)" "decimals 10 (1 - sell)" using db by (intro decimals_add decimals_diff; simp)+
  have up: "dval up = 1 + buy" using bb x dup by (simp add: up_def dadd_exact decimals_representable dec_val)
  have ratio: "dval ratio = 1 - sell"
    using bb y dup by (simp add: ratio_def dsub_exact decimals_representable dec_val)
  have e': "decimals 8 (dval entry)" "0 \<le> dval entry" "dval entry < 10 ^ 8" using e by (simp_all add: amount_def)
  have dec18: "decimals 18 (dval entry * (1 + buy))" using decimals_mult [OF e'(1) dup(1)] by simp
  have "dval entry * (1 + buy) \<le> dval entry * 3" using bb e' by (intro mult_left_mono) simp_all
  then have "dval entry * (1 + buy) < 10 ^ 9" using e'(3) by simp
  then have cost: "dval (dmul entry up) = dval entry * (1 + buy)"
    using dmul_exact [of entry up] up decimals_representable [OF dec18] e' bb by (simp add: abs_mult mult.commute [of "1 + buy"])
  have nz: "\<not> dle entry dzero" using e(2) by (simp only: dec_compare) (simp add: dval_Dec)
  note def = fee_adjusted_break_even_def nz pct_invalid_amount [OF fees(1)] pct_invalid_amount [OF fees(2)]
    pct_invalid_amount [OF fees(3)] plus_pct_def minus_pct_def x(1) y(1) Let_def up_def [symmetric] ratio_def [symmetric]
  have le: "dle ratio dzero \<longleftrightarrow> 1 \<le> sell" using ratio by (simp only: dec_compare) (simp add: dval_Dec)
  show ?thesis
  proof (cases "1 \<le> sell")
    case True then show ?thesis by (simp add: def le)
  next
    case False
    then have "coeff ratio \<noteq> 0" using ratio dval_zero_iff [of ratio] by simp
    then obtain r where r: "ddiv (dmul entry up) ratio = Inr r" using ddiv_Inr_iff by blast
    then show ?thesis using False ddiv_error [OF r] e' bb by (simp add: def le cost ratio)
  qed
qed
subsection \<open>Guarantees\<close>

text \<open>C22: The request factory implements the exact plan: on exchange amounts it refuses exactly when the
  fee-reduced protective quantity rounds to zero, and otherwise the texts of the OTO/OTOCO request
  read back as the planned numbers, so 28-digit division never misses a step.\<close>

theorem entry_request_implements_plan:
  assumes "settings_ok s rules" "rules_ok rules" "amount max_amount qty" "amount max_amount price"
    and "p = plan_entry s mode rules (dval qty) (dval price)"
  shows "if p_pending p = 0 then entry_request ids s mode rules qty price = Inl ProtectiveQtyZero
    else \<exists>path ps. entry_request ids s mode rules qty price = Inr (path, ps)
      \<and> path = (if mode = TRAILING_ONLY then ''orderList/oto'' else ''orderList/otoco'')
      \<and> num_param ps ''workingQuantity'' = Some (p_qty p) \<and> num_param ps ''workingPrice'' = Some (p_price p)
      \<and> num_param ps ''pendingQuantity'' = Some (p_pending p) \<and> carries mode ps p"
  by (rule entry_request_refines [OF assms])

definition demo_rules :: symbol_rules where
  "demo_rules = \<lparr>r_symbol = ''BTCUSDC'', r_quote = ''USDC'', r_tick = Dec 1 (-2), r_step = Dec 1 (-5),
     r_min_qty = Dec 1 (-5), r_max_qty = Dec 9000 0, r_min_notional = Dec 5 0, r_max_notional = Dec 9000000 0,
     r_trail_min = 10, r_trail_max = 2000, r_oco_allowed = True, r_oto_allowed = True, r_trailing_allowed = True\<rparr>"

lemma decimals_Dec: "- 8 \<le> e \<Longrightarrow> decimals 8 (dval (Dec c e))"
  by (rule decimals_expo) simp

lemma demo_ok:
  "settings_ok default_settings demo_rules" "rules_ok demo_rules"
  "amount max_amount (Dec 12345 (-5))" "amount max_amount (Dec 6000012 (-2))"
  by (simp_all add: settings_ok_def rules_ok_def step_ok_def amount_def default_settings_def demo_rules_def
      decimals_Dec) (simp_all add: dval_Dec power_int_def power_divide)

lemma demo_pending:
  "p_pending (plan_entry default_settings mode demo_rules (dval (Dec 12345 (-5))) (dval (Dec 6000012 (-2)))) \<noteq> 0"
  by (simp add: plan_entry_def Let_def grid_floor_def default_settings_def demo_rules_def dval_Dec power_int_def
      floor_eq_iff)

lemma entry_request_implements_plan_witness:
  "\<exists>path ps. entry_request (\<lambda>r. r) default_settings FIXED_OCO demo_rules (Dec 12345 (-5)) (Dec 6000012 (-2)) = Inr (path, ps)
     \<and> path = ''orderList/otoco''"
  using entry_request_implements_plan [OF demo_ok refl, of FIXED_OCO "\<lambda>r. r"] demo_pending [of FIXED_OCO] by auto

text \<open>C26: Every bracket the factory sends protects a positive quantity no larger than the bought one, buys no
  more and pays no more than asked, and brackets the entry price from both sides, the stop trigger above its limit.\<close>

theorem entry_bracket_is_ordered:
  assumes "settings_ok s rules" "rules_ok rules" "amount max_amount qty" "amount max_amount price"
    and "entry_request ids s mode rules qty price = Inr (path, ps)"
  shows "\<exists>q e pd. num_param ps ''workingQuantity'' = Some q \<and> num_param ps ''workingPrice'' = Some e
    \<and> num_param ps ''pendingQuantity'' = Some pd \<and> 0 < pd \<and> pd \<le> q \<and> q \<le> dval qty \<and> e \<le> dval price
    \<and> (mode \<noteq> TRAILING_ONLY \<longrightarrow> (\<exists>tp fl. num_param ps ''pendingAbovePrice'' = Some tp
          \<and> num_param ps ''pendingBelowPrice'' = Some fl \<and> fl \<le> e \<and> e \<le> tp
          \<and> (mode = FIXED_OCO \<longrightarrow> (\<exists>sp. num_param ps ''pendingBelowStopPrice'' = Some sp \<and> fl \<le> sp \<and> sp \<le> e))))
    \<and> (mode = TRAILING_ONLY \<longrightarrow> (\<exists>fl. num_param ps ''pendingPrice'' = Some fl \<and> fl \<le> e))"
  by (rule entry_bracket_ordered [OF assms])

lemma entry_bracket_is_ordered_witness:
  "\<exists>path ps q pd. entry_request (\<lambda>r. r) default_settings OCO_TRAILING demo_rules (Dec 12345 (-5)) (Dec 6000012 (-2))
       = Inr (path, ps)
     \<and> num_param ps ''workingQuantity'' = Some q \<and> num_param ps ''pendingQuantity'' = Some pd \<and> 0 < pd \<and> pd \<le> q"
proof -
  obtain path ps where r: "entry_request (\<lambda>r. r) default_settings OCO_TRAILING demo_rules (Dec 12345 (-5)) (Dec 6000012 (-2)) = Inr (path, ps)"
    using entry_request_refines [OF demo_ok refl, of OCO_TRAILING "\<lambda>r. r"] demo_pending [of OCO_TRAILING] by auto
  from entry_bracket_is_ordered [OF demo_ok r] r show ?thesis by blast
qed

text \<open>A fixed protective replacement is refused exactly when its tick-rounded stop is not below the current
  price; otherwise it sells a positive quantity no larger than asked, with its limit at or below the stop and the
  target the larger of the profit target and 0.2 percent above the market, rounded down.\<close>

theorem fixed_replacement_stop_below_market:
  assumes "settings_ok s rules" "rules_ok rules" "amount max_amount qty" "amount max_amount entry" "amount max_amount current"
    and "\<And>p. stop_price = Some p \<Longrightarrow> amount max_amount p"
    and "dval (r_step rules) \<le> dval qty" "0 < dval entry" "0 < dval current"
  shows "if dval current \<le> replacement_stop s rules entry stop_price
    then replacement_request ids s FIXED_OCO rules qty entry current stop_price trailing = Inl StopNotBelowCurrent
    else \<exists>ps q fl. replacement_request ids s FIXED_OCO rules qty entry current stop_price trailing
        = Inr (''orderList/oco'', ps)
      \<and> num_param ps ''quantity'' = Some q \<and> 0 < q \<and> q \<le> dval qty
      \<and> num_param ps ''belowStopPrice'' = Some (replacement_stop s rules entry stop_price)
      \<and> replacement_stop s rules entry stop_price < dval current
      \<and> num_param ps ''belowPrice'' = Some fl \<and> fl \<le> replacement_stop s rules entry stop_price
      \<and> num_param ps ''abovePrice'' = Some (grid_floor (max (dval entry * (1 + dval (take_profit_pct s) / 100))
            (dval current * (1 + 2 / 1000))) (dval (r_tick rules)))"
  by (rule replacement_fixed [OF assms])

lemma fixed_replacement_stop_below_market_witness:
  "\<exists>ps. replacement_request (\<lambda>r. r) default_settings FIXED_OCO demo_rules (Dec 12345 (-5)) (Dec 6000012 (-2))
      (Dec 6000012 (-2)) None None = Inr (''orderList/oco'', ps)"
proof -
  have p: "dval (r_step demo_rules) \<le> dval (Dec 12345 (-5))" "0 < dval (Dec 6000012 (-2))"
    by (simp_all add: demo_rules_def dval_Dec power_int_def)
  have "replacement_stop default_settings demo_rules (Dec 6000012 (-2)) None < dval (Dec 6000012 (-2))"
    by (simp add: replacement_stop_def grid_floor_def default_settings_def demo_rules_def dval_Dec power_int_def)
  then show ?thesis
    using fixed_replacement_stop_below_market [OF demo_ok(1-4) demo_ok(4) _ p(1) p(2) p(2), of None "\<lambda>r. r" None] by auto
qed

text \<open>The fee-adjusted break-even price is the entry cost over the sale proceeds ratio up to one 28-digit
  rounding, and fees that leave no proceeds are refused.\<close>

theorem break_even_price:
  assumes "amount max_amount entry" "0 < dval entry" "amount 100 b" "amount 100 l" "amount 100 sl"
  shows "if 1 \<le> (dval l + dval sl) / 100 then fee_adjusted_break_even entry b l sl = Inl NoProceeds
    else \<exists>r. fee_adjusted_break_even entry b l sl = Inr r
      \<and> \<bar>dval r - dval entry * (1 + (dval b + dval sl) / 100) / (1 - (dval l + dval sl) / 100)\<bar>
        \<le> div_bound * (dval entry * (1 + (dval b + dval sl) / 100) / (1 - (dval l + dval sl) / 100))"
  by (rule break_even_value [OF assms])

lemma break_even_price_witness:
  "\<exists>r. fee_adjusted_break_even (Dec 100 0) (Dec 1 (-1)) (Dec 1 (-1)) dzero = Inr r
    \<and> \<bar>dval r - 100 * (1 + 1 / 1000) / (1 - 1 / 1000)\<bar> \<le> div_bound * (100 * (1 + 1 / 1000) / (1 - 1 / 1000))"
proof -
  have a: "amount max_amount (Dec 100 0)" "0 < dval (Dec 100 0)" "amount 100 (Dec 1 (-1))" "amount 100 dzero"
    by (simp_all add: amount_def decimals_Dec) (simp_all add: dval_Dec power_int_def)
  have v: "dval (Dec 100 0) = 100" "dval (Dec 1 (-1)) = 1 / 10" "dval dzero = 0"
    by (simp_all add: dval_Dec power_int_def)
  from break_even_price [OF a(1,2) a(3) a(3) a(4)] show ?thesis unfolding v by simp
qed

end
