(* ===== verification/Py_Special.thy ===== *)
theory Py_Special
  imports Py_Decimal_Exact
begin

text \<open>
  Decimal arithmetic with infinities and NaN, as it matters where exchange data is used
  without a finiteness check: ordering a NaN and \<open>Infinity % x\<close> raise
  \<open>InvalidOperation\<close>, a NaN is truthy and differs from zero.
\<close>

fun pd_nonzero :: "pydec \<Rightarrow> bool" where
  "pd_nonzero (Fin d) = (coeff d \<noteq> 0)"
| "pd_nonzero _ = True"

fun pd_lt :: "pydec \<Rightarrow> pydec \<Rightarrow> dec_error + bool" where
  "pd_lt (Fin a) (Fin b) = Inr (dlt a b)"
| "pd_lt NotANumber _ = Inl InvalidOperation"
| "pd_lt _ NotANumber = Inl InvalidOperation"
| "pd_lt (Infinite n) (Fin _) = Inr n"
| "pd_lt (Fin _) (Infinite n) = Inr (\<not> n)"
| "pd_lt (Infinite n) (Infinite m) = Inr (n \<and> \<not> m)"

fun pd_le :: "pydec \<Rightarrow> pydec \<Rightarrow> dec_error + bool" where
  "pd_le (Fin a) (Fin b) = Inr (dle a b)"
| "pd_le NotANumber _ = Inl InvalidOperation"
| "pd_le _ NotANumber = Inl InvalidOperation"
| "pd_le (Infinite n) (Fin _) = Inr n"
| "pd_le (Fin _) (Infinite n) = Inr (\<not> n)"
| "pd_le (Infinite n) (Infinite m) = Inr (n \<or> \<not> m)"

fun pd_add :: "pydec \<Rightarrow> pydec \<Rightarrow> dec_error + pydec" where
  "pd_add (Fin a) (Fin b) = Inr (Fin (dadd a b))"
| "pd_add NotANumber _ = Inr NotANumber"
| "pd_add _ NotANumber = Inr NotANumber"
| "pd_add (Infinite n) (Infinite m) = (if n = m then Inr (Infinite n) else Inl InvalidOperation)"
| "pd_add (Infinite n) (Fin _) = Inr (Infinite n)"
| "pd_add (Fin _) (Infinite n) = Inr (Infinite n)"

fun pd_mul :: "pydec \<Rightarrow> pydec \<Rightarrow> dec_error + pydec" where
  "pd_mul (Fin a) (Fin b) = Inr (Fin (dmul a b))"
| "pd_mul NotANumber _ = Inr NotANumber"
| "pd_mul _ NotANumber = Inr NotANumber"
| "pd_mul (Infinite n) (Infinite m) = Inr (Infinite (n \<noteq> m))"
| "pd_mul (Infinite n) (Fin b) =
     (if coeff b = 0 then Inl InvalidOperation else Inr (Infinite (n \<noteq> (coeff b < 0))))"
| "pd_mul (Fin a) (Infinite n) =
     (if coeff a = 0 then Inl InvalidOperation else Inr (Infinite (n \<noteq> (coeff a < 0))))"

text \<open>\<open>a % b\<close>: a finite \<open>a\<close> is its own remainder modulo an infinity.\<close>

fun pd_mod :: "pydec \<Rightarrow> pydec \<Rightarrow> dec_error + pydec" where
  "pd_mod (Fin a) (Fin b) = bindE (dmod a b) (\<lambda>r. Inr (Fin r))"
| "pd_mod NotANumber _ = Inr NotANumber"
| "pd_mod _ NotANumber = Inr NotANumber"
| "pd_mod (Infinite _) _ = Inl InvalidOperation"
| "pd_mod (Fin a) (Infinite _) = Inr (Fin (dfix a))"

text \<open>The multiples of a step, and the order of finite values.\<close>

definition multiple_of :: "rat \<Rightarrow> rat \<Rightarrow> bool" where
  "multiple_of s x \<longleftrightarrow> (\<exists>n :: int. x = of_int n * s)"

lemma pd_lt_Fin: "pd_lt (Fin a) (Fin b) = Inr r \<longleftrightarrow> r = (dval a < dval b)"
  by (auto simp: dlt_iff)

lemma pd_le_Fin: "pd_le (Fin a) (Fin b) = Inr r \<longleftrightarrow> r = (dval a \<le> dval b)"
  by (auto simp: dle_iff)

lemma pd_mod_zero:
  "pd_mod (Fin a) (Fin b) = Inr r \<Longrightarrow> \<not> pd_nonzero r \<Longrightarrow> multiple_of (dval b) (dval a)"
  by (auto simp: bindE_Inr_iff multiple_of_def dmod_zero_iff)

lemma pd_le_positive: "pd_le p (Fin dzero) = Inr False \<Longrightarrow> p = Infinite False \<or> (\<exists>d. p = Fin d \<and> 0 < dval d)"
  by (cases p) (auto simp: dle_iff dval_Dec)

end
