(* ===== verification/Filters.thy ===== *)
theory Filters
  imports Protection_Modes Py_Special
begin

text \<open>
  The replacement prevalidation of \<open>services/execution_sidecar/filters.py\<close>. Reads of
  the public market-data client are the record \<open>public_api\<close> of its answers; the
  authenticated enumerations are providers, absent (\<open>None\<close>) or answering with a value
  or a raise. A refusal is \<open>FilterViolation\<close> or \<open>FilterUnavailable\<close> with the
  name of the rule; any other exception of the source is \<open>OtherError\<close>.
\<close>

datatype filter_error = FilterUnavailable string | FilterViolation string | OtherError

datatype reference_answer = NoReference | Reference pyval

record public_api =
  api_exchange_info :: "string \<Rightarrow> unit + pyval"
  api_avg_price :: "string \<Rightarrow> unit + pyval"
  api_ticker_price :: "string \<Rightarrow> unit + pyval"
  api_reference_price :: "string \<Rightarrow> unit + reference_answer"
  api_execution_rules :: "string \<Rightarrow> unit + pyval"

definition refuse :: "filter_error \<Rightarrow> unit + 'a \<Rightarrow> filter_error + 'a" where
  "refuse e x = (case x of Inl _ \<Rightarrow> Inl e | Inr v \<Rightarrow> Inr v)"

definition lift :: "dec_error + 'a \<Rightarrow> filter_error + 'a" where
  "lift x = (case x of Inl _ \<Rightarrow> Inl OtherError | Inr v \<Rightarrow> Inr v)"

subsection \<open>Order legs\<close>

definition algo_types :: "string list" where
  "algo_types = [''STOP_LOSS'', ''STOP_LOSS_LIMIT'', ''TAKE_PROFIT'', ''TAKE_PROFIT_LIMIT'']"

record order_leg =
  leg_side :: string
  leg_type :: string
  leg_qty :: pydec
  leg_price :: "pydec option"
  leg_stop :: "pydec option"
  leg_trailing :: "int option"

definition leg_is_algo :: "order_leg \<Rightarrow> bool" where
  "leg_is_algo leg \<longleftrightarrow> upper (leg_type leg) \<in> set algo_types"

definition text_or :: "pydict \<Rightarrow> string \<Rightarrow> string \<Rightarrow> string" where
  "text_or ps k dflt = pstr (get_or ps k (PStr dflt))"

definition required_dec :: "pydict \<Rightarrow> string \<Rightarrow> filter_error + pydec" where
  "required_dec ps k = (case map_of ps k of
       None \<Rightarrow> Inl OtherError | Some v \<Rightarrow> of_option OtherError (to_dec v))"

definition optional_dec :: "pydict \<Rightarrow> string \<Rightarrow> filter_error + pydec option" where
  "optional_dec ps k = (if truthy (get ps k) then bindE (required_dec ps k) (\<lambda>d. Inr (Some d)) else Inr None)"

definition optional_int :: "pydict \<Rightarrow> string \<Rightarrow> filter_error + int option" where
  "optional_int ps k = (if get ps k = PNone then Inr None
     else bindE (of_option OtherError (to_int (get ps k))) (\<lambda>i. Inr (Some i)))"

definition leg_of ::
  "pydict \<Rightarrow> string \<Rightarrow> string \<Rightarrow> pydec \<Rightarrow> string \<Rightarrow> string \<Rightarrow> string \<Rightarrow> filter_error + order_leg" where
  "leg_of ps side type qty price_key stop_key trail_key =
     bindE (optional_dec ps price_key) (\<lambda>price.
     bindE (optional_dec ps stop_key) (\<lambda>stop.
     bindE (optional_int ps trail_key) (\<lambda>trail.
     Inr \<lparr>leg_side = side, leg_type = type, leg_qty = qty, leg_price = price, leg_stop = stop,
          leg_trailing = trail\<rparr>)))"

text \<open>A leg built without a stop price and a trailing delta.\<close>

definition plain_leg :: "pydict \<Rightarrow> string \<Rightarrow> string \<Rightarrow> pydec \<Rightarrow> string \<Rightarrow> filter_error + order_leg" where
  "plain_leg ps side type qty price_key =
     bindE (optional_dec ps price_key) (\<lambda>price.
     Inr \<lparr>leg_side = side, leg_type = type, leg_qty = qty, leg_price = price, leg_stop = None,
          leg_trailing = None\<rparr>)"

definition legs_from_request :: "string \<Rightarrow> pydict \<Rightarrow> filter_error + order_leg list" where
  "legs_from_request endpoint ps =
     (if endpoint = ''order'' then
        bindE (required_dec ps ''quantity'') (\<lambda>qty.
        bindE (leg_of ps (text_or ps ''side'' ''SELL'') (text_or ps ''type'' ''STOP_LOSS_LIMIT'') qty
                 ''price'' ''stopPrice'' ''trailingDelta'') (\<lambda>leg. Inr [leg]))
      else if endpoint \<in> {''orderList/oto'', ''orderList/otoco''} then
        bindE (required_dec ps ''workingQuantity'') (\<lambda>wqty.
        bindE (plain_leg ps (text_or ps ''workingSide'' ''BUY'') (text_or ps ''workingType'' ''LIMIT'') wqty
                 ''workingPrice'') (\<lambda>working.
        bindE (required_dec ps ''pendingQuantity'') (\<lambda>pqty.
        let pside = text_or ps ''pendingSide'' ''SELL'' in
        if endpoint = ''orderList/oto'' then
          bindE (leg_of ps pside (text_or ps ''pendingType'' ''STOP_LOSS_LIMIT'') pqty
                   ''pendingPrice'' ''pendingStopPrice'' ''pendingTrailingDelta'') (\<lambda>pending.
          Inr [working, pending])
        else
          bindE (plain_leg ps pside (text_or ps ''pendingAboveType'' ''LIMIT_MAKER'') pqty
                   ''pendingAbovePrice'') (\<lambda>above.
          bindE (leg_of ps pside (text_or ps ''pendingBelowType'' ''STOP_LOSS_LIMIT'') pqty
                   ''pendingBelowPrice'' ''pendingBelowStopPrice'' ''pendingBelowTrailingDelta'') (\<lambda>below.
          Inr [working, above, below])))))
      else
        bindE (required_dec ps ''quantity'') (\<lambda>qty.
        bindE (plain_leg ps ''SELL'' (text_or ps ''aboveType'' ''LIMIT_MAKER'') qty ''abovePrice'') (\<lambda>above.
        bindE (leg_of ps ''SELL'' (text_or ps ''belowType'' ''STOP_LOSS_LIMIT'') qty
                 ''belowPrice'' ''belowStopPrice'' ''belowTrailingDelta'') (\<lambda>below.
        Inr [above, below]))))"

subsection \<open>Market data, fail closed\<close>

text \<open>
  The cache holds, per symbol, the time of the fetch, the symbol row and the exchange
  filters. \<open>now\<close> and \<open>later\<close> are the two clock readings of one call.
\<close>

type_synonym filter_cache = "string \<Rightarrow> (rat \<times> pydict \<times> pydict list) option"

definition read_snapshot :: "string \<Rightarrow> unit + pyval \<Rightarrow> (pydict \<times> pydict list) option" where
  "read_snapshot symbol answer = (case answer of
       Inr (PDict info) \<Rightarrow>
         (let rows = get info ''symbols'';
              matching = List.filter (\<lambda>r. is_dict r \<and> token (items r) ''symbol'' = upper symbol) (elems rows);
              ex = (if get info ''exchangeFilters'' = PNone then PList [] else get info ''exchangeFilters'') in
          if is_list rows \<and> length matching = 1 \<and> is_list ex \<and> list_all is_dict (elems ex)
          then Some (items (hd matching), map items (elems ex)) else None)
     | _ \<Rightarrow> None)"

definition exchange_snapshot ::
  "public_api \<Rightarrow> rat \<Rightarrow> rat \<Rightarrow> rat \<Rightarrow> filter_cache \<Rightarrow> string \<Rightarrow>
   filter_cache \<times> (filter_error + pydict \<times> pydict list)" where
  "exchange_snapshot api max_age now later cache symbol =
     (let refresh = (case read_snapshot symbol (api_exchange_info api symbol) of
          None \<Rightarrow> (cache, Inl (FilterUnavailable ''exchangeInfo''))
        | Some (entry, ex) \<Rightarrow> (cache(symbol \<mapsto> (later, entry, ex)), Inr (entry, ex))) in
      case cache symbol of
        Some (t, entry, ex) \<Rightarrow> if now - t \<le> max_age then (cache, Inr (entry, ex)) else refresh
      | None \<Rightarrow> refresh)"

definition official_reference_price :: "public_api \<Rightarrow> string \<Rightarrow> filter_error + dec option" where
  "official_reference_price api symbol =
     bindE (refuse (FilterUnavailable ''referencePrice'') (api_reference_price api symbol)) (\<lambda>ref.
     case ref of
       NoReference \<Rightarrow> Inr None
     | Reference v \<Rightarrow>
         bindE (of_option (FilterUnavailable ''referencePrice'') (to_finite v)) (\<lambda>d.
         if dle d dzero then Inl (FilterUnavailable ''referencePrice'') else Inr (Some d)))"

definition fallback_reference_price :: "public_api \<Rightarrow> string \<Rightarrow> pydict \<Rightarrow> filter_error + dec" where
  "fallback_reference_price api symbol pps =
     (let err = FilterUnavailable ''fallbackReferencePrice'' in
      bindE (of_option err (to_int (por (get_or pps ''avgPriceMins'' (PInt 0)) (PInt 0)))) (\<lambda>mins.
      bindE (refuse err (if 0 < mins then api_avg_price api symbol else api_ticker_price api symbol)) (\<lambda>answer.
      bindE (of_option err (if is_dict answer then map_of (items answer) ''price'' else None)) (\<lambda>v.
      bindE (of_option err (to_finite v)) (\<lambda>d.
      if dle d dzero then Inl err else Inr d)))))"

record price_range =
  bid_up :: "dec option"
  bid_down :: "dec option"
  ask_up :: "dec option"
  ask_down :: "dec option"

definition range_multiplier :: "pydict \<Rightarrow> string \<Rightarrow> filter_error + dec option" where
  "range_multiplier rule name = (let raw = get rule name in
     if raw = PNone \<or> raw = PStr [] then Inr None
     else bindE (of_option (FilterUnavailable name) (to_finite raw)) (\<lambda>d.
       if dle d dzero then Inl (FilterUnavailable name) else Inr (Some d)))"

definition crossed :: "dec option \<Rightarrow> dec option \<Rightarrow> bool" where
  "crossed down up \<longleftrightarrow> (case (down, up) of (Some d, Some u) \<Rightarrow> dlt u d | _ \<Rightarrow> False)"

definition price_range_of :: "pydict \<Rightarrow> filter_error + price_range" where
  "price_range_of rule =
     bindE (range_multiplier rule ''bidLimitMultUp'') (\<lambda>bu.
     bindE (range_multiplier rule ''bidLimitMultDown'') (\<lambda>bd.
     bindE (range_multiplier rule ''askLimitMultUp'') (\<lambda>au.
     bindE (range_multiplier rule ''askLimitMultDown'') (\<lambda>ad.
     if crossed bd bu \<or> crossed ad au then Inl (FilterUnavailable ''PRICE_RANGE'')
     else Inr \<lparr>bid_up = bu, bid_down = bd, ask_up = au, ask_down = ad\<rparr>))))"

definition price_range_rule :: "public_api \<Rightarrow> string \<Rightarrow> filter_error + price_range option" where
  "price_range_rule api symbol =
     (let err = FilterUnavailable ''executionRules'' in
      bindE (refuse err (api_execution_rules api symbol)) (\<lambda>payload.
      let rows = get (items payload) ''symbolRules'' in
      if \<not> (is_dict payload \<and> is_list rows) then Inl err
      else if \<not> list_all is_dict (elems rows) then Inl err
      else let matching = List.filter (\<lambda>r. token (items r) ''symbol'' = symbol) (elems rows) in
        if matching = [] then (if elems rows \<noteq> [] then Inl err else Inr None)
        else if length matching \<noteq> 1 then Inl err
        else if length (elems rows) \<noteq> 1 then Inl err
        else let rules = get (items (hd matching)) ''rules'' in
          if \<not> is_list rules then Inl err
          else if \<not> list_all is_dict (elems rules) then Inl err
          else let price_rules =
              List.filter (\<lambda>r. get (items r) ''ruleType'' = PStr ''PRICE_RANGE'') (elems rules) in
            if price_rules = [] then Inr None
            else if length price_rules \<noteq> 1 then Inl err
            else bindE (price_range_of (items (hd price_rules))) (\<lambda>r. Inr (Some r))))"

subsection \<open>Filter rows and enumerations\<close>

text \<open>\<open>_dec\<close>: a missing or zero bound is no bound.\<close>

definition filter_dec :: "pydict \<Rightarrow> string \<Rightarrow> filter_error + pydec option" where
  "filter_dec row key = (let v = get row key in
     if py_in v [PNone, PStr [], PStr ''0'', PInt 0] then Inr None
     else bindE (of_option OtherError (to_dec v)) (\<lambda>d. Inr (Some d)))"

fun filter_map :: "string \<Rightarrow> pydict list \<Rightarrow> (string \<times> pydict) list \<Rightarrow> filter_error + (string \<times> pydict) list" where
  "filter_map scope [] out = Inr out"
| "filter_map scope (row # rows) out =
     (let name = upper (strip (pstr (get_or row ''filterType'' (PStr [])))) in
      if name = [] \<or> name \<in> fst ` set out then Inl (FilterUnavailable scope)
      else filter_map scope rows (out @ [(name, row)]))"

text \<open>
  \<open>{f.get('filterType'): f for f in rows}\<close>: a row that is not a mapping, or whose
  type is a list or a mapping, raises; of two rows with one type the last is kept.
\<close>

definition symbol_filters :: "pyval \<Rightarrow> filter_error + pydict list" where
  "symbol_filters v = (case v of
       PList rows \<Rightarrow>
         (if list_all (\<lambda>r. is_dict r \<and> \<not> is_dict (get (items r) ''filterType'')
              \<and> \<not> is_list (get (items r) ''filterType'')) rows
          then Inr (map items rows) else Inl OtherError)
     | PDict [] \<Rightarrow> Inr []
     | PStr [] \<Rightarrow> Inr []
     | _ \<Rightarrow> Inl OtherError)"

definition filter_row :: "pydict list \<Rightarrow> string \<Rightarrow> pydict" where
  "filter_row rows name = (case List.find (\<lambda>r. get r ''filterType'' = PStr name) (rev rows) of
       None \<Rightarrow> [] | Some r \<Rightarrow> r)"

definition lookup_row :: "(string \<times> pydict) list \<Rightarrow> string \<Rightarrow> pydict" where
  "lookup_row rows name = (case map_of rows name of None \<Rightarrow> [] | Some r \<Rightarrow> r)"

definition positive_limit :: "pydict \<Rightarrow> string \<Rightarrow> string \<Rightarrow> filter_error + int" where
  "positive_limit row key name =
     (if row = [] then Inr 0
      else bindE (of_option (FilterUnavailable name) (case map_of row key of None \<Rightarrow> None | Some v \<Rightarrow> to_int v)) (\<lambda>value.
        if value \<le> 0 then Inl (FilterUnavailable name) else Inr value))"

definition order_id_of :: "pydict \<Rightarrow> int option" where
  "order_id_of row = to_int (por (get_or row ''orderId'' (PInt 0)) (PInt 0))"

definition open_order_rows :: "unit + pyval \<Rightarrow> filter_error + pydict list" where
  "open_order_rows answer =
     (let err = FilterUnavailable ''openOrders'' in
      bindE (refuse err answer) (\<lambda>rows.
      if \<not> is_list rows \<or> \<not> list_all is_dict (elems rows) then Inl err
      else bindE (forE (\<lambda>r. bindE (of_option err (order_id_of (items r))) (\<lambda>i.
             assertE (0 < i \<and> strip (pstr (get_or (items r) ''symbol'' (PStr []))) \<noteq> []) err))
             (elems rows)) (\<lambda>_.
        Inr (map items (elems rows)))))"

definition open_order_list_rows :: "unit + pyval \<Rightarrow> filter_error + pydict list" where
  "open_order_list_rows answer =
     (let err = FilterUnavailable ''openOrderLists'' in
      bindE (refuse err answer) (\<lambda>rows.
      if \<not> is_list rows \<or> \<not> list_all is_dict (elems rows) then Inl err
      else Inr (map items (elems rows))))"

definition order_type_of :: "pydict \<Rightarrow> string" where
  "order_type_of row = upper (strip (pstr (get_or row ''type'' (PStr []))))"

definition algo_order_count :: "pydict list \<Rightarrow> filter_error + nat" where
  "algo_order_count rows =
     bindE (forE (\<lambda>r. assertE (order_type_of r \<noteq> []) (FilterUnavailable ''openOrderType'')) rows) (\<lambda>_.
     Inr (length (List.filter (\<lambda>r. order_type_of r \<in> set algo_types) rows)))"

definition balance_part :: "pydict \<Rightarrow> string \<Rightarrow> filter_error + pydec" where
  "balance_part row key = of_option (FilterUnavailable ''balance'')
     (case map_of row key of None \<Rightarrow> None | Some v \<Rightarrow> to_dec v)"

definition base_balance :: "pyval \<Rightarrow> string \<Rightarrow> filter_error + dec" where
  "base_balance account asset =
     (let err = FilterUnavailable ''balance''; rows = get (items account) ''balances'' in
      if \<not> (is_dict account \<and> is_list rows \<and> list_all is_dict (elems rows)) then Inl err
      else let matching = List.filter (\<lambda>r. token (items r) ''asset'' = upper asset) (elems rows) in
        if length matching \<noteq> 1 then Inl err
        else bindE (balance_part (items (hd matching)) ''free'') (\<lambda>free.
          bindE (balance_part (items (hd matching)) ''locked'') (\<lambda>locked.
          case (free, locked) of
            (Fin f, Fin l) \<Rightarrow> if dlt f dzero \<or> dlt l dzero then Inl err else Inr (dadd f l)
          | _ \<Rightarrow> Inl err)))"

subsection \<open>The checks of one leg\<close>

record leg_limits =
  l_tick :: "pydec option"
  l_min_price :: "pydec option"
  l_max_price :: "pydec option"
  l_step :: "pydec option"
  l_min_qty :: "pydec option"
  l_max_qty :: "pydec option"
  l_min_notional :: "pydec option"
  l_max_notional :: "pydec option"
  l_pps :: pydict
  l_pp :: pydict
  l_reference :: "dec option"
  l_official :: "dec option"
  l_range :: "price_range option"
  l_trail :: "(int \<times> int) option"

text \<open>A comparison whose truth violates the named rule.\<close>

definition violates :: "string \<Rightarrow> dec_error + bool \<Rightarrow> filter_error + unit" where
  "violates rule test = bindE (lift test) (\<lambda>b. if b then Inl (FilterViolation rule) else Inr ())"

text \<open>The same for a bound that may be absent or zero.\<close>

definition bounded :: "pydec option \<Rightarrow> string \<Rightarrow> (pydec \<Rightarrow> dec_error + bool) \<Rightarrow> filter_error + unit" where
  "bounded limit rule test = (case limit of
       None \<Rightarrow> Inr ()
     | Some l \<Rightarrow> if pd_nonzero l then violates rule (test l) else Inr ())"

definition off_grid :: "pydec \<Rightarrow> pydec \<Rightarrow> dec_error + bool" where
  "off_grid x s = bindE (pd_mod x s) (\<lambda>r. Inr (pd_nonzero r))"

definition side_prefix :: "order_leg \<Rightarrow> string" where
  "side_prefix leg = (if upper (leg_side leg) = ''SELL'' then ''ask'' else ''bid'')"

definition band_multipliers :: "leg_limits \<Rightarrow> order_leg \<Rightarrow> filter_error + pydec option \<times> pydec option" where
  "band_multipliers c leg =
     (let (row, prefix) = (if l_pps c \<noteq> [] then (l_pps c, side_prefix leg @ ''M'') else (l_pp c, ''m'')) in
      bindE (filter_dec row (prefix @ ''ultiplierDown'')) (\<lambda>down.
      bindE (filter_dec row (prefix @ ''ultiplierUp'')) (\<lambda>up.
      Inr (down, up))))"

definition check_band :: "leg_limits \<Rightarrow> order_leg \<Rightarrow> pydec \<Rightarrow> filter_error + unit" where
  "check_band c leg price = (case l_reference c of
       None \<Rightarrow> Inr ()
     | Some ref \<Rightarrow>
         bindE (band_multipliers c leg) (\<lambda>(down, up).
         bindE (bounded down ''PERCENT_PRICE'' (\<lambda>m. bindE (pd_mul (Fin ref) m) (\<lambda>b. pd_lt price b))) (\<lambda>_.
         bounded up ''PERCENT_PRICE'' (\<lambda>m. bindE (pd_mul (Fin ref) m) (\<lambda>b. pd_lt b price)))))"

definition check_price :: "leg_limits \<Rightarrow> order_leg \<Rightarrow> pydec \<Rightarrow> filter_error + unit" where
  "check_price c leg price = forE id
     [violates ''PRICE'' (pd_le price (Fin dzero)),
      bounded (l_tick c) ''TICK_SIZE'' (off_grid price),
      bounded (l_min_price c) ''MIN_PRICE'' (pd_lt price),
      bounded (l_max_price c) ''MAX_PRICE'' (\<lambda>m. pd_lt m price),
      check_band c leg price]"

definition check_range :: "leg_limits \<Rightarrow> order_leg \<Rightarrow> filter_error + unit" where
  "check_range c leg = (case (l_range c, l_official c, leg_price leg) of
       (Some r, Some ref, Some price) \<Rightarrow>
         (let sell = (upper (leg_side leg) = ''SELL'');
              down = (if sell then ask_down r else bid_down r);
              up = (if sell then ask_up r else bid_up r) in
          bindE (case down of None \<Rightarrow> Inr () | Some m \<Rightarrow> violates ''PRICE_RANGE'' (pd_lt price (Fin (dmul ref m)))) (\<lambda>_.
          case up of None \<Rightarrow> Inr () | Some m \<Rightarrow> violates ''PRICE_RANGE'' (pd_lt (Fin (dmul ref m)) price)))
     | _ \<Rightarrow> Inr ())"

definition notional_price :: "order_leg \<Rightarrow> pydec option" where
  "notional_price leg = (case leg_price leg of
       Some p \<Rightarrow> if pd_nonzero p then Some p else leg_stop leg
     | None \<Rightarrow> leg_stop leg)"

definition check_notional :: "leg_limits \<Rightarrow> order_leg \<Rightarrow> filter_error + unit" where
  "check_notional c leg = (case notional_price leg of
       None \<Rightarrow> Inr ()
     | Some p \<Rightarrow>
         bindE (bounded (l_min_notional c) ''MIN_NOTIONAL'' (\<lambda>m. bindE (pd_mul p (leg_qty leg)) (\<lambda>n. pd_lt n m))) (\<lambda>_.
         bounded (l_max_notional c) ''MAX_NOTIONAL'' (\<lambda>m. bindE (pd_mul p (leg_qty leg)) (\<lambda>n. pd_lt m n))))"

definition check_trailing :: "leg_limits \<Rightarrow> order_leg \<Rightarrow> filter_error + unit" where
  "check_trailing c leg = (case (leg_trailing leg, l_trail c) of
       (None, _) \<Rightarrow> Inr ()
     | (Some _, None) \<Rightarrow> Inl (FilterViolation ''TRAILING_DELTA'')
     | (Some d, Some (lo, hi)) \<Rightarrow> assertE (lo \<le> d \<and> d \<le> hi) (FilterViolation ''TRAILING_DELTA''))"

definition leg_prices :: "order_leg \<Rightarrow> pydec list" where
  "leg_prices leg = List.map_filter id [leg_price leg, leg_stop leg]"

definition check_leg :: "leg_limits \<Rightarrow> order_leg \<Rightarrow> filter_error + unit" where
  "check_leg c leg = forE id
     [forE (check_price c leg) (leg_prices leg),
      check_range c leg,
      bounded (l_step c) ''STEP_SIZE'' (off_grid (leg_qty leg)),
      bounded (l_min_qty c) ''MIN_QTY'' (pd_lt (leg_qty leg)),
      bounded (l_max_qty c) ''MAX_QTY'' (\<lambda>m. pd_lt m (leg_qty leg)),
      check_notional c leg,
      check_trailing c leg]"

subsection \<open>Capacity of the symbol, the account and the position\<close>

record providers =
  pr_symbol_orders :: "(string \<Rightarrow> unit + pyval) option"
  pr_all_orders :: "(unit + pyval) option"
  pr_order_lists :: "(unit + pyval) option"
  pr_account :: "(unit + pyval) option"
  pr_replacing_ids :: "pyval list"
  pr_replacing_list :: bool

definition of_symbol :: "string \<Rightarrow> pydict \<Rightarrow> bool" where
  "of_symbol symbol row \<longleftrightarrow> token row ''symbol'' = upper symbol"

text \<open>The open orders the capacity rules look at: all of the account, and of the symbol.\<close>

definition enumerate_orders ::
  "providers \<Rightarrow> string \<Rightarrow> bool \<Rightarrow> bool \<Rightarrow> filter_error + pydict list \<times> pydict list" where
  "enumerate_orders pr symbol needs_exchange needs_symbol =
     (if needs_exchange then
        bindE (of_option (FilterUnavailable ''allOpenOrdersProvider'') (pr_all_orders pr)) (\<lambda>answer.
        bindE (open_order_rows answer) (\<lambda>rows.
        Inr (rows, List.filter (of_symbol symbol) rows)))
      else if needs_symbol then
        bindE (of_option (FilterUnavailable ''openOrdersProvider'') (pr_symbol_orders pr)) (\<lambda>ask.
        bindE (open_order_rows (ask symbol)) (\<lambda>rows.
        if list_all (of_symbol symbol) rows then Inr ([], rows)
        else Inl (FilterUnavailable ''openOrders'')))
      else Inr ([], []))"

definition replaced_ids :: "pyval list \<Rightarrow> filter_error + int list" where
  "replaced_ids values =
     mapE (\<lambda>v. of_option (FilterUnavailable ''replacingOrderIds'') (to_int v))
       (List.filter (\<lambda>v. \<not> py_in v [PNone, PStr [], PInt 0, PStr ''0'']) values)"

definition not_replaced :: "int list \<Rightarrow> pydict list \<Rightarrow> pydict list" where
  "not_replaced ids rows = List.filter (\<lambda>r. \<not> (\<exists>i \<in> set ids. order_id_of r = Some i)) rows"

text \<open>An order-count rule, and an algo-order-count rule, that is published.\<close>

definition check_count :: "pydict \<Rightarrow> string \<Rightarrow> pydict list \<Rightarrow> nat \<Rightarrow> filter_error + string list" where
  "check_count row name rows new =
     bindE (positive_limit row ''maxNumOrders'' name) (\<lambda>limit.
     if limit = 0 then Inr []
     else if limit < int (length rows + new) then Inl (FilterViolation name)
     else Inr [name])"

definition check_algo :: "pydict \<Rightarrow> string \<Rightarrow> pydict list \<Rightarrow> nat \<Rightarrow> filter_error + string list" where
  "check_algo row name rows new =
     bindE (positive_limit row ''maxNumAlgoOrders'' name) (\<lambda>limit.
     if limit = 0 then Inr []
     else bindE (algo_order_count rows) (\<lambda>open_algo.
       if limit < int (open_algo + new) then Inl (FilterViolation name) else Inr [name]))"

definition open_buy_step :: "pydict \<Rightarrow> dec \<Rightarrow> filter_error + dec" where
  "open_buy_step row acc =
     (let side = upper (strip (pstr (get_or row ''side'' (PStr [])))); err = FilterUnavailable ''openBuy'' in
      if side \<notin> {''BUY'', ''SELL''} then Inl err
      else if side \<noteq> ''BUY'' then Inr acc
      else bindE (of_option err (case map_of row ''origQty'' of None \<Rightarrow> None | Some v \<Rightarrow> to_finite v)) (\<lambda>q.
        if dlt q dzero then Inl err else Inr (dadd acc q)))"

fun open_buy :: "pydict list \<Rightarrow> dec \<Rightarrow> filter_error + dec" where
  "open_buy [] acc = Inr acc"
| "open_buy (row # rows) acc = bindE (open_buy_step row acc) (\<lambda>t. open_buy rows t)"

definition check_position ::
  "pydict \<Rightarrow> pyval \<Rightarrow> providers \<Rightarrow> pydict list \<Rightarrow> pydec \<Rightarrow> filter_error + string list" where
  "check_position row base_asset pr rows incoming_buy =
     (if row = [] then Inr []
      else bindE (lift (pd_lt (Fin dzero) incoming_buy)) (\<lambda>buying.
      if \<not> buying then Inr []
      else let err = FilterUnavailable ''MAX_POSITION'' in
        bindE (of_option err (case map_of row ''maxPosition'' of None \<Rightarrow> None | Some v \<Rightarrow> to_finite v)) (\<lambda>maximum.
        if dle maximum dzero then Inl err
        else
          bindE (of_option (FilterUnavailable ''accountProvider'') (pr_account pr)) (\<lambda>answer.
          bindE (refuse (FilterUnavailable ''account'') answer) (\<lambda>account.
          bindE (base_balance account (pstr base_asset)) (\<lambda>balance.
          bindE (open_buy rows dzero) (\<lambda>bought.
          bindE (lift (pd_add (Fin (dadd balance bought)) incoming_buy)) (\<lambda>position.
          bindE (violates ''MAX_POSITION'' (pd_lt (Fin maximum) position)) (\<lambda>_.
          Inr [''MAX_POSITION''])))))))))"

definition check_list_count :: "int \<Rightarrow> string \<Rightarrow> nat \<Rightarrow> bool \<Rightarrow> filter_error + string list" where
  "check_list_count limit name open_lists replacing =
     (if limit = 0 then Inr []
      else if limit < int (open_lists - (if replacing then 1 else 0) + 1) then Inl (FilterViolation name)
      else Inr [name])"

definition check_order_lists ::
  "pydict list \<Rightarrow> (string \<times> pydict) list \<Rightarrow> providers \<Rightarrow> string \<Rightarrow> string \<Rightarrow> filter_error + string list" where
  "check_order_lists filters exchange pr symbol endpoint =
     (if \<not> starts_with ''orderList/'' endpoint then Inr []
      else
        bindE (positive_limit (filter_row filters ''MAX_NUM_ORDER_LISTS'') ''maxNumOrderLists'' ''MAX_NUM_ORDER_LISTS'') (\<lambda>sl.
        bindE (positive_limit (lookup_row exchange ''EXCHANGE_MAX_NUM_ORDER_LISTS'') ''maxNumOrderLists'' ''EXCHANGE_MAX_NUM_ORDER_LISTS'') (\<lambda>el.
        if sl = 0 \<and> el = 0 then Inr []
        else
          bindE (of_option (FilterUnavailable ''openOrderListsProvider'') (pr_order_lists pr)) (\<lambda>answer.
          bindE (open_order_list_rows answer) (\<lambda>rows.
          bindE (assertE (sl = 0 \<or> list_all (\<lambda>r. strip (pstr (get_or r ''symbol'' (PStr []))) \<noteq> []) rows)
                  (FilterUnavailable ''openOrderLists'')) (\<lambda>_.
          bindE (check_list_count sl ''MAX_NUM_ORDER_LISTS''
                  (length (List.filter (of_symbol symbol) rows)) (pr_replacing_list pr)) (\<lambda>c1.
          bindE (check_list_count el ''EXCHANGE_MAX_NUM_ORDER_LISTS'' (length rows) (pr_replacing_list pr)) (\<lambda>c2.
          Inr (c1 @ c2)))))))))"

fun pd_sum :: "pydec list \<Rightarrow> pydec \<Rightarrow> dec_error + pydec" where
  "pd_sum [] acc = Inr acc"
| "pd_sum (x # xs) acc = bindE (pd_add acc x) (pd_sum xs)"

definition check_capacity ::
  "pydict \<Rightarrow> pydict list \<Rightarrow> (string \<times> pydict) list \<Rightarrow> providers \<Rightarrow> string \<Rightarrow> string \<Rightarrow> order_leg list \<Rightarrow>
   filter_error + string list" where
  "check_capacity entry filters exchange pr symbol endpoint legs =
     (let new_orders = length legs; new_algo = length (List.filter leg_is_algo legs);
          max_orders = filter_row filters ''MAX_NUM_ORDERS''; max_algo = filter_row filters ''MAX_NUM_ALGO_ORDERS'';
          max_position = filter_row filters ''MAX_POSITION'';
          ex_orders = lookup_row exchange ''EXCHANGE_MAX_NUM_ORDERS'';
          ex_algo = lookup_row exchange ''EXCHANGE_MAX_NUM_ALGO_ORDERS'' in
      bindE (lift (pd_sum (map leg_qty (List.filter (\<lambda>l. upper (leg_side l) = ''BUY'') legs)) (Fin dzero))) (\<lambda>incoming_buy.
      bindE (if max_orders \<noteq> [] \<or> max_algo \<noteq> [] then Inr True
             else if max_position = [] then Inr False
             else lift (pd_lt (Fin dzero) incoming_buy)) (\<lambda>needs_symbol.
      bindE (enumerate_orders pr symbol (ex_orders \<noteq> [] \<or> ex_algo \<noteq> []) needs_symbol) (\<lambda>(all_rows, symbol_rows).
      bindE (replaced_ids (pr_replacing_ids pr)) (\<lambda>ids.
      let eff_symbol = not_replaced ids symbol_rows; eff_all = not_replaced ids all_rows in
      bindE (check_count max_orders ''MAX_NUM_ORDERS'' eff_symbol new_orders) (\<lambda>c1.
      bindE (check_algo max_algo ''MAX_NUM_ALGO_ORDERS'' eff_symbol new_algo) (\<lambda>c2.
      bindE (check_position max_position (get_or entry ''baseAsset'' (PStr [])) pr eff_symbol incoming_buy) (\<lambda>c3.
      bindE (check_count ex_orders ''EXCHANGE_MAX_NUM_ORDERS'' eff_all new_orders) (\<lambda>c4.
      bindE (check_algo ex_algo ''EXCHANGE_MAX_NUM_ALGO_ORDERS'' eff_all new_algo) (\<lambda>c5.
      bindE (check_order_lists filters exchange pr symbol endpoint) (\<lambda>c6.
      Inr (c1 @ c2 @ c3 @ c4 @ c5 @ c6))))))))))))"

subsection \<open>The whole validation\<close>

definition check_entry :: "environ \<Rightarrow> string \<Rightarrow> string \<Rightarrow> pydict \<Rightarrow> filter_error + unit" where
  "check_entry env symbol endpoint entry =
     bindE (assertE (get entry ''status'' = PStr ''TRADING'') (FilterViolation ''status'')) (\<lambda>_.
     bindE (assertE (is_true (get entry ''isSpotTradingAllowed'')) (FilterViolation ''isSpotTradingAllowed'')) (\<lambda>_.
     bindE (assertE (token entry ''baseAsset'' = ''BTC'') (FilterViolation ''baseAsset'')) (\<lambda>_.
     let quote = token entry ''quoteAsset'' in
     bindE (case allowed_quotes_from_env env of Inl _ \<Rightarrow> Inl OtherError | Inr qs \<Rightarrow> Inr qs) (\<lambda>allow.
     bindE (assertE (allow = [] \<or> quote \<in> set allow) (FilterViolation ''quoteAsset'')) (\<lambda>_.
     bindE (assertE (token entry ''symbol'' = ''BTC'' @ quote) (FilterViolation ''symbol'')) (\<lambda>_.
     let oto = is_true (get entry ''otoAllowed''); oco = is_true (get entry ''ocoAllowed'') in
     assertE ((endpoint = ''orderList/oto'' \<longrightarrow> oto) \<and> (endpoint = ''orderList/otoco'' \<longrightarrow> oto \<and> oco)
              \<and> (endpoint = ''orderList/oco'' \<longrightarrow> oco)) (FilterViolation ''orderLists'')))))))"

definition trailing_bounds ::
  "pydict \<Rightarrow> pydict \<Rightarrow> order_leg list \<Rightarrow> filter_error + (int \<times> int) option" where
  "trailing_bounds entry row legs =
     (let err = FilterViolation ''TRAILING_DELTA'' in
      if list_all (\<lambda>l. leg_trailing l = None) legs then Inr None
      else
        bindE (assertE (is_true (get entry ''allowTrailingStop'')) err) (\<lambda>_.
        bindE (assertE (row \<noteq> []) err) (\<lambda>_.
        bindE (of_option err (case map_of row ''minTrailingBelowDelta'' of None \<Rightarrow> None | Some v \<Rightarrow> to_int v)) (\<lambda>lo.
        bindE (of_option err (case map_of row ''maxTrailingBelowDelta'' of None \<Rightarrow> None | Some v \<Rightarrow> to_int v)) (\<lambda>hi.
        if lo < 1 \<or> hi < lo then Inl err else Inr (Some (lo, hi)))))))"

definition or_row :: "pydict \<Rightarrow> pydict \<Rightarrow> pydict" where
  "or_row a b = (if a \<noteq> [] then a else b)"

text \<open>\<open>_dec(row, k1) or _dec(row, k2)\<close>.\<close>

definition filter_dec_or :: "pydict \<Rightarrow> string \<Rightarrow> string \<Rightarrow> filter_error + pydec option" where
  "filter_dec_or row k1 k2 = bindE (filter_dec row k1) (\<lambda>a.
     case a of Some d \<Rightarrow> if pd_nonzero d then Inr a else filter_dec row k2 | None \<Rightarrow> filter_dec row k2)"

definition limits_of :: "pydict list \<Rightarrow> filter_error + leg_limits" where
  "limits_of filters =
     (let price = filter_row filters ''PRICE_FILTER''; lot = filter_row filters ''LOT_SIZE'';
          notional = or_row (filter_row filters ''NOTIONAL'') (filter_row filters ''MIN_NOTIONAL'') in
      bindE (filter_dec price ''tickSize'') (\<lambda>tick.
      bindE (filter_dec price ''minPrice'') (\<lambda>min_price.
      bindE (filter_dec price ''maxPrice'') (\<lambda>max_price.
      bindE (filter_dec lot ''stepSize'') (\<lambda>step.
      bindE (filter_dec lot ''minQty'') (\<lambda>min_qty.
      bindE (filter_dec lot ''maxQty'') (\<lambda>max_qty.
      bindE (filter_dec_or notional ''minNotional'' ''notional'') (\<lambda>min_notional.
      bindE (filter_dec notional ''maxNotional'') (\<lambda>max_notional.
      Inr \<lparr>l_tick = tick, l_min_price = min_price, l_max_price = max_price, l_step = step,
           l_min_qty = min_qty, l_max_qty = max_qty, l_min_notional = min_notional,
           l_max_notional = max_notional, l_pps = filter_row filters ''PERCENT_PRICE_BY_SIDE'',
           l_pp = filter_row filters ''PERCENT_PRICE'', l_reference = None, l_official = None,
           l_range = None, l_trail = None\<rparr>)))))))))"

record summary =
  sum_legs :: "order_leg list"
  sum_limits :: leg_limits
  sum_checked :: "string list"

definition leg_checks_named :: "leg_limits \<Rightarrow> pydict list \<Rightarrow> string list" where
  "leg_checks_named c filters =
     List.filter (\<lambda>n. n = ''NOTIONAL'' \<or> filter_row filters n \<noteq> [])
       ([''PRICE_FILTER''] @ (if l_pps c \<noteq> [] then [''PERCENT_PRICE_BY_SIDE'']
          else if l_pp c \<noteq> [] then [''PERCENT_PRICE''] else [])
        @ [''LOT_SIZE'', ''NOTIONAL'', ''TRAILING_DELTA''])
     @ (if l_range c = None then [] else [''PRICE_RANGE''])"

definition reference_prices ::
  "public_api \<Rightarrow> string \<Rightarrow> leg_limits \<Rightarrow> filter_error + dec option \<times> dec option" where
  "reference_prices api symbol c =
     (let percent = l_pps c \<noteq> [] \<or> l_pp c \<noteq> [] in
      bindE (if l_range c \<noteq> None \<or> percent then official_reference_price api symbol else Inr None) (\<lambda>official.
      bindE (if \<not> percent then Inr None
             else (case official of Some r \<Rightarrow> Inr (Some r)
               | None \<Rightarrow> bindE (fallback_reference_price api symbol (or_row (l_pps c) (l_pp c))) (\<lambda>r. Inr (Some r)))) (\<lambda>ref.
      Inr (official, ref))))"

definition validate_entry ::
  "environ \<Rightarrow> public_api \<Rightarrow> providers \<Rightarrow> string \<Rightarrow> string \<Rightarrow> pydict \<Rightarrow> pydict \<Rightarrow> pydict list \<Rightarrow> filter_error + summary" where
  "validate_entry env api pr symbol endpoint params entry exchange_rows =
     bindE (check_entry env symbol endpoint entry) (\<lambda>_.
     bindE (symbol_filters (get_or entry ''filters'' (PList []))) (\<lambda>filters.
     bindE (filter_map ''exchangeFilters'' exchange_rows []) (\<lambda>exchange.
     bindE (legs_from_request endpoint params) (\<lambda>legs.
     bindE (limits_of filters) (\<lambda>c0.
     bindE (price_range_rule api symbol) (\<lambda>range.
     bindE (trailing_bounds entry (filter_row filters ''TRAILING_DELTA'') legs) (\<lambda>trail.
     bindE (reference_prices api symbol (c0\<lparr>l_range := range\<rparr>)) (\<lambda>(official, ref).
     let c = c0\<lparr>l_range := range, l_trail := trail, l_official := official, l_reference := ref\<rparr> in
     bindE (forE (check_leg c) legs) (\<lambda>_.
     bindE (check_capacity entry filters exchange pr symbol endpoint legs) (\<lambda>names.
     Inr \<lparr>sum_legs = legs, sum_limits = c, sum_checked = leg_checks_named c filters @ names\<rparr>))))))))))"

definition validate_replacement ::
  "environ \<Rightarrow> public_api \<Rightarrow> rat \<Rightarrow> rat \<Rightarrow> rat \<Rightarrow> providers \<Rightarrow> filter_cache \<Rightarrow> string \<Rightarrow> string \<Rightarrow> pydict \<Rightarrow>
   filter_cache \<times> (filter_error + summary)" where
  "validate_replacement env api max_age now later pr cache symbol endpoint params =
     (case exchange_snapshot api max_age now later cache symbol of
        (cache', Inl e) \<Rightarrow> (cache', Inl e)
      | (cache', Inr (entry, ex)) \<Rightarrow> (cache', validate_entry env api pr symbol endpoint params entry ex))"

subsection \<open>Validated requests\<close>

lemma lift_Inr [simp]: "lift x = Inr v \<longleftrightarrow> x = Inr v"
  by (auto simp: lift_def split: sum.splits)

lemma lift_Inl [simp]: "lift x = Inl e \<longleftrightarrow> (\<exists>d. x = Inl d \<and> e = OtherError)"
  by (auto simp: lift_def split: sum.splits)

lemma refuse_Inr [simp]: "refuse e x = Inr v \<longleftrightarrow> x = Inr v"
  by (auto simp: refuse_def split: sum.splits)

lemma violates_Inr [simp]: "violates rule test = Inr u \<longleftrightarrow> test = Inr False"
  by (auto simp: violates_def bindE_Inr_iff split: if_splits)

lemma bounded_Inr: "bounded limit rule test = Inr u \<longleftrightarrow> (\<forall>l. limit = Some l \<and> pd_nonzero l \<longrightarrow> test l = Inr False)"
  by (auto simp: bounded_def split: option.splits)

lemma off_grid_False: "off_grid (Fin x) (Fin s) = Inr False \<Longrightarrow> multiple_of (dval s) (dval x)"
  by (auto simp: off_grid_def bindE_Inr_iff intro: pd_mod_zero)

text \<open>What an accepted amount satisfies: a bound that is published and not zero holds.\<close>

definition at_least :: "pydec option \<Rightarrow> dec \<Rightarrow> bool" where
  "at_least limit x \<longleftrightarrow> (\<forall>l. limit = Some (Fin l) \<and> coeff l \<noteq> 0 \<longrightarrow> dval l \<le> dval x)"

definition at_most :: "pydec option \<Rightarrow> dec \<Rightarrow> bool" where
  "at_most limit x \<longleftrightarrow> (\<forall>l. limit = Some (Fin l) \<and> coeff l \<noteq> 0 \<longrightarrow> dval x \<le> dval l)"

definition on_grid :: "pydec option \<Rightarrow> dec \<Rightarrow> bool" where
  "on_grid step x \<longleftrightarrow> (\<forall>s. step = Some (Fin s) \<and> coeff s \<noteq> 0 \<longrightarrow> multiple_of (dval s) (dval x))"

definition conforms :: "leg_limits \<Rightarrow> order_leg \<Rightarrow> bool" where
  "conforms c leg \<longleftrightarrow>
     (\<forall>p. leg_price leg = Some (Fin p) \<or> leg_stop leg = Some (Fin p) \<longrightarrow>
        0 < dval p \<and> on_grid (l_tick c) p \<and> at_least (l_min_price c) p \<and> at_most (l_max_price c) p)
   \<and> (\<forall>q. leg_qty leg = Fin q \<longrightarrow>
        on_grid (l_step c) q \<and> at_least (l_min_qty c) q \<and> at_most (l_max_qty c) q
        \<and> (\<forall>p. notional_price leg = Some (Fin p) \<longrightarrow>
             at_least (l_min_notional c) (dmul p q) \<and> at_most (l_max_notional c) (dmul p q)))
   \<and> (\<forall>d. leg_trailing leg = Some d \<longrightarrow> (\<exists>lo hi. l_trail c = Some (lo, hi) \<and> lo \<le> d \<and> d \<le> hi))"

lemma bounded_below: "bounded limit rule (pd_lt (Fin x)) = Inr u \<Longrightarrow> at_least limit x"
  by (auto simp: bounded_Inr at_least_def dlt_iff)

lemma bounded_above: "bounded limit rule (\<lambda>m. pd_lt m (Fin x)) = Inr u \<Longrightarrow> at_most limit x"
  by (auto simp: bounded_Inr at_most_def dlt_iff)

lemma bounded_grid: "bounded step rule (off_grid (Fin x)) = Inr u \<Longrightarrow> on_grid step x"
  by (auto simp: bounded_Inr on_grid_def intro: off_grid_False)

lemmas bounded_conforms = bounded_below bounded_above bounded_grid

lemma check_price_conforms:
  assumes "check_price c leg (Fin p) = Inr u"
  shows "0 < dval p" "on_grid (l_tick c) p" "at_least (l_min_price c) p" "at_most (l_max_price c) p"
  using assms by (auto simp: check_price_def errE_iffs dle_iff dval_Dec not_le intro: bounded_conforms)

lemma leg_prices_iff: "p \<in> set (leg_prices leg) \<longleftrightarrow> leg_price leg = Some p \<or> leg_stop leg = Some p"
  by (auto simp: leg_prices_def List.map_filter_def)

lemma check_notional_conforms:
  assumes "check_notional c leg = Inr u" "notional_price leg = Some (Fin p)" "leg_qty leg = Fin q"
  shows "at_least (l_min_notional c) (dmul p q)" "at_most (l_max_notional c) (dmul p q)"
  using assms by (auto simp: check_notional_def errE_iffs intro: bounded_conforms)

lemma check_leg_conforms:
  assumes "check_leg c leg = Inr u"
  shows "conforms c leg"
proof -
  have *: "forE (check_price c leg) (leg_prices leg) = Inr ()" "check_notional c leg = Inr ()"
      "check_trailing c leg = Inr ()"
      "bounded (l_step c) ''STEP_SIZE'' (off_grid (leg_qty leg)) = Inr ()"
      "bounded (l_min_qty c) ''MIN_QTY'' (pd_lt (leg_qty leg)) = Inr ()"
      "bounded (l_max_qty c) ''MAX_QTY'' (\<lambda>m. pd_lt m (leg_qty leg)) = Inr ()"
    using assms by (simp_all add: check_leg_def bindE_Inr_iff)
  have "0 < dval p \<and> on_grid (l_tick c) p \<and> at_least (l_min_price c) p \<and> at_most (l_max_price c) p"
    if "leg_price leg = Some (Fin p) \<or> leg_stop leg = Some (Fin p)" for p
    using that *(1) check_price_conforms [of c leg p] by (auto simp: forE_Inr_iff leg_prices_iff)
  moreover have "\<exists>lo hi. l_trail c = Some (lo, hi) \<and> lo \<le> d \<and> d \<le> hi" if "leg_trailing leg = Some d" for d
    using that *(3) by (auto simp: check_trailing_def split: option.splits prod.splits)
  ultimately show ?thesis
    using * by (auto simp: conforms_def intro: bounded_conforms check_notional_conforms)
qed

lemma conforms_cong:
  "conforms (c\<lparr>l_range := a, l_trail := t, l_official := f, l_reference := r\<rparr>) = conforms (c\<lparr>l_trail := t\<rparr>)"
  by (rule ext) (simp add: conforms_def)

lemma checked_legs_conform:
  "\<forall>leg \<in> set legs. check_leg (c\<lparr>l_range := a, l_trail := t, l_official := f, l_reference := r\<rparr>) leg = Inr ()
    \<Longrightarrow> list_all (conforms (c\<lparr>l_trail := t\<rparr>)) legs"
  using check_leg_conforms conforms_cong by (fastforce simp: list_all_iff)

text \<open>
  A validated request has only legs that conform to the limits of the symbol row the
  snapshot holds, and its trailing deltas lie within published bounds.
\<close>

lemma validate_entry_conforms:
  assumes "validate_entry env api pr symbol endpoint params entry ex = Inr s"
  shows "check_entry env symbol endpoint entry = Inr () \<and> legs_from_request endpoint params = Inr (sum_legs s)
    \<and> (\<exists>filters c trail. symbol_filters (get_or entry ''filters'' (PList [])) = Inr filters
        \<and> limits_of filters = Inr c
        \<and> trailing_bounds entry (filter_row filters ''TRAILING_DELTA'') (sum_legs s) = Inr trail
        \<and> list_all (conforms (c\<lparr>l_trail := trail\<rparr>)) (sum_legs s))"
proof -
  obtain filters exchange c range trail official ref where
    "check_entry env symbol endpoint entry = Inr ()" "legs_from_request endpoint params = Inr (sum_legs s)"
    "symbol_filters (get_or entry ''filters'' (PList [])) = Inr filters" "limits_of filters = Inr c"
    "trailing_bounds entry (filter_row filters ''TRAILING_DELTA'') (sum_legs s) = Inr trail"
    and "forE (check_leg (c\<lparr>l_range := range, l_trail := trail, l_official := official, l_reference := ref\<rparr>))
      (sum_legs s) = Inr ()"
    using assms by (auto simp: validate_entry_def bindE_Inr_iff Let_def split: prod.splits)
  moreover from this have "list_all (conforms (c\<lparr>l_trail := trail\<rparr>)) (sum_legs s)"
    by (intro checked_legs_conform) (simp add: forE_Inr_iff)
  ultimately show ?thesis by blast
qed

lemma trailing_bounds_valid: "trailing_bounds entry row legs = Inr (Some (lo, hi)) \<Longrightarrow> 1 \<le> lo \<and> lo \<le> hi"
  by (auto simp: trailing_bounds_def Let_def errE_iffs split: if_splits)

text \<open>A count within the limit a filter row publishes.\<close>

definition within_limit :: "pydict \<Rightarrow> string \<Rightarrow> nat \<Rightarrow> bool" where
  "within_limit row key n \<longleftrightarrow> (row \<noteq> [] \<longrightarrow>
     (\<exists>v limit. map_of row key = Some v \<and> to_int v = Some limit \<and> int n \<le> limit))"

lemma positive_limit_Inr:
  "positive_limit row key name = Inr l \<longleftrightarrow>
    (if row = [] then l = 0 else 0 < l \<and> (\<exists>v. map_of row key = Some v \<and> to_int v = Some l))"
  by (auto simp: positive_limit_def bindE_Inr_iff not_le split: option.splits intro!: exI [of _ l])

lemma check_count_within: "check_count row name rows new = Inr ns \<Longrightarrow> within_limit row ''maxNumOrders'' (length rows + new)"
  by (auto simp: check_count_def bindE_Inr_iff positive_limit_Inr within_limit_def split: if_splits)

lemma check_algo_within:
  "check_algo row name rows new = Inr ns \<Longrightarrow> within_limit row ''maxNumAlgoOrders''
     (length (List.filter (\<lambda>r. order_type_of r \<in> set algo_types) rows) + new)"
  by (auto simp: check_algo_def algo_order_count_def bindE_Inr_iff positive_limit_Inr within_limit_def split: if_splits)

lemma check_capacity_within:
  assumes "check_capacity entry filters exchange pr symbol endpoint legs = Inr names"
  shows "\<exists>needs_symbol all_rows rows ids.
      enumerate_orders pr symbol (lookup_row exchange ''EXCHANGE_MAX_NUM_ORDERS'' \<noteq> []
         \<or> lookup_row exchange ''EXCHANGE_MAX_NUM_ALGO_ORDERS'' \<noteq> []) needs_symbol = Inr (all_rows, rows)
    \<and> (filter_row filters ''MAX_NUM_ORDERS'' \<noteq> [] \<or> filter_row filters ''MAX_NUM_ALGO_ORDERS'' \<noteq> [] \<longrightarrow> needs_symbol)
    \<and> replaced_ids (pr_replacing_ids pr) = Inr ids
    \<and> within_limit (filter_row filters ''MAX_NUM_ORDERS'') ''maxNumOrders'' (length (not_replaced ids rows) + length legs)
    \<and> within_limit (filter_row filters ''MAX_NUM_ALGO_ORDERS'') ''maxNumAlgoOrders''
        (length (List.filter (\<lambda>r. order_type_of r \<in> set algo_types) (not_replaced ids rows))
         + length (List.filter leg_is_algo legs))
    \<and> within_limit (lookup_row exchange ''EXCHANGE_MAX_NUM_ORDERS'') ''maxNumOrders''
        (length (not_replaced ids all_rows) + length legs)
    \<and> within_limit (lookup_row exchange ''EXCHANGE_MAX_NUM_ALGO_ORDERS'') ''maxNumAlgoOrders''
        (length (List.filter (\<lambda>r. order_type_of r \<in> set algo_types) (not_replaced ids all_rows))
         + length (List.filter leg_is_algo legs))"
proof -
  let ?need = "\<lambda>b. if filter_row filters ''MAX_NUM_ORDERS'' \<noteq> [] \<or> filter_row filters ''MAX_NUM_ALGO_ORDERS'' \<noteq> []
      then Inr True else if filter_row filters ''MAX_POSITION'' = [] then Inr False
      else lift (pd_lt (Fin dzero) b)"
  obtain b needs_symbol all_rows rows ids c1 c2 c4 c5 where
    n: "?need b = Inr needs_symbol"
    and e: "enumerate_orders pr symbol (lookup_row exchange ''EXCHANGE_MAX_NUM_ORDERS'' \<noteq> []
         \<or> lookup_row exchange ''EXCHANGE_MAX_NUM_ALGO_ORDERS'' \<noteq> []) needs_symbol = Inr (all_rows, rows)"
    and r: "replaced_ids (pr_replacing_ids pr) = Inr ids"
    and c: "check_count (filter_row filters ''MAX_NUM_ORDERS'') ''MAX_NUM_ORDERS'' (not_replaced ids rows) (length legs) = Inr c1"
      "check_algo (filter_row filters ''MAX_NUM_ALGO_ORDERS'') ''MAX_NUM_ALGO_ORDERS'' (not_replaced ids rows)
         (length (List.filter leg_is_algo legs)) = Inr c2"
      "check_count (lookup_row exchange ''EXCHANGE_MAX_NUM_ORDERS'') ''EXCHANGE_MAX_NUM_ORDERS''
         (not_replaced ids all_rows) (length legs) = Inr c4"
      "check_algo (lookup_row exchange ''EXCHANGE_MAX_NUM_ALGO_ORDERS'') ''EXCHANGE_MAX_NUM_ALGO_ORDERS''
         (not_replaced ids all_rows) (length (List.filter leg_is_algo legs)) = Inr c5"
    using assms unfolding check_capacity_def Let_def bindE_Inr_iff
    by (elim exE conjE) (simp only: split_paired_all prod.case bindE_Inr_iff, elim exE conjE, rule that)
  have "filter_row filters ''MAX_NUM_ORDERS'' \<noteq> [] \<or> filter_row filters ''MAX_NUM_ALGO_ORDERS'' \<noteq> [] \<longrightarrow> needs_symbol"
    using n by (simp split: if_splits)
  then show ?thesis
    using e r check_count_within [OF c(1)] check_algo_within [OF c(2)] check_count_within [OF c(3)]
      check_algo_within [OF c(4)] by blast
qed

text \<open>The snapshot is of the exact symbol and no older than the bound.\<close>

definition cache_sound :: "filter_cache \<Rightarrow> bool" where
  "cache_sound cache \<longleftrightarrow> (\<forall>symbol t entry ex. cache symbol = Some (t, entry, ex) \<longrightarrow> token entry ''symbol'' = upper symbol)"

lemma filter_single: "length (List.filter p xs) = 1 \<Longrightarrow> p (hd (List.filter p xs))"
proof -
  assume "length (List.filter p xs) = 1"
  then have "hd (List.filter p xs) \<in> set (List.filter p xs)" by (intro hd_in_set) auto
  then show ?thesis by simp
qed

lemma read_snapshot_symbol:
  assumes "read_snapshot symbol answer = Some (entry, ex)"
  shows "token entry ''symbol'' = upper symbol"
proof -
  obtain info where a: "answer = Inr (PDict info)"
    using assms by (auto simp: read_snapshot_def split: sum.splits pyval.splits)
  let ?p = "\<lambda>r. is_dict r \<and> token (items r) ''symbol'' = upper symbol"
  have "length (List.filter ?p (elems (get info ''symbols''))) = 1"
    "entry = items (hd (List.filter ?p (elems (get info ''symbols''))))"
    using assms unfolding a read_snapshot_def sum.case pyval.case Let_def
    by (metis (no_types, lifting) option.distinct(1), metis (no_types, lifting) Pair_inject option.distinct(1) option.inject)
  then show ?thesis using filter_single [of ?p "elems (get info ''symbols'')"] by simp
qed

lemma exchange_snapshot_sound:
  assumes "cache_sound cache" and "exchange_snapshot api max_age now later cache symbol = (cache', r)"
  shows "cache_sound cache'"
    and "r = Inr (entry, ex) \<Longrightarrow> token entry ''symbol'' = upper symbol
      \<and> (read_snapshot symbol (api_exchange_info api symbol) = Some (entry, ex)
         \<or> (\<exists>t. cache symbol = Some (t, entry, ex) \<and> now - t \<le> max_age))"
    and "r = Inl e \<Longrightarrow> cache' = cache \<and> read_snapshot symbol (api_exchange_info api symbol) = None
      \<and> (\<forall>t row. cache symbol = Some (t, row) \<longrightarrow> max_age < now - t)"
  using assms
proof -
  note d = assms(2) [unfolded exchange_snapshot_def Let_def]
  show "cache_sound cache'"
    using assms(1) d by (auto simp: cache_sound_def dest!: read_snapshot_symbol split: option.splits if_splits)
  show "r = Inr (entry, ex) \<Longrightarrow> token entry ''symbol'' = upper symbol
      \<and> (read_snapshot symbol (api_exchange_info api symbol) = Some (entry, ex)
         \<or> (\<exists>t. cache symbol = Some (t, entry, ex) \<and> now - t \<le> max_age))"
  proof -
    assume r: "r = Inr (entry, ex)"
    then have "read_snapshot symbol (api_exchange_info api symbol) = Some (entry, ex)
         \<or> (\<exists>t. cache symbol = Some (t, entry, ex) \<and> now - t \<le> max_age)"
      using d by (auto split: option.splits if_splits)
    then show ?thesis using assms(1) read_snapshot_symbol unfolding cache_sound_def by blast
  qed
  show "r = Inl e \<Longrightarrow> cache' = cache \<and> read_snapshot symbol (api_exchange_info api symbol) = None
      \<and> (\<forall>t row. cache symbol = Some (t, row) \<longrightarrow> max_age < now - t)"
    using d by (auto split: option.splits if_splits)
qed

subsection \<open>Reading back the factory's requests\<close>

fun pd_val :: "pydec \<Rightarrow> rat option" where
  "pd_val (Fin d) = Some (dval d)"
| "pd_val _ = None"

lemma decimal_text_nonempty: "decimal_text d \<noteq> []"
  using decimal_text_parses [of d] by (force simp: parse_dec_def strip_def remove_char_def)

definition wire :: "dec \<Rightarrow> pydec" where
  "wire d = the (parse_dec (decimal_text d))"

lemma to_dec_dtext [simp]: "to_dec (dtext d) = Some (wire d)"
  using decimal_text_parses [of d] by (auto simp: dtext_def wire_def)

lemma pd_val_wire [simp]: "pd_val (wire d) = Some (dval d)"
  using decimal_text_parses [of d] by (auto simp: wire_def)

lemma truthy_dtext [simp]: "truthy (dtext d)"
  by (simp add: dtext_def decimal_text_nonempty)

lemma dtext_not_None [simp]: "dtext d \<noteq> PNone"
  by (simp add: dtext_def)

lemmas leg_reads = required_dec_def optional_dec_def optional_int_def text_or_def get_def get_or_def
  leg_of_def plain_leg_def

text \<open>
  What the validator reads back from a request of the factory: a BUY leg and one or two
  SELL legs of the protective quantity, with the numbers the request carries.
\<close>

definition entry_legs :: "protection_mode \<Rightarrow> int \<Rightarrow> dec \<Rightarrow> dec \<Rightarrow> dec \<Rightarrow> dec \<Rightarrow> dec \<Rightarrow> dec \<Rightarrow> order_leg list" where
  "entry_legs mode delta qty price pending tp stop floor_price =
     (let leg = (\<lambda>side type q p sp t. \<lparr>leg_side = side, leg_type = type, leg_qty = wire q, leg_price = Some (wire p),
            leg_stop = sp, leg_trailing = t\<rparr>) in
      leg ''BUY'' ''LIMIT'' qty price None None #
      (case mode of
         TRAILING_ONLY \<Rightarrow> [leg ''SELL'' ''STOP_LOSS_LIMIT'' pending floor_price None (Some delta)]
       | FIXED_OCO \<Rightarrow> [leg ''SELL'' ''LIMIT_MAKER'' pending tp None None,
                     leg ''SELL'' ''STOP_LOSS_LIMIT'' pending floor_price (Some (wire stop)) None]
       | OCO_TRAILING \<Rightarrow> [leg ''SELL'' ''LIMIT_MAKER'' pending tp None None,
                     leg ''SELL'' ''STOP_LOSS_LIMIT'' pending floor_price None (Some delta)]))"

lemma entry_tail_legs:
  assumes "entry_tail ids s mode rules q e pd tp = Inr (path, ps)"
  shows "\<exists>sp fl. legs_from_request path ps
    = Inr (entry_legs mode (clamp_delta rules (trailing_delta_bips s)) q e pd tp sp fl)"
proof (cases mode)
  case FIXED_OCO
  then obtain sp fl where "path = ''orderList/otoco''"
    "ps = entry_common ids rules e q pd @
         [(''pendingAboveClientOrderId'', PStr (ids ''TP'')),
          (''pendingAboveType'', PStr ''LIMIT_MAKER''), (''pendingAbovePrice'', dtext tp),
          (''pendingBelowClientOrderId'', PStr (ids ''STOP'')),
          (''pendingBelowType'', PStr ''STOP_LOSS_LIMIT''), (''pendingBelowTimeInForce'', PStr ''GTC''),
          (''pendingBelowStopPrice'', dtext sp), (''pendingBelowPrice'', dtext fl)]"
    using assms by (auto simp: entry_tail_def Let_def bindE_Inr_iff)
  then have "legs_from_request path ps = Inr (entry_legs mode (clamp_delta rules (trailing_delta_bips s)) q e pd tp sp fl)"
    using FIXED_OCO by (simp add: entry_common_def legs_from_request_def leg_reads entry_legs_def Let_def)
  then show ?thesis by blast
next
  case TRAILING_ONLY
  then obtain fl where "path = ''orderList/oto''"
    "ps = entry_common ids rules e q pd @
         [(''pendingClientOrderId'', PStr (ids ''TRAIL'')),
          (''pendingType'', PStr ''STOP_LOSS_LIMIT''), (''pendingPrice'', dtext fl),
          (''pendingTrailingDelta'', PInt (clamp_delta rules (trailing_delta_bips s))), (''pendingTimeInForce'', PStr ''GTC'')]"
    using assms by (auto simp: entry_tail_def Let_def bindE_Inr_iff)
  then have "legs_from_request path ps = Inr (entry_legs mode (clamp_delta rules (trailing_delta_bips s)) q e pd tp sp fl)" for sp
    using TRAILING_ONLY by (simp add: entry_common_def legs_from_request_def leg_reads entry_legs_def Let_def)
  then show ?thesis by blast
next
  case OCO_TRAILING
  then obtain fl where "path = ''orderList/otoco''"
    "ps = entry_common ids rules e q pd @
         [(''pendingAboveClientOrderId'', PStr (ids ''TP'')),
          (''pendingAboveType'', PStr ''LIMIT_MAKER''), (''pendingAbovePrice'', dtext tp),
          (''pendingBelowClientOrderId'', PStr (ids ''STOP'')),
          (''pendingBelowType'', PStr ''STOP_LOSS_LIMIT''), (''pendingBelowTimeInForce'', PStr ''GTC''),
          (''pendingBelowTrailingDelta'', PInt (clamp_delta rules (trailing_delta_bips s))), (''pendingBelowPrice'', dtext fl)]"
    using assms by (auto simp: entry_tail_def Let_def bindE_Inr_iff)
  then have "legs_from_request path ps = Inr (entry_legs mode (clamp_delta rules (trailing_delta_bips s)) q e pd tp sp fl)" for sp
    using OCO_TRAILING by (simp add: entry_common_def legs_from_request_def leg_reads entry_legs_def Let_def)
  then show ?thesis by blast
qed

lemma entry_request_legs:
  assumes "entry_request ids s mode rules qty price = Inr (path, ps)"
  shows "\<exists>q e pd tp sp fl. legs_from_request path ps
       = Inr (entry_legs mode (clamp_delta rules (trailing_delta_bips s)) q e pd tp sp fl)
     \<and> floor_step qty (r_step rules) = Inr q \<and> floor_step price (r_tick rules) = Inr e
     \<and> pending_qty s rules q = Inr pd \<and> 0 < dval pd"
proof -
  obtain q e pd where st: "floor_step qty (r_step rules) = Inr q" "floor_step price (r_tick rules) = Inr e"
      "pending_qty s rules q = Inr pd" "\<not> dle pd dzero"
    using assms by (auto simp: entry_request_def bindE_Inr_iff split: if_splits)
  then have pd: "0 < dval pd" by (simp add: dle_iff dval_Dec)
  obtain tp where "entry_tail ids s mode rules q e pd tp = Inr (path, ps)"
    using assms st by (auto simp: entry_request_def bindE_Inr_iff)
  then have "\<exists>sp fl. legs_from_request path ps
       = Inr (entry_legs mode (clamp_delta rules (trailing_delta_bips s)) q e pd tp sp fl)"
    by (rule entry_tail_legs)
  then show ?thesis using st pd by blast
qed

lemma off_grid_multiple:
  assumes "multiple_of (dval s) (dval x)" "0 \<le> dval x" "dval x < 10 ^ 8" "step_ok s"
  shows "off_grid (Fin x) (Fin s) = Inr False"
proof -
  obtain m where m: "dval s = of_int m / 10 ^ 8" using assms(4) by (auto simp: step_ok_def decimals_def)
  have s: "0 < dval s" using assms(4) by (simp add: step_ok_def)
  then have "0 < m" by (simp add: m zero_less_divide_iff)
  then have "(1 :: rat) \<le> of_int m" by (metis of_int_1_le_iff int_one_le_iff_zero_less)
  then have "1 / 10 ^ 8 \<le> dval s" by (simp add: m divide_right_mono)
  then have "10 ^ 8 < 10 ^ 28 * \<bar>dval s\<bar>" by simp
  then have "\<bar>dval x\<bar> < 10 ^ context_prec * \<bar>dval s\<bar>" using assms(2,3) by simp
  moreover have "coeff s \<noteq> 0" using s dval_zero_iff [of s] by force
  ultimately obtain r where "dmod x s = Inr r" using dmod_defined by blast
  then show ?thesis
    using dmod_zero_iff [of x s r] assms(1) by (auto simp: off_grid_def multiple_of_def)
qed
subsection \<open>Guarantees\<close>


definition demo_entry :: pydict where
  "demo_entry = [(''symbol'', PStr ''BTCUSDC''), (''status'', PStr ''TRADING''), (''baseAsset'', PStr ''BTC''),
    (''quoteAsset'', PStr ''USDC''), (''isSpotTradingAllowed'', PBool True), (''ocoAllowed'', PBool True),
    (''otoAllowed'', PBool True),
    (''filters'', PList [PDict [(''filterType'', PStr ''PRICE_FILTER''), (''tickSize'', PStr ''0.5''), (''minPrice'', PStr ''1'')],
       PDict [(''filterType'', PStr ''LOT_SIZE''), (''stepSize'', PStr ''0.1'')],
       PDict [(''filterType'', PStr ''MAX_NUM_ORDERS''), (''maxNumOrders'', PInt 5)]])]"

definition demo_api :: public_api where
  "demo_api = \<lparr>api_exchange_info = (\<lambda>_. Inr (PDict [(''symbols'', PList [PDict demo_entry])])),
     api_avg_price = (\<lambda>_. Inl ()), api_ticker_price = (\<lambda>_. Inl ()), api_reference_price = (\<lambda>_. Inr NoReference),
     api_execution_rules = (\<lambda>_. Inr (PDict [(''symbolRules'', PList [])]))\<rparr>"

definition demo_providers :: providers where
  "demo_providers = \<lparr>pr_symbol_orders = Some (\<lambda>_. Inr (PList [])), pr_all_orders = None, pr_order_lists = None,
     pr_account = None, pr_replacing_ids = [PInt 7], pr_replacing_list = False\<rparr>"

definition demo_params :: pydict where
  "demo_params = [(''side'', PStr ''SELL''), (''quantity'', PStr ''0.3''), (''price'', PStr ''100.5'')]"

lemma demo_validates:
  "\<exists>cache' s. validate_replacement (\<lambda>_. None) demo_api 300 0 0 demo_providers Map.empty ''BTCUSDC'' ''order'' demo_params
     = (cache', Inr s) \<and> length (sum_legs s) = 1"
proof -
  have "(case snd (validate_replacement (\<lambda>_. None) demo_api 300 0 0 demo_providers Map.empty ''BTCUSDC'' ''order'' demo_params) of
      Inr s \<Rightarrow> length (sum_legs s) = 1 | Inl e \<Rightarrow> False)" (is "case snd ?v of Inr s \<Rightarrow> _ s | Inl e \<Rightarrow> _ e") by code_simp
  then show ?thesis by (cases ?v; cases "snd ?v") auto
qed


text \<open>After a validated request the open orders, less the replaced ones and plus the new legs, stay within
  every order-count and algorithmic-order-count limit published for the symbol and for the account.\<close>

theorem capacity_respected:
  assumes "check_capacity entry filters exchange pr symbol endpoint legs = Inr names"
  shows "\<exists>needs_symbol all_rows rows ids.
      enumerate_orders pr symbol (lookup_row exchange ''EXCHANGE_MAX_NUM_ORDERS'' \<noteq> []
         \<or> lookup_row exchange ''EXCHANGE_MAX_NUM_ALGO_ORDERS'' \<noteq> []) needs_symbol = Inr (all_rows, rows)
    \<and> (filter_row filters ''MAX_NUM_ORDERS'' \<noteq> [] \<or> filter_row filters ''MAX_NUM_ALGO_ORDERS'' \<noteq> [] \<longrightarrow> needs_symbol)
    \<and> replaced_ids (pr_replacing_ids pr) = Inr ids
    \<and> within_limit (filter_row filters ''MAX_NUM_ORDERS'') ''maxNumOrders'' (length (not_replaced ids rows) + length legs)
    \<and> within_limit (filter_row filters ''MAX_NUM_ALGO_ORDERS'') ''maxNumAlgoOrders''
        (length (List.filter (\<lambda>r. order_type_of r \<in> set algo_types) (not_replaced ids rows))
         + length (List.filter leg_is_algo legs))
    \<and> within_limit (lookup_row exchange ''EXCHANGE_MAX_NUM_ORDERS'') ''maxNumOrders''
        (length (not_replaced ids all_rows) + length legs)
    \<and> within_limit (lookup_row exchange ''EXCHANGE_MAX_NUM_ALGO_ORDERS'') ''maxNumAlgoOrders''
        (length (List.filter (\<lambda>r. order_type_of r \<in> set algo_types) (not_replaced ids all_rows))
         + length (List.filter leg_is_algo legs))"
  by (rule check_capacity_within [OF assms])

lemma capacity_respected_witness:
  "\<exists>ids rows. replaced_ids (pr_replacing_ids demo_providers) = Inr ids
     \<and> within_limit [(''filterType'', PStr ''MAX_NUM_ORDERS''), (''maxNumOrders'', PInt 5)] ''maxNumOrders''
         (length (not_replaced ids rows) + 0)"
proof -
  let ?f = "[[(''filterType'', PStr ''MAX_NUM_ORDERS''), (''maxNumOrders'', PInt 5)]]"
  have "check_capacity [] ?f [] demo_providers ''BTCUSDC'' ''order'' [] = Inr [''MAX_NUM_ORDERS'']" by code_simp
  from capacity_respected [OF this] show ?thesis by (simp add: filter_row_def get_def get_or_def) blast
qed

text \<open>Market data is fail closed: the symbol row used is of the exact symbol and was fetched now or is no older
  than the bound; when a refresh fails the stale row is refused and the cache is left as it was.\<close>

theorem snapshot_is_fresh:
  assumes "cache_sound cache"
  shows "case exchange_snapshot api max_age now later cache symbol of (cache', r) \<Rightarrow> cache_sound cache' \<and>
    (case r of
       Inr (entry, ex) \<Rightarrow> token entry ''symbol'' = upper symbol
         \<and> (read_snapshot symbol (api_exchange_info api symbol) = Some (entry, ex)
            \<or> (\<exists>t. cache symbol = Some (t, entry, ex) \<and> now - t \<le> max_age))
     | Inl e \<Rightarrow> cache' = cache \<and> read_snapshot symbol (api_exchange_info api symbol) = None
         \<and> (\<forall>t row. cache symbol = Some (t, row) \<longrightarrow> max_age < now - t))"
proof -
  obtain cache' r where x: "exchange_snapshot api max_age now later cache symbol = (cache', r)" by fastforce
  show ?thesis using exchange_snapshot_sound [OF assms x] by (auto simp: x split: sum.splits)
qed

lemma snapshot_is_fresh_witness:
  "\<exists>cache' entry ex. exchange_snapshot demo_api 300 0 0 Map.empty ''BTCUSDC'' = (cache', Inr (entry, ex))
     \<and> token entry ''symbol'' = ''BTCUSDC''"
proof -
  have s: "read_snapshot ''BTCUSDC'' (api_exchange_info demo_api ''BTCUSDC'') = Some (demo_entry, [])" by code_simp
  have u: "upper ''BTCUSDC'' = ''BTCUSDC''" by code_simp
  show ?thesis using snapshot_is_fresh [where cache = Map.empty and api = demo_api and max_age = 300 and now = 0 and later = 0
      and symbol = "''BTCUSDC''"] s u
    by (simp add: cache_sound_def exchange_snapshot_def split: prod.splits)
qed

text \<open>The validator reads back the factory's entry request: a BUY limit leg and one or two SELL legs of the
  positive protective quantity, with the clamped trailing delta on the trailing modes only.\<close>

theorem factory_request_reads_back:
  assumes "entry_request ids s mode rules qty price = Inr (path, ps)"
  shows "\<exists>q e pd tp sp fl. legs_from_request path ps
       = Inr (entry_legs mode (clamp_delta rules (trailing_delta_bips s)) q e pd tp sp fl)
     \<and> floor_step qty (r_step rules) = Inr q \<and> floor_step price (r_tick rules) = Inr e
     \<and> pending_qty s rules q = Inr pd \<and> 0 < dval pd"
  by (rule entry_request_legs [OF assms])

lemma factory_request_reads_back_witness:
  "\<exists>path ps q. entry_request (\<lambda>r. r) default_settings TRAILING_ONLY demo_rules (Dec 12345 (-5)) (Dec 6000012 (-2))
       = Inr (path, ps) \<and> floor_step (Dec 12345 (-5)) (r_step demo_rules) = Inr q"
proof -
  obtain path ps where r: "entry_request (\<lambda>r. r) default_settings TRAILING_ONLY demo_rules (Dec 12345 (-5)) (Dec 6000012 (-2)) = Inr (path, ps)"
    using entry_request_refines [OF demo_ok refl, of TRAILING_ONLY "\<lambda>r. r"] demo_pending [of TRAILING_ONLY] by auto
  from factory_request_reads_back [OF r] r show ?thesis by blast
qed

end
