(* ===== verification/Effects.thy ===== *)
theory Effects
  imports Prelude
begin

text \<open>
  Handlers that change state and may raise. The state reached survives the exception, as
  in the source, where a file written or a row committed before a raise stays. The
  weakest precondition \<open>wp m Q E\<close> asks for \<open>Q\<close> after a normal return and
  \<open>E\<close> after a raise; its equations are simplification rules, so a triple over a
  handler is proved by \<open>auto\<close> on first-order conditions over its reads and writes.
\<close>

type_synonym ('s, 'e, 'a) eff = "'s \<Rightarrow> ('e + 'a) \<times> 's"

definition returnW :: "'a \<Rightarrow> ('s, 'e, 'a) eff" where
  "returnW x s = (Inr x, s)"

definition raiseW :: "'e \<Rightarrow> ('s, 'e, 'a) eff" where
  "raiseW e s = (Inl e, s)"

definition bindW :: "('s, 'e, 'a) eff \<Rightarrow> ('a \<Rightarrow> ('s, 'e, 'b) eff) \<Rightarrow> ('s, 'e, 'b) eff" where
  "bindW m f s = (case m s of (Inl e, s') \<Rightarrow> (Inl e, s') | (Inr x, s') \<Rightarrow> f x s')"

text \<open>\<open>try: m except: h\<close>.\<close>

definition catchW :: "('s, 'e, 'a) eff \<Rightarrow> ('e \<Rightarrow> ('s, 'e, 'a) eff) \<Rightarrow> ('s, 'e, 'a) eff" where
  "catchW m h s = (case m s of (Inl e, s') \<Rightarrow> h e s' | (Inr x, s') \<Rightarrow> (Inr x, s'))"

text \<open>\<open>try: m finally: c\<close>, for a clause that cannot raise.\<close>

definition finallyW :: "('s, 'e, 'a) eff \<Rightarrow> ('s \<Rightarrow> 's) \<Rightarrow> ('s, 'e, 'a) eff" where
  "finallyW m c s = (case m s of (r, s') \<Rightarrow> (r, c s'))"

definition askW :: "('s \<Rightarrow> 'e + 'a) \<Rightarrow> ('s, 'e, 'a) eff" where
  "askW f s = (f s, s)"

definition getW :: "('s \<Rightarrow> 'a) \<Rightarrow> ('s, 'e, 'a) eff" where
  "getW f s = (Inr (f s), s)"

definition modifyW :: "('s \<Rightarrow> 's) \<Rightarrow> ('s, 'e, unit) eff" where
  "modifyW f s = (Inr (), f s)"

definition liftW :: "'e + 'a \<Rightarrow> ('s, 'e, 'a) eff" where
  "liftW r s = (r, s)"

definition guardW :: "bool \<Rightarrow> 'e \<Rightarrow> ('s, 'e, unit) eff" where
  "guardW b e s = ((if b then Inr () else Inl e), s)"

text \<open>A step of a part of the state, run on the whole: \<open>get\<close> and \<open>put\<close> are the lens.\<close>

definition zoomW :: "('s \<Rightarrow> 't) \<Rightarrow> ('t \<Rightarrow> 's \<Rightarrow> 's) \<Rightarrow> ('t, 'e, 'a) eff \<Rightarrow> ('s, 'e, 'a) eff" where
  "zoomW get_part put_part m s = (let (r, t) = m (get_part s) in (r, put_part t s))"

lemmas eff_eval = returnW_def raiseW_def bindW_def catchW_def finallyW_def askW_def getW_def modifyW_def liftW_def guardW_def
  zoomW_def

definition wp :: "('s, 'e, 'a) eff \<Rightarrow> ('a \<Rightarrow> 's \<Rightarrow> bool) \<Rightarrow> ('e \<Rightarrow> 's \<Rightarrow> bool) \<Rightarrow> 's \<Rightarrow> bool" where
  "wp m Q E s = (case m s of (Inl e, s') \<Rightarrow> E e s' | (Inr x, s') \<Rightarrow> Q x s')"

named_theorems wps \<open>weakest preconditions of handlers\<close>

lemma wp_return [simp, wps]: "wp (returnW x) Q E s = Q x s"
  by (simp add: wp_def returnW_def)

lemma wp_raise [simp, wps]: "wp (raiseW e) Q E s = E e s"
  by (simp add: wp_def raiseW_def)

lemma wp_bind [simp, wps]: "wp (bindW m f) Q E s = wp m (\<lambda>x. wp (f x) Q E) E s"
  by (simp add: wp_def bindW_def split: sum.splits prod.splits)

lemma wp_catch [simp, wps]: "wp (catchW m h) Q E s = wp m Q (\<lambda>e. wp (h e) Q E) s"
  by (simp add: wp_def catchW_def split: sum.splits prod.splits)

lemma wp_finally [simp, wps]: "wp (finallyW m c) Q E s = wp m (\<lambda>x t. Q x (c t)) (\<lambda>e t. E e (c t)) s"
  by (simp add: wp_def finallyW_def split: sum.splits prod.splits)

lemma wp_ask [wps]: "wp (askW g) Q E s = (case g s of Inl e \<Rightarrow> E e s | Inr x \<Rightarrow> Q x s)"
  by (simp add: wp_def askW_def)

lemma wp_get [simp, wps]: "wp (getW k) Q E s = Q (k s) s"
  by (simp add: wp_def getW_def)

lemma wp_modify [simp, wps]: "wp (modifyW u) Q E s = Q () (u s)"
  by (simp add: wp_def modifyW_def)

lemma wp_lift [wps]: "wp (liftW r) Q E s = (case r of Inl e \<Rightarrow> E e s | Inr x \<Rightarrow> Q x s)"
  by (simp add: wp_def liftW_def)

lemma wp_guard [simp, wps]: "wp (guardW b e) Q E s = (if b then Q () s else E e s)"
  by (simp add: wp_def guardW_def)

lemma wp_zoom [wps]:
  "wp (zoomW g p m) Q E s = wp m (\<lambda>x t. Q x (p t s)) (\<lambda>e t. E e (p t s)) (g s)"
  by (simp add: wp_def zoomW_def split: sum.splits prod.splits)

lemma wp_if [simp, wps]: "wp (if b then m else n) Q E s = (if b then wp m Q E s else wp n Q E s)"
  by simp

lemma wp_mono:
  assumes "wp m Q E s" "\<And>x t. Q x t \<Longrightarrow> Q' x t" "\<And>e t. E e t \<Longrightarrow> E' e t"
  shows "wp m Q' E' s"
  using assms by (auto simp: wp_def split: sum.splits prod.splits)

lemma wp_conj: "wp m Q E s \<Longrightarrow> wp m Q' E' s \<Longrightarrow> wp m (\<lambda>x t. Q x t \<and> Q' x t) (\<lambda>e t. E e t \<and> E' e t) s"
  by (auto simp: wp_def split: sum.splits prod.splits)

text \<open>Reading a fact off a run that is known.\<close>

lemma wp_Inr: "wp m Q E s \<Longrightarrow> m s = (Inr x, s') \<Longrightarrow> Q x s'"
  and wp_Inl: "wp m Q E s \<Longrightarrow> m s = (Inl e, s') \<Longrightarrow> E e s'"
  by (simp_all add: wp_def)

lemma wp_iff: "wp m Q E s \<longleftrightarrow> (\<forall>x s'. m s = (Inr x, s') \<longrightarrow> Q x s') \<and> (\<forall>e s'. m s = (Inl e, s') \<longrightarrow> E e s')"
  by (auto simp: wp_def split: sum.splits prod.splits)

text \<open>\<open>always I m s\<close>: \<open>I\<close> holds of the state \<open>m\<close> leaves, whether it returns or raises.\<close>

definition always :: "('s \<Rightarrow> bool) \<Rightarrow> ('s, 'e, 'a) eff \<Rightarrow> 's \<Rightarrow> bool" where
  "always I m s = I (snd (m s))"

lemma always_wp: "always I m s \<longleftrightarrow> wp m (\<lambda>_. I) (\<lambda>_. I) s"
  by (auto simp: always_def wp_def split: sum.splits prod.splits)

lemma wp_always: "wp m (\<lambda>_. I) (\<lambda>_. I) s \<Longrightarrow> I (snd (m s))"
  by (auto simp: wp_def split: sum.splits prod.splits)

end
