(* ===== verification/Json_File.thy ===== *)
theory Json_File
  imports Effects Py_Value
begin

text \<open>
  \<open>services/common/atomic.py\<close>: a JSON file is replaced as a whole or not at all. The
  operating system is a parameter, \<open>fail step\<close> the name of the exception class the
  step raises. A file that is there but cannot be parsed is \<open>Unreadable\<close>.
\<close>

datatype json_file = Missing | Unreadable | Json pyval

definition read_json :: "json_file \<Rightarrow> pyval \<Rightarrow> pyval" where
  "read_json f dflt = (case f of Json v \<Rightarrow> v | _ \<Rightarrow> dflt)"

definition file_exists :: "json_file \<Rightarrow> bool" where
  "file_exists f \<longleftrightarrow> f \<noteq> Missing"

datatype write_step = MakeParents | MakeTemp | WriteTemp | ChangeMode | Replace | SyncParent | Unlink

record folder =
  target_file :: json_file
  temp_file :: json_file

text \<open>The \<open>finally\<close> clause: a temporary file left behind is unlinked, an \<open>OSError\<close> ignored.\<close>

definition cleanup :: "(write_step \<Rightarrow> string option) \<Rightarrow> folder \<Rightarrow> folder" where
  "cleanup fail d = (if file_exists (temp_file d) \<and> fail Unlink = None then d\<lparr>temp_file := Missing\<rparr> else d)"

definition step_of :: "(write_step \<Rightarrow> string option) \<Rightarrow> write_step \<Rightarrow> (folder, string, unit) eff" where
  "step_of fail st = (case fail st of Some e \<Rightarrow> raiseW e | None \<Rightarrow> returnW ())"

definition write_temp :: "(write_step \<Rightarrow> string option) \<Rightarrow> pyval \<Rightarrow> (folder, string, unit) eff" where
  "write_temp fail v =
     bindW (step_of fail WriteTemp) (\<lambda>_. bindW (modifyW (\<lambda>d. d\<lparr>temp_file := Json v\<rparr>)) (\<lambda>_.
     bindW (step_of fail ChangeMode) (\<lambda>_. bindW (step_of fail Replace) (\<lambda>_.
     modifyW (\<lambda>d. d\<lparr>target_file := temp_file d, temp_file := Missing\<rparr>)))))"

definition atomic_write_json :: "(write_step \<Rightarrow> string option) \<Rightarrow> pyval \<Rightarrow> (folder, string, unit) eff" where
  "atomic_write_json fail v =
     bindW (step_of fail MakeParents) (\<lambda>_. bindW (step_of fail MakeTemp) (\<lambda>_.
     bindW (modifyW (\<lambda>d. d\<lparr>temp_file := Unreadable\<rparr>)) (\<lambda>_.
     finallyW (write_temp fail v) (cleanup fail))))"

text \<open>
  The reader of the file sees the old content or the whole new one, the new one exactly
  when the call returns; the exception, if any, is the first step's that failed.
\<close>

lemma wp_step [wps]: "wp (step_of fail st) Q E d = (case fail st of None \<Rightarrow> Q () d | Some e \<Rightarrow> E e d)"
  by (simp add: step_of_def split: option.splits)

lemma target_cleanup [simp]: "target_file (cleanup fail d) = target_file d"
  by (simp add: cleanup_def)

lemma wp_atomic_write:
  "wp (atomic_write_json fail v) (\<lambda>_ d'. target_file d' = Json v) (\<lambda>_ d'. target_file d' = target_file d) d"
  by (simp add: atomic_write_json_def write_temp_def wp_step split: option.splits)

lemma atomic_write_target:
  "atomic_write_json fail v d = (Inr u, d') \<Longrightarrow> target_file d' = Json v"
  "atomic_write_json fail v d = (Inl e, d') \<Longrightarrow> target_file d' = target_file d"
  by (rule wp_Inr [OF wp_atomic_write], assumption) (rule wp_Inl [OF wp_atomic_write])

text \<open>A temporary file is never left behind unless unlinking it failed too.\<close>

lemma atomic_write_temp:
  assumes "fail Unlink = None" "temp_file d = Missing"
  shows "temp_file (snd (atomic_write_json fail v d)) = Missing"
  by (rule wp_always)
    (simp add: assms atomic_write_json_def write_temp_def wp_step cleanup_def file_exists_def split: option.splits)

subsection \<open>A folder of files and the outcome of each write\<close>

text \<open>
  Components that write several files carry the outcomes of their next writes, in order:
  \<open>None\<close> is a write that succeeds, \<open>Some name\<close> one that raises; after the list
  is used up writes succeed. By the lemma above this is all a reader can observe.
\<close>

definition write_file ::
  "('s \<Rightarrow> string option list) \<Rightarrow> (string option list \<Rightarrow> 's \<Rightarrow> 's) \<Rightarrow> ('s \<Rightarrow> 's) \<Rightarrow> ('s, string, unit) eff" where
  "write_file pending set_pending put s =
     (case pending s of
        [] \<Rightarrow> (Inr (), put s)
      | None # rest \<Rightarrow> (Inr (), put (set_pending rest s))
      | Some e # rest \<Rightarrow> (Inl e, set_pending rest s))"

subsection \<open>Equality of values read back\<close>

text \<open>Python's \<open>==\<close> on JSON values: the order of a mapping's keys is not compared.\<close>

primrec same :: "pyval \<Rightarrow> pyval \<Rightarrow> bool" where
  "same (PList xs) = (\<lambda>b. is_list b \<and> length xs = length (elems b) \<and>
     list_all (\<lambda>(eq, y). eq y) (zip (map same xs) (elems b)))"
| "same (PDict kvs) = (\<lambda>b. is_dict b \<and> length kvs = length (items b) \<and>
     list_all (\<lambda>(k, eq). case map_of (items b) k of None \<Rightarrow> False | Some w \<Rightarrow> eq w)
       (map (map_prod id same) kvs))"
| "same PNone = py_eq PNone"
| "same (PBool x) = py_eq (PBool x)"
| "same (PInt x) = py_eq (PInt x)"
| "same (PFloat x) = py_eq (PFloat x)"
| "same (PStr x) = py_eq (PStr x)"

lemma same_scalar [simp]:
  "same PNone PNone" "same (PBool b) (PBool b)" "same (PInt i) (PInt i)" "same (PFloat x) (PFloat x)"
  "same (PStr s) (PStr t) \<longleftrightarrow> s = t"
  by (simp_all add: py_eq_def)

fun keys_distinct :: "pyval \<Rightarrow> bool" where
  "keys_distinct (PList xs) \<longleftrightarrow> list_all keys_distinct xs"
| "keys_distinct (PDict kvs) \<longleftrightarrow> distinct (map fst kvs) \<and> list_all (\<lambda>(k, v). keys_distinct v) kvs"
| "keys_distinct _ \<longleftrightarrow> True"

lemma same_refl: "keys_distinct v \<Longrightarrow> same v v"
proof (induction v rule: keys_distinct.induct)
  case (1 xs)
  then show ?case by (auto simp: list_all_iff zip_map1 zip_same_conv_map)
next
  case (2 kvs)
  have "same v v \<and> map_of kvs k = Some v" if "(k, v) \<in> set kvs" for k v
    using 2 that by (fastforce simp: list_all_iff)
  then show ?case by (fastforce simp: list_all_iff)
qed simp_all

end
