(* ===== verification/Pair_Registry.thy ===== *)
theory Pair_Registry
  imports Market_Policy Json_File "HOL-Library.Product_Lexorder"
begin

text \<open>
  The pair menu of \<open>services/common/pair_registry.py\<close>: the eligible BTC markets of a
  live \<open>exchangeInfo\<close> answer, hashed, cached on disk and validated again whenever the
  cache is read. SHA-256 is a parameter, the exchange's answer and the clock are arguments.
  Epoch seconds are the exact numbers their texts denote.
\<close>

datatype registry_error =
    RegistrySchema | RegistryTimestamp | RegistryEmpty | RegistryRowMalformed | RegistryIdentity
  | RegistryAssets | RegistryCapabilities | RegistryFilters | RegistryHashInvalid | RegistryUnreachable string
  | SymbolsMalformed | NoEligibleMarkets | NotEligible string

text \<open>
  What a call may raise: \<open>PairRegistryError\<close>, \<open>PairPolicyError\<close>, a \<open>TypeError\<close>
  from a corrupt cache, or the \<open>OSError\<close> of a failed write.
\<close>

datatype registry_exn = PairRegistryError registry_error | PairPolicyError policy_error | RegistryTypeError
  | RegistryOSError string

definition policy :: "policy_error + 'a \<Rightarrow> registry_exn + 'a" where
  "policy r = (case r of
     Inl PolicyTypeError \<Rightarrow> Inl RegistryTypeError | Inl e \<Rightarrow> Inl (PairPolicyError e) | Inr x \<Rightarrow> Inr x)"

lemma policy_simps [simp]: "policy (Inr x) = Inr x" "policy r = Inr y \<longleftrightarrow> r = Inr y"
  by (auto simp: policy_def split: sum.splits policy_error.splits)

record registry =
  reg_allowed :: "string list"
  reg_ttl :: int
  reg_snapshot :: "pydict option"
  reg_cache :: json_file
  reg_writes :: "string option list"

definition clamp_ttl :: "int \<Rightarrow> int" where
  "clamp_ttl seconds = max 60 (min seconds 3600)"

definition new_registry :: "string list \<Rightarrow> int \<Rightarrow> json_file \<Rightarrow> string option list \<Rightarrow> registry" where
  "new_registry allowed seconds cache writes =
     \<lparr>reg_allowed = allowed, reg_ttl = clamp_ttl seconds, reg_snapshot = None, reg_cache = cache, reg_writes = writes\<rparr>"

definition registry_hash :: "(string \<Rightarrow> string) \<Rightarrow> pydict list \<Rightarrow> string" where
  "registry_hash sha256 rows = sha256 (json_dumps (PList (map (\<lambda>row. PDict (map (\<lambda>k. (k, get row k))
     [''pair'', ''symbol'', ''quote'', ''capabilities'', ''filter_types''])) rows)))"

subsection \<open>A row of the menu\<close>

definition filter_types_of :: "pyval \<Rightarrow> string list" where
  "filter_types_of fs = sort (remdups (map (\<lambda>f. pstr (get (items f) ''filterType''))
     (List.filter (\<lambda>f. is_dict f \<and> truthy (get (items f) ''filterType'')) (elems fs))))"

definition capabilities_of :: "bool \<Rightarrow> bool \<Rightarrow> bool \<Rightarrow> pydict" where
  "capabilities_of oco oto trailing =
     [(''spot'', PBool True), (''oco'', PBool oco), (''oto'', PBool oto), (''trailing_stop'', PBool trailing),
      (''fixed_oco'', PBool (oto \<and> oco)), (''oco_trailing'', PBool (oto \<and> oco \<and> trailing)),
      (''trailing_only'', PBool (oto \<and> trailing))]"

definition registry_row :: "environ \<Rightarrow> string list \<Rightarrow> pydict \<Rightarrow> policy_error + pydict" where
  "registry_row env allowed md =
     (let quote = upper (strip (pstr (get_or md ''quoteAsset'' (PStr [])))) in
      bindE (canonical_pair env (''BTC/'' @ quote) (Some allowed)) (\<lambda>pair.
      bindE (validate_exchange_symbol env pair (PDict md) (Some allowed) False) (\<lambda>validated.
      let types = filter_types_of (get_or validated ''filters'' (PList []));
          trailing = (is_true (get validated ''allowTrailingStop'') \<and> ''TRAILING_DELTA'' \<in> set types) in
      Inr [(''pair'', PStr pair), (''symbol'', PStr (upper (pstr (get validated ''symbol'')))),
           (''base'', PStr ''BTC''), (''quote'', PStr quote),
           (''capabilities'', PDict (capabilities_of (is_true (get validated ''ocoAllowed''))
              (is_true (get validated ''otoAllowed'')) trailing)),
           (''filter_types'', PList (map PStr types))])))"

definition row_key :: "pydict \<Rightarrow> string \<times> string" where
  "row_key row = (pstr (get row ''quote''), pstr (get row ''symbol''))"

subsection \<open>Validation of a snapshot\<close>

fun hashable :: "pyval \<Rightarrow> bool" where
  "hashable (PList _) = False"
| "hashable (PDict _) = False"
| "hashable _ = True"

text \<open>One row of a stored snapshot; \<open>seen\<close> holds the pairs of the rows before it.\<close>

definition clean_row :: "environ \<Rightarrow> string list \<Rightarrow> string list \<Rightarrow> pyval \<Rightarrow> registry_exn + string \<times> pydict" where
  "clean_row env allowed seen item =
     (if \<not> is_dict item then Inl (PairRegistryError RegistryRowMalformed) else
      let row = items item in
      bindE (policy (canonical_pair env (pstr (get_or row ''pair'' (PStr []))) (Some allowed))) (\<lambda>pair.
      if pair \<in> set seen \<or> get row ''symbol'' \<noteq> PStr (symbol_of pair) then Inl (PairRegistryError RegistryIdentity)
      else if get row ''base'' \<noteq> PStr ''BTC'' \<or> get row ''quote'' \<noteq> PStr (quote_of pair)
      then Inl (PairRegistryError RegistryAssets)
      else let caps = get row ''capabilities''; filters = get row ''filter_types'' in
      if \<not> is_dict caps \<or> \<not> is_true (get (items caps) ''spot'')
      then Inl (PairRegistryError RegistryCapabilities)
      else if \<not> is_list filters then Inl (PairRegistryError RegistryFilters)
      else if \<not> list_all hashable (elems filters) then Inl RegistryTypeError
      else if \<not> {PStr ''PRICE_FILTER'', PStr ''LOT_SIZE''} \<subseteq> set (elems filters)
      then Inl (PairRegistryError RegistryFilters)
      else Inr (pair, [(''pair'', PStr pair), (''symbol'', get row ''symbol''), (''base'', PStr ''BTC''),
        (''quote'', get row ''quote''), (''capabilities'', caps), (''filter_types'', filters)])))"

fun clean_rows :: "environ \<Rightarrow> string list \<Rightarrow> string list \<Rightarrow> pyval list \<Rightarrow> registry_exn + pydict list" where
  "clean_rows env allowed seen [] = Inr []"
| "clean_rows env allowed seen (item # rest) =
     bindE (clean_row env allowed seen item) (\<lambda>(pair, row).
     bindE (clean_rows env allowed (pair # seen) rest) (\<lambda>rows. Inr (row # rows)))"

definition validate_snapshot ::
  "(string \<Rightarrow> string) \<Rightarrow> environ \<Rightarrow> string list \<Rightarrow> pyval \<Rightarrow> registry_exn + pydict" where
  "validate_snapshot sha256 env allowed value =
     (let d = items value in
      if \<not> is_dict value \<or> \<not> py_eq (get d ''schema_version'') (PInt 1) then Inl (PairRegistryError RegistrySchema)
      else bindE (of_option (PairRegistryError RegistryTimestamp) (to_float (get d ''generated_at_epoch''))) (\<lambda>generated.
      let rows = get d ''pairs'' in
      if \<not> is_list rows \<or> elems rows = [] then Inl (PairRegistryError RegistryEmpty)
      else bindE (clean_rows env allowed [] (elems rows)) (\<lambda>clean0.
      let clean = sort_key row_key clean0 in
      if get d ''registry_hash'' \<noteq> PStr (registry_hash sha256 clean) then Inl (PairRegistryError RegistryHashInvalid)
      else Inr [(''schema_version'', PInt 1), (''generated_at'', PStr (pstr (get_or d ''generated_at'' (PStr [])))),
        (''generated_at_epoch'', PFloat generated), (''source'', PStr (pstr (get_or d ''source'' (PStr [])))),
        (''registry_hash'', get d ''registry_hash''), (''pairs'', PList (map PDict clean))])))"

subsection \<open>The cache and the refresh\<close>

definition snapshot_fresh :: "rat \<Rightarrow> int \<Rightarrow> pydict \<Rightarrow> bool" where
  "snapshot_fresh now ttl snap = (case to_float (get snap ''generated_at_epoch'') of
       Some (Fin g) \<Rightarrow> -30 \<le> now - dval g \<and> now - dval g \<le> of_int ttl
     | _ \<Rightarrow> False)"

fun first_fresh ::
  "(string \<Rightarrow> string) \<Rightarrow> environ \<Rightarrow> string list \<Rightarrow> int \<Rightarrow> rat \<Rightarrow> pyval list \<Rightarrow> registry_exn + pydict option" where
  "first_fresh sha256 env allowed ttl now [] = Inr None"
| "first_fresh sha256 env allowed ttl now (c # cs) =
     (if c = PNone then first_fresh sha256 env allowed ttl now cs
      else case validate_snapshot sha256 env allowed c of
        Inr clean \<Rightarrow> if snapshot_fresh now ttl clean then Inr (Some clean)
                     else first_fresh sha256 env allowed ttl now cs
      | Inl RegistryTypeError \<Rightarrow> Inl RegistryTypeError
      | Inl _ \<Rightarrow> first_fresh sha256 env allowed ttl now cs)"

definition cached ::
  "(string \<Rightarrow> string) \<Rightarrow> environ \<Rightarrow> rat \<Rightarrow> (registry, registry_exn, pydict option) eff" where
  "cached sha256 env now =
     bindW (askW (\<lambda>r. first_fresh sha256 env (reg_allowed r) (reg_ttl r) now
       [case reg_snapshot r of None \<Rightarrow> PNone | Some s \<Rightarrow> PDict s, read_json (reg_cache r) PNone])) (\<lambda>hit.
     bindW (modifyW (\<lambda>r. case hit of None \<Rightarrow> r | Some s \<Rightarrow> r\<lparr>reg_snapshot := Some s\<rparr>)) (\<lambda>_.
     returnW hit))"

text \<open>The eligible rows of an \<open>exchangeInfo\<close> answer: a market the policy refuses is skipped.\<close>

fun eligible_rows :: "environ \<Rightarrow> string list \<Rightarrow> pyval list \<Rightarrow> registry_exn + pydict list" where
  "eligible_rows env allowed [] = Inr []"
| "eligible_rows env allowed (md # rest) =
     (if \<not> is_dict md \<or> upper (pstr (get_or (items md) ''baseAsset'' (PStr []))) \<noteq> ''BTC''
      then eligible_rows env allowed rest
      else case policy (registry_row env allowed (items md)) of
        Inr row \<Rightarrow> bindE (eligible_rows env allowed rest) (\<lambda>rows. Inr (row # rows))
      | Inl (PairPolicyError e) \<Rightarrow> eligible_rows env allowed rest
      | Inl e \<Rightarrow> Inl e)"

definition snapshot_of :: "(string \<Rightarrow> string) \<Rightarrow> string \<Rightarrow> dec \<Rightarrow> pydict list \<Rightarrow> pydict" where
  "snapshot_of sha256 clock epoch rows =
     [(''schema_version'', PInt 1), (''generated_at'', PStr clock), (''generated_at_epoch'', PFloat (Fin epoch)),
      (''source'', PStr ''binance_exchangeInfo''), (''registry_hash'', PStr (registry_hash sha256 rows)),
      (''pairs'', PList (map PDict rows))]"

definition write_cache :: "pyval \<Rightarrow> (registry, registry_exn, unit) eff" where
  "write_cache v r = (case write_file reg_writes (\<lambda>ws r. r\<lparr>reg_writes := ws\<rparr>) (\<lambda>r. r\<lparr>reg_cache := Json v\<rparr>) r of
     (Inl e, r') \<Rightarrow> (Inl (RegistryOSError e), r') | (Inr u, r') \<Rightarrow> (Inr u, r'))"

definition fetch ::
  "(string \<Rightarrow> string) \<Rightarrow> environ \<Rightarrow> string \<Rightarrow> dec \<Rightarrow> string + pyval \<Rightarrow> (registry, registry_exn, pydict) eff" where
  "fetch sha256 env clock epoch answer =
     bindW (liftW (case answer of Inl e \<Rightarrow> Inl (PairRegistryError (RegistryUnreachable e)) | Inr v \<Rightarrow> Inr v)) (\<lambda>payload.
     let symbols = get (items payload) ''symbols'' in
     if \<not> is_list symbols then raiseW (PairRegistryError SymbolsMalformed)
     else bindW (askW (\<lambda>r. eligible_rows env (reg_allowed r) (elems symbols))) (\<lambda>unsorted.
     let rows = sort_key row_key unsorted in
     if rows = [] then raiseW (PairRegistryError NoEligibleMarkets)
     else let snapshot = snapshot_of sha256 clock epoch rows in
       bindW (write_cache (PDict snapshot)) (\<lambda>_.
       bindW (modifyW (\<lambda>r. r\<lparr>reg_snapshot := Some snapshot\<rparr>)) (\<lambda>_.
       returnW snapshot))))"

definition refresh ::
  "(string \<Rightarrow> string) \<Rightarrow> environ \<Rightarrow> bool \<Rightarrow> string \<Rightarrow> dec \<Rightarrow> string + pyval \<Rightarrow> (registry, registry_exn, pydict) eff" where
  "refresh sha256 env force clock epoch answer =
     bindW (if force then returnW None else cached sha256 env (dval epoch)) (\<lambda>hit.
     case hit of Some snap \<Rightarrow> returnW snap | None \<Rightarrow> fetch sha256 env clock epoch answer)"

definition require_pair ::
  "(string \<Rightarrow> string) \<Rightarrow> environ \<Rightarrow> string \<Rightarrow> string \<Rightarrow> dec \<Rightarrow> string + pyval \<Rightarrow> (registry, registry_exn, pydict) eff" where
  "require_pair sha256 env pair clock epoch answer =
     bindW (askW (\<lambda>r. policy (canonical_pair env pair (Some (reg_allowed r))))) (\<lambda>requested.
     bindW (refresh sha256 env True clock epoch answer) (\<lambda>snapshot.
     case List.find (\<lambda>row. get row ''pair'' = PStr requested) (map items (elems (get snapshot ''pairs''))) of
       None \<Rightarrow> raiseW (PairRegistryError (NotEligible requested))
     | Some row \<Rightarrow> returnW (alist_put ''registry_generated_at_epoch'' (get snapshot ''generated_at_epoch'')
         (alist_put ''registry_hash'' (get snapshot ''registry_hash'') row))))"


subsection \<open>Rows of the live menu\<close>

lemma strip_valid:
  assumes "valid_quote (upper t)"
  shows "strip t = t"
proof (rule strip_id)
  have no_space: "\<not> is_space c" if "is_upper_alnum (upper_char c)" for c
    using that by (auto simp: is_upper_alnum_def upper_char_def is_space_def Let_def split: if_splits)
  have t: "t \<noteq> []" "\<And>c. c \<in> set t \<Longrightarrow> is_upper_alnum (upper_char c)"
    using assms by (auto simp: alnum_between_def upper_def list_all_iff)
  then show "t \<noteq> []" "\<not> is_space (hd t)" "\<not> is_space (last t)" using no_space by auto
qed

text \<open>What a row of the menu says, field by field.\<close>

definition row_for :: "string \<Rightarrow> pydict \<Rightarrow> pydict \<Rightarrow> bool" where
  "row_for p md row \<longleftrightarrow>
     (let types = filter_types_of (get_or md ''filters'' (PList []));
          trailing = (is_true (get md ''allowTrailingStop'') \<and> ''TRAILING_DELTA'' \<in> set types) in
      row = [(''pair'', PStr p), (''symbol'', PStr (symbol_of p)), (''base'', PStr ''BTC''), (''quote'', PStr (quote_of p)),
        (''capabilities'', PDict (capabilities_of (is_true (get md ''ocoAllowed'')) (is_true (get md ''otoAllowed'')) trailing)),
        (''filter_types'', PList (map PStr types))])"

lemma token_get: "token md k = s \<Longrightarrow> s \<noteq> [] \<Longrightarrow> upper (pstr (get md k)) = s"
  by (auto simp: token_def get_or_def get_def split: option.splits)

lemma registry_row_Inr:
  assumes "registry_row env allowed md = Inr row"
  shows "\<exists>p. validate_exchange_symbol env p (PDict md) (Some allowed) False = Inr md \<and>
    canonical_pair env p (Some allowed) = Inr p \<and> row_for p md row"
proof -
  define quote where "quote = upper (strip (pstr (get_or md ''quoteAsset'' (PStr []))))"
  obtain p v where p: "canonical_pair env (''BTC/'' @ quote) (Some allowed) = Inr p"
    and v: "validate_exchange_symbol env p (PDict md) (Some allowed) False = Inr v"
    and row: "row = [(''pair'', PStr p), (''symbol'', PStr (upper (pstr (get v ''symbol'')))),
           (''base'', PStr ''BTC''), (''quote'', PStr quote),
           (''capabilities'', PDict (capabilities_of (is_true (get v ''ocoAllowed''))
              (is_true (get v ''otoAllowed'')) (is_true (get v ''allowTrailingStop'')
                \<and> ''TRAILING_DELTA'' \<in> set (filter_types_of (get_or v ''filters'' (PList [])))))),
           (''filter_types'', PList (map PStr (filter_types_of (get_or v ''filters'' (PList [])))))]"
    using assms unfolding registry_row_def quote_def Let_def bindE_Inr_iff by auto
  have fixp: "canonical_pair env p (Some allowed) = Inr p" by (rule canonical_pair_fixpoint [OF p])
  have m: "v = md" "token md ''symbol'' = symbol_of p" "token md ''quoteAsset'' = quote_of p"
    using validate_exchange_symbol_Inr [OF v] fixp by auto
  have "valid_quote (upper (pstr (get_or md ''quoteAsset'' (PStr []))))"
    using m(3) canonical_pair_form(2) [OF fixp] by (simp add: token_def)
  then have "quote = quote_of p" using m(3) strip_valid by (simp add: quote_def token_def)
  moreover have "upper (pstr (get md ''symbol'')) = symbol_of p"
    using token_get [OF m(2)] canonical_pair_symbol [OF fixp] by simp
  ultimately show ?thesis using v fixp m(1) row by (auto simp: row_for_def Let_def)
qed

lemma eligible_rows_Inr:
  "eligible_rows env allowed symbols = Inr rows \<Longrightarrow> row \<in> set rows \<Longrightarrow>
   \<exists>md. PDict md \<in> set symbols \<and> registry_row env allowed md = Inr row"
proof (induction symbols arbitrary: rows)
  case (Cons md rest)
  have md: "is_dict md \<Longrightarrow> md = PDict (items md)" by (cases md) simp_all
  show ?case
  proof (cases "policy (registry_row env allowed (items md))")
    case (Inl e)
    then have "eligible_rows env allowed rest = Inr rows" using Cons.prems by (auto split: if_splits registry_exn.splits)
    then show ?thesis using Cons by auto
  next
    case (Inr r)
    then show ?thesis using Cons md by (force simp: bindE_Inr_iff split: if_splits)
  qed
qed simp

text \<open>The texts of falsy values: none of them is a filter name.\<close>

lemma nat_text_zero: "nat_text 0 = ''0''"
  by (simp add: nat_text.simps [of 0] digit_char_def char_of_def bit_simps)

lemma dec_str_zero: "coeff d = 0 \<Longrightarrow> \<exists>r. dec_str d = CHR ''0'' # r"
  by (auto simp: dec_str_def format_f_def sign_text_def nat_text_zero Let_def)

lemma falsy_text:
  assumes "\<not> truthy v"
  shows "pstr v \<in> {''None'', ''False'', [], ''[]'', ''{}''} \<or> (\<exists>r. pstr v = CHR ''0'' # r)"
  using assms dec_str_zero
  by (cases v rule: truthy.cases) (auto simp: int_text_def nat_text_zero)

text \<open>The filter names the policy requires are in the row.\<close>

lemma required_filters:
  assumes "{''PRICE_FILTER'', ''LOT_SIZE''} \<subseteq> set (filter_names (get md ''filters''))"
  shows "{''PRICE_FILTER'', ''LOT_SIZE''} \<subseteq> set (filter_types_of (get_or md ''filters'' (PList [])))"
proof -
  have g: "get md ''filters'' = get_or md ''filters'' (PList [])"
    using assms by (auto simp: get_def get_or_def filter_names_def split: option.splits)
  have "t \<in> set (filter_types_of fs)" if t: "t \<in> set (filter_names fs)" "t \<in> {''PRICE_FILTER'', ''LOT_SIZE''}" for t fs
  proof -
    obtain f where f: "f \<in> set (elems fs)" "is_dict f" "pstr (get (items f) ''filterType'') = t"
      using t(1) by (auto simp: filter_names_def)
    have "truthy (get (items f) ''filterType'')"
    proof (rule ccontr)
      assume "\<not> truthy (get (items f) ''filterType'')"
      then show False using falsy_text f(3) t(2) by fastforce
    qed
    then show ?thesis using f by (auto simp: filter_types_of_def)
  qed
  then show ?thesis using assms unfolding g by blast
qed

lemma clean_row_for:
  assumes "row_for p md row" "canonical_pair env p (Some allowed) = Inr p" "p \<notin> set seen"
    and "validate_exchange_symbol env p (PDict md) (Some allowed) False = Inr md"
  shows "clean_row env allowed seen (PDict row) = Inr (p, row)"
proof -
  have f: "{''PRICE_FILTER'', ''LOT_SIZE''} \<subseteq> set (filter_types_of (get_or md ''filters'' (PList [])))"
    using validate_exchange_symbol_Inr [OF assms(4)] by (intro required_filters) auto
  show ?thesis using assms(1-3) f
    by (auto simp: row_for_def clean_row_def Let_def get_def get_or_Cons capabilities_of_def is_true_def list_all_iff)
qed

lemma clean_rows_for:
  assumes "\<And>row. row \<in> set rows \<Longrightarrow> \<exists>p md. row_for p md row \<and> canonical_pair env p (Some allowed) = Inr p
      \<and> validate_exchange_symbol env p (PDict md) (Some allowed) False = Inr md"
    and "distinct (map (\<lambda>row. get row ''pair'') rows)"
    and "\<And>row p. row \<in> set rows \<Longrightarrow> get row ''pair'' = PStr p \<Longrightarrow> p \<notin> set seen"
  shows "clean_rows env allowed seen (map PDict rows) = Inr rows"
  using assms
proof (induction rows arbitrary: seen)
  case (Cons row rows)
  obtain p md where p: "row_for p md row" "canonical_pair env p (Some allowed) = Inr p"
      "validate_exchange_symbol env p (PDict md) (Some allowed) False = Inr md"
    using Cons.prems(1) [of row] by auto
  have g: "get row ''pair'' = PStr p" using p(1) by (simp add: row_for_def Let_def get_def get_or_Cons)
  have "clean_row env allowed seen (PDict row) = Inr (p, row)"
    using clean_row_for [OF p(1,2) _ p(3)] Cons.prems(3) [of row p] g by simp
  moreover have "clean_rows env allowed (p # seen) (map PDict rows) = Inr rows"
    using Cons.prems g by (intro Cons.IH) (auto simp: image_iff)
  ultimately show ?case by simp
qed simp

definition eligible_now :: "environ \<Rightarrow> string list \<Rightarrow> pyval list \<Rightarrow> pydict \<Rightarrow> bool" where
  "eligible_now env allowed symbols row \<longleftrightarrow> (\<exists>p md. PDict md \<in> set symbols \<and>
     validate_exchange_symbol env p (PDict md) (Some allowed) False = Inr md \<and>
     canonical_pair env p (Some allowed) = Inr p \<and> row_for p md row)"

lemma eligible_rows_now:
  "eligible_rows env allowed symbols = Inr rows \<Longrightarrow> row \<in> set rows \<Longrightarrow> eligible_now env allowed symbols row"
  using eligible_rows_Inr registry_row_Inr unfolding eligible_now_def by blast

text \<open>What a forced refresh returns, and what it leaves in memory and on disk.\<close>

lemma wp_fetch:
  "wp (fetch sha256 env clock epoch answer)
     (\<lambda>snap r'. \<exists>payload unsorted. answer = Inr payload
        \<and> eligible_rows env (reg_allowed r) (elems (get (items payload) ''symbols'')) = Inr unsorted
        \<and> unsorted \<noteq> [] \<and> snap = snapshot_of sha256 clock epoch (sort_key row_key unsorted)
        \<and> reg_snapshot r' = Some snap \<and> reg_cache r' = Json (PDict snap)
        \<and> reg_allowed r' = reg_allowed r \<and> reg_ttl r' = reg_ttl r)
     (\<lambda>_ r'. reg_snapshot r' = reg_snapshot r \<and> reg_cache r' = reg_cache r) r"
proof -
  have len: "sort_key row_key xs = [] \<longleftrightarrow> xs = []" for xs :: "pydict list"
    by (metis length_0_conv length_sort)
  have w: "wp (write_cache v) Q E r \<longleftrightarrow> (case reg_writes r of [] \<Rightarrow> Q () (r\<lparr>reg_cache := Json v\<rparr>)
      | None # ws \<Rightarrow> Q () (r\<lparr>reg_writes := ws, reg_cache := Json v\<rparr>)
      | Some e # ws \<Rightarrow> E (RegistryOSError e) (r\<lparr>reg_writes := ws\<rparr>))" for v Q E and r :: registry
    by (simp add: wp_def write_cache_def write_file_def split: list.splits option.splits)
  show ?thesis
    by (auto simp: fetch_def wp_lift wp_ask w Let_def len split: sum.splits list.splits option.splits)
qed

lemma row_key_pair:
  assumes "eligible_now env allowed symbols row"
  shows "\<exists>p. get row ''pair'' = PStr p \<and> canonical_pair env p (Some allowed) = Inr p \<and> row_key row = (quote_of p, symbol_of p)"
  using assms by (auto simp: eligible_now_def row_for_def row_key_def get_def get_or_Cons Let_def)


text \<open>Sorted rows are still eligible, and validating the stored snapshot gives it back.\<close>

lemma snapshot_validates:
  assumes "eligible_rows env allowed symbols = Inr unsorted" "unsorted \<noteq> []"
    and "distinct (map (\<lambda>row. get row ''pair'') unsorted)"
  shows "validate_snapshot sha256 env allowed (PDict (snapshot_of sha256 clock epoch (sort_key row_key unsorted)))
    = Inr (snapshot_of sha256 clock epoch (sort_key row_key unsorted))"
proof -
  let ?rows = "sort_key row_key unsorted"
  have d: "distinct (map (\<lambda>row. get row ''pair'') ?rows)"
    using assms(3) by (simp add: distinct_map)
  have "?rows \<noteq> []" using assms(2) by (metis length_0_conv length_sort)
  moreover have "clean_rows env allowed [] (map PDict ?rows) = Inr ?rows"
  proof (rule clean_rows_for [OF _ d])
    show "\<exists>p md. row_for p md row \<and> canonical_pair env p (Some allowed) = Inr p
      \<and> validate_exchange_symbol env p (PDict md) (Some allowed) False = Inr md" if "row \<in> set ?rows" for row
      using eligible_rows_now [OF assms(1), of row] that unfolding eligible_now_def by auto
  qed simp
  moreover have "sort_key row_key ?rows = ?rows" by (intro sort_key_id_if_sorted) simp
  ultimately show ?thesis
    by (simp add: validate_snapshot_def snapshot_of_def get_def get_or_Cons py_eq_def dec_eq_iff Let_def)
qed

definition listed_once :: "environ \<Rightarrow> string list \<Rightarrow> pyval \<Rightarrow> bool" where
  "listed_once env allowed payload \<longleftrightarrow>
     (case eligible_rows env allowed (elems (get (items payload) ''symbols'')) of
        Inl _ \<Rightarrow> False | Inr rows \<Rightarrow> distinct (map (\<lambda>row. get row ''pair'') rows))"

text \<open>A menu fetched from the exchange survives a restart: the stored file passes every
  validation, hash included, and is served again without the network while it is fresh, as long
  as the exchange lists each market once.\<close>

theorem registry_survives_restart:
  assumes "refresh sha256 env True clock epoch (Inr payload) r = (Inr snap, r')"
    and "listed_once env (reg_allowed r) payload"
    and "-30 \<le> dval later - dval epoch" "dval later - dval epoch \<le> of_int (reg_ttl r)"
  shows "fst (refresh sha256 env False clock' later answer' (r'\<lparr>reg_snapshot := None\<rparr>)) = Inr snap"
proof -
  have "fetch sha256 env clock epoch (Inr payload) r = (Inr snap, r')"
    using assms(1) by (simp add: refresh_def eff_eval)
  from wp_Inr [OF wp_fetch this] obtain unsorted where
    u: "eligible_rows env (reg_allowed r) (elems (get (items payload) ''symbols'')) = Inr unsorted" "unsorted \<noteq> []"
    and snap: "snap = snapshot_of sha256 clock epoch (sort_key row_key unsorted)"
    and r': "reg_cache r' = Json (PDict snap)" "reg_allowed r' = reg_allowed r" "reg_ttl r' = reg_ttl r"
    by auto
  have "validate_snapshot sha256 env (reg_allowed r) (PDict snap) = Inr snap"
    using assms(2) u unfolding snap by (intro snapshot_validates) (auto simp: listed_once_def)
  moreover have "snapshot_fresh (dval later) (reg_ttl r) snap"
    using assms(3,4) by (simp add: snap snapshot_fresh_def snapshot_of_def get_def get_or_Cons)
  ultimately show ?thesis
    by (simp add: refresh_def cached_def eff_eval r' read_json_def)
qed

definition demo_exchange :: pyval where
  "demo_exchange = PDict [(''symbols'', PList [PDict demo_metadata])]"

definition demo_registry :: registry where
  "demo_registry = new_registry [''USDC''] 300 Missing []"

lemma demo_refresh:
  "\<exists>snap r'. refresh (\<lambda>t. t) (\<lambda>_. None) True ''now'' (Dec 1000 0) (Inr demo_exchange) demo_registry = (Inr snap, r')
     \<and> length (elems (get snap ''pairs'')) = 1"
proof -
  have "(case refresh (\<lambda>t. t) (\<lambda>_. None) True ''now'' (Dec 1000 0) (Inr demo_exchange) demo_registry of
      (Inr snap, r') \<Rightarrow> length (elems (get snap ''pairs'')) = 1 | _ \<Rightarrow> False)" by code_simp
  then show ?thesis by (auto split: prod.splits sum.splits)
qed

lemma registry_survives_restart_witness:
  "\<exists>snap r'. refresh (\<lambda>t. t) (\<lambda>_. None) True ''now'' (Dec 1000 0) (Inr demo_exchange) demo_registry = (Inr snap, r')
     \<and> fst (refresh (\<lambda>t. t) (\<lambda>_. None) False ''later'' (Dec 1200 0) (Inl ''ConnectionError'')
          (r'\<lparr>reg_snapshot := None\<rparr>)) = Inr snap"
proof -
  obtain snap r' where r: "refresh (\<lambda>t. t) (\<lambda>_. None) True ''now'' (Dec 1000 0) (Inr demo_exchange) demo_registry = (Inr snap, r')"
    using demo_refresh by blast
  have once: "listed_once (\<lambda>_. None) (reg_allowed demo_registry) demo_exchange" by code_simp
  have ttl: "reg_ttl demo_registry = 300" by code_simp
  from registry_survives_restart [OF r once, where later = "Dec 1200 0"] ttl r show ?thesis
    by (auto simp: dval_Dec)
qed

text \<open>The pair the owner selects is taken from a live answer, never from a cache: the row returned is
  of the requested canonical pair, of a market the exchange lists as tradable now, and offers a
  protection mode only if the exchange supports every order list that mode needs.\<close>

definition offers :: "pydict \<Rightarrow> string \<Rightarrow> bool" where
  "offers row mode \<longleftrightarrow> is_true (get (items (get row ''capabilities'')) mode)"

theorem required_pair_is_live:
  assumes "require_pair sha256 env pair clock epoch answer r = (Inr row, r')"
  shows "\<exists>p md payload. canonical_pair env pair (Some (reg_allowed r)) = Inr p \<and> get row ''pair'' = PStr p
    \<and> get row ''symbol'' = PStr (symbol_of p)
    \<and> answer = Inr payload \<and> PDict md \<in> set (elems (get (items payload) ''symbols''))
    \<and> validate_exchange_symbol env p (PDict md) (Some (reg_allowed r)) False = Inr md
    \<and> (offers row ''fixed_oco'' \<longrightarrow> is_true (get md ''ocoAllowed'') \<and> is_true (get md ''otoAllowed''))
    \<and> (offers row ''trailing_only'' \<longrightarrow> is_true (get md ''otoAllowed'') \<and> is_true (get md ''allowTrailingStop''))
    \<and> (offers row ''oco_trailing'' \<longrightarrow> is_true (get md ''ocoAllowed'') \<and> is_true (get md ''otoAllowed'')
         \<and> is_true (get md ''allowTrailingStop''))"
proof -
  obtain p snap r1 where p: "canonical_pair env pair (Some (reg_allowed r)) = Inr p"
    and f: "fetch sha256 env clock epoch answer r = (Inr snap, r1)"
    and row0: "(case List.find (\<lambda>row. get row ''pair'' = PStr p) (map items (elems (get snap ''pairs''))) of
       None \<Rightarrow> raiseW (PairRegistryError (NotEligible p))
     | Some row \<Rightarrow> returnW (alist_put ''registry_generated_at_epoch'' (get snap ''generated_at_epoch'')
         (alist_put ''registry_hash'' (get snap ''registry_hash'') row))) r1 = (Inr row, r')"
    using assms by (auto simp: require_pair_def refresh_def eff_eval policy_def
        split: sum.splits prod.splits policy_error.splits)
  from row0 obtain base where base: "List.find (\<lambda>row. get row ''pair'' = PStr p) (map items (elems (get snap ''pairs''))) = Some base"
    and row: "row = alist_put ''registry_generated_at_epoch'' (get snap ''generated_at_epoch'')
         (alist_put ''registry_hash'' (get snap ''registry_hash'') base)"
    by (auto simp: eff_eval split: option.splits)
  from wp_Inr [OF wp_fetch f] obtain payload unsorted where a: "answer = Inr payload"
    and u: "eligible_rows env (reg_allowed r) (elems (get (items payload) ''symbols'')) = Inr unsorted"
    and snap: "snap = snapshot_of sha256 clock epoch (sort_key row_key unsorted)" by auto
  have pairs: "map items (elems (get snap ''pairs'')) = sort_key row_key unsorted"
    by (simp add: snap snapshot_of_def get_def get_or_Cons comp_def)
  from base have b: "base \<in> set unsorted" "get base ''pair'' = PStr p"
    unfolding pairs by (auto dest: find_Some_set)
  from eligible_rows_now [OF u b(1)] obtain q md where q: "PDict md \<in> set (elems (get (items payload) ''symbols''))"
      "validate_exchange_symbol env q (PDict md) (Some (reg_allowed r)) False = Inr md" "row_for q md base"
    unfolding eligible_now_def by blast
  have "q = p" using q(3) b(2) by (simp add: row_for_def Let_def get_def get_or_Cons)
  then have o: "get row ''pair'' = PStr p" "get row ''symbol'' = PStr (symbol_of p)"
    "offers row ''fixed_oco'' \<longrightarrow> is_true (get md ''ocoAllowed'') \<and> is_true (get md ''otoAllowed'')"
    "offers row ''trailing_only'' \<longrightarrow> is_true (get md ''otoAllowed'') \<and> is_true (get md ''allowTrailingStop'')"
    "offers row ''oco_trailing'' \<longrightarrow> is_true (get md ''ocoAllowed'') \<and> is_true (get md ''otoAllowed'')
         \<and> is_true (get md ''allowTrailingStop'')"
    using q(3) by (simp_all add: row row_for_def offers_def Let_def get_def get_or_def capabilities_of_def is_true_def)
  show ?thesis using p a q(1,2) o unfolding \<open>q = p\<close> by blast
qed

lemma required_pair_is_live_witness:
  "\<exists>row r'. require_pair (\<lambda>t. t) (\<lambda>_. None) ''btcusdc'' ''now'' (Dec 1000 0) (Inr demo_exchange) demo_registry = (Inr row, r')
     \<and> get row ''pair'' = PStr ''BTC/USDC''"
proof -
  have "(case require_pair (\<lambda>t. t) (\<lambda>_. None) ''btcusdc'' ''now'' (Dec 1000 0) (Inr demo_exchange) demo_registry of
      (Inr row, r') \<Rightarrow> True | _ \<Rightarrow> False)" by code_simp
  then obtain row r' where r: "require_pair (\<lambda>t. t) (\<lambda>_. None) ''btcusdc'' ''now'' (Dec 1000 0) (Inr demo_exchange) demo_registry = (Inr row, r')"
    by (auto split: prod.splits sum.splits)
  have "canonical_pair (\<lambda>_. None) ''btcusdc'' (Some (reg_allowed demo_registry)) = Inr ''BTC/USDC''" by code_simp
  then show ?thesis using required_pair_is_live [OF r] r by auto
qed

end
