(* ===== verification/Pair_Control.thy ===== *)
theory Pair_Control
  imports Pair_Registry
begin

text \<open>
  The single writer of the active pair, \<open>services/execution_sidecar/pair_control.py\<close>:
  four JSON files (the authoritative state, two Freqtrade projections and the switch
  state), the staged switch of the pair and the audit trail of its stages. Every write may
  fail, as the outcomes in \<open>w_writes\<close> say, and what was written before stays. The clock,
  the exchange's flatness answer, the target validation and the registry are arguments.
\<close>

datatype stage = ACTIVE | PAUSING | RECONCILING | WAITING_MANUAL_SWAP | APPLYING_PAIR | VERIFYING_PAIR
  | PAUSED_READY | BLOCKED

fun stage_name :: "stage \<Rightarrow> string" where
  "stage_name ACTIVE = ''ACTIVE''"
| "stage_name PAUSING = ''PAUSING''"
| "stage_name RECONCILING = ''RECONCILING''"
| "stage_name WAITING_MANUAL_SWAP = ''WAITING_MANUAL_SWAP''"
| "stage_name APPLYING_PAIR = ''APPLYING_PAIR''"
| "stage_name VERIFYING_PAIR = ''VERIFYING_PAIR''"
| "stage_name PAUSED_READY = ''PAUSED_READY''"
| "stage_name BLOCKED = ''BLOCKED''"

definition pair_switch_stages :: "stage list" where
  "pair_switch_stages = [ACTIVE, PAUSING, RECONCILING, WAITING_MANUAL_SWAP, APPLYING_PAIR, VERIFYING_PAIR,
     PAUSED_READY, BLOCKED]"

definition stage_of :: "string \<Rightarrow> stage option" where
  "stage_of s = List.find (\<lambda>st. stage_name st = s) pair_switch_stages"

lemma stage_of_name [simp]: "stage_of (stage_name st) = Some st"
  by (cases st) (simp_all add: stage_of_def pair_switch_stages_def)

text \<open>The reasons of a \<open>PairStateError\<close>, and the other exceptions that leave the controller.\<close>

datatype pair_reason =
    StateSchema | StateSymbol | StateAssets | StateGeneration | StateConfigHash | StateHash
  | PolicyReason policy_error | SwitchCorrupt | StageCorrupt | SwitchMismatch | PartialBootstrap
  | PairlistMismatch | OverlayMismatch | RegistryUnavailable | RegistryReason registry_error | MenuChanged
  | SwitchRefused string | AlreadyPending stage | NothingWaiting | NotFlat string | ReadBackFailed
  | NotVerifying | ProofNotAffirmative | TargetMismatch | CannotResume stage

datatype pair_exn = PairStateError pair_reason | PolicyExn policy_error | WriteError string
  | CallbackError string string | DetailError | EvidenceError

text \<open>\<open>w_calls\<close> records, newest first, the questions put to the adapter.\<close>

datatype pair_call = FlatCall "string list" | TargetCall string

record world =
  w_state :: json_file
  w_pairlist :: json_file
  w_config :: json_file
  w_switch :: json_file
  w_writes :: "string option list"
  w_audit :: "stage list"
  w_calls :: "pair_call list"

type_synonym 'a control = "(world, pair_exn, 'a) eff"

text \<open>What does not change while the controller runs.\<close>

record pair_env =
  pe_sha :: "string \<Rightarrow> string"
  pe_env :: environ
  pe_allowed :: "string list"
  pe_clock :: string

definition pair_policy :: "policy_error + 'a \<Rightarrow> pair_exn + 'a" where
  "pair_policy r = (case r of Inl e \<Rightarrow> Inl (PolicyExn e) | Inr x \<Rightarrow> Inr x)"

lemma pair_policy_simps [simp]: "pair_policy (Inl e) = Inl (PolicyExn e)" "pair_policy (Inr x) = Inr x"
  "pair_policy r = Inr y \<longleftrightarrow> r = Inr y"
  by (simp_all add: pair_policy_def split: sum.splits)

abbreviation canon :: "pair_env \<Rightarrow> string \<Rightarrow> policy_error + string" where
  "canon c p \<equiv> canonical_pair (pe_env c) p (Some (pe_allowed c))"

definition put_file :: "(world \<Rightarrow> world) \<Rightarrow> unit control" where
  "put_file put w = (case write_file w_writes (\<lambda>ws w. w\<lparr>w_writes := ws\<rparr>) put w of
     (Inl e, w') \<Rightarrow> (Inl (WriteError e), w') | (Inr u, w') \<Rightarrow> (Inr u, w'))"

subsection \<open>The authoritative state\<close>

definition build_state :: "pair_env \<Rightarrow> string \<Rightarrow> int \<Rightarrow> string \<Rightarrow> policy_error + pydict" where
  "build_state c pair0 generation source =
     bindE (canon c pair0) (\<lambda>pair.
     bindE (symbol_for_pair (pe_env c) pair (Some (pe_allowed c))) (\<lambda>symbol.
     bindE (quote_for_pair (pe_env c) pair (Some (pe_allowed c))) (\<lambda>quote.
     bindE (pair_config_hash (pe_sha c) (pe_env c) pair (Some (pe_allowed c))) (\<lambda>config_hash.
     let state = [(''schema_version'', PInt 1), (''pair'', PStr pair), (''symbol'', PStr symbol),
       (''base'', PStr ''BTC''), (''quote'', PStr quote), (''generation'', PInt generation),
       (''updated_at'', PStr (pe_clock c)), (''source'', PStr source), (''pair_config_hash'', PStr config_hash)] in
     Inr (state @ [(''state_hash'', PStr (pair_state_hash (pe_sha c) state))])))))"

definition validate_state :: "pair_env \<Rightarrow> pyval \<Rightarrow> pair_exn + pydict" where
  "validate_state c value =
     (let d = items value in
      if \<not> is_dict value \<or> \<not> py_eq (get d ''schema_version'') (PInt 1) then Inl (PairStateError StateSchema)
      else bindE (pair_policy (canon c (pstr (get_or d ''pair'' (PStr []))))) (\<lambda>pair.
      bindE (pair_policy (symbol_for_pair (pe_env c) pair (Some (pe_allowed c)))) (\<lambda>symbol.
      if get d ''symbol'' \<noteq> PStr symbol then Inl (PairStateError StateSymbol)
      else bindE (pair_policy (quote_for_pair (pe_env c) pair (Some (pe_allowed c)))) (\<lambda>quote.
      if get d ''base'' \<noteq> PStr ''BTC'' \<or> get d ''quote'' \<noteq> PStr quote then Inl (PairStateError StateAssets)
      else if \<not> is_int (get d ''generation'') \<or> the (to_int (get d ''generation'')) < 1
      then Inl (PairStateError StateGeneration)
      else bindE (pair_policy (pair_config_hash (pe_sha c) (pe_env c) pair (Some (pe_allowed c)))) (\<lambda>config_hash.
      if get d ''pair_config_hash'' \<noteq> PStr config_hash then Inl (PairStateError StateConfigHash)
      else if get d ''state_hash'' \<noteq> PStr (pair_state_hash (pe_sha c) d) then Inl (PairStateError StateHash)
      else Inr d)))))"

text \<open>\<open>load\<close> turns a \<open>PairPolicyError\<close> into a \<open>PairStateError\<close>.\<close>

definition as_state_error :: "pair_exn + 'a \<Rightarrow> pair_exn + 'a" where
  "as_state_error r = (case r of Inl (PolicyExn e) \<Rightarrow> Inl (PairStateError (PolicyReason e)) | _ \<Rightarrow> r)"

definition load :: "pair_env \<Rightarrow> pydict control" where
  "load c = askW (\<lambda>w. as_state_error (validate_state c (read_json (w_state w) PNone)))"

definition pair_text :: "pydict \<Rightarrow> string" where
  "pair_text state = pstr (get state ''pair'')"

definition expected_pairlist :: "pydict \<Rightarrow> pyval" where
  "expected_pairlist state = PDict [(''pairs'', PList [get state ''pair'']), (''refresh_period'', PInt 10),
     (''pair_state_hash'', get state ''state_hash''), (''pair_config_hash'', get state ''pair_config_hash'')]"

definition expected_overlay :: "pydict \<Rightarrow> pyval" where
  "expected_overlay state = PDict [(''stake_currency'', get state ''quote''),
     (''exchange'', PDict [(''pair_whitelist'', PList [get state ''pair'']), (''pair_blacklist'', PList [])])]"

text \<open>Projections first, the authoritative state last.\<close>

definition publish :: "pydict \<Rightarrow> unit control" where
  "publish state =
     bindW (put_file (\<lambda>w. w\<lparr>w_pairlist := Json (expected_pairlist state)\<rparr>)) (\<lambda>_.
     bindW (put_file (\<lambda>w. w\<lparr>w_config := Json (expected_overlay state)\<rparr>)) (\<lambda>_.
     put_file (\<lambda>w. w\<lparr>w_state := Json (PDict state)\<rparr>)))"

subsection \<open>The switch state\<close>

definition target_value :: "string option \<Rightarrow> pyval" where
  "target_value t = (case t of None \<Rightarrow> PNone | Some p \<Rightarrow> PStr p)"

definition switch_value :: "pair_env \<Rightarrow> stage \<Rightarrow> string option \<Rightarrow> string \<Rightarrow> pydict \<Rightarrow> pydict \<Rightarrow> pydict" where
  "switch_value c st target detail evidence active =
     [(''schema_version'', PInt 1), (''stage'', PStr (stage_name st)), (''active_pair'', get active ''pair''),
      (''active_generation'', get active ''generation''), (''active_pair_config_hash'', get active ''pair_config_hash''),
      (''target_pair'', target_value target), (''updated_at'', PStr (pe_clock c)),
      (''detail'', PStr (take 1000 detail)), (''evidence'', PDict evidence)]"

definition switch_state :: "pair_env \<Rightarrow> stage \<Rightarrow> string option \<Rightarrow> string \<Rightarrow> pydict \<Rightarrow> pydict control" where
  "switch_state c st target_pair detail evidence =
     bindW (load c) (\<lambda>active.
     bindW (liftW (case target_pair of None \<Rightarrow> Inr None
        | Some t \<Rightarrow> if t = [] then Inr None else pair_policy (bindE (canon c t) (\<lambda>p. Inr (Some p))))) (\<lambda>target.
     let value = switch_value c st target detail evidence active in
     bindW (put_file (\<lambda>w. w\<lparr>w_switch := Json (PDict value)\<rparr>)) (\<lambda>_.
     bindW (modifyW (\<lambda>w. w\<lparr>w_audit := st # w_audit w\<rparr>)) (\<lambda>_.
     returnW value))))"

text \<open>\<open>{**value, k: v, ...}\<close>.\<close>

definition override :: "pydict \<Rightarrow> pydict \<Rightarrow> pydict" where
  "override d kvs = fold (\<lambda>(k, v) acc. alist_put k v acc) kvs d"

record status =
  s_stage :: stage
  s_target :: "string option"
  s_value :: pydict

definition read_status :: "pair_env \<Rightarrow> pydict \<Rightarrow> pyval \<Rightarrow> pair_exn + status" where
  "read_status c active value =
     (if value = PNone then
        Inr \<lparr>s_stage = ACTIVE, s_target = None,
             s_value = [(''schema_version'', PInt 1), (''stage'', PStr ''ACTIVE''), (''active_pair'', get active ''pair''),
               (''active_generation'', get active ''generation''),
               (''active_pair_config_hash'', get active ''pair_config_hash''), (''target_pair'', PNone),
               (''detail'', PStr ''no pair switch is pending''), (''evidence'', PDict [])]\<rparr>
      else let d = items value in
      if \<not> is_dict value \<or> \<not> py_eq (get d ''schema_version'') (PInt 1) then Inl (PairStateError SwitchCorrupt)
      else bindE (of_option (PairStateError StageCorrupt) (stage_of (pstr (get_or d ''stage'' (PStr []))))) (\<lambda>st.
      bindE (if get d ''target_pair'' = PNone then Inr None
             else pair_policy (bindE (canon c (pstr (get d ''target_pair''))) (\<lambda>p. Inr (Some p)))) (\<lambda>target.
      if get d ''active_pair'' \<noteq> get active ''pair'' \<and> st \<notin> {VERIFYING_PAIR, PAUSED_READY, ACTIVE}
      then Inl (PairStateError SwitchMismatch)
      else Inr \<lparr>s_stage = st, s_target = target,
        s_value = override d [(''stage'', PStr (stage_name st)), (''target_pair'', target_value target),
          (''current_active_pair'', get active ''pair''), (''current_generation'', get active ''generation''),
          (''current_pair_config_hash'', get active ''pair_config_hash'')]\<rparr>)))"

definition switch_status :: "pair_env \<Rightarrow> status control" where
  "switch_status c =
     bindW (load c) (\<lambda>active.
     askW (\<lambda>w. read_status c active (read_json (w_switch w) PNone)))"

subsection \<open>Bootstrap\<close>

definition bootstrap :: "pair_env \<Rightarrow> string \<Rightarrow> pydict control" where
  "bootstrap c initial_pair =
     bindW (getW (\<lambda>w. map file_exists [w_state w, w_pairlist w, w_config w])) (\<lambda>existing.
     if list_ex id existing \<and> \<not> list_all id existing then raiseW (PairStateError PartialBootstrap)
     else if list_all id existing then
       bindW (load c) (\<lambda>state.
       bindW (getW (\<lambda>w. (read_json (w_pairlist w) PNone, read_json (w_config w) PNone))) (\<lambda>(pairlist, overlay).
       if \<not> same (expected_pairlist state) pairlist then raiseW (PairStateError PairlistMismatch)
       else if \<not> same (expected_overlay state) overlay then raiseW (PairStateError OverlayMismatch)
       else returnW state))
     else
       bindW (liftW (pair_policy (build_state c initial_pair 1 ''bootstrap''))) (\<lambda>state.
       bindW (publish state) (\<lambda>_. returnW state)))"

subsection \<open>Switching\<close>

text \<open>A callback returns a value or raises an exception with a class name and a text.\<close>

type_synonym answer = "(string \<times> string) + pyval"

definition asked :: "pair_call \<Rightarrow> unit control" where
  "asked q = modifyW (\<lambda>w. w\<lparr>w_calls := q # w_calls w\<rparr>)"

definition call :: "pair_call \<Rightarrow> answer \<Rightarrow> pyval control" where
  "call q a = bindW (asked q) (\<lambda>_. case a of Inl (name, txt) \<Rightarrow> raiseW (CallbackError name txt) | Inr v \<Rightarrow> returnW v)"

definition unverified :: string where
  "unverified = ''exchange flatness could not be verified''"

text \<open>\<open>(verification or {}).get("detail", ...)\<close>.\<close>

definition flat_detail :: "pyval \<Rightarrow> string control" where
  "flat_detail v = (if \<not> truthy v then returnW unverified
     else if is_dict v then returnW (pstr (get_or (items v) ''detail'' (PStr unverified)))
     else raiseW DetailError)"

definition affirmative :: "pyval \<Rightarrow> bool" where
  "affirmative v \<longleftrightarrow> is_dict v \<and> is_true (get (items v) ''ok'')"

definition registry_answer :: "registry_exn + 'a \<Rightarrow> pair_exn + 'a" where
  "registry_answer r = (case r of
       Inr x \<Rightarrow> Inr x
     | Inl (PairRegistryError e) \<Rightarrow> Inl (PairStateError (RegistryReason e))
     | Inl (PairPolicyError e) \<Rightarrow> Inl (PolicyExn e)
     | Inl RegistryTypeError \<Rightarrow> Inl (CallbackError ''TypeError'' [])
     | Inl (RegistryOSError e) \<Rightarrow> Inl (WriteError e))"

type_synonym menu = "(string \<Rightarrow> registry_exn + pydict) option"

record result =
  r_changed :: bool
  r_state :: pydict
  r_switch :: pydict
  r_flat :: pyval
  r_eligibility :: "pydict option"
  r_validation :: pyval

definition generation_of :: "pydict \<Rightarrow> int" where
  "generation_of state = the (to_int (get state ''generation''))"

definition two_symbols :: "pair_env \<Rightarrow> pydict \<Rightarrow> string \<Rightarrow> string list control" where
  "two_symbols c current pair =
     bindW (liftW (pair_policy (symbol_for_pair (pe_env c) pair (Some (pe_allowed c))))) (\<lambda>symbol.
     returnW [pstr (get current ''symbol''), symbol])"

text \<open>The unstaged switch that tests and tools use.\<close>

definition switch :: "pair_env \<Rightarrow> menu \<Rightarrow> string \<Rightarrow> (string list \<Rightarrow> answer) \<Rightarrow> result control" where
  "switch c registry requested_pair verify_flat =
     bindW (load c) (\<lambda>current.
     bindW (liftW (pair_policy (canon c requested_pair))) (\<lambda>requested.
     bindW (case registry of None \<Rightarrow> returnW None
        | Some require \<Rightarrow> bindW (liftW (registry_answer (require requested))) (\<lambda>e. returnW (Some e))) (\<lambda>eligibility.
     if PStr requested = get current ''pair'' then
       returnW \<lparr>r_changed = False, r_state = current, r_switch = [], r_flat = PNone,
         r_eligibility = None, r_validation = PNone\<rparr>
     else
       bindW (two_symbols c current requested) (\<lambda>symbols.
       bindW (call (FlatCall symbols) (verify_flat symbols)) (\<lambda>verification.
       if \<not> is_dict verification \<or> \<not> truthy (get (items verification) ''ok'') then
         bindW (flat_detail verification) (\<lambda>detail. raiseW (PairStateError (SwitchRefused detail)))
       else
         bindW (liftW (pair_policy (build_state c requested (generation_of current + 1) ''owner-command''))) (\<lambda>next_state.
         bindW (publish next_state) (\<lambda>_.
         returnW \<lparr>r_changed = True, r_state = next_state, r_switch = [], r_flat = verification,
           r_eligibility = eligibility, r_validation = PNone\<rparr>)))))))"

definition begin_switch ::
  "pair_env \<Rightarrow> menu \<Rightarrow> string \<Rightarrow> (string list \<Rightarrow> answer) \<Rightarrow> string \<Rightarrow> result control" where
  "begin_switch c registry requested_pair verify_flat expected_hash =
     bindW (load c) (\<lambda>current.
     bindW (liftW (pair_policy (canon c requested_pair))) (\<lambda>requested.
     bindW (switch_status c) (\<lambda>status.
     if s_stage status \<notin> {ACTIVE, PAUSED_READY, BLOCKED} then raiseW (PairStateError (AlreadyPending (s_stage status)))
     else if PStr requested = get current ''pair'' then
       bindW (switch_state c ACTIVE None (requested @ '' is already active'') []) (\<lambda>_.
       bindW (switch_status c) (\<lambda>now.
       returnW \<lparr>r_changed = False, r_state = current, r_switch = s_value now, r_flat = PNone,
         r_eligibility = None, r_validation = PNone\<rparr>))
     else case registry of None \<Rightarrow> raiseW (PairStateError RegistryUnavailable) | Some require \<Rightarrow>
       bindW (liftW (registry_answer (require requested))) (\<lambda>eligibility.
       let hash = pstr (get_or eligibility ''registry_hash'' (PStr [])); evidence = [(''registry_hash'', PStr hash)] in
       if expected_hash \<noteq> [] \<and> expected_hash \<noteq> hash then raiseW (PairStateError MenuChanged)
       else
         bindW (switch_state c PAUSING (Some requested) ''entries disarmed; beginning flat-state verification'' evidence) (\<lambda>_.
         bindW (switch_state c RECONCILING (Some requested) ''verifying durable and exchange state'' evidence) (\<lambda>_.
         bindW (two_symbols c current requested) (\<lambda>symbols.
         bindW (asked (FlatCall symbols)) (\<lambda>_.
         bindW (case verify_flat symbols of
             Inl (name, txt) \<Rightarrow>
               bindW (switch_state c BLOCKED (Some requested) (''flat-state verification raised '' @ name) evidence) (\<lambda>_.
               raiseW (CallbackError name txt))
           | Inr v \<Rightarrow> returnW v) (\<lambda>verification.
         if \<not> affirmative verification then
           bindW (flat_detail verification) (\<lambda>detail.
           bindW (switch_state c BLOCKED (Some requested) detail evidence) (\<lambda>_.
           raiseW (PairStateError (SwitchRefused detail))))
         else
           bindW (switch_state c WAITING_MANUAL_SWAP (Some requested)
               ''flat state verified; owner must complete any required quote-asset swap and confirm /swapdone''
               [(''registry_hash'', PStr hash), (''flat_verification'', verification),
                (''eligibility'', PDict eligibility)]) (\<lambda>pending.
           returnW \<lparr>r_changed = False, r_state = current, r_switch = pending, r_flat = verification,
             r_eligibility = Some eligibility, r_validation = PNone\<rparr>))))))))))"

text \<open>\<open>str(exc)\<close> and \<open>type(exc).__name__\<close> of the exceptions the two handlers see.\<close>

fun exn_text :: "pair_exn \<Rightarrow> string" where
  "exn_text (CallbackError name txt) = txt"
| "exn_text (PairStateError (NotFlat d)) = d"
| "exn_text _ = ''no attribute get''"

fun exn_name :: "pair_exn \<Rightarrow> string" where
  "exn_name (CallbackError name txt) = name"
| "exn_name (WriteError name) = name"
| "exn_name (PolicyExn _) = ''PairPolicyError''"
| "exn_name (PairStateError _) = ''PairStateError''"
| "exn_name _ = ''AttributeError''"

text \<open>\<open>dict(status.get("evidence") or {})\<close>.\<close>

definition evidence_of :: "pydict \<Rightarrow> pair_exn + pydict" where
  "evidence_of value = (let e = get value ''evidence'' in
     if \<not> truthy e then Inr [] else if is_dict e then Inr (items e) else Inl EvidenceError)"

definition recheck :: "pair_env \<Rightarrow> pydict \<Rightarrow> string \<Rightarrow> (string list \<Rightarrow> answer) \<Rightarrow> (string \<Rightarrow> answer) \<Rightarrow>
   string list \<Rightarrow> (pyval \<times> pyval) control" where
  "recheck c current target verify_flat validate_target symbols =
     bindW (call (FlatCall symbols) (verify_flat symbols)) (\<lambda>verification.
     if \<not> affirmative verification then
       bindW (flat_detail verification) (\<lambda>detail. raiseW (PairStateError (NotFlat detail)))
     else bindW (call (TargetCall target) (validate_target target)) (\<lambda>validation. returnW (verification, validation)))"

definition publish_checked :: "pair_env \<Rightarrow> pydict \<Rightarrow> unit control" where
  "publish_checked c next_state =
     bindW (publish next_state) (\<lambda>_.
     bindW (load c) (\<lambda>loaded.
     if same (PDict loaded) (PDict next_state) then returnW () else raiseW (PairStateError ReadBackFailed)))"

text \<open>The second half of \<open>complete_switch\<close>, from the verified state on.\<close>

definition apply_switch :: "pair_env \<Rightarrow> pydict \<Rightarrow> string \<Rightarrow> pyval \<Rightarrow> pyval \<Rightarrow> pydict \<Rightarrow> result control" where
  "apply_switch c current target verification validation evidence =
     (let applying = override evidence
       [(''second_flat_verification'', verification), (''target_validation'', validation)] in
     bindW (switch_state c APPLYING_PAIR (Some target) ''publishing exact one-pair Freqtrade projections'' applying) (\<lambda>_.
     bindW (liftW (pair_policy (build_state c target (generation_of current + 1) ''owner-confirmed-manual-swap''))) (\<lambda>next_state.
     bindW (catchW (publish_checked c next_state) (\<lambda>e.
         bindW (switch_state c BLOCKED (Some target) (''pair projection publication failed: '' @ exn_name e) applying) (\<lambda>_.
         raiseW e))) (\<lambda>_.
     bindW (switch_state c VERIFYING_PAIR (Some target)
         ''pair applied; Freqtrade reload and heartbeat proof required'' applying) (\<lambda>verifying.
     returnW \<lparr>r_changed = True, r_state = next_state, r_switch = verifying, r_flat = verification,
       r_eligibility = None, r_validation = validation\<rparr>)))))"

definition complete_switch ::
  "pair_env \<Rightarrow> (string list \<Rightarrow> answer) \<Rightarrow> (string \<Rightarrow> answer) \<Rightarrow> result control" where
  "complete_switch c verify_flat validate_target =
     bindW (switch_status c) (\<lambda>status.
     if s_stage status \<noteq> WAITING_MANUAL_SWAP then raiseW (PairStateError NothingWaiting)
     else bindW (liftW (pair_policy (canon c (pstr (target_value (s_target status)))))) (\<lambda>target.
     bindW (load c) (\<lambda>current.
     bindW (liftW (evidence_of (s_value status))) (\<lambda>evidence.
     bindW (switch_state c RECONCILING (Some target) ''owner confirmed manual swap; rechecking flat state'' evidence) (\<lambda>_.
     bindW (two_symbols c current target) (\<lambda>symbols.
     bindW (catchW (recheck c current target verify_flat validate_target symbols) (\<lambda>e.
         bindW (switch_state c BLOCKED (Some target) (''manual-swap validation failed: '' @ exn_text e) evidence) (\<lambda>_.
         raiseW e))) (\<lambda>checked.
     apply_switch c current target (fst checked) (snd checked) evidence)))))))"

definition mark_pair_verified :: "pair_env \<Rightarrow> pyval \<Rightarrow> pydict control" where
  "mark_pair_verified c proof_value =
     bindW (switch_status c) (\<lambda>status.
     if s_stage status \<noteq> VERIFYING_PAIR then raiseW (PairStateError NotVerifying)
     else if \<not> affirmative proof_value then raiseW (PairStateError ProofNotAffirmative)
     else bindW (load c) (\<lambda>active.
     if target_value (s_target status) \<noteq> get active ''pair'' then raiseW (PairStateError TargetMismatch)
     else bindW (liftW (evidence_of (s_value status))) (\<lambda>evidence.
       switch_state c PAUSED_READY (Some (pair_text active))
         ''pair and Freqtrade generation verified; explicit resume required''
         (override evidence [(''freqtrade'', proof_value)]))))"

definition require_resume_ready :: "pair_env \<Rightarrow> status control" where
  "require_resume_ready c =
     bindW (switch_status c) (\<lambda>status.
     if s_stage status \<notin> {ACTIVE, PAUSED_READY} then raiseW (PairStateError (CannotResume (s_stage status)))
     else returnW status)"

definition mark_active_after_resume :: "pair_env \<Rightarrow> pydict control" where
  "mark_active_after_resume c =
     bindW (require_resume_ready c) (\<lambda>status.
     if s_stage status = ACTIVE then returnW (s_value status)
     else switch_state c ACTIVE None ''owner explicitly resumed after verified pair switch'' [])"

definition eligible_pairs :: "(registry_exn + pydict) option \<Rightarrow> pair_exn + pydict" where
  "eligible_pairs registry = (case registry of
     None \<Rightarrow> Inl (PairStateError RegistryUnavailable) | Some answer \<Rightarrow> registry_answer answer)"

end
