(* ===== verification/Pair_Switch.thy ===== *)
theory Pair_Switch
  imports Pair_Control
begin

text \<open>
  The staged pair switch as an abstract machine, and the fact that every operation of the
  controller writes stages along it: the weakest preconditions of the controller's helpers,
  one lemma per operation on the files and stages it may leave, and runs of operations with
  arbitrary answers and failing writes.
\<close>

subsection \<open>The stages as an abstract machine\<close>

inductive stage_step :: "stage \<Rightarrow> stage \<Rightarrow> bool" where
  selected: "s \<in> {ACTIVE, PAUSED_READY, BLOCKED} \<Longrightarrow> stage_step s PAUSING"
| already_active: "s \<in> {ACTIVE, PAUSED_READY, BLOCKED} \<Longrightarrow> stage_step s ACTIVE"
| verifying_flat: "stage_step PAUSING RECONCILING"
| flat_refused: "stage_step RECONCILING BLOCKED"
| flat_verified: "stage_step RECONCILING WAITING_MANUAL_SWAP"
| swap_confirmed: "stage_step WAITING_MANUAL_SWAP RECONCILING"
| applying: "stage_step RECONCILING APPLYING_PAIR"
| apply_failed: "stage_step APPLYING_PAIR BLOCKED"
| applied: "stage_step APPLYING_PAIR VERIFYING_PAIR"
| proven: "stage_step VERIFYING_PAIR PAUSED_READY"

inductive_simps step_to_ready: "stage_step s PAUSED_READY"
inductive_simps step_to_verifying: "stage_step s VERIFYING_PAIR"
inductive_cases from_blocked: "stage_step BLOCKED s"

fun stage_path :: "stage \<Rightarrow> stage list \<Rightarrow> bool" where
  "stage_path s [] = True"
| "stage_path s (t # ts) = (stage_step s t \<and> stage_path t ts)"

lemma stage_path_snoc: "stage_path s (ts @ [t]) \<longleftrightarrow> stage_path s ts \<and> stage_step (last (s # ts)) t"
  by (induction ts arbitrary: s) auto

text \<open>The stage on disk; a missing file is \<open>ACTIVE\<close>.\<close>

definition stage_in :: "pyval \<Rightarrow> stage option" where
  "stage_in v = (if v = PNone then Some ACTIVE else stage_of (pstr (get_or (items v) ''stage'' (PStr []))))"

definition disk_stage :: "world \<Rightarrow> stage option" where
  "disk_stage w = stage_in (read_json (w_switch w) PNone)"

text \<open>\<open>follows w0 w\<close>: the stages written between the two worlds are steps of the machine.\<close>

definition follows :: "world \<Rightarrow> world \<Rightarrow> bool" where
  "follows w0 w \<longleftrightarrow> (w_switch w = w_switch w0 \<and> w_audit w = w_audit w0)
     \<or> (\<exists>s new. disk_stage w0 = Some s \<and> new \<noteq> [] \<and> w_audit w = new @ w_audit w0
          \<and> stage_path s (rev new) \<and> disk_stage w = Some (hd new))"

text \<open>The authoritative file and the projections.\<close>

definition pair_files :: "world \<Rightarrow> json_file \<times> json_file \<times> json_file" where
  "pair_files w = (w_state w, w_pairlist w, w_config w)"

definition unchanged :: "world \<Rightarrow> world \<Rightarrow> bool" where
  "unchanged w0 w \<longleftrightarrow> pair_files w = pair_files w0 \<and> w_switch w = w_switch w0 \<and> w_audit w = w_audit w0"

lemma unchanged_refl [simp]: "unchanged w w"
  by (simp add: unchanged_def)

lemma follows_refl [simp]: "follows w w"
  by (simp add: follows_def)

lemma unchanged_stage: "unchanged w w' \<Longrightarrow> disk_stage w' = disk_stage w"
  by (simp add: unchanged_def disk_stage_def)

lemma follows_unchanged:
  assumes "follows w0 w" "unchanged w w'"
  shows "follows w0 w'"
  using assms(1) unchanged_stage [OF assms(2)] assms(2) by (simp add: follows_def unchanged_def)

definition staged :: "world \<Rightarrow> stage \<Rightarrow> world \<Rightarrow> bool" where
  "staged w st w' \<longleftrightarrow> pair_files w' = pair_files w \<and> disk_stage w' = Some st \<and> w_audit w' = st # w_audit w"

lemma follows_first:
  assumes "w_switch w = w_switch w0" "w_audit w = w_audit w0" "disk_stage w = Some s" "stage_step s st" "staged w st w'"
  shows "follows w0 w'"
proof -
  have "disk_stage w0 = Some s" using assms(1,3) by (simp add: disk_stage_def)
  then show ?thesis using assms(2,4,5) unfolding follows_def staged_def
    by (intro disjI2 exI [of _ s] exI [of _ "[st]"]) simp
qed

lemma follows_next:
  assumes "disk_stage w0 = Some s0" "new \<noteq> []" "w_audit w = new @ w_audit w0" "stage_path s0 (rev new)"
    and "disk_stage w = Some (hd new)" "disk_stage w = Some s" "stage_step s st" "staged w st w'"
  shows "follows w0 w'"
proof -
  have "last (s0 # rev new) = s" using assms(2,5,6) by (simp add: last_rev)
  then have "stage_path s0 (rev (st # new))" using assms(4,7) by (simp add: stage_path_snoc)
  then show ?thesis using assms(1,3,8) unfolding follows_def staged_def
    by (intro disjI2 exI [of _ s0] exI [of _ "st # new"]) simp
qed

lemma follows_staged:
  "follows w0 w \<Longrightarrow> disk_stage w = Some s \<Longrightarrow> stage_step s st \<Longrightarrow> staged w st w' \<Longrightarrow> follows w0 w'"
  using follows_first follows_next unfolding follows_def [of w0 w] by blast

subsection \<open>What the helpers do\<close>

lemma wp_put_fileI:
  assumes "\<And>ws. Q () (put (w\<lparr>w_writes := ws\<rparr>))" "\<And>e ws. E (WriteError e) (w\<lparr>w_writes := ws\<rparr>)"
  shows "wp (put_file put) Q E (w :: world)"
  using assms(1) [of "w_writes w"] assms(1,2)
  by (auto simp: wp_def put_file_def write_file_def split: list.splits option.splits)

lemma wp_load [wps]: "wp (load c) Q E w =
    (case as_state_error (validate_state c (read_json (w_state w) PNone)) of Inl e \<Rightarrow> E e w | Inr s \<Rightarrow> Q s w)"
  by (simp add: load_def wp_ask)

lemma wp_loadI:
  assumes "\<And>s. validate_state c (read_json (w_state w) PNone) = Inr s \<Longrightarrow> Q s w" "\<And>e. E e w"
  shows "wp (load c) Q E w"
  using assms by (auto simp: wp_load as_state_error_def split: sum.splits pair_exn.splits)

lemma wp_liftI: "(\<And>x. r = Inr x \<Longrightarrow> Q x w) \<Longrightarrow> (\<And>e. E e w) \<Longrightarrow> wp (liftW r) Q E w"
  by (auto simp: wp_lift split: sum.splits)

lemma wp_switch_stateI:
  assumes "\<And>v w'. staged w st w' \<Longrightarrow> Q v w'" "\<And>e w'. unchanged w w' \<Longrightarrow> E e w'"
  shows "wp (switch_state c st t detail ev) Q E w"
proof -
  have *: "E e w" for e using assms(2) by simp
  show ?thesis
    unfolding switch_state_def wp_bind Let_def
    by (intro wp_loadI wp_liftI wp_put_fileI *)
      (auto simp: staged_def unchanged_def pair_files_def disk_stage_def stage_in_def read_json_def get_or_Cons switch_value_def
        intro!: assms)
qed

lemma read_status_stage: "read_status c active v = Inr s \<Longrightarrow> stage_in v = Some (s_stage s)"
  by (auto simp: read_status_def stage_in_def Let_def bindE_Inr_iff split: if_splits)

lemma wp_switch_statusI:
  assumes "\<And>s active. validate_state c (read_json (w_state w) PNone) = Inr active \<Longrightarrow>
      read_status c active (read_json (w_switch w) PNone) = Inr s \<Longrightarrow> disk_stage w = Some (s_stage s) \<Longrightarrow> Q s w"
    and "\<And>e. E e w"
  shows "wp (switch_status c) Q E w"
proof -
  have "wp (askW (\<lambda>w. read_status c active (read_json (w_switch w) PNone))) Q E w"
    if "validate_state c (read_json (w_state w) PNone) = Inr active" for active
    using assms(1) [OF that] assms(2) read_status_stage
    by (simp add: wp_ask disk_stage_def split: sum.splits)
  then show ?thesis unfolding switch_status_def wp_bind by (intro wp_loadI assms(2))
qed

lemma wp_asked [simp, wps]: "wp (asked q) Q E w = Q () (w\<lparr>w_calls := q # w_calls w\<rparr>)"
  by (simp add: asked_def)

lemma wp_askedI: "Q () (w\<lparr>w_calls := q # w_calls w\<rparr>) \<Longrightarrow> wp (asked q) Q E w"
  by (simp add: asked_def)

lemma wp_callI:
  assumes "\<And>v. a = Inr v \<Longrightarrow> Q v (w\<lparr>w_calls := q # w_calls w\<rparr>)" "\<And>e. E e (w\<lparr>w_calls := q # w_calls w\<rparr>)"
  shows "wp (call q a) Q E w"
  using assms by (auto simp: call_def asked_def split: sum.splits)

text \<open>What was asked is not part of what the controller keeps.\<close>

lemma calls_kept [simp]:
  "pair_files (w\<lparr>w_calls := cs\<rparr>) = pair_files w" "disk_stage (w\<lparr>w_calls := cs\<rparr>) = disk_stage w"
  "follows w0 (w\<lparr>w_calls := cs\<rparr>) = follows w0 w" "unchanged w0 (w\<lparr>w_calls := cs\<rparr>) = unchanged w0 w"
  "staged (w\<lparr>w_calls := cs\<rparr>) st w' = staged w st w'"
  by (simp_all add: pair_files_def disk_stage_def follows_def unchanged_def staged_def)

lemma wp_flat_detailI: "(\<And>d. Q d w) \<Longrightarrow> (\<And>e. E e w) \<Longrightarrow> wp (flat_detail v) Q E w"
  by (simp add: flat_detail_def)

lemma wp_two_symbolsI:
  assumes "\<And>sy. symbol_for_pair (pe_env c) p (Some (pe_allowed c)) = Inr sy \<Longrightarrow> Q [pstr (get cur ''symbol''), sy] w"
    and "\<And>e. E e w"
  shows "wp (two_symbols c cur p) Q E w"
  using assms by (auto simp: two_symbols_def wp_lift split: sum.splits)

lemmas wp_intros = wp_loadI wp_liftI wp_switch_stateI wp_switch_statusI wp_askedI wp_callI wp_flat_detailI wp_two_symbolsI

subsection \<open>What the operations do\<close>

text \<open>
  \<open>confined S R w0 w\<close>: the pair files satisfy \<open>R\<close>, the stages written are steps of
  the machine and the last one, if any, lies in \<open>S\<close>.
\<close>

definition confined :: "stage set \<Rightarrow> (json_file \<times> json_file \<times> json_file \<Rightarrow> bool) \<Rightarrow> world \<Rightarrow> world \<Rightarrow> bool" where
  "confined S R w0 w \<longleftrightarrow> R (pair_files w) \<and> follows w0 w
     \<and> (disk_stage w = disk_stage w0 \<and> w_switch w = w_switch w0 \<or> disk_stage w \<in> Some ` S)"

lemma confined_calls [simp]: "confined S R w0 (w\<lparr>w_calls := cs\<rparr>) = confined S R w0 w"
  by (simp add: confined_def)

lemma confined_refl [simp]: "R (pair_files w) \<Longrightarrow> confined S R w w"
  by (simp add: confined_def)

lemma confined_unchanged: "confined S R w0 w \<Longrightarrow> unchanged w w' \<Longrightarrow> confined S R w0 w'"
  using follows_unchanged [of w0 w w'] unchanged_stage [of w w'] by (simp add: confined_def unchanged_def)

lemma confined_staged:
  assumes "confined S R w0 w" "staged w st w'" "disk_stage w = Some s" "stage_step s st" "st \<in> S"
  shows "confined S R w0 w'"
  using follows_staged [of w0 w s st w'] assms by (simp add: confined_def staged_def)

lemma confined_mono: "confined S R w0 w \<Longrightarrow> S \<subseteq> S' \<Longrightarrow> (R (pair_files w) \<Longrightarrow> R' (pair_files w)) \<Longrightarrow> confined S' R' w0 w"
  by (auto simp: confined_def)

text \<open>Writing the pair files does not touch the stages.\<close>

lemma confined_files:
  assumes "confined S R w0 w" "w_switch w' = w_switch w" "w_audit w' = w_audit w" "R' (pair_files w')"
  shows "confined S R' w0 w'" "disk_stage w' = disk_stage w"
proof -
  show d: "disk_stage w' = disk_stage w" using assms(2) by (simp add: disk_stage_def)
  have "follows w0 w'" using assms(1-3) d by (simp add: confined_def follows_def)
  then show "confined S R' w0 w'" using assms d by (simp add: confined_def)
qed

lemma staged_stage: "staged w st w' \<Longrightarrow> disk_stage w' = Some st"
  by (simp add: staged_def)

lemmas stage_intros = stage_step.intros

lemma wp_case_option:
  assumes "x = None \<Longrightarrow> wp n Q E w" "\<And>y. x = Some y \<Longrightarrow> wp (m y) Q E w"
  shows "wp (case x of None \<Rightarrow> n | Some y \<Rightarrow> m y) Q E w"
  using assms by (cases x) simp_all

lemma wp_case_answer:
  assumes "\<And>name txt. a = Inl (name, txt) \<Longrightarrow> wp (n name txt) Q E w" "\<And>y. a = Inr y \<Longrightarrow> wp (m y) Q E w"
  shows "wp (case a of Inl (name, txt) \<Rightarrow> n name txt | Inr y \<Rightarrow> m y) Q E w"
  using assms by (cases a) auto

lemma wp_ifI: "(b \<Longrightarrow> wp m Q E w) \<Longrightarrow> (\<not> b \<Longrightarrow> wp n Q E w) \<Longrightarrow> wp (if b then m else n) Q E w"
  by simp

lemma wp_bindI: "wp m (\<lambda>x. wp (f x) Q E) E w \<Longrightarrow> wp (bindW m f) Q E w"
  by simp

lemma wp_returnI: "Q x w \<Longrightarrow> wp (returnW x) Q E w"
  and wp_raiseI: "E e w \<Longrightarrow> wp (raiseW e) Q E w"
  and wp_getI: "Q (g w) w \<Longrightarrow> wp (getW g) Q E w"
  and wp_catchI: "wp m Q (\<lambda>e. wp (h e) Q E) w \<Longrightarrow> wp (catchW m h) Q E w"
  by simp_all

lemmas wp_structure = wp_bindI wp_returnI wp_raiseI wp_getI wp_catchI wp_case_option wp_case_answer wp_ifI

lemmas wp_cases = wp_case_option wp_case_answer wp_ifI

definition begin_stages :: "stage set" where
  "begin_stages = {ACTIVE, PAUSING, RECONCILING, BLOCKED, WAITING_MANUAL_SWAP}"

text \<open>One stage write that the machine allows keeps the run confined.\<close>

lemma wp_stageI:
  assumes "confined S R w0 w" "disk_stage w = Some s" "stage_step s st" "st \<in> S"
    and "\<And>v w'. confined S R w0 w' \<Longrightarrow> disk_stage w' = Some st \<Longrightarrow> pair_files w' = pair_files w \<Longrightarrow> Q v w'"
    and "\<And>e w'. confined S R w0 w' \<Longrightarrow> disk_stage w' = disk_stage w \<Longrightarrow> pair_files w' = pair_files w \<Longrightarrow> E e w'"
  shows "wp (switch_state c st t detail ev) Q E w"
proof (rule wp_switch_stateI)
  fix v w' assume st: "staged w st w'"
  show "Q v w'" using confined_staged [OF assms(1) st assms(2-4)] st by (intro assms(5)) (simp_all add: staged_def)
next
  fix e w' assume u: "unchanged w w'"
  show "E e w'" using confined_unchanged [OF assms(1) u] unchanged_stage [OF u] u
    by (intro assms(6)) (simp_all add: unchanged_def)
qed

lemmas wp_reads = wp_loadI wp_liftI wp_switch_statusI wp_askedI wp_callI wp_flat_detailI wp_two_symbolsI

abbreviation same_files :: "world \<Rightarrow> json_file \<times> json_file \<times> json_file \<Rightarrow> bool" where
  "same_files w \<equiv> \<lambda>fs. fs = pair_files w"

lemma begin_confined:
  "wp (begin_switch c menu p verify hash) (\<lambda>_. confined begin_stages (same_files w) w)
     (\<lambda>_. confined begin_stages (same_files w) w) w"
  unfolding begin_switch_def Let_def
  by (intro wp_reads wp_structure wp_stageI [where S = begin_stages and ?w0.0 = w and R = "same_files w"])
    (auto simp: begin_stages_def intro: stage_intros)

lemma ready_confined:
  "wp (mark_pair_verified c v) (\<lambda>_. confined {PAUSED_READY} (same_files w) w)
     (\<lambda>_. confined {PAUSED_READY} (same_files w) w) w"
  unfolding mark_pair_verified_def
  by (intro wp_reads wp_structure wp_stageI [where S = "{PAUSED_READY}" and ?w0.0 = w and R = "same_files w"])
    (auto intro: stage_intros)

lemma resume_confined:
  "wp (mark_active_after_resume c) (\<lambda>_. confined {ACTIVE} (same_files w) w) (\<lambda>_. confined {ACTIVE} (same_files w) w) w"
  unfolding mark_active_after_resume_def require_resume_ready_def
  by (intro wp_reads wp_structure wp_stageI [where S = "{ACTIVE}" and ?w0.0 = w and R = "same_files w"])
    (auto intro: stage_intros)

text \<open>Completing a switch: the authoritative file is replaced only after both checks.\<close>

definition approved :: "pair_env \<Rightarrow> (string list \<Rightarrow> answer) \<Rightarrow> (string \<Rightarrow> answer) \<Rightarrow> world \<Rightarrow> pydict \<Rightarrow> bool" where
  "approved c verify validate w next_state \<longleftrightarrow> disk_stage w = Some WAITING_MANUAL_SWAP \<and>
     (\<exists>current target symbol flat validation.
        validate_state c (read_json (w_state w) PNone) = Inr current
        \<and> canon c target = Inr target \<and> symbol_for_pair (pe_env c) target (Some (pe_allowed c)) = Inr symbol
        \<and> verify [pstr (get current ''symbol''), symbol] = Inr flat \<and> affirmative flat
        \<and> validate target = Inr validation
        \<and> build_state c target (generation_of current + 1) ''owner-confirmed-manual-swap'' = Inr next_state)"

definition published :: "pydict \<Rightarrow> json_file \<times> json_file \<times> json_file" where
  "published s = (Json (PDict s), Json (expected_pairlist s), Json (expected_overlay s))"

definition kept_or_published where
  "kept_or_published c verify validate w fs \<longleftrightarrow> fs = pair_files w
     \<or> (\<exists>s. approved c verify validate w s \<and> (fst fs = w_state w \<or> fs = published s))"

lemma wp_publishI:
  assumes "\<And>w'. w_switch w' = w_switch w \<Longrightarrow> w_audit w' = w_audit w \<Longrightarrow> pair_files w' = published s \<Longrightarrow> Q () w'"
    and "\<And>e w'. w_switch w' = w_switch w \<Longrightarrow> w_audit w' = w_audit w \<Longrightarrow> w_state w' = w_state w \<Longrightarrow> E e w'"
  shows "wp (publish s) Q E w"
  unfolding publish_def
  by (intro wp_bindI wp_put_fileI) (auto intro!: assms simp: pair_files_def published_def)

definition complete_stages :: "stage set" where
  "complete_stages = {RECONCILING, BLOCKED, APPLYING_PAIR}"

definition complete_raised where
  "complete_raised c verify validate w w' \<longleftrightarrow>
     confined complete_stages (kept_or_published c verify validate w) w w'"

definition complete_returned where
  "complete_returned c verify validate w w' \<longleftrightarrow>
     confined {VERIFYING_PAIR} (\<lambda>fs. \<exists>s. approved c verify validate w s \<and> fs = published s) w w'
     \<and> disk_stage w' = Some VERIFYING_PAIR"

lemma wp_publish_checkedI:
  assumes "\<And>w'. w_switch w' = w_switch w \<Longrightarrow> w_audit w' = w_audit w \<Longrightarrow> pair_files w' = published s \<Longrightarrow> Q () w'"
    and "\<And>e w'. w_switch w' = w_switch w \<Longrightarrow> w_audit w' = w_audit w \<Longrightarrow> w_state w' = w_state w \<or> pair_files w' = published s
        \<Longrightarrow> E e w'"
  shows "wp (publish_checked c s) Q E w"
  unfolding publish_checked_def
  by (intro wp_bindI wp_publishI wp_loadI wp_ifI wp_returnI wp_raiseI) (auto intro: assms)

lemma wp_recheckI:
  assumes "\<And>v d cs. verify symbols = Inr v \<Longrightarrow> affirmative v \<Longrightarrow> validate target = Inr d \<Longrightarrow> Q (v, d) (w\<lparr>w_calls := cs\<rparr>)"
    and "\<And>e cs. E e (w\<lparr>w_calls := cs\<rparr>)"
  shows "wp (recheck c cur target verify validate symbols) Q E w"
  unfolding recheck_def by (intro wp_bindI wp_callI wp_ifI wp_flat_detailI wp_raiseI wp_returnI) (auto intro: assms)

lemma apply_spec:
  assumes "confined complete_stages (same_files w0) w0 w" "disk_stage w = Some RECONCILING"
    and "\<And>s. build_state c target (generation_of current + 1) ''owner-confirmed-manual-swap'' = Inr s \<Longrightarrow>
      approved c verify validate w0 s"
  shows "wp (apply_switch c current target v d evidence)
     (\<lambda>r w'. complete_returned c verify validate w0 w' \<and> pair_files w' = published (r_state r))
     (\<lambda>_. complete_raised c verify validate w0) w"
proof -
  let ?R = "kept_or_published c verify validate w0" and ?C = complete_stages
  have weak: "complete_raised c verify validate w0 w'" if "confined ?C (same_files w0) w0 w'" for w'
    unfolding complete_raised_def
    by (rule confined_mono [OF that]) (auto simp: kept_or_published_def pair_files_def)
  show ?thesis
    unfolding apply_switch_def Let_def
  proof (intro wp_bindI wp_stageI [OF assms(1,2)] wp_liftI wp_catchI wp_publish_checkedI weak wp_returnI wp_raiseI)
    show "stage_step RECONCILING APPLYING_PAIR" "APPLYING_PAIR \<in> ?C"
      by (simp_all add: stage_intros complete_stages_def)
    fix w1 s and w2 :: world assume w1: "confined ?C (same_files w0) w0 w1" "disk_stage w1 = Some APPLYING_PAIR"
      and "pair_policy (build_state c target (generation_of current + 1) ''owner-confirmed-manual-swap'') = Inr s"
      and w2: "w_switch w2 = w_switch w1" "w_audit w2 = w_audit w1"
    then have ok: "approved c verify validate w0 s" using assms(3) by simp
    have c2: "confined ?C R w0 w2" "disk_stage w2 = Some APPLYING_PAIR" if "R (pair_files w2)" for R
      using confined_files [OF w1(1) w2, of R] that w1(2) by simp_all
    {
      assume p: "pair_files w2 = published s"
      let ?S = "\<lambda>fs. \<exists>s. approved c verify validate w0 s \<and> fs = published s"
      have s2: "confined ?C ?S w0 w2" "disk_stage w2 = Some APPLYING_PAIR" using c2 [of ?S] ok p by auto
      have "confined {VERIFYING_PAIR} ?S w0 w3" if "staged w2 VERIFYING_PAIR w3" for w3
        using confined_staged [of "?C \<union> {VERIFYING_PAIR}" ?S w0 w2 VERIFYING_PAIR w3 APPLYING_PAIR]
          that s2 stage_intros(9) by (auto simp: confined_def staged_def)
      moreover have "complete_raised c verify validate w0 w3" if "unchanged w2 w3" for w3
        using confined_unchanged [OF s2(1) that] unfolding complete_raised_def
        by (rule confined_mono) (auto simp: kept_or_published_def)
      ultimately show "wp (switch_state c VERIFYING_PAIR (Some target)
            ''pair applied; Freqtrade reload and heartbeat proof required'' ev)
            (\<lambda>x. wp (returnW \<lparr>r_changed = True, r_state = s, r_switch = x, r_flat = v, r_eligibility = None, r_validation = d\<rparr>)
               (\<lambda>r w'. complete_returned c verify validate w0 w' \<and> pair_files w' = published (r_state r))
               (\<lambda>_. complete_raised c verify validate w0))
            (\<lambda>_. complete_raised c verify validate w0) w2" for ev
        using p by (intro wp_switch_stateI) (auto simp: complete_returned_def staged_def)
    }
    {
      fix e assume "w_state w2 = w_state w1 \<or> pair_files w2 = published s"
      moreover have "w_state w1 = w_state w0" using w1(1) by (simp add: confined_def pair_files_def)
      ultimately have "?R (pair_files w2)" using ok by (auto simp: kept_or_published_def pair_files_def)
      note c2 [of ?R, OF this]
      then show "wp (switch_state c BLOCKED (Some target) (''pair projection publication failed: '' @ exn_name e) ev)
          (\<lambda>_. wp (raiseW e) Q (\<lambda>_. complete_raised c verify validate w0))
          (\<lambda>_. complete_raised c verify validate w0) w2" for ev Q
        by (intro wp_stageI [where S = ?C and R = ?R and ?w0.0 = w0])
          (auto simp: complete_raised_def complete_stages_def intro: stage_intros)
    }
  qed
qed

lemma approvedI:
  assumes "disk_stage w = Some WAITING_MANUAL_SWAP" "validate_state c (read_json (w_state w) PNone) = Inr current"
    and "canon c raw = Inr target" "symbol_for_pair (pe_env c) target (Some (pe_allowed c)) = Inr symbol"
    and "verify [pstr (get current ''symbol''), symbol] = Inr flat" "affirmative flat" "validate target = Inr validation"
    and "build_state c target (generation_of current + 1) ''owner-confirmed-manual-swap'' = Inr s"
  shows "approved c verify validate w s"
  using assms canonical_pair_fixpoint(1) [OF assms(3)] unfolding approved_def by blast

lemma complete_spec:
  "wp (complete_switch c verify validate)
     (\<lambda>r w'. complete_returned c verify validate w w' \<and> pair_files w' = published (r_state r))
     (\<lambda>_. complete_raised c verify validate w) w"
proof -
  have weak: "complete_raised c verify validate w w'" if "confined complete_stages (same_files w) w w'" for w'
    unfolding complete_raised_def
    by (rule confined_mono [OF that]) (auto simp: kept_or_published_def pair_files_def)
  show ?thesis
    unfolding complete_switch_def Let_def
    by (intro wp_reads wp_recheckI apply_spec wp_structure weak
      wp_stageI [where S = complete_stages and ?w0.0 = w and R = "same_files w"])
      (auto simp: complete_stages_def intro: stage_intros approvedI)
qed

subsection \<open>Runs of the controller\<close>

text \<open>
  The operations of the runtime, with the answers of their callbacks, at a clock reading;
  \<open>Disk\<close> changes how the next writes turn out. An operation that raises leaves what it
  wrote.
\<close>

datatype pair_op =
    Begin menu string "string list \<Rightarrow> answer" string
  | Complete "string list \<Rightarrow> answer" "string \<Rightarrow> answer"
  | Verified pyval
  | Resume
  | Disk "string option list"

definition pair_step :: "pair_env \<Rightarrow> string \<times> pair_op \<Rightarrow> world \<Rightarrow> world" where
  "pair_step c op w = (let c' = c\<lparr>pe_clock := fst op\<rparr> in
     case snd op of
       Begin menu p verify hash \<Rightarrow> snd (begin_switch c' menu p verify hash w)
     | Complete verify validate \<Rightarrow> snd (complete_switch c' verify validate w)
     | Verified v \<Rightarrow> snd (mark_pair_verified c' v w)
     | Resume \<Rightarrow> snd (mark_active_after_resume c' w)
     | Disk ws \<Rightarrow> w\<lparr>w_writes := ws\<rparr>)"

definition pair_run :: "pair_env \<Rightarrow> (string \<times> pair_op) list \<Rightarrow> world \<Rightarrow> world" where
  "pair_run c ops w = fold (pair_step c) ops w"

lemma validate_clock [simp]: "validate_state (c\<lparr>pe_clock := t\<rparr>) = validate_state c"
  by (rule ext) (simp add: validate_state_def cong: if_cong)

text \<open>A state that was built is valid, whatever the clock said.\<close>

lemma build_state_valid:
  assumes "build_state c p g src = Inr s" "1 \<le> g"
  shows "validate_state c (PDict s) = Inr s \<and> generation_of s = g
    \<and> (\<exists>q. canon c p = Inr q \<and> get s ''pair'' = PStr q \<and> get s ''symbol'' = PStr (symbol_of q))"
proof -
  obtain q where q: "canon c p = Inr q" using assms(1) by (auto simp: build_state_def bindE_Inr_iff)
  note fixp = canonical_pair_fixpoint(1) [OF q]
  define h where "h = pe_sha c (json_dumps (PDict [(''pair'', PStr q), (''symbol'', PStr (symbol_of q)),
       (''stake_currency'', PStr (quote_of q)), (''pair_whitelist'', PList [PStr q])]))"
  have s: "s = (let st = [(''schema_version'', PInt 1), (''pair'', PStr q), (''symbol'', PStr (symbol_of q)),
       (''base'', PStr ''BTC''), (''quote'', PStr (quote_of q)), (''generation'', PInt g),
       (''updated_at'', PStr (pe_clock c)), (''source'', PStr src), (''pair_config_hash'', PStr h)] in
     st @ [(''state_hash'', PStr (pair_state_hash (pe_sha c) st))])"
    using assms(1) q fixp
    by (simp add: build_state_def symbol_for_pair_def quote_for_pair_def pair_config_hash_def Let_def h_def)
  have hash: "pair_state_hash (pe_sha c) s = pair_state_hash (pe_sha c) (butlast s)"
    by (simp add: s pair_state_hash_def pair_state_bound_def get_def get_or_Cons Let_def)
  have fields: "get s ''schema_version'' = PInt 1" "get_or s ''pair'' (PStr []) = PStr q" "get s ''pair'' = PStr q"
    "get s ''symbol'' = PStr (symbol_of q)" "get s ''base'' = PStr ''BTC''" "get s ''quote'' = PStr (quote_of q)"
    "get s ''generation'' = PInt g" "get s ''pair_config_hash'' = PStr h"
    "get s ''state_hash'' = PStr (pair_state_hash (pe_sha c) (butlast s))"
    by (simp_all add: s get_def get_or_Cons Let_def)
  have parts: "pair_config_hash (pe_sha c) (pe_env c) q (Some (pe_allowed c)) = Inr h"
    "symbol_for_pair (pe_env c) q (Some (pe_allowed c)) = Inr (symbol_of q)"
    "quote_for_pair (pe_env c) q (Some (pe_allowed c)) = Inr (quote_of q)"
    unfolding pair_config_hash_def symbol_for_pair_def quote_for_pair_def fixp bindE_Inr h_def by (rule refl)+
  have "validate_state c (PDict s) = Inr s"
    using fixp assms(2) by (simp add: validate_state_def parts fields hash)
  then show ?thesis using q fields by (simp add: generation_of_def)
qed

text \<open>A step that returns or raises, as facts about the world it leaves.\<close>

lemma begin_step: "confined begin_stages (same_files w) w (snd (begin_switch c m p v h w))"
  by (rule wp_always [OF begin_confined])

lemma ready_step: "confined {PAUSED_READY} (same_files w) w (snd (mark_pair_verified c v w))"
  by (rule wp_always [OF ready_confined])

lemma ready_step_from:
  "disk_stage (snd (mark_pair_verified c v w)) = disk_stage w \<or> disk_stage w = Some VERIFYING_PAIR"
proof -
  have "wp (mark_pair_verified c v) (\<lambda>_ w'. disk_stage w' = disk_stage w \<or> disk_stage w = Some VERIFYING_PAIR)
     (\<lambda>_ w'. disk_stage w' = disk_stage w \<or> disk_stage w = Some VERIFYING_PAIR) w"
    unfolding mark_pair_verified_def
    by (intro wp_reads wp_structure wp_switch_stateI) (auto simp: unchanged_def)
  then show ?thesis by (rule wp_always)
qed

lemma resume_step: "confined {ACTIVE} (same_files w) w (snd (mark_active_after_resume c w))"
  by (rule wp_always [OF resume_confined])

lemma complete_step:
  "complete_returned c v d w (snd (complete_switch c v d w)) \<or> complete_raised c v d w (snd (complete_switch c v d w))"
  by (rule wp_always) (rule wp_mono [OF complete_spec], auto)

lemma step_cases:
  obtains (quiet) S where "confined S (same_files w) w (pair_step c op w)" "VERIFYING_PAIR \<notin> S" "PAUSED_READY \<notin> S"
    | (ready) "confined {PAUSED_READY} (same_files w) w (pair_step c op w)"
        "disk_stage (pair_step c op w) = disk_stage w \<or> disk_stage w = Some VERIFYING_PAIR"
    | (applied) v d where "snd op = Complete v d" "complete_returned (c\<lparr>pe_clock := fst op\<rparr>) v d w (pair_step c op w)"
    | (failed) v d where "snd op = Complete v d" "complete_raised (c\<lparr>pe_clock := fst op\<rparr>) v d w (pair_step c op w)"
proof (cases "snd op")
  case (Begin m p v h)
  then show ?thesis
    using begin_step [of w "c\<lparr>pe_clock := fst op\<rparr>" m p v h]
    by (intro quiet [of begin_stages]) (simp_all add: pair_step_def begin_stages_def)
next
  case (Complete v d)
  then show ?thesis
    using complete_step [of "c\<lparr>pe_clock := fst op\<rparr>" v d w] applied [of v d] failed [of v d] by (auto simp: pair_step_def)
next
  case (Verified v)
  then show ?thesis using ready_step [of w "c\<lparr>pe_clock := fst op\<rparr>" v] ready_step_from [of "c\<lparr>pe_clock := fst op\<rparr>" v w]
    by (intro ready) (simp_all add: pair_step_def)
next
  case Resume
  then show ?thesis using resume_step [of w "c\<lparr>pe_clock := fst op\<rparr>"]
    by (intro quiet [of "{ACTIVE}"]) (simp_all add: pair_step_def)
next
  case (Disk ws)
  then have "unchanged w (pair_step c op w)" by (simp add: pair_step_def unchanged_def pair_files_def)
  then show ?thesis using confined_unchanged [of "{}" "same_files w" w w] quiet [of "{}"] by simp
qed

lemma follows_trans:
  assumes "follows w0 w1" "follows w1 w2"
  shows "follows w0 w2"
proof (cases "w_switch w1 = w_switch w0 \<and> w_audit w1 = w_audit w0")
  case True
  then show ?thesis using assms(2) by (simp add: follows_def disk_stage_def)
next
  case F: False
  then obtain s new where 1: "disk_stage w0 = Some s" "new \<noteq> []" "w_audit w1 = new @ w_audit w0"
      "stage_path s (rev new)" "disk_stage w1 = Some (hd new)"
    using assms(1) unfolding follows_def by blast
  show ?thesis
  proof (cases "w_switch w2 = w_switch w1 \<and> w_audit w2 = w_audit w1")
    case True
    then show ?thesis using assms(1) by (simp add: follows_def disk_stage_def)
  next
    case False
    then obtain s' more where 2: "disk_stage w1 = Some s'" "more \<noteq> []" "w_audit w2 = more @ w_audit w1"
        "stage_path s' (rev more)" "disk_stage w2 = Some (hd more)"
      using assms(2) unfolding follows_def by blast
    have path: "stage_path x (xs @ ys) \<longleftrightarrow> stage_path x xs \<and> stage_path (last (x # xs)) ys" for x xs ys
      by (induction xs arbitrary: x) auto
    have "last (s # rev new) = s'" using 1(2,5) 2(1) by (simp add: last_rev)
    then have "stage_path s (rev (more @ new))" using 1(4) 2(4) by (simp add: path)
    then show ?thesis using 1 2 unfolding follows_def
      by (intro disjI2 exI [of _ s] exI [of _ "more @ new"]) simp
  qed
qed

lemma step_follows: "follows w (pair_step c op w)"
  by (rule step_cases [of w c op]) (auto simp: confined_def complete_returned_def complete_raised_def)

lemma run_follows: "follows w (pair_run c ops w)"
  unfolding pair_run_def
proof (induction ops arbitrary: w)
  case (Cons op ops)
  show ?case using follows_trans [OF step_follows Cons.IH] by simp
qed simp

subsection \<open>What a verified switch guarantees\<close>

text \<open>The three files agree on one valid state.\<close>

definition consistent :: "pair_env \<Rightarrow> world \<Rightarrow> bool" where
  "consistent c w \<longleftrightarrow> (\<exists>s. pair_files w = published s \<and> validate_state c (PDict s) = Inr s)"

definition ready_ok :: "pair_env \<Rightarrow> world \<Rightarrow> bool" where
  "ready_ok c w \<longleftrightarrow> (disk_stage w \<in> {Some VERIFYING_PAIR, Some PAUSED_READY} \<longrightarrow> consistent c w)"

lemma validate_state_generation: "validate_state c v = Inr s \<Longrightarrow> 1 \<le> generation_of s"
  by (auto simp: validate_state_def generation_of_def Let_def bindE_Inr_iff split: if_splits)

lemma approved_state:
  assumes "approved (c\<lparr>pe_clock := t\<rparr>) v d w s"
  shows "validate_state c (PDict s) = Inr s"
    and "\<exists>current. validate_state c (read_json (w_state w) PNone) = Inr current \<and> generation_of s = generation_of current + 1"
proof -
  obtain current target where a: "validate_state c (read_json (w_state w) PNone) = Inr current"
      "build_state (c\<lparr>pe_clock := t\<rparr>) target (generation_of current + 1) ''owner-confirmed-manual-swap'' = Inr s"
    using assms by (auto simp: approved_def)
  have "1 \<le> generation_of current + 1" using validate_state_generation [OF a(1)] by simp
  from build_state_valid [OF a(2) this] a(1)
  show "validate_state c (PDict s) = Inr s"
    and "\<exists>current. validate_state c (read_json (w_state w) PNone) = Inr current \<and> generation_of s = generation_of current + 1"
    by auto
qed

lemma step_ready_ok:
  assumes "ready_ok c w"
  shows "ready_ok c (pair_step c op w)"
proof (cases rule: step_cases [of w c op])
  case (quiet S)
  then have "pair_files (pair_step c op w) = pair_files w"
    "disk_stage (pair_step c op w) \<in> {Some VERIFYING_PAIR, Some PAUSED_READY} \<Longrightarrow> disk_stage (pair_step c op w) = disk_stage w"
    by (auto simp: confined_def)
  then show ?thesis using assms by (auto simp: ready_ok_def consistent_def)
next
  case ready
  then have "pair_files (pair_step c op w) = pair_files w" by (simp add: confined_def)
  then show ?thesis using assms ready(2) by (auto simp: ready_ok_def consistent_def)
next
  case (applied v d)
  then obtain s where "approved (c\<lparr>pe_clock := fst op\<rparr>) v d w s" "pair_files (pair_step c op w) = published s"
    by (auto simp: complete_returned_def confined_def)
  then show ?thesis using approved_state(1) by (auto simp: ready_ok_def consistent_def)
next
  case (failed v d)
  show ?thesis
  proof (cases "disk_stage (pair_step c op w) = disk_stage w")
    case True
    have "pair_files (pair_step c op w) = pair_files w"
      if "disk_stage (pair_step c op w) \<in> {Some VERIFYING_PAIR, Some PAUSED_READY}"
      using failed(2) that True by (auto simp: complete_raised_def confined_def kept_or_published_def approved_def)
    then show ?thesis using assms True by (auto simp: ready_ok_def consistent_def)
  next
    case False
    then show ?thesis using failed(2) by (auto simp: complete_raised_def confined_def complete_stages_def ready_ok_def)
  qed
qed

end
