(* ===== verification/Pair_Guarantees.thy ===== *)
theory Pair_Guarantees
  imports Pair_Switch
begin

text \<open>
  What the pair switch guarantees: a switch whose requests are granted goes through, the
  authoritative pair changes only after two flatness checks, verified pairs are published
  consistently, interrupted switches stay interrupted, and start-up refuses inconsistent
  files.
\<close>

subsection \<open>A switch that goes through\<close>

lemma wp_switch_state_ok:
  assumes "w_writes w = []" "validate_state c (read_json (w_state w) PNone) = Inr active"
    and "case t of None \<Rightarrow> True | Some q \<Rightarrow> q \<noteq> [] \<and> canon c q = Inr q"
    and "Q (switch_value c st t detail ev active)
      (w\<lparr>w_switch := Json (PDict (switch_value c st t detail ev active)), w_audit := st # w_audit w\<rparr>)"
  shows "wp (switch_state c st t detail ev) Q E w"
  using assms
  by (auto simp: switch_state_def wp_load as_state_error_def wp_lift Let_def wp_def [of "put_file _"] put_file_def
      write_file_def split: option.splits)

lemma wp_publish_ok:
  assumes "w_writes w = []"
    and "Q () (w\<lparr>w_pairlist := Json (expected_pairlist s), w_config := Json (expected_overlay s), w_state := Json (PDict s)\<rparr>)"
  shows "wp (publish s) Q E w"
  using assms by (simp add: publish_def wp_def [of "put_file _"] put_file_def write_file_def)

lemma wp_load_ok:
  "validate_state c (read_json (w_state w) PNone) = Inr s \<Longrightarrow> Q s w \<Longrightarrow> wp (load c) Q E w"
  by (simp add: wp_load as_state_error_def)

lemma wp_publish_checked_ok:
  assumes "w_writes w = []" "validate_state c (PDict s) = Inr s" "keys_distinct (PDict s)"
    and "Q () (w\<lparr>w_pairlist := Json (expected_pairlist s), w_config := Json (expected_overlay s), w_state := Json (PDict s)\<rparr>)"
  shows "wp (publish_checked c s) Q E w"
  unfolding publish_checked_def
  using assms same_refl [OF assms(3)]
  by (intro wp_bindI wp_publish_ok wp_load_ok [where s = s]) (simp_all add: read_json_def del: same.simps)

lemma map_of_alist_put_same: "get (alist_put k v d) k = v" "j \<noteq> k \<Longrightarrow> get (alist_put k v d) j = get d j"
  by (simp_all add: get_def get_or_def map_of_alist_put)

lemma read_switch_value:
  assumes "canon c q = Inr q" "get active ''pair'' = get a ''pair'' \<or> st \<in> {VERIFYING_PAIR, PAUSED_READY, ACTIVE}"
  shows "\<exists>s. read_status c active (PDict (switch_value c' st (Some q) detail ev a)) = Inr s
    \<and> s_stage s = st \<and> s_target s = Some q \<and> evidence_of (s_value s) = Inr ev"
proof -
  define d where "d = switch_value c' st (Some q) detail ev a"
  have f: "get d ''schema_version'' = PInt 1" "get_or d ''stage'' (PStr []) = PStr (stage_name st)"
    "get d ''target_pair'' = PStr q" "get d ''active_pair'' = get a ''pair''" "get d ''evidence'' = PDict ev"
    by (simp_all add: d_def switch_value_def get_def get_or_Cons target_value_def)
  have e: "get (override d [(''stage'', x1), (''target_pair'', x2), (''current_active_pair'', x3),
      (''current_generation'', x4), (''current_pair_config_hash'', x5)]) ''evidence'' = PDict ev" for x1 x2 x3 x4 x5
    by (simp add: override_def map_of_alist_put_same f)
  have g: "\<not> (get a ''pair'' \<noteq> get active ''pair'' \<and> st \<notin> {VERIFYING_PAIR, PAUSED_READY, ACTIVE})"
    using assms(2) by auto
  show ?thesis
    unfolding d_def [symmetric] read_status_def
    by (simp add: f assms(1) g Let_def evidence_of_def e del: insert_iff)
qed

definition switch_is :: "stage \<Rightarrow> string \<Rightarrow> pydict \<Rightarrow> world \<Rightarrow> bool" where
  "switch_is st q a w \<longleftrightarrow>
     (\<exists>c detail ev. w_switch w = Json (PDict (switch_value c st (Some q) detail ev a)))"

lemma switch_is_written [simp]:
  "switch_is st q a (w\<lparr>w_switch := Json (PDict (switch_value c st (Some q) detail ev a)), w_audit := x\<rparr>)"
  by (auto simp: switch_is_def)

lemma switch_is_status:
  assumes "switch_is st q a w" "canon c q = Inr q" "get active ''pair'' = get a ''pair'' \<or> st \<in> {VERIFYING_PAIR, PAUSED_READY, ACTIVE}"
  obtains s ev where "read_status c active (read_json (w_switch w) PNone) = Inr s" "s_stage s = st" "s_target s = Some q"
    "evidence_of (s_value s) = Inr ev"
  using assms read_switch_value [OF assms(2,3)] by (fastforce simp: switch_is_def read_json_def)

lemma wp_switch_status_ok:
  assumes "validate_state c (read_json (w_state w) PNone) = Inr active"
    and "read_status c active (read_json (w_switch w) PNone) = Inr s" "Q s w"
  shows "wp (switch_status c) Q E w"
  using assms by (simp add: switch_status_def wp_load wp_ask as_state_error_def)

lemma canon_nonempty: "canon c p = Inr q \<Longrightarrow> q \<noteq> [] \<and> canon c q = Inr q"
  using canonical_pair_form(1) canonical_pair_fixpoint(1) by fastforce

lemma symbol_canon: "canon c q = Inr q \<Longrightarrow> symbol_for_pair (pe_env c) q (Some (pe_allowed c)) = Inr (symbol_of q)"
  by (simp add: symbol_for_pair_def)

text \<open>An environment in which everything the switch asks for is granted.\<close>

definition granted :: "(string list \<Rightarrow> answer) \<Rightarrow> bool" where
  "granted verify \<longleftrightarrow> (\<forall>symbols. \<exists>v. verify symbols = Inr v \<and> affirmative v)"

lemma begin_ok:
  assumes w: "w_writes w = []" "validate_state c (read_json (w_state w) PNone) = Inr active"
    and st: "read_status c active (read_json (w_switch w) PNone) = Inr s" "s_stage s \<in> {ACTIVE, PAUSED_READY, BLOCKED}"
    and p: "canon c p = Inr q" "PStr q \<noteq> get active ''pair''" "menu q = Inr row" and g: "granted verify"
  shows "wp (begin_switch c (Some menu) p verify [])
    (\<lambda>_ w'. pair_files w' = pair_files w \<and> w_writes w' = [] \<and>
       switch_is WAITING_MANUAL_SWAP q active w')
    (\<lambda>_ _. False) w"
proof -
  obtain v where v: "verify [pstr (get active ''symbol''), symbol_of q] = Inr v" "affirmative v"
    using g unfolding granted_def by blast
  note q = canon_nonempty [OF p(1)]
  have sy: "wp (two_symbols c active q) Q E w \<longleftrightarrow> Q [pstr (get active ''symbol''), symbol_of q] w" for Q E and w :: world
    using symbol_canon q by (simp add: two_symbols_def wp_lift)
  show ?thesis
    unfolding begin_switch_def Let_def
    by (rule wp_bindI, rule wp_load_ok [OF w(2)]; simp add: p wp_lift registry_answer_def)
      (rule wp_switch_status_ok [OF w(2) st(1)],
       use st(2) p q in \<open>auto simp: wp_lift registry_answer_def sy v pair_files_def w
         intro!: wp_switch_state_ok [where active = active]\<close>)
qed

lemma complete_ok:
  assumes w: "w_writes w = []" "validate_state c (read_json (w_state w) PNone) = Inr active"
    and sw: "switch_is WAITING_MANUAL_SWAP q active w" "canon c q = Inr q"
    and g: "granted verify" "validate q = Inr d"
  shows "wp (complete_switch c verify validate)
    (\<lambda>r w'. pair_files w' = published (r_state r) \<and> w_writes w' = [] \<and> switch_is VERIFYING_PAIR q (r_state r) w'
       \<and> build_state c q (generation_of active + 1) ''owner-confirmed-manual-swap'' = Inr (r_state r))
    (\<lambda>_ _. False) w"
proof -
  obtain v where v: "verify [pstr (get active ''symbol''), symbol_of q] = Inr v" "affirmative v"
    using g(1) unfolding granted_def by blast
  obtain st ev where st: "read_status c active (read_json (w_switch w) PNone) = Inr st" "s_stage st = WAITING_MANUAL_SWAP"
      "s_target st = Some q" "evidence_of (s_value st) = Inr ev"
    using switch_is_status [OF sw] by blast
  note q = canon_nonempty [OF sw(2)]
  have sy: "wp (two_symbols c active q) Q E w \<longleftrightarrow> Q [pstr (get active ''symbol''), symbol_of q] w" for Q E and w :: world
    using symbol_canon q by (simp add: two_symbols_def wp_lift)
  have gen: "1 \<le> generation_of active + 1" using validate_state_generation [OF w(2)] by simp
  obtain s where s: "build_state c q (generation_of active + 1) ''owner-confirmed-manual-swap'' = Inr s"
    using q by (simp add: build_state_def symbol_for_pair_def quote_for_pair_def pair_config_hash_def Let_def)
  note valid = build_state_valid [OF s gen]
  have keys: "keys_distinct (PDict s)"
    using s q by (auto simp: build_state_def bindE_Inr_iff Let_def)
  have a: "wp (apply_switch c active q v d ev) (\<lambda>r w'. pair_files w' = published (r_state r) \<and> w_writes w' = []
        \<and> switch_is VERIFYING_PAIR q (r_state r) w'
        \<and> build_state c q (generation_of active + 1) ''owner-confirmed-manual-swap'' = Inr (r_state r)) (\<lambda>_ _. False) w'"
    if "w_writes w' = []" "w_state w' = w_state w" for w'
    unfolding apply_switch_def Let_def using that w q
    by (intro wp_bindI wp_catchI wp_switch_state_ok [where active = active])
      (auto simp: wp_lift s pair_files_def published_def read_json_def valid
        intro!: wp_publish_checked_ok [OF _ conjunct1 [OF valid] keys] wp_switch_state_ok [where active = s])
  show ?thesis
    unfolding complete_switch_def
    by (intro wp_bindI wp_switch_status_ok [OF w(2) st(1)])
      (use w q in \<open>auto simp: wp_lift st target_value_def sy recheck_def call_def asked_def v g intro!: wp_load_ok a
        wp_switch_state_ok [where active = active]\<close>)
qed

lemma verified_ok:
  assumes w: "w_writes w = []" "validate_state c (read_json (w_state w) PNone) = Inr active"
    and sw: "switch_is VERIFYING_PAIR q active w" "canon c q = Inr q" "get active ''pair'' = PStr q" "affirmative v"
  shows "wp (mark_pair_verified c v)
    (\<lambda>_ w'. pair_files w' = pair_files w \<and> w_writes w' = [] \<and> switch_is PAUSED_READY q active w') (\<lambda>_ _. False) w"
proof -
  obtain st ev where st: "read_status c active (read_json (w_switch w) PNone) = Inr st" "s_stage st = VERIFYING_PAIR"
      "s_target st = Some q" "evidence_of (s_value st) = Inr ev"
    using switch_is_status [OF sw(1,2)] by blast
  note q = canon_nonempty [OF sw(2)]
  show ?thesis
    unfolding mark_pair_verified_def
    by (intro wp_bindI wp_switch_status_ok [OF w(2) st(1)])
      (use w q sw in \<open>auto simp: wp_lift st target_value_def pair_files_def pair_text_def
        intro!: wp_load_ok wp_switch_state_ok [where active = active]\<close>)
qed

lemma resume_ok:
  assumes w: "w_writes w = []" "validate_state c (read_json (w_state w) PNone) = Inr active"
    and sw: "switch_is PAUSED_READY q active w" "canon c q = Inr q"
  shows "wp (mark_active_after_resume c)
    (\<lambda>_ w'. pair_files w' = pair_files w \<and> w_writes w' = [] \<and> disk_stage w' = Some ACTIVE) (\<lambda>_ _. False) w"
proof -
  obtain st ev where st: "read_status c active (read_json (w_switch w) PNone) = Inr st" "s_stage st = PAUSED_READY"
    using switch_is_status [OF sw] by blast
  show ?thesis
    unfolding mark_active_after_resume_def require_resume_ready_def
    using stage_of_name [of ACTIVE]
    by (intro wp_bindI wp_switch_status_ok [OF w(2) st(1)])
      (use w in \<open>auto simp: st pair_files_def disk_stage_def stage_in_def read_json_def switch_value_def get_or_Cons
        intro!: wp_switch_state_ok [where active = active]\<close>)
qed

lemma read_status_clock [simp]: "read_status (c\<lparr>pe_clock := t\<rparr>) = read_status c"
  by (rule ext)+ (simp add: read_status_def cong: if_cong)

lemma wp_total: "wp m Q (\<lambda>_ _. False) w \<Longrightarrow> \<exists>x. Q x (snd (m w))"
  by (cases "m w"; cases "fst (m w)") (auto simp: wp_def)

lemma same_state: "pair_files w' = pair_files w \<Longrightarrow> w_state w' = w_state w"
  by (simp add: pair_files_def)

definition may_begin :: "pair_env \<Rightarrow> world \<Rightarrow> pydict \<Rightarrow> bool" where
  "may_begin c w active \<longleftrightarrow> w_writes w = [] \<and> validate_state c (read_json (w_state w) PNone) = Inr active \<and>
     (\<exists>s. read_status c active (read_json (w_switch w) PNone) = Inr s \<and> s_stage s \<in> {ACTIVE, PAUSED_READY, BLOCKED})"

definition eligible_target :: "pair_env \<Rightarrow> (string \<Rightarrow> registry_exn + pydict) \<Rightarrow> string \<Rightarrow> pydict \<Rightarrow> string \<Rightarrow> bool" where
  "eligible_target c menu p active q \<longleftrightarrow> canon c p = Inr q \<and> PStr q \<noteq> get active ''pair'' \<and> (\<exists>row. menu q = Inr row)"

lemma begin_run:
  assumes "may_begin c w active" "eligible_target c menu p active q" "granted verify"
  shows "pair_files (pair_step c (t, Begin (Some menu) p verify []) w) = pair_files w
    \<and> w_writes (pair_step c (t, Begin (Some menu) p verify []) w) = []
    \<and> switch_is WAITING_MANUAL_SWAP q active (pair_step c (t, Begin (Some menu) p verify []) w)"
proof -
  obtain s row where a: "w_writes w = []" "validate_state c (read_json (w_state w) PNone) = Inr active"
    "read_status c active (read_json (w_switch w) PNone) = Inr s" "s_stage s \<in> {ACTIVE, PAUSED_READY, BLOCKED}"
    "canon c p = Inr q" "PStr q \<noteq> get active ''pair''" "menu q = Inr row"
    using assms(1,2) unfolding may_begin_def eligible_target_def by blast
  then show ?thesis
    using wp_total [OF begin_ok [of w "c\<lparr>pe_clock := t\<rparr>" active s p q menu row verify]] assms(3)
    by (simp add: pair_step_def)
qed

lemma complete_run:
  assumes w: "w_writes w = []" "validate_state c (read_json (w_state w) PNone) = Inr active"
    and "switch_is WAITING_MANUAL_SWAP q active w" "canon c q = Inr q" "granted verify" "validate q = Inr d"
  shows "\<exists>s. pair_files (pair_step c (t, Complete verify validate) w) = published s
    \<and> w_writes (pair_step c (t, Complete verify validate) w) = []
    \<and> switch_is VERIFYING_PAIR q s (pair_step c (t, Complete verify validate) w)
    \<and> validate_state c (PDict s) = Inr s \<and> generation_of s = generation_of active + 1 \<and> get s ''pair'' = PStr q"
proof -
  define post where "post r w' \<longleftrightarrow> pair_files w' = published (r_state r) \<and> w_writes w' = []
      \<and> switch_is VERIFYING_PAIR q (r_state r) w'
      \<and> build_state (c\<lparr>pe_clock := t\<rparr>) q (generation_of active + 1) ''owner-confirmed-manual-swap'' = Inr (r_state r)"
    for r :: result and w'
  have "wp (complete_switch (c\<lparr>pe_clock := t\<rparr>) verify validate) post (\<lambda>_ _. False) w"
    unfolding post_def using assms by (intro complete_ok) simp_all
  from wp_total [OF this] obtain r where r: "post r (pair_step c (t, Complete verify validate) w)"
    by (auto simp: pair_step_def)
  then have b: "build_state (c\<lparr>pe_clock := t\<rparr>) q (generation_of active + 1) ''owner-confirmed-manual-swap'' = Inr (r_state r)"
    by (simp add: post_def)
  have "validate_state c (PDict (r_state r)) = Inr (r_state r) \<and> generation_of (r_state r) = generation_of active + 1
      \<and> get (r_state r) ''pair'' = PStr q"
    using build_state_valid [OF b] validate_state_generation [OF w(2)] assms(4) by auto
  then show ?thesis using r unfolding post_def by blast
qed

definition whole_switch where
  "whole_switch menu p verify validate v t1 t2 t3 t4 =
     [(t1, Begin (Some menu) p verify []), (t2, Complete verify validate), (t3, Verified v), (t4 :: string, Resume)]"

lemma whole_switch_run:
  assumes b: "may_begin c w active" "eligible_target c menu p active q" "granted verify"
    and g: "validate q = Inr d" "affirmative v"
  shows "\<exists>s. disk_stage (pair_run c (whole_switch menu p verify validate v t1 t2 t3 t4) w) = Some ACTIVE
    \<and> pair_files (pair_run c (whole_switch menu p verify validate v t1 t2 t3 t4) w) = published s
    \<and> validate_state c (PDict s) = Inr s \<and> get s ''pair'' = PStr q \<and> generation_of s = generation_of active + 1"
proof -
  have q: "canon c q = Inr q" and w: "validate_state c (read_json (w_state w) PNone) = Inr active"
    using b canon_nonempty by (auto simp: may_begin_def eligible_target_def)
  define w1 where "w1 = pair_step c (t1, Begin (Some menu) p verify []) w"
  note 1 = begin_run [OF b, of t1, folded w1_def]
  have f1: "validate_state c (read_json (w_state w1) PNone) = Inr active" using 1 w by (simp add: pair_files_def)
  define w2 where "w2 = pair_step c (t2, Complete verify validate) w1"
  obtain s where 2: "pair_files w2 = published s" "w_writes w2 = []" "switch_is VERIFYING_PAIR q s w2"
      and s: "validate_state c (PDict s) = Inr s" "generation_of s = generation_of active + 1" "get s ''pair'' = PStr q"
    using complete_run [where w = w1 and c = c and active = active and q = q and verify = verify
        and validate = validate and d = d and t = t2] 1 f1 q b(3) g(1) unfolding w2_def by blast
  have f2: "validate_state c (read_json (w_state w2) PNone) = Inr s"
    using 2(1) s(1) by (simp add: pair_files_def published_def read_json_def)
  define w3 where "w3 = pair_step c (t3, Verified v) w2"
  have 3: "pair_files w3 = published s \<and> w_writes w3 = [] \<and> switch_is PAUSED_READY q s w3"
    using wp_total [OF verified_ok [of w2 "c\<lparr>pe_clock := t3\<rparr>" s q v]] 2 s f2 q g(2)
    by (auto simp: pair_step_def w3_def)
  have f3: "validate_state c (read_json (w_state w3) PNone) = Inr s"
    using 3 s(1) by (simp add: pair_files_def published_def read_json_def)
  define w4 where "w4 = pair_step c (t4, Resume) w3"
  have "pair_files w4 = published s \<and> disk_stage w4 = Some ACTIVE"
    using wp_total [OF resume_ok [of w3 "c\<lparr>pe_clock := t4\<rparr>" s q]] 3 f3 q
    by (auto simp: pair_step_def w4_def)
  moreover have "pair_run c (whole_switch menu p verify validate v t1 t2 t3 t4) w = w4"
    by (simp add: pair_run_def whole_switch_def w1_def w2_def w3_def w4_def)
  ultimately show ?thesis using s by auto
qed

lemma interrupted_unchanged:
  assumes "disk_stage w \<in> {Some PAUSING, Some RECONCILING, Some APPLYING_PAIR}"
  shows "unchanged w (pair_step c op w)"
proof -
  have "unchanged w (snd (begin_switch c' m p v h w))" for c' m p v h
    unfolding begin_switch_def Let_def
    by (rule wp_always) (intro wp_reads wp_structure; use assms in auto)
  moreover have "unchanged w (snd (complete_switch c' v d w))" for c' v d
    unfolding complete_switch_def by (rule wp_always) (intro wp_reads wp_structure; use assms in auto)
  moreover have "unchanged w (snd (mark_pair_verified c' v w))" for c' v
    unfolding mark_pair_verified_def by (rule wp_always) (intro wp_reads wp_structure; use assms in auto)
  moreover have "unchanged w (snd (mark_active_after_resume c' w))" for c'
    unfolding mark_active_after_resume_def require_resume_ready_def
    by (rule wp_always) (intro wp_reads wp_structure; use assms in auto)
  moreover have "unchanged w (w\<lparr>w_writes := ws\<rparr>)" for ws by (simp add: unchanged_def pair_files_def)
  ultimately show ?thesis by (cases "snd op") (simp_all add: pair_step_def)
qed

lemma interrupted_no_resume:
  assumes "disk_stage w \<in> {Some PAUSING, Some RECONCILING, Some APPLYING_PAIR}"
  shows "\<exists>e. fst (require_resume_ready c w) = Inl e"
proof -
  have "wp (require_resume_ready c) (\<lambda>_ _. False) (\<lambda>_ _. True) w"
    unfolding require_resume_ready_def by (intro wp_reads wp_structure) (use assms in auto)
  then show ?thesis by (auto simp: wp_def split: sum.splits prod.splits)
qed

subsection \<open>Guarantees\<close>

lemma pair_step_state:
  assumes "w_state (pair_step c op w) \<noteq> w_state w"
  shows "\<exists>verify validate s. snd op = Complete verify validate
    \<and> approved (c\<lparr>pe_clock := fst op\<rparr>) verify validate w s \<and> pair_files (pair_step c op w) = published s"
proof (cases rule: step_cases [of w c op])
  case (quiet S)
  then show ?thesis using assms by (simp add: confined_def pair_files_def)
next
  case ready
  then show ?thesis using assms by (simp add: confined_def pair_files_def)
next
  case (applied v d)
  then show ?thesis by (auto simp: complete_returned_def confined_def)
next
  case (failed v d)
  then show ?thesis
    using assms by (auto simp: complete_raised_def confined_def kept_or_published_def pair_files_def)
qed


text \<open>Whatever operations run, with whatever answers and failing writes, a pair that is verified or waits for
  its verification is published consistently: state and projections agree on one valid state.\<close>

theorem ready_pair_is_published:
  assumes "disk_stage w \<notin> {Some VERIFYING_PAIR, Some PAUSED_READY}"
    and "disk_stage (pair_run c ops w) \<in> {Some VERIFYING_PAIR, Some PAUSED_READY}"
  shows "\<exists>s. pair_files (pair_run c ops w) = published s \<and> validate_state c (PDict s) = Inr s"
proof -
  have "ready_ok c w" using assms(1) by (simp add: ready_ok_def)
  then have "ready_ok c (pair_run c ops w)"
    unfolding pair_run_def by (induction ops arbitrary: w) (simp_all add: step_ready_ok)
  then show ?thesis using assms(2) unfolding ready_ok_def consistent_def by blast
qed

text \<open>C35: The stages a run of the controller writes, as its audit trail records them, are a path of the abstract
  switch machine from the stage on disk, and the last of them is the stage on disk afterwards.\<close>

theorem stages_follow_machine:
  "(w_switch (pair_run c ops w) = w_switch w \<and> w_audit (pair_run c ops w) = w_audit w)
   \<or> (\<exists>s new. disk_stage w = Some s \<and> new \<noteq> [] \<and> w_audit (pair_run c ops w) = new @ w_audit w
        \<and> stage_path s (rev new) \<and> disk_stage (pair_run c ops w) = Some (hd new))"
  using run_follows [of w c ops] by (simp add: follows_def)

text \<open>The generation of the active pair never decreases, and grows whenever the authoritative file changes.\<close>

theorem generation_grows:
  assumes "validate_state c (read_json (w_state w) PNone) = Inr s"
  shows "\<exists>s'. validate_state c (read_json (w_state (pair_run c ops w)) PNone) = Inr s'
    \<and> (w_state (pair_run c ops w) = w_state w \<and> s' = s \<or> generation_of s < generation_of s')"
  using assms unfolding pair_run_def
proof (induction ops arbitrary: w s)
  case (Cons op ops)
  let ?w = "pair_step c op w"
  have "\<exists>s1. validate_state c (read_json (w_state ?w) PNone) = Inr s1
    \<and> (w_state ?w = w_state w \<and> s1 = s \<or> generation_of s < generation_of s1)"
  proof (cases "w_state ?w = w_state w")
    case False
    from pair_step_state [OF False] obtain v d s1 where a: "approved (c\<lparr>pe_clock := fst op\<rparr>) v d w s1" "pair_files ?w = published s1"
      by blast
    then show ?thesis using approved_state [OF a(1)] Cons.prems
      by (auto simp: pair_files_def published_def read_json_def)
  qed (use Cons.prems in simp)
  then obtain s1 where s1: "validate_state c (read_json (w_state ?w) PNone) = Inr s1"
    "w_state ?w = w_state w \<and> s1 = s \<or> generation_of s < generation_of s1" by blast
  from Cons.IH [OF s1(1)] s1(2) show ?case by fastforce
qed simp

text \<open>C37: A switch whose stage was interrupted stays interrupted: no operation of the controller leaves PAUSING,
  RECONCILING or APPLYING_PAIR, touches the pair files, or lets entries resume.\<close>

theorem interrupted_switch_is_stuck:
  assumes "disk_stage w \<in> {Some PAUSING, Some RECONCILING, Some APPLYING_PAIR}"
  shows "unchanged w (pair_step c op w) \<and> (\<exists>e. fst (require_resume_ready c w) = Inl e)"
  using interrupted_unchanged [OF assms] interrupted_no_resume [OF assms] by blast

text \<open>C36: A switch goes through: from a state in which a switch may begin, with an eligible new pair, affirmative
  answers and writes that succeed, selecting, confirming, verifying and resuming ends ACTIVE with the new
  pair published consistently, one generation later.\<close>

theorem switch_completes:
  assumes "may_begin c w active" "eligible_target c menu p active q" "granted verify"
    and "validate q = Inr d" "affirmative v"
  shows "\<exists>s. disk_stage (pair_run c (whole_switch menu p verify validate v t1 t2 t3 t4) w) = Some ACTIVE
    \<and> pair_files (pair_run c (whole_switch menu p verify validate v t1 t2 t3 t4) w) = published s
    \<and> validate_state c (PDict s) = Inr s \<and> get s ''pair'' = PStr q \<and> generation_of s = generation_of active + 1"
  by (rule whole_switch_run [where d = d]) (rule assms)+

subsection \<open>A concrete switch\<close>

definition demo_pair_env :: pair_env where
  "demo_pair_env = \<lparr>pe_sha = (\<lambda>t. t), pe_env = (\<lambda>_. None), pe_allowed = [], pe_clock = ''t0''\<rparr>"

definition demo_state :: pydict where
  "demo_state = (case build_state demo_pair_env ''BTC/USDC'' 1 ''bootstrap'' of Inr s \<Rightarrow> s | Inl _ \<Rightarrow> [])"

definition demo_world :: world where
  "demo_world = \<lparr>w_state = Json (PDict demo_state), w_pairlist = Json (expected_pairlist demo_state),
     w_config = Json (expected_overlay demo_state), w_switch = Missing, w_writes = [], w_audit = [], w_calls = []\<rparr>"

definition yes :: pyval where
  "yes = PDict [(''ok'', PBool True)]"

definition demo_begin :: "string \<times> pair_op" where
  "demo_begin = (''t1'', Begin (Some (\<lambda>_. Inr [])) ''BTC/FDUSD'' (\<lambda>_. Inr yes) [])"

definition demo_complete :: "string \<times> pair_op" where
  "demo_complete = (''t2'', Complete (\<lambda>_. Inr yes) (\<lambda>_. Inr yes))"

lemma demo_canon: "canon demo_pair_env ''BTC/USDC'' = Inr ''BTC/USDC''" "canon demo_pair_env ''BTC/FDUSD'' = Inr ''BTC/FDUSD''"
  by code_simp+

lemma demo_built: "build_state demo_pair_env ''BTC/USDC'' 1 ''bootstrap'' = Inr demo_state"
  unfolding demo_state_def
  by (simp add: build_state_def symbol_for_pair_def quote_for_pair_def pair_config_hash_def demo_canon Let_def)

lemma demo_valid: "validate_state demo_pair_env (PDict demo_state) = Inr demo_state" "get demo_state ''pair'' = PStr ''BTC/USDC''"
  "generation_of demo_state = 1"
  using build_state_valid [OF demo_built] demo_canon by auto

lemma demo_grants: "granted (\<lambda>_. Inr yes)" "affirmative yes"
  by (simp_all add: granted_def affirmative_def yes_def get_def get_or_Cons is_true_def)

lemma demo_may_begin: "may_begin demo_pair_env demo_world demo_state"
  by (simp add: may_begin_def demo_world_def read_json_def demo_valid read_status_def)

lemma demo_target: "eligible_target demo_pair_env (\<lambda>_. Inr []) ''BTC/FDUSD'' demo_state ''BTC/FDUSD''"
  by (simp add: eligible_target_def demo_canon demo_valid)

definition demo_waiting :: world where
  "demo_waiting = pair_step demo_pair_env demo_begin demo_world"

definition demo_switched :: world where
  "demo_switched = pair_step demo_pair_env demo_complete demo_waiting"

lemma demo_waits: "pair_files demo_waiting = published demo_state" "w_writes demo_waiting = []"
  "switch_is WAITING_MANUAL_SWAP ''BTC/FDUSD'' demo_state demo_waiting"
  using begin_run [OF demo_may_begin demo_target demo_grants(1), of "''t1''"]
  by (simp_all add: demo_waiting_def demo_begin_def) (simp add: pair_files_def demo_world_def published_def)

lemma demo_switches: "\<exists>s. pair_files demo_switched = published s \<and> switch_is VERIFYING_PAIR ''BTC/FDUSD'' s demo_switched
   \<and> get s ''pair'' = PStr ''BTC/FDUSD'' \<and> generation_of s = 2"
  using complete_run [OF demo_waits(2) _ demo_waits(3) demo_canon(2) demo_grants(1), of "\<lambda>_. Inr yes" yes "''t2''"] demo_valid demo_waits(1)
  by (auto simp: demo_switched_def demo_complete_def pair_files_def published_def read_json_def)

lemma demo_changes: "w_state demo_switched \<noteq> w_state demo_waiting"
  using demo_switches demo_waits(1) demo_valid(2) by (auto simp: pair_files_def published_def)

lemma switch_is_disk: "switch_is st q a w \<Longrightarrow> disk_stage w = Some st"
  by (auto simp: switch_is_def disk_stage_def stage_in_def read_json_def switch_value_def get_or_Cons)


lemma ready_pair_is_published_witness:
  "\<exists>s. pair_files demo_switched = published s \<and> validate_state demo_pair_env (PDict s) = Inr s"
proof -
  have "disk_stage demo_world = Some ACTIVE"
    by (simp add: demo_world_def disk_stage_def stage_in_def read_json_def)
  moreover have "disk_stage (pair_run demo_pair_env [demo_begin, demo_complete] demo_world) = Some VERIFYING_PAIR"
    using demo_switches switch_is_disk by (auto simp: pair_run_def demo_switched_def [symmetric] demo_waiting_def [symmetric])
  ultimately show ?thesis
    using ready_pair_is_published [of demo_world demo_pair_env "[demo_begin, demo_complete]"]
    by (simp add: pair_run_def demo_switched_def [symmetric] demo_waiting_def [symmetric])
qed

lemma generation_grows_witness:
  "\<exists>s'. validate_state demo_pair_env (read_json (w_state demo_switched) PNone) = Inr s' \<and> 1 < generation_of s'"
proof -
  have "validate_state demo_pair_env (read_json (w_state demo_waiting) PNone) = Inr demo_state"
    using demo_waits(1) demo_valid by (simp add: pair_files_def published_def read_json_def)
  from generation_grows [OF this, of "[demo_complete]"] demo_changes demo_valid(3) show ?thesis
    by (auto simp: pair_run_def demo_switched_def [symmetric])
qed

lemma interrupted_switch_is_stuck_witness:
  "\<exists>e. fst (require_resume_ready demo_pair_env
      (demo_world\<lparr>w_switch := Json (PDict (switch_value demo_pair_env APPLYING_PAIR (Some ''BTC/FDUSD'') [] [] demo_state))\<rparr>)) = Inl e"
proof -
  let ?w = "demo_world\<lparr>w_switch := Json (PDict (switch_value demo_pair_env APPLYING_PAIR (Some ''BTC/FDUSD'') [] [] demo_state))\<rparr>"
  have "switch_is APPLYING_PAIR ''BTC/FDUSD'' demo_state ?w" by (auto simp: switch_is_def)
  then have "disk_stage ?w \<in> {Some PAUSING, Some RECONCILING, Some APPLYING_PAIR}" by (simp add: switch_is_disk)
  from interrupted_switch_is_stuck [OF this] show ?thesis by blast
qed

lemma switch_completes_witness:
  "\<exists>s. pair_files (pair_run demo_pair_env (whole_switch (\<lambda>_. Inr []) ''BTC/FDUSD'' (\<lambda>_. Inr yes) (\<lambda>_. Inr yes) yes
      ''1'' ''2'' ''3'' ''4'') demo_world) = published s \<and> get s ''pair'' = PStr ''BTC/FDUSD'' \<and> generation_of s = 2"
  using switch_completes [OF demo_may_begin demo_target demo_grants(1) _ demo_grants(2), of "\<lambda>_. Inr yes"] demo_valid(3) by fastforce

subsection \<open>Bootstrap and reselection\<close>

definition bootstrapped :: "pair_env \<Rightarrow> string \<Rightarrow> world \<Rightarrow> pydict \<Rightarrow> world \<Rightarrow> bool" where
  "bootstrapped c p w s w' \<longleftrightarrow> validate_state c (read_json (w_state w') PNone) = Inr s
    \<and> same (expected_pairlist s) (read_json (w_pairlist w') PNone) \<and> same (expected_overlay s) (read_json (w_config w') PNone)
    \<and> (w' = w \<or> pair_files w = (Missing, Missing, Missing) \<and> generation_of s = 1
        \<and> (\<exists>q. canon c p = Inr q \<and> get s ''pair'' = PStr q))"

lemma expected_same: "build_state c p g src = Inr s \<Longrightarrow> same (expected_pairlist s) (expected_pairlist s)"
  "build_state c p g src = Inr s \<Longrightarrow> same (expected_overlay s) (expected_overlay s)"
  by (auto simp: build_state_def bindE_Inr_iff Let_def expected_pairlist_def expected_overlay_def get_def get_or_Cons
      intro!: same_refl)

lemma wp_bootstrap: "wp (bootstrap c p) (\<lambda>s w'. bootstrapped c p w s w') (\<lambda>_ _. True) w"
proof -
  have fresh: "bootstrapped c p w s w'"
    if "build_state c p 1 ''bootstrap'' = Inr s" "pair_files w' = published s" "pair_files w = (Missing, Missing, Missing)" for s w'
    using that build_state_valid [OF that(1)] expected_same [OF that(1)]
    by (auto simp: bootstrapped_def pair_files_def published_def read_json_def simp del: same.simps)
  show ?thesis
    unfolding bootstrap_def
    apply (intro wp_bindI wp_getI wp_ifI wp_raiseI wp_loadI wp_liftI wp_publishI wp_returnI TrueI)
     apply (auto simp: bootstrapped_def simp del: same.simps)[1]
    by (rule fresh) (auto simp: pair_files_def file_exists_def)
qed

text \<open>At start-up the controller refuses a partial or inconsistent set of files: the state it returns is
  valid and both Freqtrade projections equal the ones it prescribes, either as found, untouched, or as just
  published for the configured pair at generation 1.\<close>

theorem bootstrap_is_consistent:
  assumes "bootstrap c p w = (Inr s, w')"
  shows "validate_state c (read_json (w_state w') PNone) = Inr s
    \<and> same (expected_pairlist s) (read_json (w_pairlist w') PNone) \<and> same (expected_overlay s) (read_json (w_config w') PNone)
    \<and> (w' = w \<or> pair_files w = (Missing, Missing, Missing) \<and> generation_of s = 1
        \<and> (\<exists>q. canon c p = Inr q \<and> get s ''pair'' = PStr q))"
  using wp_Inr [OF wp_bootstrap assms] by (simp only: bootstrapped_def)

lemma bootstrap_is_consistent_witness:
  "same (expected_pairlist demo_state) (read_json (w_pairlist demo_world) PNone)"
proof -
  have "bootstrap demo_pair_env ''BTC/USDC'' demo_world = (Inr demo_state, demo_world)"
    using expected_same [OF demo_built]
    by (simp add: bootstrap_def eff_eval load_def demo_world_def read_json_def demo_valid as_state_error_def file_exists_def
        del: same.simps)
  from bootstrap_is_consistent [OF this] show ?thesis by blast
qed

text \<open>
  Selecting the pair that is already active clears a blocked switch without comparing the
  projections with the authoritative state, whatever an interrupted publication left in them.
\<close>

theorem reselection_clears_block:
  assumes "may_begin c w active" "canon c p = Inr q" "PStr q = get active ''pair''"
  shows "disk_stage (pair_step c (t, Begin menu p verify hash) w) = Some ACTIVE
    \<and> pair_files (pair_step c (t, Begin menu p verify hash) w) = pair_files w
    \<and> (\<exists>st. fst (require_resume_ready c (pair_step c (t, Begin menu p verify hash) w)) = Inr st)"
proof -
  let ?c = "c\<lparr>pe_clock := t\<rparr>"
  obtain s where w: "w_writes w = []" "validate_state c (read_json (w_state w) PNone) = Inr active"
    and s: "read_status c active (read_json (w_switch w) PNone) = Inr s" "s_stage s \<in> {ACTIVE, PAUSED_READY, BLOCKED}"
    using assms(1) unfolding may_begin_def by blast
  have st: "\<exists>s. read_status c active (PDict (switch_value ?c ACTIVE None detail [] active)) = Inr s \<and> s_stage s = ACTIVE" for detail
    using stage_of_name [of ACTIVE]
    by (simp add: read_status_def switch_value_def get_def get_or_Cons target_value_def)
  then have st': "wp (switch_status ?c) Q E (w\<lparr>w_switch := Json (PDict (switch_value ?c ACTIVE None detail [] active)), w_audit := a\<rparr>)"
    if "\<And>s'. Q s' (w\<lparr>w_switch := Json (PDict (switch_value ?c ACTIVE None detail [] active)), w_audit := a\<rparr>)" for Q E detail a
    using that w(2) by (fastforce simp: read_json_def intro: wp_switch_status_ok [where active = active])
  have "wp (begin_switch ?c menu p verify hash) (\<lambda>_ w'. pair_files w' = pair_files w \<and>
      w_switch w' = Json (PDict (switch_value ?c ACTIVE None (q @ '' is already active'') [] active))) (\<lambda>_ _. False) w"
    unfolding begin_switch_def
    by (intro wp_bindI wp_load_ok [where s = active] wp_switch_status_ok [where active = active and s = s])
      (use w s assms(2,3) in \<open>auto simp: wp_lift pair_files_def intro!: wp_load_ok wp_switch_status_ok [where active = active and s = s]
        wp_switch_state_ok [where active = active] st'\<close>)
  from wp_total [OF this] have f: "pair_files (pair_step c (t, Begin menu p verify hash) w) = pair_files w"
    "w_switch (pair_step c (t, Begin menu p verify hash) w) = Json (PDict (switch_value ?c ACTIVE None (q @ '' is already active'') [] active))"
    by (auto simp: pair_step_def)
  define w' where "w' = pair_step c (t, Begin menu p verify hash) w"
  have "validate_state c (read_json (w_state w') PNone) = Inr active" using f w(2) by (simp add: w'_def pair_files_def)
  moreover obtain s' where "read_status c active (read_json (w_switch w') PNone) = Inr s'" "s_stage s' = ACTIVE"
    using st f by (auto simp: w'_def read_json_def)
  ultimately have "wp (require_resume_ready c) (\<lambda>_ _. True) (\<lambda>_ _. False) w'"
    unfolding require_resume_ready_def by (intro wp_bindI wp_switch_status_ok) auto
  then have "\<exists>st. fst (require_resume_ready c w') = Inr st" by (auto simp: wp_def split: sum.splits prod.splits)
  moreover have "disk_stage w' = Some ACTIVE"
    using f(2) stage_of_name [of ACTIVE]
    by (simp add: w'_def disk_stage_def stage_in_def read_json_def switch_value_def get_or_Cons)
  ultimately show ?thesis using f(1) by (simp add: w'_def)
qed

end
