(* ===== verification/Envelope.thy ===== *)
theory Envelope
  imports Models Json_File
begin

text \<open>
  Signed messages between the containers, \<open>services/common/envelope.py\<close>. HMAC-SHA256 is
  a parameter, a function from a key and a text to the hexadecimal digest; the theorems
  hold of every such function unless they say what they ask of it. Clock readings are the
  numbers Python's floats denote.
\<close>

datatype envelope_error =
    UnknownPurpose | KeyMissing | KeyTooShort | SigningKeyEmpty | ReleaseUnavailable | TtlNotInteger
  | CreatedNotFinite | TtlOutOfRange | NotAnObject | UnsupportedVersion | MissingSignature | SignatureNotAscii
  | SignatureMismatch | PurposeMismatch | UnexpectedProducer | MalformedTimestamps | TimestampsNotFinite
  | NegativeSkew | ExpiresBeforeCreated | WindowTooLong | CreatedInFuture | EnvelopeExpired
  | ReleaseMismatch | PayloadNotObject | EnvelopeNotJson

definition envelope_version :: int where
  "envelope_version = 1"

definition min_key_length :: nat where
  "min_key_length = 32"

definition max_ttl_seconds :: "string \<Rightarrow> int option" where
  "max_ttl_seconds purpose = (if purpose = ''signal'' \<or> purpose = ''command'' then Some 3600 else None)"

definition key_env :: "string \<Rightarrow> string option" where
  "key_env purpose = (if purpose = ''signal'' then Some ''SIGNAL_HMAC_KEY''
     else if purpose = ''command'' then Some ''COMMAND_HMAC_KEY'' else None)"

definition canonical_text :: "pydict \<Rightarrow> string" where
  "canonical_text body = json_dumps (PDict body)"

text \<open>\<open>text.split()[0]\<close>, or the empty text where there is no word.\<close>

definition first_word :: "string \<Rightarrow> string" where
  "first_word s = takeWhile (\<lambda>c. \<not> is_space c) (dropWhile is_space s)"

text \<open>What the process is installed as: its environment and the text of \<open>RELEASE_SHA256.txt\<close>.\<close>

record installation =
  in_env :: environ
  in_release_file :: "string option"

definition env_text :: "environ \<Rightarrow> string \<Rightarrow> string" where
  "env_text env name = strip (case env name of None \<Rightarrow> [] | Some s \<Rightarrow> s)"

definition installed_release_hash :: "installation \<Rightarrow> string" where
  "installed_release_hash i =
     (let explicit = env_text (in_env i) ''ENVELOPE_RELEASE_HASH'' in
      if explicit \<noteq> [] then explicit
      else case in_release_file i of None \<Rightarrow> [] | Some t \<Rightarrow> first_word t)"

definition load_key :: "installation \<Rightarrow> string \<Rightarrow> envelope_error + string" where
  "load_key i purpose =
     (case key_env purpose of None \<Rightarrow> Inl UnknownPurpose
      | Some name \<Rightarrow> (let value = env_text (in_env i) name in
          if value = [] then Inl KeyMissing
          else if length value < min_key_length then Inl KeyTooShort else Inr value))"

text \<open>The key argument, or the key of the bus where it is \<open>None\<close>.\<close>

definition key_or_load :: "installation \<Rightarrow> string \<Rightarrow> string option \<Rightarrow> envelope_error + string" where
  "key_or_load i purpose key = (case key of None \<Rightarrow> load_key i purpose | Some k \<Rightarrow> Inr k)"

subsection \<open>Signing\<close>

definition envelope_body :: "string \<Rightarrow> string \<Rightarrow> string \<Rightarrow> dec \<Rightarrow> int \<Rightarrow> string \<Rightarrow> pydict \<Rightarrow> pydict" where
  "envelope_body producer purpose nonce created ttl release payload =
     [(''envelope_version'', PInt envelope_version), (''producer'', PStr producer), (''purpose'', PStr purpose),
      (''nonce'', PStr nonce), (''created_at'', PFloat (Fin created)),
      (''expires_at'', PFloat (Fin (dadd_raw created (of_int_dec ttl)))),
      (''release_hash'', PStr release), (''payload'', PDict payload)]"

definition sign_envelope ::
  "(string \<Rightarrow> string \<Rightarrow> string) \<Rightarrow> installation \<Rightarrow> string \<Rightarrow> string \<Rightarrow> pydict \<Rightarrow> pyval \<Rightarrow> string option \<Rightarrow>
   string \<Rightarrow> pydec \<Rightarrow> envelope_error + pydict" where
  "sign_envelope hmac i producer purpose payload ttl_seconds key0 nonce now =
     bindE (key_or_load i purpose key0) (\<lambda>key.
     if key = [] then Inl SigningKeyEmpty
     else let release = installed_release_hash i in
     if release = [] then Inl ReleaseUnavailable
     else bindE (of_option TtlNotInteger (to_int ttl_seconds)) (\<lambda>ttl.
     case now of Fin created \<Rightarrow>
       bindE (of_option UnknownPurpose (max_ttl_seconds purpose)) (\<lambda>maximum.
       if ttl < 1 \<or> maximum < ttl then Inl TtlOutOfRange
       else let body = envelope_body producer purpose nonce created ttl release payload in
         Inr (body @ [(''signature'', PStr (hmac key (canonical_text body)))]))
     | _ \<Rightarrow> Inl CreatedNotFinite))"

subsection \<open>Verifying\<close>

definition ascii :: "string \<Rightarrow> bool" where
  "ascii s \<longleftrightarrow> list_all (\<lambda>c. (of_char c :: nat) < 128) s"

text \<open>\<open>hmac.compare_digest\<close> on texts raises for characters outside ASCII.\<close>

definition check_signature :: "(string \<Rightarrow> string \<Rightarrow> string) \<Rightarrow> string \<Rightarrow> pydict \<Rightarrow> envelope_error + unit" where
  "check_signature hmac key envelope =
     (let supplied = pstr (get_or envelope ''signature'' (PStr []));
          body = List.filter (\<lambda>(k, v). k \<noteq> ''signature'') envelope in
      if supplied = [] then Inl MissingSignature
      else if \<not> ascii supplied then Inl SignatureNotAscii
      else assertE (supplied = hmac key (canonical_text body)) SignatureMismatch)"

definition check_window ::
  "string \<Rightarrow> pydec \<Rightarrow> pydec \<Rightarrow> pydict \<Rightarrow> envelope_error + unit" where
  "check_window purpose now skew envelope =
     bindE (of_option MalformedTimestamps (to_float (get envelope ''created_at''))) (\<lambda>created_at.
     bindE (of_option MalformedTimestamps (to_float (get envelope ''expires_at''))) (\<lambda>expires_at.
     case (now, created_at, expires_at, skew) of
       (Fin current, Fin created, Fin expires, Fin ahead) \<Rightarrow>
         if dval ahead < 0 then Inl NegativeSkew
         else if dval expires \<le> dval created then Inl ExpiresBeforeCreated
         else if (case max_ttl_seconds purpose of None \<Rightarrow> True | Some m \<Rightarrow> of_int m < dval expires - dval created)
         then Inl WindowTooLong
         else if dval current + dval ahead < dval created then Inl CreatedInFuture
         else if dval expires < dval current then Inl EnvelopeExpired
         else Inr ()
     | _ \<Rightarrow> Inl TimestampsNotFinite))"

definition verify_envelope ::
  "(string \<Rightarrow> string \<Rightarrow> string) \<Rightarrow> installation \<Rightarrow> pyval \<Rightarrow> string \<Rightarrow> string list \<Rightarrow> string option \<Rightarrow> pydec \<Rightarrow> pydec \<Rightarrow>
   envelope_error + pydict" where
  "verify_envelope hmac i envelope purpose expected_producers key0 now skew =
     bindE (key_or_load i purpose key0) (\<lambda>key.
     if \<not> is_dict envelope then Inl NotAnObject
     else let d = items envelope in
     if \<not> py_eq (get d ''envelope_version'') (PInt envelope_version) then Inl UnsupportedVersion
     else bindE (check_signature hmac key d) (\<lambda>_.
     if pstr (get d ''purpose'') \<noteq> purpose then Inl PurposeMismatch
     else if pstr (get d ''producer'') \<notin> set expected_producers then Inl UnexpectedProducer
     else bindE (check_window purpose now skew d) (\<lambda>_.
     let release = installed_release_hash i; bound = pstr (get_or d ''release_hash'' (PStr [])) in
     if release = [] \<or> bound = [] \<or> bound \<noteq> release then Inl ReleaseMismatch
     else let payload = get d ''payload'' in
       if is_dict payload then Inr (items payload) else Inl PayloadNotObject)))"

text \<open>A file whose JSON text could not be parsed is \<open>Unreadable\<close>.\<close>

definition read_verified_file ::
  "(string \<Rightarrow> string \<Rightarrow> string) \<Rightarrow> installation \<Rightarrow> json_file \<Rightarrow> string \<Rightarrow> string list \<Rightarrow> string option \<Rightarrow> pydec \<Rightarrow>
   envelope_error + pydict" where
  "read_verified_file hmac i file_content purpose expected_producers key now =
     (case file_content of Json v \<Rightarrow> verify_envelope hmac i v purpose expected_producers key now (Fin (Dec 30 0))
      | _ \<Rightarrow> Inl EnvelopeNotJson)"

subsection \<open>Accepted envelopes\<close>

text \<open>The instant an envelope was created and the one it expires at.\<close>

definition instant :: "pydict \<Rightarrow> string \<Rightarrow> rat option" where
  "instant d k = (case to_float (get d k) of Some (Fin x) \<Rightarrow> Some (dval x) | _ \<Rightarrow> None)"

lemma max_ttl: "max_ttl_seconds purpose = Some m \<Longrightarrow> m = 3600 \<and> purpose \<in> {''signal'', ''command''}"
  by (simp add: max_ttl_seconds_def split: if_splits)

lemma check_window_Inr:
  assumes "check_window purpose now skew d = Inr u"
  shows "\<exists>current created expires ahead. now = Fin current \<and> skew = Fin ahead
    \<and> instant d ''created_at'' = Some created \<and> instant d ''expires_at'' = Some expires
    \<and> created < expires \<and> expires - created \<le> 3600 \<and> created \<le> dval current + dval ahead \<and> dval current \<le> expires
    \<and> purpose \<in> {''signal'', ''command''}"
proof -
  obtain c e where ce: "to_float (get d ''created_at'') = Some c" "to_float (get d ''expires_at'') = Some e"
    using assms by (auto simp: check_window_def bindE_Inr_iff)
  then show ?thesis
    using assms
    by (auto simp: check_window_def instant_def not_less dest: max_ttl
        split: pydec.splits if_splits option.splits)
qed

lemma verify_envelope_Inr:
  assumes "verify_envelope hmac i envelope purpose producers key0 now skew = Inr payload"
  shows "\<exists>d key. envelope = PDict d \<and> key_or_load i purpose key0 = Inr key
    \<and> pstr (get_or d ''signature'' (PStr [])) = hmac key (canonical_text (List.filter (\<lambda>(k, v). k \<noteq> ''signature'') d))
    \<and> pstr (get d ''purpose'') = purpose \<and> pstr (get d ''producer'') \<in> set producers
    \<and> check_window purpose now skew d = Inr ()
    \<and> installed_release_hash i \<noteq> [] \<and> pstr (get_or d ''release_hash'' (PStr [])) = installed_release_hash i
    \<and> get d ''payload'' = PDict payload"
proof -
  obtain key where key: "key_or_load i purpose key0 = Inr key"
    using assms by (auto simp: verify_envelope_def bindE_Inr_iff)
  obtain d where d: "envelope = PDict d"
    using assms key by (cases envelope) (auto simp: verify_envelope_def)
  have p: "is_dict v \<Longrightarrow> items v = payload \<Longrightarrow> v = PDict payload" for v by (cases v) auto
  show ?thesis
    using assms key d p
    by (auto simp: verify_envelope_def Let_def bindE_Inr_iff check_signature_def split: if_splits)
qed

text \<open>A digest as \<open>hexdigest\<close> writes it is a text compare\_digest accepts.\<close>

definition hex_digest :: "(string \<Rightarrow> string \<Rightarrow> string) \<Rightarrow> bool" where
  "hex_digest hmac \<longleftrightarrow> (\<forall>k m. hmac k m \<noteq> [] \<and> ascii (hmac k m))"

lemma sign_envelope_Inr:
  assumes "sign_envelope hmac i producer purpose payload ttl key0 nonce now = Inr d"
  shows "\<exists>key created n. key_or_load i purpose key0 = Inr key \<and> now = Fin created \<and> to_int ttl = Some n \<and> 1 \<le> n \<and> n \<le> 3600
    \<and> purpose \<in> {''signal'', ''command''} \<and> installed_release_hash i \<noteq> []
    \<and> d = envelope_body producer purpose nonce created n (installed_release_hash i) payload @ [(''signature'',
        PStr (hmac key (canonical_text (envelope_body producer purpose nonce created n (installed_release_hash i) payload))))]"
proof -
  obtain key n where k: "key_or_load i purpose key0 = Inr key" "to_int ttl = Some n" "installed_release_hash i \<noteq> []"
    using assms by (auto simp: sign_envelope_def bindE_Inr_iff Let_def split: if_splits)
  then show ?thesis
    using assms by (cases now) (auto simp: sign_envelope_def bindE_Inr_iff Let_def dest: max_ttl split: if_splits)
qed

lemma sign_verifies:
  assumes "sign_envelope hmac i producer purpose payload ttl key0 nonce (Fin created) = Inr d" "to_int ttl = Some n"
    and "hex_digest hmac" "producer \<in> set producers"
    and "0 \<le> dval skew" "dval created - dval skew \<le> dval t" "dval t \<le> dval created + of_int n"
  shows "verify_envelope hmac i (PDict d) purpose producers key0 (Fin t) (Fin skew) = Inr payload"
proof -
  define body where "body = envelope_body producer purpose nonce created n (installed_release_hash i) payload"
  obtain key where s: "key_or_load i purpose key0 = Inr key" "1 \<le> n" "n \<le> 3600" "purpose \<in> {''signal'', ''command''}"
      "installed_release_hash i \<noteq> []" "d = body @ [(''signature'', PStr (hmac key (canonical_text body)))]"
    using sign_envelope_Inr [OF assms(1)] assms(2) unfolding body_def by auto
  have f: "List.filter (\<lambda>(k, v). k \<noteq> ''signature'') d = body"
    by (simp add: s(6) body_def envelope_body_def)
  have g: "get_or d ''signature'' (PStr []) = PStr (hmac key (canonical_text body))"
    "get d ''envelope_version'' = PInt 1" "get d ''purpose'' = PStr purpose" "get d ''producer'' = PStr producer"
    "get d ''created_at'' = PFloat (Fin created)" "get d ''expires_at'' = PFloat (Fin (dadd_raw created (of_int_dec n)))"
    "get_or d ''release_hash'' (PStr []) = PStr (installed_release_hash i)" "get d ''payload'' = PDict payload"
    by (simp_all add: s(6) body_def envelope_body_def get_def get_or_def envelope_version_def)
  have "check_signature hmac key d = Inr ()"
    using assms(3) by (simp add: check_signature_def g f hex_digest_def)
  moreover have "check_window purpose (Fin t) (Fin skew) d = Inr ()"
    using assms(5-7) s(2-4) by (auto simp: check_window_def g max_ttl_seconds_def dval_dadd_raw dval_of_int_dec)
  ultimately show ?thesis
    using s(1,5) assms(4) by (simp add: verify_envelope_def g envelope_version_def Let_def)
qed

definition demo_install :: installation where
  "demo_install = \<lparr>in_env = (\<lambda>n. if n = ''ENVELOPE_RELEASE_HASH'' then Some ''r1''
     else if n = ''COMMAND_HMAC_KEY'' then Some ''0123456789abcdef0123456789abcdef'' else None), in_release_file = None\<rparr>"

definition demo_hmac :: "string \<Rightarrow> string \<Rightarrow> string" where
  "demo_hmac k m = ''d'' @ int_text (int (length m))"

definition demo_envelope :: pydict where
  "demo_envelope = (case sign_envelope demo_hmac demo_install ''telegram-broker'' ''command'' [(''command'', PStr ''status'')]
     (PInt 60) None ''n1'' (Fin (Dec 1000 0)) of Inr d \<Rightarrow> d | Inl _ \<Rightarrow> [])"

lemma demo_signs: "sign_envelope demo_hmac demo_install ''telegram-broker'' ''command'' [(''command'', PStr ''status'')]
     (PInt 60) None ''n1'' (Fin (Dec 1000 0)) = Inr demo_envelope"
proof -
  have "case key_or_load demo_install ''command'' None of Inr k \<Rightarrow> k \<noteq> [] | Inl _ \<Rightarrow> False" "installed_release_hash demo_install = ''r1''"
    by code_simp+
  then show ?thesis unfolding demo_envelope_def
    by (auto simp: sign_envelope_def max_ttl_seconds_def Let_def split: sum.splits)
qed

lemma demo_hex: "hex_digest demo_hmac"
proof -
  have "ascii (nat_text n)" for n
    using nat_text_digits [of n] by (auto simp: ascii_def list_all_iff is_digit_def Let_def)
  then show ?thesis by (simp add: hex_digest_def demo_hmac_def ascii_def int_text_def)
qed

lemma demo_verifies: "verify_envelope demo_hmac demo_install (PDict demo_envelope) ''command'' [''telegram-broker''] None
    (Fin (Dec 1030 0)) (Fin (Dec 30 0)) = Inr [(''command'', PStr ''status'')]"
  using sign_verifies [OF demo_signs _ demo_hex, of 60 "[''telegram-broker'']" "Dec 30 0" "Dec 1030 0"] by (simp add: dval_Dec)

subsection \<open>Guarantees\<close>

text \<open>C27: An envelope is accepted only if it carries the digest of its own body under the bus's key, names the
  bus and an expected producer, is bound to the installed release, holds an object, and the clock lies in
  its window of at most an hour.\<close>

theorem accepted_envelope_is_authentic:
  assumes "verify_envelope hmac i envelope purpose producers key0 now skew = Inr payload"
  shows "\<exists>d key created expires current ahead. envelope = PDict d \<and> key_or_load i purpose key0 = Inr key
    \<and> pstr (get_or d ''signature'' (PStr [])) = hmac key (canonical_text (List.filter (\<lambda>(k, v). k \<noteq> ''signature'') d))
    \<and> pstr (get d ''purpose'') = purpose \<and> pstr (get d ''producer'') \<in> set producers
    \<and> pstr (get_or d ''release_hash'' (PStr [])) = installed_release_hash i \<and> installed_release_hash i \<noteq> []
    \<and> get d ''payload'' = PDict payload \<and> now = Fin current \<and> skew = Fin ahead
    \<and> instant d ''created_at'' = Some created \<and> instant d ''expires_at'' = Some expires
    \<and> created - dval ahead \<le> dval current \<and> dval current \<le> expires \<and> expires - created \<le> 3600"
proof -
  obtain d key where d: "envelope = PDict d" "key_or_load i purpose key0 = Inr key"
      "pstr (get_or d ''signature'' (PStr [])) = hmac key (canonical_text (List.filter (\<lambda>(k, v). k \<noteq> ''signature'') d))"
      "pstr (get d ''purpose'') = purpose" "pstr (get d ''producer'') \<in> set producers"
      "check_window purpose now skew d = Inr ()" "installed_release_hash i \<noteq> []"
      "pstr (get_or d ''release_hash'' (PStr [])) = installed_release_hash i" "get d ''payload'' = PDict payload"
    using verify_envelope_Inr [OF assms] by blast
  obtain current created expires ahead where w: "now = Fin current" "skew = Fin ahead"
      "instant d ''created_at'' = Some created" "instant d ''expires_at'' = Some expires"
      "expires - created \<le> 3600" "created \<le> dval current + dval ahead" "dval current \<le> expires"
    using check_window_Inr [OF d(6)] by blast
  show ?thesis using d w by (intro exI [of _ d] exI [of _ key] exI [of _ created] exI [of _ expires]
      exI [of _ current] exI [of _ ahead]) (simp add: algebra_simps)
qed

lemma accepted_envelope_is_authentic_witness:
  "\<exists>d key. PDict demo_envelope = PDict d \<and> key_or_load demo_install ''command'' None = Inr key
    \<and> pstr (get_or d ''signature'' (PStr [])) = demo_hmac key (canonical_text (List.filter (\<lambda>(k, v). k \<noteq> ''signature'') d))"
  using accepted_envelope_is_authentic [OF demo_verifies] by blast

text \<open>One envelope cannot be replayed across buses or releases, nor outside a bounded window: if it is accepted
  twice, the bus and the installed release are the same and the two clock readings are at most an hour
  and the future skew apart.\<close>

theorem replay_is_bounded:
  assumes "verify_envelope hmac i envelope purpose producers key0 (Fin t) (Fin skew) = Inr payload"
    and "verify_envelope hmac' i' envelope purpose' producers' key0' (Fin t') (Fin skew) = Inr payload'"
  shows "purpose' = purpose \<and> installed_release_hash i' = installed_release_hash i \<and> payload' = payload
    \<and> \<bar>dval t' - dval t\<bar> \<le> 3600 + dval skew"
proof -
  obtain d where d: "envelope = PDict d" "pstr (get d ''purpose'') = purpose" "get d ''payload'' = PDict payload"
      "pstr (get_or d ''release_hash'' (PStr [])) = installed_release_hash i" "check_window purpose (Fin t) (Fin skew) d = Inr ()"
    using verify_envelope_Inr [OF assms(1)] by blast
  have d': "pstr (get d ''purpose'') = purpose'" "get d ''payload'' = PDict payload'"
      "pstr (get_or d ''release_hash'' (PStr [])) = installed_release_hash i'" "check_window purpose' (Fin t') (Fin skew) d = Inr ()"
    using verify_envelope_Inr [OF assms(2)] d(1) by auto
  obtain created expires where w: "instant d ''created_at'' = Some created" "instant d ''expires_at'' = Some expires"
      "expires - created \<le> 3600" "created \<le> dval t + dval skew" "dval t \<le> expires"
    using check_window_Inr [OF d(5)] by auto
  have w': "created \<le> dval t' + dval skew" "dval t' \<le> expires"
    using check_window_Inr [OF d'(4)] w by auto
  have "\<bar>dval t' - dval t\<bar> \<le> 3600 + dval skew" using w w' by linarith
  then show ?thesis using d d' by simp
qed

lemma replay_is_bounded_witness:
  "\<bar>dval (Dec 1030 0) - dval (Dec 1030 0)\<bar> \<le> 3600 + dval (Dec 30 0)
   \<and> installed_release_hash demo_install = installed_release_hash demo_install"
  using replay_is_bounded [OF demo_verifies demo_verifies] by blast

text \<open>C28: What is signed is what is read: an envelope signed for a bus verifies, under the same key and release,
  for every expected producer and at every clock reading from the skew before its creation to its expiry, and
  gives back the payload.\<close>

theorem signed_envelope_verifies:
  assumes "sign_envelope hmac i producer purpose payload ttl key0 nonce (Fin created) = Inr d" "to_int ttl = Some n"
    and "hex_digest hmac" "producer \<in> set producers"
    and "0 \<le> dval skew" "dval created - dval skew \<le> dval t" "dval t \<le> dval created + of_int n"
  shows "verify_envelope hmac i (PDict d) purpose producers key0 (Fin t) (Fin skew) = Inr payload"
  by (rule sign_verifies) (rule assms)+

lemma signed_envelope_verifies_witness:
  "verify_envelope demo_hmac demo_install (PDict demo_envelope) ''command'' [''telegram-broker''] None
     (Fin (Dec 1060 0)) (Fin (Dec 30 0)) = Inr [(''command'', PStr ''status'')]"
  using signed_envelope_verifies [OF demo_signs _ demo_hex, of 60 "[''telegram-broker'']" "Dec 30 0" "Dec 1060 0"]
  by (simp add: dval_Dec)

end
