(* ===== verification/Evidence.thy ===== *)
theory Evidence
  imports Models
begin

text \<open>
  Signed live-promotion evidence, \<open>services/common/evidence_signature.py\<close>, and the
  base64 text it carries its signature in (\<open>b64encode\<close> and \<open>b64decode(validate=True)\<close>
  of the standard library). The Ed25519 operations of the crypto package are parameters.
\<close>

subsection \<open>Base64\<close>

definition b64_alphabet :: string where
  "b64_alphabet = ''ABCDEFGHIJKLMNOPQRSTUVWXYZabcdefghijklmnopqrstuvwxyz0123456789+/''"

definition b64_char :: "nat \<Rightarrow> char" where
  "b64_char n = b64_alphabet ! n"

definition b64_val :: "char \<Rightarrow> nat option" where
  "b64_val c = map_option snd (List.find (\<lambda>(d, n). d = c) (zip b64_alphabet [0..<64]))"

abbreviation byte :: "char \<Rightarrow> nat" where
  "byte c \<equiv> of_char c"

fun b64encode :: "string \<Rightarrow> string" where
  "b64encode [] = []"
| "b64encode [a] = [b64_char (byte a div 4), b64_char (byte a mod 4 * 16), CHR ''='', CHR ''='']"
| "b64encode [a, b] = [b64_char (byte a div 4), b64_char (byte a mod 4 * 16 + byte b div 16),
     b64_char (byte b mod 16 * 4), CHR ''='']"
| "b64encode (a # b # c # rest) = b64_char (byte a div 4) # b64_char (byte a mod 4 * 16 + byte b div 16)
     # b64_char (byte b mod 16 * 4 + byte c div 64) # b64_char (byte c mod 64) # b64encode rest"

fun b64decode :: "string \<Rightarrow> string option" where
  "b64decode [] = Some []"
| "b64decode (w # x # y # z # rest) =
     (case (b64_val w, b64_val x) of
        (Some p, Some q) \<Rightarrow>
          (if rest = [] \<and> y = CHR ''='' \<and> z = CHR ''='' then Some [char_of (p * 4 + q div 16)]
           else (case b64_val y of None \<Rightarrow> None | Some r \<Rightarrow>
             if rest = [] \<and> z = CHR ''='' then Some [char_of (p * 4 + q div 16), char_of (q mod 16 * 16 + r div 4)]
             else (case (b64_val z, b64decode rest) of
                 (Some s, Some bytes) \<Rightarrow> Some (char_of (p * 4 + q div 16) # char_of (q mod 16 * 16 + r div 4)
                     # char_of (r mod 4 * 64 + s) # bytes)
               | _ \<Rightarrow> None)))
      | _ \<Rightarrow> None)"
| "b64decode _ = None"

lemma b64_val_char [simp]: "n < 64 \<Longrightarrow> b64_val (b64_char n) = Some n"
proof -
  have "list_all (\<lambda>n. b64_val (b64_char n) = Some n) [0..<64]" by code_simp
  then show "n < 64 \<Longrightarrow> b64_val (b64_char n) = Some n" by (simp add: list_all_iff)
qed

lemma b64_char_not_pad: "n < 64 \<Longrightarrow> b64_char n \<noteq> CHR ''=''"
proof -
  have "list_all (\<lambda>n. b64_char n \<noteq> CHR ''='') [0..<64]" by code_simp
  then show "n < 64 \<Longrightarrow> b64_char n \<noteq> CHR ''=''" by (simp add: list_all_iff)
qed

lemma byte_bound: "byte c < 256"
  by simp

lemma b64_joins:
  fixes a b c :: nat
  assumes "a < 256" "b < 256" "c < 256"
  shows "a div 4 < 64" "a mod 4 * 16 < 64" "a mod 4 * 16 + b div 16 < 64" "b mod 16 * 4 < 64"
    "b mod 16 * 4 + c div 64 < 64" "c mod 64 < 64"
    "a div 4 * 4 + (a mod 4 * 16) div 16 = a" "a div 4 * 4 + (a mod 4 * 16 + b div 16) div 16 = a"
    "(a mod 4 * 16 + b div 16) mod 16 * 16 + (b mod 16 * 4) div 4 = b"
    "(a mod 4 * 16 + b div 16) mod 16 * 16 + (b mod 16 * 4 + c div 64) div 4 = b"
    "(b mod 16 * 4 + c div 64) mod 4 * 64 + c mod 64 = c"
proof -
  have d: "a div 4 < 64" "b div 16 < 16" "c div 64 < 4" "a mod 4 < 4" "b mod 16 < 16" using assms by auto
  then show "a div 4 < 64" "a mod 4 * 16 < 64" "a mod 4 * 16 + b div 16 < 64" "b mod 16 * 4 < 64"
    "b mod 16 * 4 + c div 64 < 64" "c mod 64 < 64" by simp_all
  have e: "(a mod 4 * 16 + b div 16) div 16 = a mod 4" "(a mod 4 * 16 + b div 16) mod 16 = b div 16"
    "(b mod 16 * 4 + c div 64) div 4 = b mod 16" "(b mod 16 * 4 + c div 64) mod 4 = c div 64"
    using d by simp_all
  show "a div 4 * 4 + (a mod 4 * 16) div 16 = a" "a div 4 * 4 + (a mod 4 * 16 + b div 16) div 16 = a"
    "(a mod 4 * 16 + b div 16) mod 16 * 16 + (b mod 16 * 4) div 4 = b"
    "(a mod 4 * 16 + b div 16) mod 16 * 16 + (b mod 16 * 4 + c div 64) div 4 = b"
    "(b mod 16 * 4 + c div 64) mod 4 * 64 + c mod 64 = c"
    using d by (simp_all add: e)
qed

text \<open>Decoding what was encoded gives the bytes back.\<close>

lemma b64_roundtrip: "b64decode (b64encode bytes) = Some bytes"
proof (induction bytes rule: b64encode.induct)
  case (4 a b c rest)
  note j = b64_joins [of "byte a" "byte b" "byte c", OF byte_bound byte_bound byte_bound]
  have "b64encode rest \<noteq> [] \<or> b64_char (byte c mod 64) \<noteq> CHR ''=''" using b64_char_not_pad j by simp
  then show ?case using 4 j b64_char_not_pad by simp
next
  case (3 a b)
  note j = b64_joins [of "byte a" "byte b" "byte b", OF byte_bound byte_bound byte_bound]
  show ?case using j b64_char_not_pad by simp
next
  case (2 a)
  note j = b64_joins [of "byte a" "byte a" "byte a", OF byte_bound byte_bound byte_bound]
  show ?case using j by simp
qed simp

subsection \<open>Documents\<close>

datatype evidence_error =
    PayloadNotDict | PrivateKeyRequired | ValidityOutOfRange | DocumentNotDict | BadEvidenceVersion | BadAlgorithm
  | BadProducer | BadTimestamps | EvidenceNotFinite | BadMargin | BadSkew | IssuedInFuture | EvidenceExpired
  | MarginTooShort | SignatureMalformed | BadSignature | EvidencePayload | PublicKeyMissing | PublicKeyInvalid
  | PublicKeyWrong | ValidSecondsInvalid

text \<open>The crypto package: an imported key's curve and whether it holds a private part, signing, verifying.\<close>

record 'k crypto =
  import_key :: "string \<Rightarrow> 'k option"
  curve :: "'k \<Rightarrow> string"
  has_private :: "'k \<Rightarrow> bool"
  sign_bytes :: "'k \<Rightarrow> string \<Rightarrow> string"
  verify_bytes :: "'k \<Rightarrow> string \<Rightarrow> string \<Rightarrow> bool"

definition import_public_key :: "'k crypto \<Rightarrow> environ \<Rightarrow> string option \<Rightarrow> evidence_error + 'k" where
  "import_public_key cr env encoded =
     (let value = strip (case encoded of Some e \<Rightarrow> e
                    | None \<Rightarrow> (case env ''LIVE_EVIDENCE_PUBLIC_KEY'' of Some e \<Rightarrow> e | None \<Rightarrow> [])) in
      if value = [] then Inl PublicKeyMissing
      else bindE (of_option PublicKeyInvalid (b64decode value)) (\<lambda>raw.
      bindE (of_option PublicKeyInvalid (import_key cr raw)) (\<lambda>key.
      if curve cr key \<noteq> ''Ed25519'' \<or> has_private cr key then Inl PublicKeyWrong else Inr key)))"

definition evidence_body :: "string \<Rightarrow> string \<Rightarrow> dec \<Rightarrow> int \<Rightarrow> pydict \<Rightarrow> pydict" where
  "evidence_body producer nonce issued ttl payload =
     [(''evidence_version'', PInt 1), (''algorithm'', PStr ''Ed25519''), (''producer'', PStr producer),
      (''nonce'', PStr nonce), (''issued_at'', PFloat (Fin issued)),
      (''expires_at'', PFloat (Fin (dadd_raw issued (of_int_dec ttl)))), (''payload'', PDict payload)]"

definition evidence_text :: "pydict \<Rightarrow> string" where
  "evidence_text body = json_dumps (PDict body)"

definition sign_document ::
  "'k crypto \<Rightarrow> pyval \<Rightarrow> 'k \<Rightarrow> string \<Rightarrow> pyval \<Rightarrow> pydec \<Rightarrow> string \<Rightarrow> evidence_error + pydict" where
  "sign_document cr payload private_key producer valid_seconds now nonce =
     (if \<not> is_dict payload then Inl PayloadNotDict
      else if \<not> has_private cr private_key \<or> curve cr private_key \<noteq> ''Ed25519'' then Inl PrivateKeyRequired
      else bindE (of_option ValidSecondsInvalid (to_int valid_seconds)) (\<lambda>ttl.
      case now of Fin issued \<Rightarrow>
        if ttl < 300 \<or> 90 * 86400 < ttl then Inl ValidityOutOfRange
        else let body = evidence_body producer nonce issued ttl (items payload) in
          Inr (body @ [(''signature'', PStr (b64encode (sign_bytes cr private_key (evidence_text body))))])
      | _ \<Rightarrow> Inl ValidityOutOfRange))"

definition check_validity :: "dec \<Rightarrow> dec \<Rightarrow> dec \<Rightarrow> pydec \<Rightarrow> pydec \<Rightarrow> evidence_error + unit" where
  "check_validity current issued expires skew margin =
     (case margin of Fin remaining \<Rightarrow>
       if dval remaining < 0 \<or> 7 * 86400 < dval remaining then Inl BadMargin
       else (case skew of Fin ahead \<Rightarrow>
         if dval ahead < 0 then Inl BadSkew
         else if dval current + dval ahead < dval issued then Inl IssuedInFuture
         else if dval expires \<le> dval issued \<or> dval expires < dval current then Inl EvidenceExpired
         else if dval expires - dval current < dval remaining then Inl MarginTooShort
         else Inr ()
       | _ \<Rightarrow> Inl BadSkew)
     | _ \<Rightarrow> Inl BadMargin)"

definition verify_document ::
  "'k crypto \<Rightarrow> environ \<Rightarrow> pyval \<Rightarrow> string \<Rightarrow> 'k option \<Rightarrow> pydec \<Rightarrow> pydec \<Rightarrow> pydec \<Rightarrow> evidence_error + pydict" where
  "verify_document cr env document expected_producer public_key now skew margin =
     (let d = items document in
      if \<not> is_dict document then Inl DocumentNotDict
      else if \<not> py_eq (get d ''evidence_version'') (PInt 1) then Inl BadEvidenceVersion
      else if get d ''algorithm'' \<noteq> PStr ''Ed25519'' then Inl BadAlgorithm
      else if get d ''producer'' \<noteq> PStr expected_producer then Inl BadProducer
      else bindE (of_option BadTimestamps (to_float (get d ''issued_at''))) (\<lambda>issued_at.
      bindE (of_option BadTimestamps (to_float (get d ''expires_at''))) (\<lambda>expires_at.
      case (issued_at, expires_at, now) of
        (Fin issued, Fin expires, Fin current) \<Rightarrow>
          bindE (check_validity current issued expires skew margin) (\<lambda>_.
          bindE (of_option SignatureMalformed (b64decode (pstr (get_or d ''signature'' (PStr []))))) (\<lambda>signature.
          let body = List.filter (\<lambda>(k, v). k \<noteq> ''signature'') d in
          bindE (case public_key of Some k \<Rightarrow> Inr k
                 | None \<Rightarrow> (case import_public_key cr env None of Inl _ \<Rightarrow> Inl BadSignature | Inr k \<Rightarrow> Inr k)) (\<lambda>key.
          if \<not> verify_bytes cr key (evidence_text body) signature then Inl BadSignature
          else let payload = get d ''payload'' in
            if is_dict payload then Inr (items payload) else Inl EvidencePayload)))
      | _ \<Rightarrow> Inl EvidenceNotFinite)))"

subsection \<open>Guarantees\<close>

text \<open>What the documentation of Ed25519 promises: a signature made with a private key verifies under its public key.\<close>

definition key_pair :: "'k crypto \<Rightarrow> 'k \<Rightarrow> 'k \<Rightarrow> bool" where
  "key_pair cr sk pk \<longleftrightarrow> (\<forall>m. verify_bytes cr pk m (sign_bytes cr sk m))"

lemma check_validity_Inr:
  "check_validity current issued expires skew margin = Inr u \<longleftrightarrow>
     (\<exists>ahead remaining. skew = Fin ahead \<and> margin = Fin remaining \<and> 0 \<le> dval remaining \<and> dval remaining \<le> 604800
       \<and> 0 \<le> dval ahead \<and> dval issued \<le> dval current + dval ahead \<and> dval issued < dval expires
       \<and> dval current \<le> dval expires \<and> dval remaining \<le> dval expires - dval current)"
  by (auto simp: check_validity_def split: pydec.splits)

lemma sign_document_Inr:
  assumes "sign_document cr payload sk producer valid now nonce = Inr d"
  shows "\<exists>kvs ttl issued. payload = PDict kvs \<and> to_int valid = Some ttl \<and> now = Fin issued \<and> 300 \<le> ttl \<and> ttl \<le> 7776000
    \<and> has_private cr sk \<and> d = evidence_body producer nonce issued ttl kvs @ [(''signature'',
        PStr (b64encode (sign_bytes cr sk (evidence_text (evidence_body producer nonce issued ttl kvs)))))]"
proof -
  obtain kvs ttl issued where "payload = PDict kvs" "to_int valid = Some ttl" "now = Fin issued"
    using assms by (cases payload; cases now) (auto simp: sign_document_def bindE_Inr_iff split: if_splits)
  then show ?thesis
    using assms by (auto simp: sign_document_def Let_def split: if_splits)
qed

lemma evidence_verifies:
  assumes "sign_document cr (PDict payload) sk producer valid (Fin issued) nonce = Inr d" "to_int valid = Some ttl"
    and "key_pair cr sk pk"
    and "dval issued \<le> dval current + dval ahead" "0 \<le> dval ahead" "0 \<le> dval margin" "dval margin \<le> 604800"
    and "dval current + dval margin \<le> dval issued + of_int ttl"
  shows "verify_document cr env (PDict d) producer (Some pk) (Fin current) (Fin ahead) (Fin margin) = Inr payload"
proof -
  define body where "body = evidence_body producer nonce issued ttl payload"
  have s: "300 \<le> ttl" "d = body @ [(''signature'', PStr (b64encode (sign_bytes cr sk (evidence_text body))))]"
    using sign_document_Inr [OF assms(1)] assms(2) by (auto simp: body_def)
  have f: "List.filter (\<lambda>(k, v). k \<noteq> ''signature'') d = body"
    by (simp add: s(2) body_def evidence_body_def)
  have g: "get_or d ''signature'' (PStr []) = PStr (b64encode (sign_bytes cr sk (evidence_text body)))"
    "get d ''evidence_version'' = PInt 1" "get d ''algorithm'' = PStr ''Ed25519''" "get d ''producer'' = PStr producer"
    "get d ''issued_at'' = PFloat (Fin issued)" "get d ''expires_at'' = PFloat (Fin (dadd_raw issued (of_int_dec ttl)))"
    "get d ''payload'' = PDict payload"
    by (simp_all add: s(2) body_def evidence_body_def get_def get_or_def)
  have "check_validity current issued (dadd_raw issued (of_int_dec ttl)) (Fin ahead) (Fin margin) = Inr ()"
    using assms(4-8) s(1) by (simp add: check_validity_Inr dval_dadd_raw dval_of_int_dec)
  then show ?thesis
    using assms(3) by (simp add: verify_document_def g f b64_roundtrip key_pair_def Let_def)
qed

text \<open>C29: Evidence signed offline is accepted by the runtime that holds the public key: within its validity and
  margin the document verifies and gives back the payload, through its base64 text.\<close>

theorem evidence_roundtrip:
  assumes "sign_document cr (PDict payload) sk producer valid (Fin issued) nonce = Inr d" "to_int valid = Some ttl"
    and "key_pair cr sk pk"
    and "dval issued \<le> dval current + dval ahead" "0 \<le> dval ahead" "0 \<le> dval margin" "dval margin \<le> 604800"
    and "dval current + dval margin \<le> dval issued + of_int ttl"
  shows "verify_document cr env (PDict d) producer (Some pk) (Fin current) (Fin ahead) (Fin margin) = Inr payload"
  by (rule evidence_verifies [OF assms])

text \<open>A stand-in key pair: the key is its own public part and signs by appending its name.\<close>

definition demo_crypto :: "string crypto" where
  "demo_crypto = \<lparr>import_key = Some, curve = (\<lambda>_. ''Ed25519''), has_private = (\<lambda>k. k = ''sk''),
     sign_bytes = (\<lambda>k m. ''ok''), verify_bytes = (\<lambda>k m s. s = ''ok'')\<rparr>"

definition demo_document :: pydict where
  "demo_document = (case sign_document demo_crypto (PDict [(''scope'', PStr ''live'')]) ''sk'' ''certifier'' (PInt 3600)
     (Fin (Dec 1000 0)) ''n'' of Inr d \<Rightarrow> d | Inl _ \<Rightarrow> [])"

lemma demo_document_signed:
  "sign_document demo_crypto (PDict [(''scope'', PStr ''live'')]) ''sk'' ''certifier'' (PInt 3600) (Fin (Dec 1000 0)) ''n''
     = Inr demo_document"
  unfolding demo_document_def by (simp add: sign_document_def demo_crypto_def Let_def)

lemma demo_keys: "key_pair demo_crypto ''sk'' ''pk''"
  by (simp add: key_pair_def demo_crypto_def)

lemma evidence_roundtrip_witness:
  "verify_document demo_crypto (\<lambda>_. None) (PDict demo_document) ''certifier'' (Some ''pk'') (Fin (Dec 2000 0))
     (Fin (Dec 30 0)) (Fin (Dec 600 0)) = Inr [(''scope'', PStr ''live'')]"
  by (rule evidence_roundtrip [where ttl = 3600, OF demo_document_signed _ demo_keys]) (simp_all add: dval_Dec)


lemma demo_document_verifies:
  "verify_document demo_crypto (\<lambda>_. None) (PDict demo_document) ''certifier'' (Some ''pk'') (Fin (Dec 2000 0))
     (Fin (Dec 30 0)) (Fin (Dec 600 0)) = Inr [(''scope'', PStr ''live'')]"
  by (rule evidence_verifies [where ttl = 3600, OF demo_document_signed _ demo_keys]) (simp_all add: dval_Dec)


end
