(* ===== verification/Py_Time.thy ===== *)
theory Py_Time
  imports Py_Value
begin

text \<open>
  The parts of Python's \<open>datetime\<close> the sidecar uses: the proleptic Gregorian calendar,
  aware moments, \<open>isoformat\<close> and \<open>fromisoformat\<close> of the extended format (the basic
  and week forms Python also reads are not written by any producer and count as malformed).
  A moment is its local microsecond count since the start of year 1 and the seconds of its
  offset from UTC.
\<close>

subsection \<open>Calendar\<close>

definition leap :: "int \<Rightarrow> bool" where
  "leap y \<longleftrightarrow> y mod 4 = 0 \<and> (y mod 100 \<noteq> 0 \<or> y mod 400 = 0)"

definition days_before_year :: "int \<Rightarrow> int" where
  "days_before_year y = (let p = y - 1 in p * 365 + p div 4 - p div 100 + p div 400)"

definition month_starts :: "bool \<Rightarrow> int list" where
  "month_starts l = map (\<lambda>s. if l \<and> 59 \<le> s then s + 1 else s) [0, 31, 59, 90, 120, 151, 181, 212, 243, 273, 304, 334, 365]"

definition year_days :: "int \<Rightarrow> int" where
  "year_days y = (if leap y then 366 else 365)"

text \<open>\<open>date(y, m, d).toordinal()\<close> and \<open>date.fromordinal(n)\<close>.\<close>

definition valid_date :: "int \<Rightarrow> int \<Rightarrow> int \<Rightarrow> bool" where
  "valid_date y m d \<longleftrightarrow> 1 \<le> y \<and> y \<le> 9999 \<and> 1 \<le> m \<and> m \<le> 12 \<and> 1 \<le> d
     \<and> d \<le> month_starts (leap y) ! nat m - month_starts (leap y) ! nat (m - 1)"

definition to_ordinal :: "int \<Rightarrow> int \<Rightarrow> int \<Rightarrow> int" where
  "to_ordinal y m d = days_before_year y + month_starts (leap y) ! nat (m - 1) + d"

definition year_of_day :: "int \<Rightarrow> int \<times> int" where
  "year_of_day n =
     (let n400 = n div 146097; r = n mod 146097; n100 = r div 36524; r = r mod 36524;
          n4 = r div 1461; r = r mod 1461; n1 = r div 365; r = r mod 365;
          y = n400 * 400 + 1 + n100 * 100 + n4 * 4 + n1 in
      if n1 = 4 \<or> n100 = 4 then (y - 1, 365) else (y, r))"

definition month_of_day :: "bool \<Rightarrow> int \<Rightarrow> nat" where
  "month_of_day l r = length (List.filter (\<lambda>s. s \<le> r) (tl (month_starts l)))"

definition of_ordinal :: "int \<Rightarrow> int \<times> int \<times> int" where
  "of_ordinal n = (let (y, r) = year_of_day (n - 1); m = month_of_day (leap y) r in
     (y, int m + 1, r - month_starts (leap y) ! m + 1))"

lemma div_mod_unique: "(x :: int) = q * k + r \<Longrightarrow> 0 \<le> r \<Longrightarrow> r < k \<Longrightarrow> x div k = q \<and> x mod k = r"
  by simp

text \<open>A year as a number of whole cycles of 400, 100, 4 and 1 years.\<close>

lemma year_cycles:
  obtains a b c d where "y - 1 = 400 * a + 100 * b + 4 * c + (d :: int)" "0 \<le> b" "b \<le> 3" "0 \<le> c" "c \<le> 24" "0 \<le> d" "d \<le> 3"
proof
  define p q r where "p = y - 1" and "q = p mod 400" and "r = q mod 100"
  have q: "0 \<le> q" "q < 400" and r: "0 \<le> r" "r < 100" by (simp_all add: q_def r_def)
  have "p = 400 * (p div 400) + q" "q = 100 * (q div 100) + r" "r = 4 * (r div 4) + r mod 4"
    by (simp_all add: q_def r_def)
  then show "y - 1 = 400 * (p div 400) + 100 * (q div 100) + 4 * (r div 4) + r mod 4" by (simp add: p_def)
  show "0 \<le> q div 100" "q div 100 \<le> 3" "0 \<le> r div 4" "r div 4 \<le> 24" "0 \<le> r mod 4" "r mod 4 \<le> 3"
    using q r by auto
qed

lemma mod_zero_top: "0 < x \<Longrightarrow> x \<le> k \<Longrightarrow> x mod k = 0 \<longleftrightarrow> x = k" for x k :: int
  by (cases "x = k") auto

lemma cycles_days:
  assumes y: "y - 1 = 400 * a + 100 * b + 4 * c + (d :: int)" "0 \<le> b" "b \<le> 3" "0 \<le> c" "c \<le> 24" "0 \<le> d" "d \<le> 3"
  shows "days_before_year y = 146097 * a + 36524 * b + 1461 * c + 365 * d"
    and "leap y \<longleftrightarrow> d = 3 \<and> (c \<noteq> 24 \<or> b = 3)"
proof -
  have q: "(y - 1) div 4 = 100 * a + 25 * b + c" "(y - 1) div 100 = 4 * a + b" "(y - 1) div 400 = a"
    using y by linarith+
  then show "days_before_year y = 146097 * a + 36524 * b + 1461 * c + 365 * d"
    using y(1) by (simp add: days_before_year_def Let_def)
  have e: "y = 400 * a + 100 * b + 4 * c + d + 1" using y(1) by simp
  have "y = 4 * (100 * a + 25 * b + c) + (d + 1)" "y = 100 * (4 * a + b) + (4 * c + d + 1)"
    "y = 400 * a + (100 * b + 4 * c + d + 1)" using e by simp_all
  then have "y mod 4 = (d + 1) mod 4" "y mod 100 = (4 * c + d + 1) mod 100" "y mod 400 = (100 * b + 4 * c + d + 1) mod 400"
    by (metis mod_mult_self4)+
  moreover have "(d + 1) mod 4 = 0 \<longleftrightarrow> d = 3" using y(6,7) mod_zero_top [of "d + 1" 4] by auto
  moreover have "(4 * c + d + 1) mod 100 = 0 \<longleftrightarrow> 4 * c + d + 1 = 100"
    by (rule mod_zero_top) (use y(4-7) in auto)
  moreover have "4 * c + d + 1 = 100 \<longleftrightarrow> c = 24 \<and> d = 3" using y(4-7) by presburger
  moreover have "(100 * b + 4 * c + d + 1) mod 400 = 0 \<longleftrightarrow> 100 * b + 4 * c + d + 1 = 400"
    by (rule mod_zero_top) (use y(2-7) in auto)
  moreover have "100 * b + 4 * c + d + 1 = 400 \<longleftrightarrow> b = 3 \<and> c = 24 \<and> d = 3" using y(2-7) by presburger
  ultimately show "leap y \<longleftrightarrow> d = 3 \<and> (c \<noteq> 24 \<or> b = 3)" unfolding leap_def by auto
qed

lemma year_of_day_inverse:
  assumes "0 \<le> r" "r < year_days y"
  shows "year_of_day (days_before_year y + r) = (y, r)"
proof -
  obtain a b c d where y: "y - 1 = 400 * a + 100 * b + 4 * c + (d :: int)" "0 \<le> b" "b \<le> 3" "0 \<le> c" "c \<le> 24" "0 \<le> d" "d \<le> 3"
    by (rule year_cycles)
  note days = cycles_days [OF y]
  have yy: "y = a * 400 + 1 + b * 100 + c * 4 + d" using y(1) by simp
  define n where "n = days_before_year y + r"
  show ?thesis
  proof (cases "r < 365")
    case True
    have 1: "n div 146097 = a \<and> n mod 146097 = 36524 * b + 1461 * c + 365 * d + r"
      by (rule div_mod_unique) (use y assms days True in \<open>simp_all add: n_def\<close>)
    have 2: "(36524 * b + 1461 * c + 365 * d + r) div 36524 = b \<and> (36524 * b + 1461 * c + 365 * d + r) mod 36524
        = 1461 * c + 365 * d + r"
      by (rule div_mod_unique) (use y assms days True in \<open>simp_all add: n_def\<close>)
    have 3: "(1461 * c + 365 * d + r) div 1461 = c \<and> (1461 * c + 365 * d + r) mod 1461 = 365 * d + r"
      by (rule div_mod_unique) (use y assms days True in \<open>simp_all add: n_def\<close>)
    have 4: "(365 * d + r) div 365 = d \<and> (365 * d + r) mod 365 = r"
      by (rule div_mod_unique) (use y assms days True in \<open>simp_all add: n_def\<close>)
    show ?thesis
      using 1 2 3 4 y yy unfolding n_def [symmetric] year_of_day_def Let_def by simp
  next
    case False
    then have r: "r = 365" and l: "d = 3" "c \<noteq> 24 \<or> b = 3"
      using assms(2) days(2) by (auto simp: year_days_def split: if_splits)
    have 1: "n div 146097 = a \<and> n mod 146097 = 36524 * b + 1461 * c + 1460"
      by (rule div_mod_unique) (use y assms days r l in \<open>auto simp: n_def\<close>)
    show ?thesis
    proof (cases "c = 24")
      case True
      then have "b = 3" using l by simp
      then show ?thesis using 1 True yy l r unfolding n_def [symmetric] year_of_day_def Let_def by simp
    next
      case False
      have 2: "(36524 * b + 1461 * c + 1460) div 36524 = b \<and> (36524 * b + 1461 * c + 1460) mod 36524 = 1461 * c + 1460"
        by (rule div_mod_unique) (use y False in simp_all)
      have 3: "(1461 * c + 1460) div 1461 = c \<and> (1461 * c + 1460) mod 1461 = 1460"
        by (rule div_mod_unique) (use y in simp_all)
      show ?thesis using 1 2 3 yy l r unfolding n_def [symmetric] year_of_day_def Let_def by simp
    qed
  qed
qed

text \<open>Every day number belongs to one year.\<close>

lemma day_in_year:
  obtains y r where "n = days_before_year y + r" "0 \<le> r" "r < year_days y"
proof -
  note found = that
  define a r1 b r2 c r3 d r4 where "a = n div 146097" and "r1 = n mod 146097" and "b = r1 div 36524" and "r2 = r1 mod 36524"
    and "c = r2 div 1461" and "r3 = r2 mod 1461" and "d = r3 div 365" and "r4 = r3 mod 365"
  have e: "n = 146097 * a + r1" "r1 = 36524 * b + r2" "r2 = 1461 * c + r3" "r3 = 365 * d + r4"
    by (simp_all add: a_def r1_def b_def r2_def c_def r3_def d_def r4_def)
  have bd: "0 \<le> r1" "r1 < 146097" "0 \<le> r2" "r2 < 36524" "0 \<le> r3" "r3 < 1461" "0 \<le> r4" "r4 < 365"
    by (simp_all add: r1_def r2_def r3_def r4_def)
  have q: "0 \<le> b" "b \<le> 4" "0 \<le> c" "c \<le> 24" "0 \<le> d" "d \<le> 4" using e bd by linarith+
  have key: thesis if "0 \<le> b'" "b' \<le> 3" "0 \<le> c'" "c' \<le> 24" "0 \<le> d'" "d' \<le> 3"
      "n = 146097 * a + 36524 * b' + 1461 * c' + 365 * d' + r" "0 \<le> r" "r < 365 \<or> (r = 365 \<and> d' = 3 \<and> (c' \<noteq> 24 \<or> b' = 3))"
    for b' c' d' r
  proof -
    define y where "y = 400 * a + 100 * b' + 4 * c' + d' + 1"
    then have y: "y - 1 = 400 * a + 100 * b' + 4 * c' + d'" by simp
    note c = cycles_days [OF y that(1-6)]
    show thesis by (rule found [of y r]) (use that(7-9) c in \<open>auto simp: year_days_def\<close>)
  qed
  consider "b = 4" | "b \<le> 3" "d = 4" | "b \<le> 3" "d \<le> 3" using q by linarith
  then show thesis
  proof cases
    case 1
    then have "r2 = 0" using e bd by linarith
    with 1 show thesis using e bd by (intro key [of 3 24 3 365]) simp_all
  next
    case 2
    then have "r4 = 0" using e bd by linarith
    moreover have "c \<noteq> 24 \<or> b = 3"
    proof (rule ccontr)
      assume "\<not> (c \<noteq> 24 \<or> b = 3)"
      then show False using e bd 2 by simp
    qed
    ultimately show thesis using e bd q 2 by (intro key [of b c 3 365]) simp_all
  next
    case 3
    then show thesis using e bd q by (intro key [of b c d r4]) simp_all
  qed
qed

lemma div_pred: "0 < k \<Longrightarrow> y div k = (y - 1) div k + (if y mod k = 0 then 1 else 0)" for k y :: int
proof -
  assume k: "0 < k"
  define q r where "q = y div k" and "r = y mod k"
  have e: "y = k * q + r" "0 \<le> r" "r < k" using k by (simp_all add: q_def r_def)
  have "(y - 1) div k = (if r = 0 then q - 1 else q)"
  proof (cases "r = 0")
    case True
    then have "y - 1 = (q - 1) * k + (k - 1)" using e by (simp add: algebra_simps)
    then show ?thesis using True k div_mod_unique [of "y - 1" "q - 1" k "k - 1"] by simp
  next
    case False
    then have "y - 1 = q * k + (r - 1)" using e by (simp add: algebra_simps)
    then show ?thesis using False e div_mod_unique [of "y - 1" q k "r - 1"] by simp
  qed
  then show "y div k = (y - 1) div k + (if y mod k = 0 then 1 else 0)" by (simp add: q_def r_def)
qed

lemma next_year: "days_before_year (y + 1) = days_before_year y + year_days y"
proof -
  have m: "y mod 400 = 0 \<longrightarrow> y mod 100 = 0" "y mod 100 = 0 \<longrightarrow> y mod 4 = 0"
    using dvd_trans [of 100 400 y] dvd_trans [of 4 100 y] by (simp_all add: mod_eq_0_iff_dvd)
  have rec: "days_before_year (y + 1) = days_before_year y + 365 + (if y mod 4 = 0 then 1 else 0)
      - (if y mod 100 = 0 then 1 else 0) + (if y mod 400 = 0 then 1 else 0)"
  proof -
    have shift: "y * 365 + (a + p) - (b + q) + (c + r) = (y - 1) * 365 + a - b + c + 365 + p - q + r" for a b c p q r :: int
      by (simp add: algebra_simps)
    have "days_before_year (y + 1) = y * 365 + y div 4 - y div 100 + y div 400"
      "days_before_year y = (y - 1) * 365 + (y - 1) div 4 - (y - 1) div 100 + (y - 1) div 400"
      by (simp_all only: days_before_year_def Let_def add_diff_cancel_right')
    then show ?thesis
      by (simp only: div_pred [of 4 y, OF zero_less_numeral] div_pred [of 100 y, OF zero_less_numeral]
          div_pred [of 400 y, OF zero_less_numeral]) (rule shift)
  qed
  have g: "(q \<longrightarrow> p) \<Longrightarrow> (r \<longrightarrow> q) \<Longrightarrow> (x :: int) + 365 + (if p then 1 else 0) - (if q then 1 else 0) + (if r then 1 else 0)
      = x + (if p \<and> (\<not> q \<or> r) then 366 else 365)" for p q r x
    by (cases p; cases q; cases r) simp_all
  show ?thesis
    using rec g [OF m(2) m(1), of "days_before_year y"] by (simp only: year_days_def leap_def)
qed

lemma years_mono: "y \<le> z \<Longrightarrow> days_before_year y \<le> days_before_year z"
  by (induction z rule: int_ge_induct) (auto simp: next_year year_days_def)

subsubsection \<open>Months\<close>

lemma month_starts_simps:
  "month_starts True = [0, 31, 60, 91, 121, 152, 182, 213, 244, 274, 305, 335, 366]"
  "month_starts False = [0, 31, 59, 90, 120, 151, 181, 212, 243, 273, 304, 334, 365]"
  by (simp_all add: month_starts_def)

lemma below_12: "m < 12 \<Longrightarrow> m \<in> {0, 1, 2, 3, 4, 5, 6, 7, 8, 9, 10, 11}" for m :: nat
  by (simp add: numeral_eq_Suc less_Suc_eq)

lemma month_of_day:
  assumes "m < 12" "month_starts l ! m \<le> r" "r < month_starts l ! Suc m"
  shows "month_of_day l r = m"
proof -
  have "\<forall>m \<in> {0, 1, 2, 3, 4, 5, 6, 7, 8, 9, 10, 11}. month_starts l ! m \<le> r \<and> r < month_starts l ! Suc m \<longrightarrow> month_of_day l r = m"
    by (cases l) (simp_all add: month_of_day_def month_starts_simps)
  from bspec [OF this below_12 [OF assms(1)]] assms show ?thesis by simp
qed

lemma step_between: "f 0 \<le> r \<Longrightarrow> r < f n \<Longrightarrow> \<exists>m < n. f m \<le> r \<and> r < (f (Suc m) :: int)"
proof (induction n)
  case (Suc n)
  then show ?case by (cases "r < f n") (auto intro: less_SucI)
qed simp

lemma month_exists:
  assumes "0 \<le> r" "r < year_days y"
  obtains m where "m < 12" "month_starts (leap y) ! m \<le> r" "r < month_starts (leap y) ! Suc m"
  using step_between [of "\<lambda>m. month_starts (leap y) ! m" r 12] assms
  by (cases "leap y") (auto simp: month_starts_simps year_days_def)

lemma month_lengths:
  assumes "m < 12"
  shows "0 \<le> month_starts l ! m" "month_starts l ! m < month_starts l ! Suc m"
    "month_starts l ! Suc m \<le> (if l then 366 else 365)" "month_starts l ! Suc m - month_starts l ! m \<le> 31"
proof -
  have "\<forall>m \<in> {0, 1, 2, 3, 4, 5, 6, 7, 8, 9, 10, 11}. 0 \<le> month_starts l ! m \<and> month_starts l ! m < month_starts l ! Suc m
    \<and> month_starts l ! Suc m \<le> (if l then 366 else 365) \<and> month_starts l ! Suc m - month_starts l ! m \<le> 31"
    by (cases l) (simp_all add: month_starts_simps)
  from bspec [OF this below_12 [OF assms]] show "0 \<le> month_starts l ! m" "month_starts l ! m < month_starts l ! Suc m"
    "month_starts l ! Suc m \<le> (if l then 366 else 365)" "month_starts l ! Suc m - month_starts l ! m \<le> 31" by blast+
qed

text \<open>Dates and day numbers determine each other.\<close>

lemma of_to_ordinal:
  assumes "valid_date y m d"
  shows "of_ordinal (to_ordinal y m d) = (y, m, d)"
proof -
  obtain k where k: "m = int k + 1" "k < 12"
    using assms by (intro that [of "nat (m - 1)"]) (auto simp: valid_date_def)
  define r where "r = month_starts (leap y) ! k + d - 1"
  have d: "1 \<le> d" "d \<le> month_starts (leap y) ! Suc k - month_starts (leap y) ! k"
    using assms k by (auto simp: valid_date_def nat_add_distrib)
  then have r: "month_starts (leap y) ! k \<le> r" "r < month_starts (leap y) ! Suc k" by (auto simp: r_def)
  have "0 \<le> r" "r < year_days y" using r month_lengths [OF k(2), of "leap y"] by (auto simp: year_days_def split: if_splits)
  then have "year_of_day (days_before_year y + r) = (y, r)" by (rule year_of_day_inverse)
  moreover have "to_ordinal y m d - 1 = days_before_year y + r" by (simp add: to_ordinal_def r_def k)
  ultimately show ?thesis using month_of_day [OF k(2) r] by (simp only: of_ordinal_def) (simp add: k r_def)
qed

lemma days_of_years: "days_before_year 1 = 0" "days_before_year 10000 = 3652059"
  by (simp_all add: days_before_year_def Let_def)

lemma to_of_ordinal:
  assumes "1 \<le> n" "n \<le> 3652059" and o: "of_ordinal n = (y, m, d)"
  shows "valid_date y m d" "to_ordinal y m d = n"
proof -
  obtain z r where z: "n - 1 = days_before_year z + r" "0 \<le> r" "r < year_days z" by (rule day_in_year)
  obtain k where k: "k < 12" "month_starts (leap z) ! k \<le> r" "r < month_starts (leap z) ! Suc k"
    using z(2,3) by (rule month_exists)
  have *: "y = z" "m = int k + 1" "d = r - month_starts (leap z) ! k + 1"
    using o year_of_day_inverse [OF z(2,3)] month_of_day [OF k] by (auto simp: of_ordinal_def z(1))
  show "to_ordinal y m d = n" using z(1) by (simp add: * to_ordinal_def)
  have "1 \<le> z"
  proof (rule ccontr)
    assume "\<not> 1 \<le> z"
    then have "days_before_year (z + 1) \<le> days_before_year 1" by (intro years_mono) simp
    then show False using z assms by (simp add: next_year days_of_years)
  qed
  moreover have "z \<le> 9999"
  proof (rule ccontr)
    assume "\<not> z \<le> 9999"
    then have "days_before_year 10000 \<le> days_before_year z" by (intro years_mono) simp
    then show False using z assms by (simp add: days_of_years)
  qed
  ultimately show "valid_date y m d" using k by (simp add: valid_date_def * nat_add_distrib)
qed

subsection \<open>Moments\<close>

record moment =
  mo_local :: int
  mo_offset :: int

definition day_us :: int where
  "day_us = 86400000000"

definition local_range :: "int \<Rightarrow> bool" where
  "local_range t \<longleftrightarrow> 0 \<le> t \<and> t < 3652059 * day_us"

definition mo_utc :: "moment \<Rightarrow> int" where
  "mo_utc m = mo_local m - mo_offset m * 1000000"

definition moment_ok :: "moment \<Rightarrow> bool" where
  "moment_ok m \<longleftrightarrow> local_range (mo_local m) \<and> - 86400 < mo_offset m \<and> mo_offset m < 86400"

definition utc_moment :: "int \<Rightarrow> moment" where
  "utc_moment t = \<lparr>mo_local = t, mo_offset = 0\<rparr>"

text \<open>Adding a \<open>timedelta\<close> keeps the offset and raises outside the calendar.\<close>

definition shift :: "int \<Rightarrow> moment \<Rightarrow> moment option" where
  "shift us m = (if local_range (mo_local m + us) then Some (m\<lparr>mo_local := mo_local m + us\<rparr>) else None)"

text \<open>\<open>(a - b).total_seconds()\<close> in microseconds.\<close>

definition us_between :: "moment \<Rightarrow> moment \<Rightarrow> int" where
  "us_between a b = mo_utc a - mo_utc b"

text \<open>\<open>datetime.fromtimestamp(x, timezone.utc)\<close>: rounded half to even to a microsecond.\<close>

definition round_even :: "rat \<Rightarrow> int" where
  "round_even x = (let f = \<lfloor>x\<rfloor>; d = x - of_int f in
     if d < 1 / 2 \<or> (d = 1 / 2 \<and> even f) then f else f + 1)"

definition epoch_us :: int where
  "epoch_us = 719162 * day_us"

definition from_timestamp :: "rat \<Rightarrow> moment option" where
  "from_timestamp x = (let t = epoch_us + round_even (x * 1000000) in
     if local_range t then Some (utc_moment t) else None)"

subsection \<open>Text\<close>

definition fixed :: "nat \<Rightarrow> int \<Rightarrow> string" where
  "fixed w n = pad_zeros w (nat_text (nat n))"

definition date_text :: "int \<Rightarrow> string" where
  "date_text day = (let (y, m, d) = of_ordinal (day + 1) in
     fixed 4 y @ ''-'' @ fixed 2 m @ ''-'' @ fixed 2 d)"

definition clock_text :: "int \<Rightarrow> string" where
  "clock_text s = fixed 2 (s div 3600) @ '':'' @ fixed 2 (s mod 3600 div 60) @ '':'' @ fixed 2 (s mod 60)"

definition offset_text :: "int \<Rightarrow> string" where
  "offset_text off = (let a = \<bar>off\<bar> in
     (if off < 0 then ''-'' else ''+'') @ fixed 2 (a div 3600) @ '':'' @ fixed 2 (a mod 3600 div 60)
     @ (if a mod 60 = 0 then [] else '':'' @ fixed 2 (a mod 60)))"

definition iso_text :: "moment \<Rightarrow> string" where
  "iso_text m = (let t = mo_local m; us = t mod 1000000 in
     date_text (t div day_us) @ ''T'' @ clock_text (t mod day_us div 1000000)
     @ (if us = 0 then [] else ''.'' @ fixed 6 us) @ offset_text (mo_offset m))"

text \<open>\<open>astimezone(utc).date().isoformat()\<close>; the conversion raises outside the calendar.\<close>

definition utc_date :: "moment \<Rightarrow> string option" where
  "utc_date m = (if local_range (mo_utc m) then Some (date_text (mo_utc m div day_us)) else None)"

text \<open>Reading: a number of \<open>w\<close> digits, and a character.\<close>

definition digits :: "nat \<Rightarrow> string \<Rightarrow> (int \<times> string) option" where
  "digits w s = (if w \<le> length s \<and> list_all is_digit (take w s)
     then Some (int (parse_nat (take w s)), drop w s) else None)"

definition expect :: "char \<Rightarrow> string \<Rightarrow> string option" where
  "expect c s = (case s of [] \<Rightarrow> None | x # r \<Rightarrow> if x = c then Some r else None)"

text \<open>A field that follows a colon, or none.\<close>

definition colon_field :: "string \<Rightarrow> (int \<times> string) option" where
  "colon_field s = (case expect (CHR '':'') s of None \<Rightarrow> Some (0, s) | Some r \<Rightarrow> digits 2 r)"

definition read_date :: "string \<Rightarrow> (int \<times> string) option" where
  "read_date s =
     Option.bind (digits 4 s) (\<lambda>(y, s). Option.bind (expect (CHR ''-'') s) (\<lambda>s.
     Option.bind (digits 2 s) (\<lambda>(m, s). Option.bind (expect (CHR ''-'') s) (\<lambda>s.
     Option.bind (digits 2 s) (\<lambda>(d, s).
     if valid_date y m d then Some (to_ordinal y m d - 1, s) else None)))))"

text \<open>A fraction of a second: the first six digits count.\<close>

definition read_fraction :: "string \<Rightarrow> (int \<times> string) option" where
  "read_fraction s = (case s of
       c # r \<Rightarrow> if c = CHR ''.'' \<or> c = CHR '','' then
           (let ds = takeWhile is_digit r in
            if ds = [] then None
            else Some (int (parse_nat (take 6 (ds @ ''00000''))), dropWhile is_digit r))
         else Some (0, s)
     | [] \<Rightarrow> Some (0, s))"

definition read_clock :: "string \<Rightarrow> (int \<times> string) option" where
  "read_clock s =
     Option.bind (digits 2 s) (\<lambda>(h, s). Option.bind (colon_field s) (\<lambda>(m, s1).
     Option.bind (if s1 = s then Some (0, s1) else colon_field s1) (\<lambda>(sec, s2).
     Option.bind (if s1 = s \<or> s2 = s1 then Some (0, s2) else read_fraction s2) (\<lambda>(us, s3).
     if h < 24 \<and> m < 60 \<and> sec < 60 then Some ((h * 3600 + m * 60 + sec) * 1000000 + us, s3) else None))))"

text \<open>The offset at the end of the text; \<open>None\<close> inside is a naive time.\<close>

definition read_offset :: "string \<Rightarrow> int option option" where
  "read_offset s = (case s of
       [] \<Rightarrow> Some None
     | c # r \<Rightarrow> if c = CHR ''+'' \<or> c = CHR ''-'' then
         Option.bind (digits 2 r) (\<lambda>(h, s). Option.bind (colon_field s) (\<lambda>(m, s1).
         Option.bind (if s1 = s then Some (0, s1) else colon_field s1) (\<lambda>(sec, s2).
         let off = h * 3600 + m * 60 + sec in
         if s2 = [] \<and> m < 60 \<and> sec < 60 \<and> off < 86400 then Some (Some (if c = CHR ''-'' then - off else off)) else None)))
       else None)"

text \<open>
  \<open>fromisoformat\<close>, a moment without an offset being UTC as in \<open>_dt\<close>. Any character
  may separate date and time.
\<close>

definition from_iso :: "string \<Rightarrow> moment option" where
  "from_iso s =
     Option.bind (read_date s) (\<lambda>(day, rest). case rest of
         [] \<Rightarrow> Some (utc_moment (day * day_us))
       | _ # time \<Rightarrow>
           Option.bind (read_clock time) (\<lambda>(us, s).
           Option.bind (read_offset s) (\<lambda>off.
           Some \<lparr>mo_local = day * day_us + us, mo_offset = (case off of None \<Rightarrow> 0 | Some x \<Rightarrow> x)\<rparr>)))"

subsection \<open>Round trip\<close>

lemma fixed_digits [simp]: "list_all is_digit (fixed w n)"
  by (simp add: fixed_def)

lemma length_fixed: "0 \<le> n \<Longrightarrow> n < 10 ^ w \<Longrightarrow> 0 < w \<Longrightarrow> length (fixed w n) = w"
  unfolding fixed_def by (rule length_pad_zeros) (simp_all add: nat_less_iff)

lemma digits_fixed [simp]: "0 \<le> n \<Longrightarrow> n < 10 ^ w \<Longrightarrow> 0 < w \<Longrightarrow> digits w (fixed w n @ s) = Some (n, s)"
  by (simp add: digits_def length_fixed) (simp add: fixed_def)

lemma expect_Cons [simp]: "expect c (d # s) = (if d = c then Some s else None)" "expect c [] = None"
  by (simp_all add: expect_def)

lemma colon_field_fixed [simp]: "0 \<le> n \<Longrightarrow> n < 60 \<Longrightarrow> colon_field (CHR '':'' # fixed 2 n @ s) = Some (n, s)"
  by (simp add: colon_field_def)

lemma colon_field_none: "(\<And>r. s \<noteq> CHR '':'' # r) \<Longrightarrow> colon_field s = Some (0, s)"
  by (cases s) (auto simp: colon_field_def)

lemma fixed_longer: "CHR '':'' # fixed 2 n @ s \<noteq> s" "s \<noteq> CHR '':'' # fixed 2 n @ s"
proof -
  have "length (CHR '':'' # fixed 2 n @ s) \<noteq> length s" by simp
  then show "CHR '':'' # fixed 2 n @ s \<noteq> s" "s \<noteq> CHR '':'' # fixed 2 n @ s" by metis+
qed

lemma read_date_text:
  assumes "0 \<le> day" "day < 3652059"
  shows "read_date (date_text day @ s) = Some (day, s)"
proof -
  obtain y m d where o: "of_ordinal (day + 1) = (y, m, d)" by (cases "of_ordinal (day + 1)")
  have v: "valid_date y m d" and t: "to_ordinal y m d = day + 1"
    using to_of_ordinal [OF _ _ o] assms by simp_all
  obtain k where k: "m = int k + 1" "k < 12"
    using v by (intro that [of "nat (m - 1)"]) (auto simp: valid_date_def)
  have "d \<le> 31" using v month_lengths(4) [OF k(2), of "leap y"] by (auto simp: valid_date_def k nat_add_distrib)
  then show ?thesis using v t by (auto simp: valid_date_def read_date_def date_text_def o)
qed

lemma read_fraction_none: "(\<And>r. s \<noteq> CHR ''.'' # r) \<Longrightarrow> (\<And>r. s \<noteq> CHR '','' # r) \<Longrightarrow> read_fraction s = Some (0, s)"
  by (cases s) (auto simp: read_fraction_def)

lemma read_fraction_fixed:
  assumes "0 \<le> us" "us < 1000000" and s: "s \<noteq> []" "\<not> is_digit (hd s)"
  shows "read_fraction (CHR ''.'' # fixed 6 us @ s) = Some (us, s)"
proof -
  have len: "length (fixed 6 us) = 6" by (rule length_fixed) (use assms in simp_all)
  have all: "\<forall>x \<in> set (fixed 6 us). is_digit x" using fixed_digits [of 6 us] by (simp add: list_all_iff)
  then have tw: "takeWhile is_digit (fixed 6 us @ s) = fixed 6 us" "dropWhile is_digit (fixed 6 us @ s) = s"
    using s by (cases s; simp)+
  show ?thesis using len assms(1) by (simp add: read_fraction_def tw Let_def) (auto simp: fixed_def)
qed

lemma offset_text_head: "offset_text off \<noteq> []" "hd (offset_text off) \<in> {CHR ''+'', CHR ''-''}"
  by (auto simp: offset_text_def Let_def)

lemma clock_parts: "a div 3600 * 3600 + a mod 3600 div 60 * 60 + a mod 60 = a" for a :: int
proof -
  have "a div 3600 * 3600 + (a mod 3600 div 60 * 60 + a mod 3600 mod 60) = a" by (simp only: div_mult_mod_eq)
  moreover have "a mod 3600 mod 60 = a mod 60" by (simp add: mod_mod_cancel)
  ultimately show ?thesis by simp
qed

lemma read_offset_text:
  assumes "- 86400 < off" "off < 86400"
  shows "read_offset (offset_text off) = Some (Some off)"
proof -
  define a where "a = \<bar>off\<bar>"
  have a: "0 \<le> a div 3600" "a div 3600 < 100" "0 \<le> a mod 3600 div 60" "a mod 3600 div 60 < 60" "0 \<le> a mod 60" "a mod 60 < 60"
    "0 \<le> a" "a < 86400" using assms by (auto simp: a_def)
  have e: "a div 3600 * 3600 + a mod 3600 div 60 * 60 + a mod 60 = a" by (rule clock_parts)
  define c :: char where "c = (if off < 0 then CHR ''-'' else CHR ''+'')"
  have c: "(c = CHR ''+'' \<or> c = CHR ''-'') = True" "(if c = CHR ''-'' then - a else a) = off"
    by (auto simp: c_def a_def)
  show ?thesis
  proof (cases "a mod 60 = 0")
    case True
    have t: "offset_text off = c # fixed 2 (a div 3600) @ CHR '':'' # fixed 2 (a mod 3600 div 60) @ []"
      using True by (simp add: offset_text_def a_def c_def Let_def)
    have "colon_field [] = Some (0, [])" by (simp add: colon_field_def)
    then show ?thesis using a e c True unfolding t read_offset_def by (simp add: fixed_longer del: append_Nil2)
  next
    case False
    have t: "offset_text off = c # fixed 2 (a div 3600) @ CHR '':'' # fixed 2 (a mod 3600 div 60) @ CHR '':'' # fixed 2 (a mod 60) @ []"
      using False by (simp add: offset_text_def a_def c_def Let_def)
    show ?thesis using a e c unfolding t read_offset_def by (simp add: fixed_longer del: append_Nil2)
  qed
qed

lemma read_clock_text:
  assumes "0 \<le> sec" "sec < 86400" "0 \<le> us" "us < 1000000" and s: "s \<noteq> []" "hd s \<in> {CHR ''+'', CHR ''-''}"
  shows "read_clock (clock_text sec @ (if us = 0 then [] else ''.'' @ fixed 6 us) @ s) = Some (sec * 1000000 + us, s)"
proof -
  have b: "0 \<le> sec div 3600" "sec div 3600 < 24" "sec div 3600 < 100" "0 \<le> sec mod 3600 div 60" "sec mod 3600 div 60 < 60"
    "0 \<le> sec mod 60" "sec mod 60 < 60" using assms by auto
  have e: "(sec div 3600 * 3600 + sec mod 3600 div 60 * 60 + sec mod 60) * 1000000 = sec * 1000000"
    by (simp only: clock_parts)
  obtain c r where c: "s = c # r" using s by (cases s) auto
  have f: "read_fraction ((if us = 0 then [] else ''.'' @ fixed 6 us) @ s) = Some (us, s)"
  proof (cases "us = 0")
    case True
    then show ?thesis using s c by (auto simp: read_fraction_def)
  next
    case False
    have "\<not> is_digit c" using s c by (auto simp: is_digit_def)
    then show ?thesis using False assms(3,4) c by (simp add: read_fraction_fixed)
  qed
  show ?thesis using b f e by (simp add: read_clock_def clock_text_def fixed_longer Let_def)
qed

text \<open>What \<open>isoformat\<close> writes, \<open>fromisoformat\<close> reads back.\<close>

lemma iso_roundtrip:
  assumes "moment_ok m"
  shows "from_iso (iso_text m) = Some m"
proof -
  define t where "t = mo_local m"
  have t: "0 \<le> t" "t < 3652059 * day_us" using assms by (auto simp: moment_ok_def local_range_def t_def)
  have day: "0 \<le> t div day_us" "t div day_us < 3652059"
    using t by (auto simp: day_us_def)
  have sec: "0 \<le> t mod day_us div 1000000" "t mod day_us div 1000000 < 86400" by (auto simp: day_us_def)
  have us: "0 \<le> t mod 1000000" "t mod 1000000 < 1000000" by simp_all
  have "t mod day_us div 1000000 * 1000000 + t mod day_us mod 1000000 = t mod day_us" by (rule div_mult_mod_eq)
  moreover have "t mod day_us mod 1000000 = t mod 1000000" by (simp add: day_us_def mod_mod_cancel)
  ultimately have e: "t div day_us * day_us + (t mod day_us div 1000000 * 1000000 + t mod 1000000) = t"
    by (metis div_mult_mod_eq)
  have o: "read_offset (offset_text (mo_offset m)) = Some (Some (mo_offset m))"
    by (rule read_offset_text) (use assms in \<open>simp_all add: moment_ok_def\<close>)
  show ?thesis
    using o e read_clock_text [OF sec us offset_text_head, of "mo_offset m"]
    by (simp add: from_iso_def iso_text_def Let_def t_def [symmetric] read_date_text [OF day])
qed

subsection \<open>Date texts are ordered as the days\<close>

lemma append_le: "length a = length b \<Longrightarrow> a @ s \<le> b @ t \<longleftrightarrow> a < b \<or> (a = b \<and> s \<le> t)" for a b s t :: string
  by (induction a b rule: list_induct2) auto

lemma parse_nat_Cons: "parse_nat (c # s) = digit_val c * 10 ^ length s + parse_nat s"
  using parse_nat_append [of "[c]" s] by simp

lemma digit_val_less: "is_digit c \<Longrightarrow> digit_val c < 10"
  by (auto simp: is_digit_def digit_val_def Let_def)

lemma parse_nat_bound: "list_all is_digit s \<Longrightarrow> parse_nat s < 10 ^ length s"
proof (induction s)
  case (Cons c s)
  then have "digit_val c * 10 ^ length s \<le> 9 * 10 ^ length s" using digit_val_less [of c] by (intro mult_right_mono) auto
  moreover have "parse_nat s < 10 ^ length s" using Cons by simp
  moreover have "10 ^ length (c # s) = 10 * (10 :: nat) ^ length s" by simp
  ultimately show ?case unfolding parse_nat_Cons by linarith
qed simp

lemma digit_less: "is_digit c \<Longrightarrow> is_digit d \<Longrightarrow> c < d \<longleftrightarrow> digit_val c < digit_val d"
  by (auto simp: is_digit_def digit_val_def less_char_def Let_def)

lemma parse_nat_less:
  "length a = length b \<Longrightarrow> list_all is_digit a \<Longrightarrow> list_all is_digit b \<Longrightarrow> parse_nat a < parse_nat b \<Longrightarrow> a < b"
proof (induction a b rule: list_induct2)
  case (Cons c a d b)
  have bound: "parse_nat a < 10 ^ length a" "parse_nat b < 10 ^ length a"
    using Cons.prems Cons.hyps parse_nat_bound [of a] parse_nat_bound [of b] by simp_all
  have le: "digit_val c \<le> digit_val d"
  proof (rule ccontr)
    assume "\<not> digit_val c \<le> digit_val d"
    then have "(digit_val d + 1) * 10 ^ length a \<le> digit_val c * 10 ^ length a" by (intro mult_right_mono) simp_all
    then show False using Cons.prems Cons.hyps bound by (simp add: parse_nat_Cons)
  qed
  show ?case
  proof (cases "digit_val c = digit_val d")
    case True
    then have "\<not> c < d" "\<not> d < c" using Cons.prems digit_less [of c d] digit_less [of d c] by simp_all
    then have "c = d" by simp
    then show ?thesis using Cons True by (simp add: parse_nat_Cons)
  next
    case False
    then have "c < d" using le Cons.prems digit_less [of c d] by simp
    then show ?thesis by simp
  qed
qed simp

lemma fixed_less: "0 \<le> a \<Longrightarrow> a < b \<Longrightarrow> b < 10 ^ w \<Longrightarrow> 0 < w \<Longrightarrow> fixed w a < fixed w b"
  by (rule parse_nat_less) (simp_all add: length_fixed, simp_all add: fixed_def)

lemma dates_ordered:
  assumes "valid_date y m d" "valid_date y' m' d'" "to_ordinal y m d \<le> to_ordinal y' m' d'"
  shows "y < y' \<or> y = y' \<and> (m < m' \<or> m = m' \<and> d \<le> d')"
proof (rule ccontr)
  assume n: "\<not> ?thesis"
  obtain k k' where k: "m = int k + 1" "k < 12" "m' = int k' + 1" "k' < 12"
    using assms(1,2) by (intro that [of "nat (m - 1)" "nat (m' - 1)"]) (auto simp: valid_date_def)
  let ?s = "\<lambda>y. month_starts (leap y)"
  have d: "1 \<le> d" "d \<le> ?s y ! Suc k - ?s y ! k" "1 \<le> d'" "d' \<le> ?s y' ! Suc k' - ?s y' ! k'"
    using assms(1,2) k by (auto simp: valid_date_def nat_add_distrib)
  have o: "days_before_year y + ?s y ! k + d \<le> days_before_year y' + ?s y' ! k' + d'"
    using assms(3) k by (simp add: to_ordinal_def)
  consider "y' < y" | "y = y'" "k' < k" | "y = y'" "k = k'" "d' < d" using n k by linarith
  then show False
  proof cases
    case 1
    then have "days_before_year y' + year_days y' \<le> days_before_year y"
      using years_mono [of "y' + 1" y] by (simp add: next_year)
    moreover have "?s y' ! k' + d' \<le> year_days y'" "0 \<le> ?s y ! k"
      using d month_lengths [OF k(4), of "leap y'"] month_lengths [OF k(2), of "leap y"] by (auto simp: year_days_def split: if_splits)
    ultimately show False using o d by simp
  next
    case 2
    define f where "f i = ?s y ! min i 12" for i
    have "f i \<le> f (Suc i)" for i using month_lengths(2) [of i "leap y"] by (cases "i < 12") (auto simp: f_def)
    then have "f (Suc k') \<le> f k" by (rule lift_Suc_mono_le) (use 2 in simp)
    then have "?s y ! Suc k' \<le> ?s y ! k" using 2 k by (simp add: f_def)
    then show False using o d 2 by simp
  next
    case 3
    then show False using o by simp
  qed
qed

lemma date_text_mono:
  assumes "0 \<le> a" "a \<le> b" "b < 3652059"
  shows "date_text a \<le> date_text b"
proof -
  obtain y m d y' m' d' where o: "of_ordinal (a + 1) = (y, m, d)" "of_ordinal (b + 1) = (y', m', d')"
    by (cases "of_ordinal (a + 1)"; cases "of_ordinal (b + 1)")
  have v: "valid_date y m d" "valid_date y' m' d'" "to_ordinal y m d \<le> to_ordinal y' m' d'"
    using to_of_ordinal [OF _ _ o(1)] to_of_ordinal [OF _ _ o(2)] assms by simp_all
  obtain k k' where k: "m = int k + 1" "k < 12" "m' = int k' + 1" "k' < 12"
    using v(1,2) by (intro that [of "nat (m - 1)" "nat (m' - 1)"]) (auto simp: valid_date_def)
  have "d \<le> 31" "d' \<le> 31" using v month_lengths(4) [OF k(2), of "leap y"] month_lengths(4) [OF k(4), of "leap y'"]
    by (auto simp: valid_date_def k nat_add_distrib)
  then have r: "0 \<le> y" "y < 10 ^ 4" "0 \<le> y'" "y' < 10 ^ 4" "0 \<le> m" "m < 10 ^ 2" "0 \<le> m'" "m' < 10 ^ 2"
    "0 \<le> d" "d < 10 ^ 2" "0 \<le> d'" "d' < 10 ^ 2" using v(1,2) by (auto simp: valid_date_def)
  show ?thesis
    using dates_ordered [OF v] fixed_less [of y y' 4] fixed_less [of m m' 2] fixed_less [of d d' 2] r
    by (cases "d = d'") (auto simp: date_text_def o append_le length_fixed)
qed

text \<open>Distinct days have distinct texts.\<close>

lemma date_text_inj:
  assumes "0 \<le> a" "a < 3652059" "0 \<le> b" "b < 3652059"
  shows "date_text a = date_text b \<longleftrightarrow> a = b"
proof
  assume "date_text a = date_text b"
  with read_date_text [OF assms(1,2), of "[]"] read_date_text [OF assms(3,4), of "[]"] show "a = b" by simp
qed simp

end
