(* ===== verification/Risk_Checks.thy ===== *)
theory Risk_Checks
  imports Py_Time State_Store Protection_Modes Py_Special Effects
begin

text \<open>
  The signal freshness and stop-out guard, \<open>services/execution_sidecar/risk_checks.py\<close>,
  with the authoritative store behind it. SHA-256, \<open>json.loads\<close> and the clock are
  arguments; \<open>guard_io\<close> says whether the SQLite transaction and the creation of the
  projection's folder succeed. The projection file itself is only ever written by this
  class and its write errors are ignored, so its content is not part of the state.
\<close>

datatype risk_error =
    RiskSymlink | RiskNotObject | RiskUnreadable | RiskPairsMalformed | RiskDailyMalformed | RiskPauseMalformed
  | RiskDayMalformed | RiskCounterMalformed | RiskStoreUnavailable | RiskSetting config_error | RiskFolder
  | RiskCommitFailed | RiskNoMapping | RiskBadTime | RiskArithmetic

record guard_io =
  io_commit :: bool
  io_folder :: bool

record guard_limits =
  lim_pair :: int
  lim_global :: int
  lim_cooldown :: int
  lim_age :: int
  lim_candle :: int

record guard_world =
  gw_state :: pydict
  gw_store :: store

definition setting :: "config_error + 'a \<Rightarrow> risk_error + 'a" where
  "setting r = (case r of Inl e \<Rightarrow> Inl (RiskSetting e) | Inr v \<Rightarrow> Inr v)"

definition guard_limits_of :: "environ \<Rightarrow> risk_error + guard_limits" where
  "guard_limits_of env =
     bindE (setting (env_int env ''MAX_STOPOUTS_PER_PAIR_DAY'' 3 1 100)) (\<lambda>pair.
     bindE (setting (env_int env ''MAX_STOPOUTS_GLOBAL_DAY'' 10 1 1000)) (\<lambda>global.
     bindE (setting (env_int env ''PAIR_COOLDOWN_SECONDS'' 60 0 86400)) (\<lambda>cooldown.
     bindE (setting (env_int env ''MAX_SIGNAL_AGE_SECONDS'' 180 10 3600)) (\<lambda>age.
     bindE (setting (env_int env ''MAX_CANDLE_AGE_SECONDS'' 180 10 3600)) (\<lambda>candle.
     Inr \<lparr>lim_pair = pair, lim_global = global, lim_cooldown = cooldown, lim_age = age, lim_candle = candle\<rparr>)))))"

subsection \<open>Loading\<close>

definition counter_ok :: "pyval \<Rightarrow> bool" where
  "counter_ok v = (case to_int v of None \<Rightarrow> False | Some i \<Rightarrow> 0 \<le> i)"

definition valid_day :: "pyval \<Rightarrow> risk_error + unit" where
  "valid_day value =
     (if \<not> is_dict value then Inl RiskDayMalformed
      else let counts = get_or (items value) ''pairs'' (PDict []) in
        assertE (is_dict counts \<and> counter_ok (get_or (items value) ''global_stopouts'' (PInt 0))
          \<and> list_all (\<lambda>(k, v). counter_ok v) (items counts)) RiskCounterMalformed)"

definition validate_state :: "pydict \<Rightarrow> risk_error + unit" where
  "validate_state st =
     (let pairs = get st ''pairs''; daily = get st ''daily''; pause = get st ''global_pause'' in
      if \<not> (is_dict pairs \<and> list_all (\<lambda>(k, v). is_dict v) (items pairs)) then Inl RiskPairsMalformed
      else if \<not> is_dict daily then Inl RiskDailyMalformed
      else if (case pause of PStr _ \<Rightarrow> False | _ \<Rightarrow> True) then Inl RiskPauseMalformed
      else forE (\<lambda>(day, value). valid_day value) (items daily))"

definition with_defaults :: "pydict \<Rightarrow> pydict" where
  "with_defaults st = set_default ''global_pause'' (PStr [])
     (set_default ''daily'' (PDict []) (set_default ''pairs'' (PDict []) st))"

text \<open>\<open>json.loads\<close> that must give a mapping.\<close>

definition loads_dict :: "(string \<Rightarrow> pyval option) \<Rightarrow> string \<Rightarrow> pydict option" where
  "loads_dict loads text = (case loads text of Some (PDict d) \<Rightarrow> Some d | _ \<Rightarrow> None)"

text \<open>The legacy file: its text, \<open>None\<close> where there is none.\<close>

definition legacy_state :: "(string \<Rightarrow> pyval option) \<Rightarrow> string option \<Rightarrow> risk_error + pydict" where
  "legacy_state loads file = (case file of None \<Rightarrow> Inr [] | Some text \<Rightarrow>
     bindE (of_option RiskUnreadable (loads text)) (\<lambda>v. if is_dict v then Inr (items v) else Inl RiskNotObject))"

definition load_state ::
  "(string \<Rightarrow> string) \<Rightarrow> (string \<Rightarrow> pyval option) \<Rightarrow> string option \<Rightarrow> bool \<Rightarrow> store \<Rightarrow> risk_error + pydict \<times> store" where
  "load_state sha256 loads file preexisted s =
     (if 2 \<le> st_version s then
        (case risk_guard_state sha256 (loads_dict loads) s of
           Inl _ \<Rightarrow> Inl RiskStoreUnavailable | Inr st \<Rightarrow> Inr (st, s))
      else bindE (legacy_state loads file) (\<lambda>legacy0.
        let legacy = with_defaults legacy0 in
        bindE (validate_state legacy) (\<lambda>_.
        case initialize_risk_guard_state sha256 (loads_dict loads) legacy (map_option sha256 file) (\<not> preexisted) s of
          Inl _ \<Rightarrow> Inl RiskStoreUnavailable | Inr r \<Rightarrow> Inr r)))"

definition guard_init ::
  "(string \<Rightarrow> string) \<Rightarrow> (string \<Rightarrow> pyval option) \<Rightarrow> environ \<Rightarrow> bool \<Rightarrow> bool \<Rightarrow> string option \<Rightarrow> bool \<Rightarrow> store \<Rightarrow>
   risk_error + guard_limits \<times> guard_world" where
  "guard_init sha256 loads env symlink folder_ok file preexisted s =
     (if symlink then Inl RiskSymlink
      else bindE (load_state sha256 loads file preexisted s) (\<lambda>(loaded, s').
      let st = with_defaults loaded in
      bindE (validate_state st) (\<lambda>_.
      bindE (guard_limits_of env) (\<lambda>lm.
      if folder_ok then Inr (lm, \<lparr>gw_state = st, gw_store = s'\<rparr>) else Inl RiskFolder))))"

subsection \<open>Changing the state\<close>

definition commit :: "(string \<Rightarrow> string) \<Rightarrow> guard_io \<Rightarrow> (guard_world, risk_error, unit) eff" where
  "commit sha256 io =
     bindW (guardW (io_commit io) RiskCommitFailed) (\<lambda>_.
     bindW (askW (\<lambda>w. case save_risk_guard_state sha256 (gw_state w) (gw_store w) of
         Inl _ \<Rightarrow> Inl RiskCommitFailed | Inr s \<Rightarrow> Inr s)) (\<lambda>s.
     bindW (modifyW (\<lambda>w. w\<lparr>gw_store := s\<rparr>)) (\<lambda>_. guardW (io_folder io) RiskFolder)))"

text \<open>Entries are switched off in the store and the raise goes on.\<close>

definition suspended :: "store \<Rightarrow> store" where
  "suspended s = s\<lparr>st_data := alist_put ''pause_reason'' (PStr ''risk-state-persistence-failed'')
     (alist_put ''entries_enabled'' (PBool False) (st_data s))\<rparr>"

definition save_guard :: "(string \<Rightarrow> string) \<Rightarrow> guard_io \<Rightarrow> pydict \<Rightarrow> (guard_world, risk_error, unit) eff" where
  "save_guard sha256 io prior =
     catchW (commit sha256 io) (\<lambda>e.
       bindW (modifyW (\<lambda>w. w\<lparr>gw_state := prior, gw_store := suspended (gw_store w)\<rparr>)) (\<lambda>_. raiseW e))"

definition put_state :: "string \<Rightarrow> pyval \<Rightarrow> guard_world \<Rightarrow> guard_world" where
  "put_state k v w = w\<lparr>gw_state := alist_put k v (gw_state w)\<rparr>"

definition set_global_pause :: "(string \<Rightarrow> string) \<Rightarrow> guard_io \<Rightarrow> string \<Rightarrow> (guard_world, risk_error, unit) eff" where
  "set_global_pause sha256 io reason =
     bindW (getW gw_state) (\<lambda>prior.
     bindW (modifyW (put_state ''global_pause'' (PStr reason))) (\<lambda>_. save_guard sha256 io prior))"

definition clear_global_pause :: "(string \<Rightarrow> string) \<Rightarrow> guard_io \<Rightarrow> (guard_world, risk_error, unit) eff" where
  "clear_global_pause sha256 io =
     bindW (getW gw_state) (\<lambda>prior.
     bindW (modifyW (put_state ''global_pause'' (PStr []))) (\<lambda>_. save_guard sha256 io prior))"

subsection \<open>Times\<close>

definition expand_z :: "string \<Rightarrow> string" where
  "expand_z s = concat (map (\<lambda>c. if c = CHR ''Z'' then ''+00:00'' else [c]) s)"

definition read_dt :: "pyval \<Rightarrow> moment option" where
  "read_dt v = (case v of
       PFloat (Infinite _) \<Rightarrow> None
     | PFloat NotANumber \<Rightarrow> None
     | _ \<Rightarrow> (case num_of v of
         Some x \<Rightarrow> from_timestamp (dval x / (if 10000000000 < dval x then 1000 else 1))
       | None \<Rightarrow> from_iso (expand_z (pstr v))))"

subsection \<open>Admission of a signal\<close>

text \<open>The text SQLite compares a signal identifier as.\<close>

definition token_text :: "pyval \<Rightarrow> string" where
  "token_text v = pstr (text_affinity v)"

definition pair_entry :: "guard_world \<Rightarrow> string \<Rightarrow> pydict" where
  "pair_entry w pair = items (get_or (items (get (gw_state w) ''pairs'')) pair (PDict []))"

definition day_entry :: "guard_world \<Rightarrow> string \<Rightarrow> pydict" where
  "day_entry w day = items (get_or (items (get (gw_state w) ''daily'')) day
     (PDict [(''global_stopouts'', PInt 0), (''pairs'', PDict [])]))"

definition global_count :: "guard_world \<Rightarrow> string \<Rightarrow> int option" where
  "global_count w day = to_int (get_or (day_entry w day) ''global_stopouts'' (PInt 0))"

definition pair_count :: "guard_world \<Rightarrow> string \<Rightarrow> string \<Rightarrow> int option" where
  "pair_count w day pair = to_int (get_or (items (get_or (day_entry w day) ''pairs'' (PDict []))) pair (PInt 0))"

text \<open>The refusal of a timestamp that is too old or ahead of the clock.\<close>

definition age_refusal :: "int \<Rightarrow> int \<Rightarrow> string \<Rightarrow> string \<Rightarrow> string option" where
  "age_refusal age limit stale ahead =
     (if limit * 1000000 < age then Some stale else if age < - 30000000 then Some ahead else None)"

definition stopout_refusal :: "guard_world \<Rightarrow> moment \<Rightarrow> string \<Rightarrow> moment \<Rightarrow> string option" where
  "stopout_refusal w now pair candle =
     (let ps = pair_entry w pair; last = get ps ''last_stopout_time''; until = get ps ''cooldown_until'' in
      case (if truthy last then read_dt last else Some (utc_moment 0)) of
        None \<Rightarrow> Some ''invalid stop-loss timestamp state''
      | Some exit \<Rightarrow>
          if truthy last \<and> mo_utc candle \<le> mo_utc exit then Some ''signal candle is not newer than stop-loss exit''
          else (case (if truthy until then read_dt until else Some (utc_moment 0)) of
              None \<Rightarrow> Some ''invalid cooldown state''
            | Some until_at \<Rightarrow>
                if truthy until \<and> mo_utc now < mo_utc until_at then Some ''pair cooldown active'' else None))"

definition budget_refusal :: "guard_limits \<Rightarrow> guard_world \<Rightarrow> moment \<Rightarrow> string \<Rightarrow> risk_error + string option" where
  "budget_refusal lm w now pair =
     bindE (of_option RiskBadTime (utc_date now)) (\<lambda>day.
      bindE (of_option RiskCounterMalformed (global_count w day)) (\<lambda>g.
      if lim_global lm \<le> g then Inr (Some ''global daily stop-loss guard active'')
      else bindE (of_option RiskCounterMalformed (pair_count w day pair)) (\<lambda>p.
      if lim_pair lm \<le> p then Inr (Some ''maximum stop-outs for pair reached today'') else Inr None)))"

definition candle_refusal :: "guard_limits \<Rightarrow> guard_world \<Rightarrow> moment \<Rightarrow> pydict \<Rightarrow> string \<Rightarrow> moment \<Rightarrow> string option" where
  "candle_refusal lm w now sig pair candle =
     (case age_refusal (us_between now candle) (lim_candle lm) ''stale signal candle'' ''signal candle is in the future'' of
        Some why \<Rightarrow> Some why
      | None \<Rightarrow>
          if py_eq (get (pair_entry w pair) ''signal_id'') (get_or sig ''signal_id'' (PStr [])) then Some ''duplicate signal token''
          else if py_eq (get (pair_entry w pair) ''candle_time'') (get sig ''candle_time'') then Some ''same-candle re-entry blocked''
          else stopout_refusal w now pair candle)"

definition allow ::
  "guard_limits \<Rightarrow> guard_world \<Rightarrow> moment \<Rightarrow> pydict \<Rightarrow> string \<Rightarrow> string \<Rightarrow> risk_error + bool \<times> string" where
  "allow lm w now sig active_pair state_hash =
     (let pair = get_or sig ''pair'' (PStr []); tok = get_or sig ''signal_id'' (PStr []);
          pause = get (gw_state w) ''global_pause'' in
      if truthy pause then Inr (False, ''global risk pause: '' @ pstr pause)
      else if \<not> truthy pair \<or> \<not> truthy tok then Inr (False, ''missing pair or signal token'')
      else (case read_dt (get sig ''generated_at'') of None \<Rightarrow> Inr (False, ''invalid signal time'') | Some generated \<Rightarrow>
      case age_refusal (us_between now generated) (lim_age lm) ''stale signal'' ''signal generated_at is in the future'' of
        Some why \<Rightarrow> Inr (False, why)
      | None \<Rightarrow>
      if pair \<noteq> PStr active_pair then Inr (False, ''signal pair is not the active BTC pair'')
      else if state_hash = [] \<or> get sig ''pair_state_hash'' \<noteq> PStr state_hash
      then Inr (False, ''active pair state hash mismatch'')
      else if signal_seen (token_text tok) (gw_store w) then Inr (False, ''duplicate signal token'')
      else (case read_dt (get sig ''candle_time'') of None \<Rightarrow> Inr (False, ''invalid candle timestamp'') | Some candle \<Rightarrow>
      case candle_refusal lm w now sig active_pair candle of
        Some why \<Rightarrow> Inr (False, why)
      | None \<Rightarrow> bindE (budget_refusal lm w now active_pair) (\<lambda>refusal.
          case refusal of Some why \<Rightarrow> Inr (False, why) | None \<Rightarrow> Inr (True, ''fresh'')))))"

text \<open>\<open>record\<close>: the outcome of a signal.\<close>

definition record_outcome ::
  "(string \<Rightarrow> string) \<Rightarrow> guard_io \<Rightarrow> moment \<Rightarrow> pydict \<Rightarrow> string \<Rightarrow> (guard_world, risk_error, unit) eff" where
  "record_outcome sha256 io now sig result =
     bindW (getW id) (\<lambda>w.
     let pair = pstr (get sig ''pair'');
         entry = fold (\<lambda>(k, v). alist_put k v)
           [(''signal_id'', get sig ''signal_id''), (''candle_time'', get sig ''candle_time''),
            (''result'', PStr result), (''recorded_at'', PStr (iso_text now))] (pair_entry w pair) in
     bindW (modifyW (put_state ''pairs'' (PDict (alist_put pair (PDict entry) (items (get (gw_state w) ''pairs'')))))) (\<lambda>_.
     save_guard sha256 io (gw_state w)))"

subsection \<open>Stop-outs\<close>

definition stopout_window :: int where
  "stopout_window = 14 * day_us"

definition count_stopout :: "string \<Rightarrow> pydict \<Rightarrow> pydict option" where
  "count_stopout pair daily =
     Option.bind (to_int (get_or daily ''global_stopouts'' (PInt 0))) (\<lambda>g.
     let daily = set_default ''pairs'' (PDict []) (alist_put ''global_stopouts'' (PInt (g + 1)) daily);
         pairs = items (get daily ''pairs'') in
     Option.bind (to_int (get_or pairs pair (PInt 0))) (\<lambda>p.
     Some (alist_put ''pairs'' (PDict (alist_put pair (PInt (p + 1)) pairs)) daily)))"

definition prune_days :: "moment \<Rightarrow> (guard_world, risk_error, unit) eff" where
  "prune_days oldest =
     (let cutoff = date_text (mo_local oldest div day_us) in
      modifyW (\<lambda>w. put_state ''daily''
         (PDict (List.filter (\<lambda>(k, v). cutoff \<le> k) (items (get (gw_state w) ''daily'')))) w))"

definition count_day :: "string \<Rightarrow> string \<Rightarrow> (guard_world, risk_error, unit) eff" where
  "count_day day pair =
     bindW (askW (\<lambda>w. of_option RiskCounterMalformed (count_stopout pair (day_entry w day)))) (\<lambda>counted.
     modifyW (\<lambda>w. put_state ''daily''
         (PDict (alist_put day (PDict counted) (items (get (gw_state w) ''daily'')))) w))"

definition mark_stopout :: "string \<Rightarrow> moment \<Rightarrow> moment \<Rightarrow> (guard_world, risk_error, unit) eff" where
  "mark_stopout pair now until = modifyW (\<lambda>w. put_state ''pairs'' (PDict (alist_put pair
         (PDict (alist_put ''cooldown_until'' (PStr (iso_text until))
           (alist_put ''last_stopout_time'' (PStr (iso_text now)) (pair_entry w pair))))
         (items (get (gw_state w) ''pairs'')))) w)"

definition event_moment :: "moment \<Rightarrow> pyval \<Rightarrow> moment option" where
  "event_moment clock t = (if truthy t then read_dt t else Some clock)"

definition record_stopout ::
  "(string \<Rightarrow> string) \<Rightarrow> guard_io \<Rightarrow> guard_limits \<Rightarrow> moment \<Rightarrow> string \<Rightarrow> pyval \<Rightarrow> (guard_world, risk_error, unit) eff" where
  "record_stopout sha256 io lm clock symbol event_time =
     bindW (getW gw_state) (\<lambda>prior.
     bindW (liftW (of_option RiskBadTime (event_moment clock event_time))) (\<lambda>now.
     bindW (askW (\<lambda>w. case pair_for_symbol symbol (gw_store w) of Inl _ \<Rightarrow> Inl RiskNoMapping | Inr p \<Rightarrow> Inr p)) (\<lambda>pair.
     bindW (liftW (of_option RiskBadTime (utc_date now))) (\<lambda>day.
     bindW (liftW (of_option RiskBadTime (shift (- stopout_window) now))) (\<lambda>oldest.
     bindW (prune_days oldest) (\<lambda>_.
     bindW (count_day day pair) (\<lambda>_.
     bindW (liftW (of_option RiskBadTime (shift (lim_cooldown lm * 1000000) now))) (\<lambda>until.
     bindW (mark_stopout pair now until) (\<lambda>_.
     save_guard sha256 io prior)))))))))"

text \<open>\<open>a / b\<close> of decimals with infinities and NaN; a finite value over an infinity is a zero.\<close>

fun pd_div :: "pydec \<Rightarrow> pydec \<Rightarrow> dec_error + pydec" where
  "pd_div (Fin a) (Fin b) = bindE (ddiv a b) (\<lambda>q. Inr (Fin q))"
| "pd_div NotANumber _ = Inr NotANumber"
| "pd_div _ NotANumber = Inr NotANumber"
| "pd_div (Infinite _) (Infinite _) = Inl InvalidOperation"
| "pd_div (Infinite n) (Fin b) = Inr (Infinite (n \<noteq> (coeff b < 0)))"
| "pd_div (Fin _) (Infinite _) = Inr (Fin dzero)"

definition exit_average :: "pydict \<Rightarrow> pydec option" where
  "exit_average e = (case (to_dec (por (get e ''z'') (PStr ''0'')), to_dec (por (get e ''Z'') (PStr ''0''))) of
       (Some executed, Some quote) \<Rightarrow>
         (case pd_lt (Fin dzero) executed of
            Inr True \<Rightarrow> (case pd_div quote executed of Inr a \<Rightarrow> Some a | Inl _ \<Rightarrow> None)
          | _ \<Rightarrow> None)
     | _ \<Rightarrow> None)"

definition break_even_threshold :: "environ \<Rightarrow> pydec \<Rightarrow> pydec option" where
  "break_even_threshold env entry =
     (case (env_float env ''FEE_PCT_PER_SIDE'' (Dec 1 (-1)) dzero (of_int_dec 5),
            env_float env ''BREAK_EVEN_SLIPPAGE_PCT'' (Dec 5 (-2)) dzero (of_int_dec 5)) of
        (Inr fee, Inr slip) \<Rightarrow> (case entry of
            Fin d \<Rightarrow> (case fee_adjusted_break_even d fee fee slip of Inr t \<Rightarrow> Some (Fin t) | Inl _ \<Rightarrow> None)
          | Infinite False \<Rightarrow> Some (Infinite False)
          | _ \<Rightarrow> None)
      | _ \<Rightarrow> None)"

text \<open>Whether a filled protective exit counts as a realized loss.\<close>

definition protective_loss :: "environ \<Rightarrow> store \<Rightarrow> pydict \<Rightarrow> risk_error + bool" where
  "protective_loss env s e =
     (let symbol = pstr (get_or e ''s'' (PStr [])) in
      case (exit_average e, average_entry_price_for_symbol symbol s) of
        (Some out, Inr (Some entry)) \<Rightarrow>
          (case break_even_threshold env entry of
             None \<Rightarrow> Inr True
           | Some threshold \<Rightarrow> (case pd_lt threshold out of Inl _ \<Rightarrow> Inl RiskArithmetic | Inr higher \<Rightarrow> Inr (\<not> higher)))
      | _ \<Rightarrow> Inr True)"

definition protective_sell :: "pydict \<Rightarrow> bool" where
  "protective_sell e \<longleftrightarrow> pstr (get e ''e'') = ''executionReport'' \<and> upper (pstr (get e ''S'')) = ''SELL''
     \<and> upper (pstr (get e ''X'')) = ''FILLED'' \<and> token e ''o'' \<in> {''STOP_LOSS'', ''STOP_LOSS_LIMIT''}"

definition on_exchange_event ::
  "(string \<Rightarrow> string) \<Rightarrow> guard_io \<Rightarrow> environ \<Rightarrow> guard_limits \<Rightarrow> moment \<Rightarrow> pydict \<Rightarrow> (guard_world, risk_error, unit) eff" where
  "on_exchange_event sha256 io env lm clock e =
     (if \<not> protective_sell e then returnW ()
      else bindW (askW (\<lambda>w. protective_loss env (gw_store w) e)) (\<lambda>loss.
        if loss then record_stopout sha256 io lm clock (pstr (get_or e ''s'' (PStr []))) (get e ''E'') else returnW ()))"

end
