(* ===== verification/Risk_Guarantees.thy ===== *)
theory Risk_Guarantees
  imports Risk_Checks
begin

text \<open>
  What the signal guard guarantees: a stop-out keeps its pair out until the cooldown and a
  newer candle, an admission respects the daily stop-out budget over any run of operations
  with failing commits, a failed commit switches entries off, and a restart finds the
  committed state.
\<close>

subsection \<open>Times written are read back\<close>

lemma from_timestamp_ok: "from_timestamp x = Some m \<Longrightarrow> moment_ok m"
  by (auto simp: from_timestamp_def moment_ok_def utc_moment_def Let_def split: if_splits)

lemma digits_Some: "digits w s = Some (n, r) \<Longrightarrow> 0 \<le> n"
  by (auto simp: digits_def split: if_splits)

lemma colon_field_Some: "colon_field s = Some (n, r) \<Longrightarrow> 0 \<le> n"
  by (auto simp: colon_field_def split: option.splits dest: digits_Some)

lemma read_fraction_Some: "read_fraction s = Some (us, r) \<Longrightarrow> 0 \<le> us \<and> us < 1000000"
proof -
  have "parse_nat (take 6 (ds @ ''00000'')) < 1000000" if "list_all is_digit ds" for ds
  proof -
    have d: "list_all is_digit (take 6 (ds @ ''00000''))"
    proof -
      have "list_all is_digit (ds @ ''00000'')" using that by (simp add: is_digit_def)
      then show ?thesis unfolding list_all_iff by (meson in_set_takeD)
    qed
    have "parse_nat (take 6 (ds @ ''00000'')) < 10 ^ length (take 6 (ds @ ''00000''))"
      by (rule parse_nat_bound [OF d])
    also have "(10 :: nat) ^ length (take 6 (ds @ ''00000'')) \<le> 10 ^ 6" by (rule power_increasing) simp_all
    finally show ?thesis by simp
  qed
  moreover have "list_all is_digit (takeWhile is_digit r)" for r by (auto simp: list_all_iff dest: set_takeWhileD)
  ultimately show "read_fraction s = Some (us, r) \<Longrightarrow> 0 \<le> us \<and> us < 1000000"
    by (auto simp: read_fraction_def Let_def split: list.splits if_splits)
qed

lemma read_clock_Some: "read_clock s = Some (us, r) \<Longrightarrow> 0 \<le> us \<and> us < day_us"
  by (auto simp: read_clock_def day_us_def bind_eq_Some_conv split: if_splits
      dest!: digits_Some colon_field_Some read_fraction_Some)

lemma read_offset_Some: "read_offset s = Some (Some off) \<Longrightarrow> - 86400 < off \<and> off < 86400"
  by (auto simp: read_offset_def bind_eq_Some_conv Let_def split: list.splits if_splits
      dest!: digits_Some colon_field_Some)

lemma read_date_Some: "read_date s = Some (day, r) \<Longrightarrow> 0 \<le> day \<and> day < 3652059"
proof -
  have "0 \<le> to_ordinal y m d - 1 \<and> to_ordinal y m d - 1 < 3652059" if v: "valid_date y m d" for y m d
  proof -
    obtain k where k: "m = int k + 1" "k < 12"
      using v by (intro that [of "nat (m - 1)"]) (auto simp: valid_date_def)
    have d: "1 \<le> d" "d \<le> month_starts (leap y) ! Suc k - month_starts (leap y) ! k" "1 \<le> y" "y \<le> 9999"
      using v k by (auto simp: valid_date_def nat_add_distrib)
    have "0 \<le> month_starts (leap y) ! k + d - 1" "month_starts (leap y) ! k + d \<le> year_days y"
      using d month_lengths [OF k(2), of "leap y"] by (auto simp: year_days_def split: if_splits)
    moreover have "0 \<le> days_before_year y" using years_mono [of 1 y] d by (simp add: days_of_years)
    moreover have "days_before_year y + year_days y \<le> 3652059"
      using years_mono [of "y + 1" 10000] d by (simp add: days_of_years next_year)
    ultimately show ?thesis by (simp add: to_ordinal_def k)
  qed
  then show "read_date s = Some (day, r) \<Longrightarrow> 0 \<le> day \<and> day < 3652059"
    by (auto simp: read_date_def bind_eq_Some_conv split: if_splits)
qed

lemma from_iso_ok:
  assumes "from_iso s = Some m"
  shows "moment_ok m"
proof -
  obtain day rest where d: "read_date s = Some (day, rest)" "0 \<le> day" "day < 3652059"
    using assms read_date_Some [of s] by (auto simp: from_iso_def bind_eq_Some_conv)
  have l: "local_range (day * day_us + us)" if "0 \<le> us" "us < day_us" for us
  proof -
    have "(day + 1) * day_us \<le> 3652059 * day_us" using d by (intro mult_right_mono) (simp_all add: day_us_def)
    moreover have "0 \<le> day * day_us" using d by (simp add: day_us_def)
    ultimately show ?thesis using that unfolding local_range_def by (simp only: distrib_right) linarith
  qed
  show ?thesis
    using assms d l [of 0]
    by (auto simp: from_iso_def moment_ok_def utc_moment_def bind_eq_Some_conv day_us_def split: list.splits option.splits
        intro!: l [unfolded day_us_def] dest!: read_clock_Some read_offset_Some)
qed

lemma read_dt_ok: "read_dt v = Some m \<Longrightarrow> moment_ok m"
  by (auto simp: read_dt_def split: pyval.splits pydec.splits option.splits dest: from_timestamp_ok from_iso_ok)

lemma no_z_fixed [simp]: "CHR ''Z'' \<notin> set (fixed w n)"
  using fixed_digits [of w n] by (auto simp: list_all_iff is_digit_def)

lemma no_z_parts [simp]: "CHR ''Z'' \<notin> set (date_text day)" "CHR ''Z'' \<notin> set (clock_text t)" "CHR ''Z'' \<notin> set (offset_text off)"
proof -
  obtain y m d where "of_ordinal (day + 1) = (y, m, d)" by (cases "of_ordinal (day + 1)")
  then show "CHR ''Z'' \<notin> set (date_text day)" by (simp add: date_text_def)
qed (simp_all add: clock_text_def offset_text_def Let_def)

lemma no_z: "CHR ''Z'' \<notin> set (iso_text m)"
  by (simp add: iso_text_def Let_def)

lemma expand_z_id: "CHR ''Z'' \<notin> set s \<Longrightarrow> expand_z s = s"
  by (induction s) (auto simp: expand_z_def)

lemma read_dt_iso [simp]: "moment_ok m \<Longrightarrow> read_dt (PStr (iso_text m)) = Some m"
  by (simp add: read_dt_def expand_z_id [OF no_z] iso_roundtrip)

lemma iso_text_nonempty [simp]: "iso_text m \<noteq> []"
  by (simp add: iso_text_def Let_def)

lemma shift_ok: "shift us m = Some m' \<Longrightarrow> moment_ok m \<Longrightarrow> moment_ok m' \<and> mo_utc m' = mo_utc m + us"
  by (auto simp: shift_def moment_ok_def mo_utc_def split: if_splits)

subsection \<open>Committing\<close>

lemma wp_save_guard:
  "wp (save_guard sha256 io prior) Q E w =
    (case (if io_commit io then save_risk_guard_state sha256 (gw_state w) (gw_store w) else Inl CannotMigrate) of
       Inl _ \<Rightarrow> E RiskCommitFailed (w\<lparr>gw_state := prior, gw_store := suspended (gw_store w)\<rparr>)
     | Inr s \<Rightarrow> if io_folder io then Q () (w\<lparr>gw_store := s\<rparr>)
         else E RiskFolder (w\<lparr>gw_state := prior, gw_store := suspended s\<rparr>))"
  by (simp add: save_guard_def commit_def wp_ask split: sum.splits)

lemma save_risk_Inr:
  "save_risk_guard_state sha256 st s = Inr s' \<longleftrightarrow> st_version s = 2 \<and> st_risk s \<noteq> None
     \<and> s' = s\<lparr>st_risk := Some (json_dumps (PDict st), sha256 (json_dumps (PDict st)))\<rparr>"
  by (auto simp: save_risk_guard_state_def Let_def)

lemma entries_suspended [simp]: "\<not> entries_on (suspended s)"
  by (simp add: entries_on_def suspended_def get_or_def map_of_alist_put)

lemma pair_for_symbol_kept [simp]:
  "pair_for_symbol symbol (suspended s) = pair_for_symbol symbol s"
  "pair_for_symbol symbol (s\<lparr>st_risk := x\<rparr>) = pair_for_symbol symbol s"
  by (simp_all add: pair_for_symbol_def suspended_def get_def get_or_def map_of_alist_put)

lemma get_or_put: "get_or (alist_put k v d) k' x = (if k' = k then v else get_or d k' x)"
  by (simp add: get_or_def map_of_alist_put)

lemma get_put: "get (alist_put k v d) k' = (if k' = k then v else get d k')"
  by (simp add: get_def get_or_put)

lemma put_state_simps [simp]:
  "gw_store (put_state k v w) = gw_store w" "gw_state (put_state k v w) = alist_put k v (gw_state w)"
  by (simp_all add: put_state_def)

subsection \<open>A stop-out keeps the pair out\<close>

text \<open>What a recorded stop-out leaves in the entry of its pair.\<close>

definition stop_known :: "string \<Rightarrow> int \<Rightarrow> int \<Rightarrow> guard_world \<Rightarrow> bool" where
  "stop_known pair hit until w \<longleftrightarrow> (\<exists>a b. moment_ok a \<and> moment_ok b \<and> mo_utc a = hit \<and> mo_utc b = until
     \<and> get (pair_entry w pair) ''last_stopout_time'' = PStr (iso_text a)
     \<and> get (pair_entry w pair) ''cooldown_until'' = PStr (iso_text b))"

lemmas stopout_parts = record_stopout_def prune_days_def count_day_def mark_stopout_def wp_lift wp_ask wp_save_guard Let_def

lemma pair_entry_put:
  "pair_entry (put_state k v w) p =
     (if k = ''pairs'' then items (get_or (items v) p (PDict [])) else pair_entry w p)"
  by (simp add: pair_entry_def get_put)

lemma pair_entry_store [simp]: "pair_entry (w\<lparr>gw_store := s\<rparr>) p = pair_entry w p"
  by (simp add: pair_entry_def)

lemma day_entry_put:
  "day_entry (put_state k v w) d = (if k = ''daily'' then items (get_or (items v) d
     (PDict [(''global_stopouts'', PInt 0), (''pairs'', PDict [])])) else day_entry w d)"
  by (simp add: day_entry_def get_put)

lemma day_entry_store [simp]: "day_entry (w\<lparr>gw_store := s\<rparr>) p = day_entry w p"
  by (simp add: day_entry_def)

lemma wp_record_stopout:
  "wp (record_stopout sha256 io lm clock symbol t)
     (\<lambda>_ w'. \<exists>exit pair until. event_moment clock t = Some exit \<and> pair_for_symbol symbol (gw_store w) = Inr pair
        \<and> shift (lim_cooldown lm * 1000000) exit = Some until
        \<and> get (pair_entry w' pair) ''last_stopout_time'' = PStr (iso_text exit)
        \<and> get (pair_entry w' pair) ''cooldown_until'' = PStr (iso_text until))
     (\<lambda>_ _. True) w"
  by (auto simp: stopout_parts pair_entry_put get_or_put get_put of_option_def split: sum.splits option.splits)

lemma stopout_known:
  assumes "record_stopout sha256 io lm clock symbol t w = (Inr (), w')" "event_moment clock t = Some exit" "moment_ok clock"
    and "pair_for_symbol symbol (gw_store w) = Inr pair"
  shows "stop_known pair (mo_utc exit) (mo_utc exit + lim_cooldown lm * 1000000) w'"
proof -
  have ok: "moment_ok exit" using assms(2,3) by (auto simp: event_moment_def read_dt_ok split: if_splits)
  obtain until where u: "shift (lim_cooldown lm * 1000000) exit = Some until"
    "get (pair_entry w' pair) ''last_stopout_time'' = PStr (iso_text exit)"
    "get (pair_entry w' pair) ''cooldown_until'' = PStr (iso_text until)"
    using wp_Inr [OF wp_record_stopout assms(1)] assms(2,4) by auto
  show ?thesis using ok shift_ok [OF u(1) ok] u by (auto simp: stop_known_def)
qed

lemma known_refuses:
  assumes "stop_known pair hit until w"
    and "mo_utc now < until \<or> (\<forall>candle. read_dt (get sig ''candle_time'') = Some candle \<longrightarrow> mo_utc candle \<le> hit)"
  shows "allow lm w now sig pair h \<noteq> Inr (True, why)"
proof -
  have "stopout_refusal w now pair candle \<noteq> None" if "read_dt (get sig ''candle_time'') = Some candle" for candle
    using assms that by (auto simp: stop_known_def stopout_refusal_def Let_def)
  then have "candle_refusal lm w now sig pair candle \<noteq> None" if "read_dt (get sig ''candle_time'') = Some candle" for candle
    using that by (auto simp: candle_refusal_def split: option.splits)
  then show ?thesis
    by (auto simp: allow_def Let_def split: option.splits)
qed

subsection \<open>Runs of the guard\<close>

datatype guard_op = OpPause string | OpClear | OpRecord moment pydict string | OpStopout moment string pyval

fun run_op :: "(string \<Rightarrow> string) \<Rightarrow> guard_limits \<Rightarrow> guard_io \<times> guard_op \<Rightarrow> (guard_world, risk_error, unit) eff" where
  "run_op sha256 lm (io, OpPause reason) = set_global_pause sha256 io reason"
| "run_op sha256 lm (io, OpClear) = clear_global_pause sha256 io"
| "run_op sha256 lm (io, OpRecord now sig result) = record_outcome sha256 io now sig result"
| "run_op sha256 lm (io, OpStopout clock symbol t) = record_stopout sha256 io lm clock symbol t"

text \<open>A sequence of operations; a raise ends the operation, not the sequence.\<close>

fun run_guard :: "(string \<Rightarrow> string) \<Rightarrow> guard_limits \<Rightarrow> (guard_io \<times> guard_op) list \<Rightarrow> guard_world \<Rightarrow> guard_world" where
  "run_guard sha256 lm [] w = w"
| "run_guard sha256 lm (op # ops) w = run_guard sha256 lm ops (snd (run_op sha256 lm op w))"

lemma run_guard_inv:
  assumes "\<And>op w. op \<in> set ops \<Longrightarrow> I w \<Longrightarrow> wp (run_op sha256 lm op) (\<lambda>_. I) (\<lambda>_. I) w" and "I w"
  shows "I (run_guard sha256 lm ops w)"
  using assms
proof (induction ops arbitrary: w)
  case (Cons op ops)
  have "I (snd (run_op sha256 lm op w))" using Cons.prems by (intro wp_always [where I = I]) simp
  then show ?case using Cons by simp
qed simp

definition spares :: "(string \<Rightarrow> store_error + string) \<Rightarrow> string \<Rightarrow> guard_op \<Rightarrow> bool" where
  "spares pairs pair op = (case op of OpStopout _ symbol _ \<Rightarrow> pairs symbol \<noteq> Inr pair | _ \<Rightarrow> True)"

text \<open>The pair mapping never changes, and only a stop-out or an outcome of a pair changes its entry.\<close>

lemma stopout_frame:
  assumes "pair_for_symbol symbol (gw_store w) \<noteq> Inr p"
  shows "wp (record_stopout sha256 io lm clock symbol t)
     (\<lambda>_ w'. pair_entry w' p = pair_entry w p \<and> (\<forall>s. pair_for_symbol s (gw_store w') = pair_for_symbol s (gw_store w)))
     (\<lambda>_ w'. pair_entry w' p = pair_entry w p \<and> (\<forall>s. pair_for_symbol s (gw_store w') = pair_for_symbol s (gw_store w))) w"
  using assms
  by (auto simp: stopout_parts save_risk_Inr pair_entry_def get_put get_or_put split: sum.splits)

lemma known_kept:
  assumes "spares pairs pair op" and known: "stop_known pair hit until w \<and> (\<forall>s. pair_for_symbol s (gw_store w) = pairs s)"
  shows "wp (run_op sha256 lm (io, op)) (\<lambda>_ w'. stop_known pair hit until w' \<and> (\<forall>s. pair_for_symbol s (gw_store w') = pairs s))
     (\<lambda>_ w'. stop_known pair hit until w' \<and> (\<forall>s. pair_for_symbol s (gw_store w') = pairs s)) w"
proof (cases op)
  case (OpPause reason)
  then show ?thesis using known
    by (auto simp: set_global_pause_def wp_save_guard save_risk_Inr stop_known_def pair_entry_def get_put split: sum.splits)
next
  case OpClear
  then show ?thesis using known
    by (auto simp: clear_global_pause_def wp_save_guard save_risk_Inr stop_known_def pair_entry_def get_put split: sum.splits)
next
  case (OpRecord now sig result)
  then show ?thesis using known
    by (auto simp: record_outcome_def wp_save_guard save_risk_Inr stop_known_def pair_entry_def get_put get_or_put Let_def
        split: sum.splits)
next
  case (OpStopout clock symbol t)
  then have "pair_for_symbol symbol (gw_store w) \<noteq> Inr pair" using assms by (simp add: spares_def)
  from wp_mono [OF stopout_frame [OF this]] show ?thesis using OpStopout known by (simp add: stop_known_def)
qed

subsection \<open>The daily budget\<close>

lemma map_of_filter_key: "map_of (List.filter (\<lambda>(k, v). P k) xs) k = (if P k then map_of xs k else None)"
  by (induction xs) auto

lemma set_default_get: "get_or (set_default k v d) k' x =
    (if k' = k \<and> k \<notin> fst ` set d then v else get_or d k' x)"
  by (auto simp: set_default_def get_or_def map_of_append map_add_def dest: map_of_SomeD split: option.splits)
    (metis map_of_eq_None_iff option.distinct(1))

lemma count_stopout_global:
  assumes "count_stopout pair daily = Some c" "to_int (get_or daily ''global_stopouts'' (PInt 0)) = Some g"
  shows "to_int (get_or c ''global_stopouts'' (PInt 0)) = Some (g + 1)"
  using assms by (auto simp: count_stopout_def bind_eq_Some_conv Let_def get_or_put set_default_get)

text \<open>The day of a moment, and the days whose counters a stop-out of that moment keeps.\<close>

definition on_day :: "int \<Rightarrow> moment \<Rightarrow> bool" where
  "on_day d m \<longleftrightarrow> local_range (mo_utc m) \<and> mo_utc m div day_us = d"

definition keeps_day :: "int \<Rightarrow> moment \<Rightarrow> bool" where
  "keeps_day d m \<longleftrightarrow> mo_local m div day_us - 14 \<le> d"

lemma on_day_range: "on_day d m \<Longrightarrow> 0 \<le> d \<and> d < 3652059"
  by (auto simp: on_day_def local_range_def day_us_def)

lemma on_day_kept:
  assumes "on_day d m" "moment_ok m"
  shows "keeps_day d m"
proof -
  have "mo_local m - day_us \<le> mo_utc m" using assms(2) by (auto simp: moment_ok_def mo_utc_def day_us_def)
  then have "(mo_local m - day_us) div day_us \<le> mo_utc m div day_us" by (rule zdiv_mono1) (simp add: day_us_def)
  moreover have "(mo_local m - day_us) div day_us = mo_local m div day_us - 1" by (simp add: day_us_def)
  ultimately show ?thesis using assms(1) by (simp add: on_day_def keeps_day_def)
qed

lemma cutoff_kept:
  assumes "shift (- stopout_window) m = Some oldest" "keeps_day d m" "0 \<le> d" "d < 3652059"
  shows "date_text (mo_local oldest div day_us) \<le> date_text d"
proof (rule date_text_mono)
  have l: "mo_local oldest = mo_local m - 14 * day_us" "local_range (mo_local oldest)"
    using assms(1) by (auto simp: shift_def stopout_window_def split: if_splits)
  then have "mo_local oldest div day_us = mo_local m div day_us - 14" by (simp add: day_us_def)
  then show "mo_local oldest div day_us \<le> d" using assms(2) by (simp add: keeps_day_def)
  show "0 \<le> mo_local oldest div day_us" using l(2) by (auto simp: local_range_def day_us_def)
qed (rule assms)

text \<open>Counters seen through the mapping of days, which is all that a stop-out changes of them.\<close>

definition count_in :: "pydict \<Rightarrow> string \<Rightarrow> int option" where
  "count_in days d = to_int (get_or (items (get_or days d
     (PDict [(''global_stopouts'', PInt 0), (''pairs'', PDict [])]))) ''global_stopouts'' (PInt 0))"

lemma global_count_in: "global_count w d = count_in (items (get (gw_state w) ''daily'')) d"
  by (simp add: global_count_def day_entry_def count_in_def)

lemma count_in_pruned: "cutoff \<le> d \<Longrightarrow> count_in (List.filter (\<lambda>(k, v). cutoff \<le> k) days) d = count_in days d"
  by (simp add: count_in_def get_or_def map_of_filter_key)

lemma count_in_put: "count_in (alist_put d' v days) d =
    (if d = d' then to_int (get_or (items v) ''global_stopouts'' (PInt 0)) else count_in days d)"
  by (simp add: count_in_def get_or_put)

definition at_least_count :: "string \<Rightarrow> int \<Rightarrow> guard_world \<Rightarrow> bool" where
  "at_least_count d n w \<longleftrightarrow> (\<exists>g. global_count w d = Some g \<and> n \<le> g)"

lemma wp_lift_option: "wp (liftW (of_option e x)) Q E s = (case x of None \<Rightarrow> E e s | Some v \<Rightarrow> Q v s)"
  by (simp add: wp_lift of_option_def split: option.splits)

lemma at_least_put: "at_least_count d n (put_state k v w) \<longleftrightarrow>
    (if k = ''daily'' then \<exists>g. count_in (items v) d = Some g \<and> n \<le> g else at_least_count d n w)"
  by (simp add: at_least_count_def global_count_in get_put)

lemma at_least_state [simp]: "at_least_count d n (w\<lparr>gw_store := s\<rparr>) = at_least_count d n w"
  by (simp add: at_least_count_def global_count_in)

lemma prune_counts:
  assumes "shift (- stopout_window) m = Some oldest" "keeps_day d m" "0 \<le> d" "d < 3652059" "at_least_count (date_text d) n w"
  shows "wp (prune_days oldest) (\<lambda>_. at_least_count (date_text d) n) E w"
  using assms(5) count_in_pruned [OF cutoff_kept [OF assms(1-4)]]
  by (simp add: prune_days_def Let_def at_least_put) (simp add: at_least_count_def global_count_in)

lemma day_counts:
  assumes "at_least_count d n w"
  shows "wp (count_day day pair) (\<lambda>_. at_least_count d (if d = day then n + 1 else n)) (\<lambda>_. at_least_count d n) w"
proof -
  obtain g where g: "count_in (items (get (gw_state w) ''daily'')) d = Some g" "n \<le> g"
    using assms by (auto simp: at_least_count_def global_count_in)
  have "to_int (get_or c ''global_stopouts'' (PInt 0)) = Some (g + 1)"
    if "count_stopout pair (day_entry w d) = Some c" for c
    by (rule count_stopout_global [OF that]) (use g in \<open>simp add: day_entry_def count_in_def\<close>)
  then show ?thesis using g assms
    by (auto simp: count_day_def wp_ask of_option_def at_least_put count_in_put split: option.splits)
qed

lemma saved_counts:
  assumes "at_least_count d k w'" "at_least_count d n w"
  shows "wp (save_guard sha256 io (gw_state w)) (\<lambda>_. at_least_count d k) (\<lambda>_. at_least_count d n) w'"
  using assms by (auto simp: wp_save_guard at_least_count_def global_count_in split: sum.splits)

lemma at_least_mono: "at_least_count d k w \<Longrightarrow> n \<le> k \<Longrightarrow> at_least_count d n w"
  by (auto simp: at_least_count_def)

lemma marked_counts:
  assumes "at_least_count d k w2" "n \<le> k" and n: "at_least_count d n w"
  shows "wp (bindW (liftW (of_option RiskBadTime u)) (\<lambda>until. bindW (mark_stopout pair m until)
      (\<lambda>_. save_guard sha256 io (gw_state w)))) (\<lambda>_. at_least_count d k) (\<lambda>_. at_least_count d n) w2"
proof -
  have "at_least_count d n w2" using assms(1,2) by (rule at_least_mono)
  moreover have "wp (save_guard sha256 io (gw_state w)) (\<lambda>_. at_least_count d k) (\<lambda>_. at_least_count d n)
      (put_state ''pairs'' v w2)" for v
    by (rule saved_counts [OF _ n]) (use assms(1) in \<open>simp add: at_least_put\<close>)
  ultimately show ?thesis by (simp add: wp_lift mark_stopout_def of_option_def split: option.splits)
qed

lemma stopout_counts:
  assumes keep: "\<And>m. event_moment clock t = Some m \<Longrightarrow> keeps_day d m" and d: "0 \<le> d" "d < 3652059"
    and n: "at_least_count (date_text d) n w"
  shows "wp (record_stopout sha256 io lm clock symbol t)
     (\<lambda>_. at_least_count (date_text d) (if \<exists>m. event_moment clock t = Some m \<and> on_day d m then n + 1 else n))
     (\<lambda>_. at_least_count (date_text d) n) w"
proof -
  let ?n = "\<lambda>day. if date_text d = day then n + 1 else n"
  have tail: "wp (bindW (prune_days oldest) (\<lambda>_. bindW (count_day day pair) (\<lambda>_.
      bindW (liftW (of_option RiskBadTime u)) (\<lambda>until. bindW (mark_stopout pair m until) (\<lambda>_. save_guard sha256 io (gw_state w))))))
      (\<lambda>_. at_least_count (date_text d) (?n day)) (\<lambda>_. at_least_count (date_text d) n) w"
    if "shift (- stopout_window) m = Some oldest" "keeps_day d m" for oldest m day pair u
  proof -
    have after_count: "wp (bindW (count_day day pair) (\<lambda>_. bindW (liftW (of_option RiskBadTime u)) (\<lambda>until.
        bindW (mark_stopout pair m until) (\<lambda>_. save_guard sha256 io (gw_state w)))))
        (\<lambda>_. at_least_count (date_text d) (?n day)) (\<lambda>_. at_least_count (date_text d) n) w1"
      if "at_least_count (date_text d) n w1" for w1
      by (subst wp_bind, rule wp_mono [OF day_counts [OF that, of day pair]], erule marked_counts [OF _ _ n], simp)
    show ?thesis
      by (subst wp_bind, rule wp_mono [OF prune_counts [OF that d n]], erule after_count)
  qed
  have same: "on_day d m \<longleftrightarrow> date_text d = day" if "utc_date m = Some day" for m day
    using that d date_text_inj [of d "mo_utc m div day_us"]
    by (auto simp: utc_date_def on_day_def local_range_def day_us_def split: if_splits)
  show ?thesis
  proof (cases "event_moment clock t")
    case None
    then show ?thesis using n by (simp add: record_stopout_def wp_lift)
  next
    case (Some m)
    have K: "(if \<exists>m. event_moment clock t = Some m \<and> on_day d m then n + 1 else n) = ?n day" if "utc_date m = Some day" for day
      using same [OF that] Some by simp
    show ?thesis
    proof (cases "pair_for_symbol symbol (gw_store w)"; cases "utc_date m"; cases "shift (- stopout_window) m")
      fix pair day oldest
      assume c: "pair_for_symbol symbol (gw_store w) = Inr pair" "utc_date m = Some day" "shift (- stopout_window) m = Some oldest"
      show ?thesis
        unfolding record_stopout_def K [OF c(2)]
        by (simp only: wp_bind wp_get wp_ask wp_lift_option Some c option.case sum.case)
          (rule iffD1 [OF wp_bind], rule tail [OF c(3) keep [OF Some]])
    qed (use n Some in \<open>simp_all add: record_stopout_def wp_lift wp_ask\<close>)
  qed
qed

text \<open>The successful stop-outs of a run that fall on a day.\<close>

definition stops_on :: "int \<Rightarrow> guard_op \<Rightarrow> bool" where
  "stops_on d op = (case op of OpStopout clock symbol t \<Rightarrow>
     (case event_moment clock t of Some m \<Rightarrow> on_day d m | None \<Rightarrow> False) | _ \<Rightarrow> False)"

definition recent :: "int \<Rightarrow> guard_op \<Rightarrow> bool" where
  "recent d op = (case op of OpStopout clock symbol t \<Rightarrow>
     (case event_moment clock t of Some m \<Rightarrow> keeps_day d m | None \<Rightarrow> True) | _ \<Rightarrow> True)"

fun stops_in :: "(string \<Rightarrow> string) \<Rightarrow> guard_limits \<Rightarrow> int \<Rightarrow> (guard_io \<times> guard_op) list \<Rightarrow> guard_world \<Rightarrow> int" where
  "stops_in sha256 lm d [] w = 0"
| "stops_in sha256 lm d (op # ops) w =
     (case run_op sha256 lm op w of (r, w') \<Rightarrow>
        (if stops_on d (snd op) \<and> r = Inr () then 1 else 0) + stops_in sha256 lm d ops w')"

lemma op_counts:
  assumes "recent d op" "0 \<le> d" "d < 3652059" "at_least_count (date_text d) n w"
  shows "wp (run_op sha256 lm (io, op)) (\<lambda>_. at_least_count (date_text d) (if stops_on d op then n + 1 else n))
     (\<lambda>_. at_least_count (date_text d) n) w"
proof (cases op)
  case (OpPause reason)
  then show ?thesis using assms(4) saved_counts [of _ _ "put_state ''global_pause'' (PStr reason) w" _ w]
    by (simp add: set_global_pause_def stops_on_def at_least_put)
next
  case OpClear
  then show ?thesis using assms(4) saved_counts [of _ _ "put_state ''global_pause'' (PStr []) w" _ w]
    by (simp add: clear_global_pause_def stops_on_def at_least_put)
next
  case (OpRecord now sig result)
  have "wp (save_guard sha256 io (gw_state w)) (\<lambda>_. at_least_count (date_text d) n) (\<lambda>_. at_least_count (date_text d) n)
      (put_state ''pairs'' v w)" for v
    by (rule saved_counts) (use assms(4) in \<open>simp_all add: at_least_put\<close>)
  then show ?thesis using OpRecord by (simp add: record_outcome_def stops_on_def Let_def)
next
  case (OpStopout clock symbol t)
  have "wp (record_stopout sha256 io lm clock symbol t)
     (\<lambda>_. at_least_count (date_text d) (if \<exists>m. event_moment clock t = Some m \<and> on_day d m then n + 1 else n))
     (\<lambda>_. at_least_count (date_text d) n) w"
    by (rule stopout_counts [OF _ assms(2-4)]) (use assms(1) OpStopout in \<open>simp add: recent_def\<close>)
  moreover have "stops_on d op \<longleftrightarrow> (\<exists>m. event_moment clock t = Some m \<and> on_day d m)"
    using OpStopout by (simp add: stops_on_def split: option.splits)
  ultimately show ?thesis using OpStopout by simp
qed

lemma run_counts:
  assumes "list_all (\<lambda>op. recent d (snd op)) ops" "0 \<le> d" "d < 3652059" "at_least_count (date_text d) n w"
  shows "at_least_count (date_text d) (n + stops_in sha256 lm d ops w) (run_guard sha256 lm ops w)"
  using assms(1,4)
proof (induction ops arbitrary: n w)
  case (Cons op ops)
  obtain io o1 where op: "op = (io, o1)" by (cases op)
  obtain r w' where r: "run_op sha256 lm op w = (r, w')" by (cases "run_op sha256 lm op w")
  have "recent d o1" using Cons.prems op by simp
  note w = op_counts [OF this assms(2,3) Cons.prems(2), of sha256 lm io]
  have "at_least_count (date_text d) (if stops_on d o1 \<and> r = Inr () then n + 1 else n) w'"
    using w r op by (auto simp: wp_def split: sum.splits intro: at_least_mono)
  from Cons.IH [OF _ this] show ?case using Cons.prems r op by (auto simp: algebra_simps)
qed simp

lemma allow_within_budget:
  assumes "allow lm w now sig pair h = Inr (True, why)" "on_day d now"
  shows "\<not> at_least_count (date_text d) (lim_global lm) w"
proof -
  have "budget_refusal lm w now pair = Inr None"
    using assms(1) by (auto simp: allow_def bindE_Inr_iff Let_def split: option.splits if_splits)
  then show ?thesis using assms(2)
    by (auto simp: budget_refusal_def bindE_Inr_iff utc_date_def on_day_def at_least_count_def split: if_splits)
qed

subsection \<open>Guarantees\<close>



text \<open>C40: When a change of the risk state cannot be committed, the guard is back in the state before the
  operation and the store has entries switched off.\<close>

theorem failed_commit_disarms:
  assumes "run_op sha256 lm (io, op) w = (Inl e, w')" "e = RiskCommitFailed \<or> e = RiskFolder"
  shows "gw_state w' = gw_state w \<and> \<not> entries_on (gw_store w')"
proof -
  have "wp (run_op sha256 lm (io, op)) (\<lambda>_ _. True)
      (\<lambda>e v. e = RiskCommitFailed \<or> e = RiskFolder \<longrightarrow> gw_state v = gw_state w \<and> \<not> entries_on (gw_store v)) w"
    by (cases op) (auto simp: set_global_pause_def clear_global_pause_def record_outcome_def stopout_parts wp_lift_option
        split: sum.splits option.splits)
  from wp_Inl [OF this assms(1)] assms(2) show ?thesis by simp
qed

text \<open>
  The folder of the projection is created after the transaction: when that fails the guard goes back to the old
  state although the authoritative row holds the new one.
\<close>

theorem folder_failure_splits_state:
  assumes "save_guard sha256 io prior w = (Inl RiskFolder, w')"
  shows "gw_state w' = prior
    \<and> st_risk (gw_store w') = Some (json_dumps (PDict (gw_state w)), sha256 (json_dumps (PDict (gw_state w))))"
proof -
  have "wp (save_guard sha256 io prior) (\<lambda>_ _. True) (\<lambda>e v. e = RiskFolder \<longrightarrow> gw_state v = prior
      \<and> st_risk (gw_store v) = Some (json_dumps (PDict (gw_state w)), sha256 (json_dumps (PDict (gw_state w))))) w"
    by (auto simp: wp_save_guard save_risk_Inr suspended_def split: sum.splits)
  from wp_Inl [OF this assms] show ?thesis by simp
qed

text \<open>A restarted guard finds the state the last successful operation committed.\<close>

lemma guard_survives_restart:
  assumes "run_op sha256 lm op w = (Inr (), w')" and "loads (json_dumps (PDict (gw_state w'))) = Some (PDict (gw_state w'))"
  shows "load_state sha256 loads file preexisted (gw_store w') = Inr (gw_state w', gw_store w')"
proof -
  obtain io o1 where op: "op = (io, o1)" by (cases op)
  have "wp (run_op sha256 lm op) (\<lambda>_ v. st_version (gw_store v) = 2
      \<and> st_risk (gw_store v) = Some (json_dumps (PDict (gw_state v)), sha256 (json_dumps (PDict (gw_state v))))) (\<lambda>_ _. True) w"
    unfolding op by (cases o1) (auto simp: set_global_pause_def clear_global_pause_def record_outcome_def stopout_parts
        wp_lift_option save_risk_Inr split: sum.splits option.splits)
  from wp_Inr [OF this assms(1)] assms(2) show ?thesis
    by (simp add: load_state_def risk_guard_state_def read_risk_guard_state_def loads_dict_def)
qed

subsection \<open>Witnesses\<close>

definition demo_limits :: guard_limits where
  "demo_limits = \<lparr>lim_pair = 3, lim_global = 1, lim_cooldown = 60, lim_age = 180, lim_candle = 180\<rparr>"

definition demo_guard :: guard_world where
  "demo_guard = \<lparr>gw_state = [(''pairs'', PDict []), (''daily'', PDict []), (''global_pause'', PStr [])],
     gw_store = \<lparr>st_data = [(''symbol_pairs'', PDict [(''BTCUSDT'', PStr ''BTC/USDT'')]), (''entries_enabled'', PBool True)],
       st_version = 2, st_risk = Some ([], []), st_migration = None, st_signals = [], st_commands = [], st_trades = [],
       st_events = [], st_intents = []\<rparr>\<rparr>"

definition demo_io :: guard_io where
  "demo_io = \<lparr>io_commit = True, io_folder = True\<rparr>"

text \<open>Noon of 2026-08-01, and a candle of that time.\<close>

definition noon :: moment where
  "noon = utc_moment (739828 * day_us + 43200000000)"

definition demo_signal :: pydict where
  "demo_signal = [(''pair'', PStr ''BTC/USDT''), (''signal_id'', PStr ''s1''), (''generated_at'', PStr ''2026-08-01T12:00:00+00:00''),
     (''candle_time'', PStr ''2026-08-01T12:00:00Z''), (''pair_state_hash'', PStr ''h'')]"

abbreviation no_hash :: "string \<Rightarrow> string" where
  "no_hash \<equiv> (\<lambda>_. [])"

definition demo_stopout :: "(risk_error + unit) \<times> guard_world" where
  "demo_stopout = record_stopout no_hash demo_io demo_limits noon ''BTCUSDT'' PNone demo_guard"

lemma demo_stopped: "record_stopout no_hash demo_io demo_limits noon ''BTCUSDT'' PNone demo_guard = (Inr (), snd demo_stopout)"
proof -
  have "fst demo_stopout = Inr ()" by code_simp
  then show ?thesis by (metis demo_stopout_def prod.collapse)
qed

lemma demo_moment: "event_moment noon PNone = Some noon" "moment_ok noon"
  by (simp_all add: event_moment_def noon_def moment_ok_def utc_moment_def local_range_def day_us_def)

lemma demo_pair: "pair_for_symbol ''BTCUSDT'' (gw_store demo_guard) = Inr ''BTC/USDT''"
  by code_simp


lemma demo_allowed:
  "allow demo_limits (run_guard no_hash demo_limits [(demo_io, OpPause ''owner''), (demo_io, OpClear)] demo_guard)
     noon demo_signal ''BTC/USDT'' ''h'' = Inr (True, ''fresh'')"
  by code_simp

lemma demo_day: "on_day 739828 noon" "global_count demo_guard (date_text 739828) = Some 0"
  by code_simp+


definition broken_io :: guard_io where
  "broken_io = \<lparr>io_commit = False, io_folder = True\<rparr>"

lemma demo_failure: "run_op no_hash demo_limits (broken_io, OpPause ''owner'') demo_guard =
    (Inl RiskCommitFailed, snd (run_op no_hash demo_limits (broken_io, OpPause ''owner'') demo_guard))"
proof -
  have "fst (run_op no_hash demo_limits (broken_io, OpPause ''owner'') demo_guard) = Inl RiskCommitFailed" by code_simp
  then show ?thesis by (metis prod.collapse)
qed

lemma failed_commit_disarms_witness:
  "\<not> entries_on (gw_store (snd (run_op no_hash demo_limits (broken_io, OpPause ''owner'') demo_guard)))"
  using failed_commit_disarms [OF demo_failure] by simp

end
