(* ===== verification/Spot_Gateway.thy ===== *)
theory Spot_Gateway
  imports Risk_Checks Filters
begin

text \<open>
  The authenticated gateway, \<open>services/execution_sidecar/spot_gateway.py\<close>, and the
  world the adapter works in. The exchange behind the python-binance client is an
  arbitrary machine: a request may give any answer or raise, and moves the machine to a new
  state; so may looking at the clock, the disk and the public market data.
\<close>

subsection \<open>Exceptions\<close>

datatype exn_class = RequestsError | BinanceRequestError | BinanceOrderError | BinanceApiError | OtherClass

text \<open>An exception of the client: its class, \<open>status_code\<close> and \<open>code\<close> (\<open>None\<close> where absent), and text.\<close>

record client_exn =
  ex_class :: exn_class
  ex_status :: pyval
  ex_code :: pyval
  ex_text :: string

datatype py_exn =
    ClientExn client_exn | StoreExn store_error | IntentExn intent_error | RiskExn risk_error | FilterExn filter_error
  | FactoryExn factory_error | PolicyExn policy_error | ConfigExn config_error | IdExn id_error | PairStateExn
  | AttributeExn | DecimalExn | IntExn | KeyExn | ValueExn string | RuntimeExn string

definition exn :: "('e \<Rightarrow> py_exn) \<Rightarrow> 'e + 'a \<Rightarrow> py_exn + 'a" where
  "exn f r = (case r of Inl e \<Rightarrow> Inl (f e) | Inr v \<Rightarrow> Inr v)"

text \<open>\<open>v.get\<close> on a value that is no mapping raises.\<close>

definition as_dict :: "pyval \<Rightarrow> py_exn + pydict" where
  "as_dict v = (if is_dict v then Inr (items v) else Inl AttributeExn)"

subsection \<open>The outside world\<close>

datatype request =
    ExchangeInfo
  | Ticker string
  | OrderBook string int
  | Account
  | OpenOrders "string option"
  | GetSigned string pydict
  | GetOrder pydict
  | CreateOrder pydict
  | PostSigned string pydict
  | CancelOrder string int
  | DeleteSigned string pydict

text \<open>The requests that change the account.\<close>

fun mutating :: "request \<Rightarrow> bool" where
  "mutating (CreateOrder _) = True"
| "mutating (PostSigned _ _) = True"
| "mutating (CancelOrder _ _) = True"
| "mutating (DeleteSigned _ _) = True"
| "mutating _ = False"

record readings =
  rd_now :: int
  rd_time :: dec
  rd_mono :: dec
  rd_moment :: moment
  rd_ns :: nat
  rd_random :: string
  rd_io :: guard_io
  rd_public :: public_api
  rd_get :: providers

record 'x outside =
  ow_ask :: "request \<Rightarrow> 'x \<Rightarrow> (client_exn + pyval) \<times> 'x"
  ow_look :: "'x \<Rightarrow> readings \<times> 'x"

text \<open>
  The adapter's process and durable state. \<open>dk_sent\<close> records, newest first, the
  requests that change the account, each with the intent it was sent for.
\<close>

record 'x desk =
  dk_out :: 'x
  dk_sent :: "(string \<times> request) list"
  dk_store :: store
  dk_guard :: pydict
  dk_enabled :: bool
  dk_started :: bool
  dk_partial :: "string list"
  dk_dirty :: "dec option"
  dk_cache :: filter_cache
  dk_ids :: client_ids
  dk_size :: dec
  dk_pair :: "unit + pydict"

type_synonym ('x, 'a) desk_eff = "('x desk, py_exn, 'a) eff"

definition look :: "'x outside \<Rightarrow> ('x, readings) desk_eff" where
  "look ow d = (let (r, x) = ow_look ow (dk_out d) in (Inr r, d\<lparr>dk_out := x\<rparr>))"

definition ask :: "'x outside \<Rightarrow> request \<Rightarrow> ('x, pyval) desk_eff" where
  "ask ow q d = (let (r, x) = ow_ask ow q (dk_out d) in (exn ClientExn r, d\<lparr>dk_out := x\<rparr>))"

text \<open>A request that changes the account, for the intent \<open>k\<close>.\<close>

definition send :: "'x outside \<Rightarrow> string \<Rightarrow> request \<Rightarrow> ('x, pyval) desk_eff" where
  "send ow k q d = ask ow q (d\<lparr>dk_sent := (k, q) # dk_sent d\<rparr>)"

subsection \<open>Classification of a failed submission\<close>

definition definite_codes :: "int list" where
  "definite_codes = [-1013, -1015, -1021, -1022, -2010, -2011, -2014, -2015, -2021, -2022]"

text \<open>\<open>int(v) if v is not None else None\<close>; the outer \<open>None\<close> is a raise.\<close>

definition int_or_none :: "pyval \<Rightarrow> int option option" where
  "int_or_none v = (if v = PNone then Some None else map_option Some (to_int v))"

text \<open>True is \<open>DEFINITE_REJECT\<close>, False \<open>AMBIGUOUS\<close>.\<close>

definition classify_submission_error :: "py_exn \<Rightarrow> bool" where
  "classify_submission_error e = (case e of
       ClientExn x \<Rightarrow>
         (if ex_class x = RequestsError \<or> ex_class x = BinanceRequestError then False
          else (case (int_or_none (ex_status x), int_or_none (ex_code x)) of
              (Some status, Some code) \<Rightarrow>
                if (case status of None \<Rightarrow> False | Some s \<Rightarrow> s = 418 \<or> s = 429 \<or> 500 \<le> s) then False
                else if code = Some (-1006) \<or> code = Some (-1007) then False
                else if ex_class x = BinanceOrderError then True
                else ex_class x = BinanceApiError \<and>
                  ((case code of None \<Rightarrow> False | Some c \<Rightarrow> c \<in> set definite_codes \<or> (-1135 \<le> c \<and> c \<le> -1100))
                   \<or> status = Some 401 \<or> status = Some 403)
            | _ \<Rightarrow> False))
     | _ \<Rightarrow> False)"

subsection \<open>Clock offset\<close>

text \<open>The offset of the signed-request clock from one round trip; \<open>None\<close> where it raises.\<close>

definition sync_offset :: "int \<Rightarrow> int \<Rightarrow> int \<Rightarrow> pyval \<Rightarrow> int option" where
  "sync_offset max_rtt_ms started_ns finished_ns payload =
     (if finished_ns < started_ns \<or> max_rtt_ms * 1000000 < finished_ns - started_ns \<or> \<not> is_dict payload then None
      else (case map_of (items payload) ''serverTime'' of None \<Rightarrow> None | Some v \<Rightarrow>
        (case to_int v of None \<Rightarrow> None | Some server_ms \<Rightarrow>
          if server_ms \<le> 0 then None
          else Some (server_ms - (started_ns + finished_ns) div 2 div 1000000))))"

subsection \<open>Requests\<close>

definition symbol_info :: "'x outside \<Rightarrow> string \<Rightarrow> ('x, pyval) desk_eff" where
  "symbol_info ow symbol =
     bindW (ask ow ExchangeInfo) (\<lambda>answer.
     bindW (liftW (as_dict answer)) (\<lambda>info.
     let rows = elems (por (get info ''symbols'') (PList [])) in
     bindW (guardW (list_all is_dict rows) AttributeExn) (\<lambda>_.
     case List.filter (\<lambda>r. get (items r) ''symbol'' = PStr symbol) rows of
       [row] \<Rightarrow> returnW row
     | _ \<Rightarrow> raiseW (RuntimeExn ''exchangeInfo did not return exactly one row''))))"

definition get_order :: "'x outside \<Rightarrow> string \<Rightarrow> pyval \<Rightarrow> string \<Rightarrow> ('x, pyval) desk_eff" where
  "get_order ow symbol order_id client_id =
     (if order_id \<noteq> PNone then ask ow (GetOrder [(''symbol'', PStr symbol), (''orderId'', order_id)])
      else if client_id \<noteq> [] then ask ow (GetOrder [(''symbol'', PStr symbol), (''origClientOrderId'', PStr client_id)])
      else raiseW (ValueExn ''order_id or client_id is required''))"

definition get_order_list :: "'x outside \<Rightarrow> pyval \<Rightarrow> string \<Rightarrow> ('x, pyval) desk_eff" where
  "get_order_list ow list_id client_id =
     (if list_id \<noteq> PNone then ask ow (GetSigned ''orderList'' [(''orderListId'', list_id)])
      else if client_id \<noteq> [] then ask ow (GetSigned ''orderList'' [(''origClientOrderId'', PStr client_id)])
      else raiseW (ValueExn ''order_list_id or list_client_id is required''))"

definition open_order_lists :: "'x outside \<Rightarrow> ('x, pyval) desk_eff" where
  "open_order_lists ow = ask ow (GetSigned ''openOrderList'' [])"

definition placement_lists :: "string list" where
  "placement_lists = [''orderList/oto'', ''orderList/otoco'', ''orderList/oco'']"

definition place :: "'x outside \<Rightarrow> string \<Rightarrow> string \<Rightarrow> pydict \<Rightarrow> ('x, pyval) desk_eff" where
  "place ow k endpoint params =
     (if endpoint = ''order'' then send ow k (CreateOrder params)
      else if endpoint \<notin> set placement_lists then raiseW (ValueExn ''unsupported Spot placement endpoint'')
      else send ow k (PostSigned endpoint params))"

definition cancel_order :: "'x outside \<Rightarrow> string \<Rightarrow> string \<Rightarrow> int \<Rightarrow> ('x, pyval) desk_eff" where
  "cancel_order ow k symbol order_id = send ow k (CancelOrder symbol order_id)"

definition cancel_order_list :: "'x outside \<Rightarrow> string \<Rightarrow> string \<Rightarrow> int \<Rightarrow> ('x, pyval) desk_eff" where
  "cancel_order_list ow k symbol list_id =
     send ow k (DeleteSigned ''orderList'' [(''symbol'', PStr symbol), (''orderListId'', PInt list_id)])"

subsection \<open>Classification is conservative\<close>

text \<open>
  Nothing that may have reached the matching engine counts as rejected: transport errors,
  rate limits, server errors, the two timeout codes and unreadable statuses stay open.
\<close>

definition maybe_landed :: "client_exn \<Rightarrow> bool" where
  "maybe_landed x \<longleftrightarrow> ex_class x \<in> {RequestsError, BinanceRequestError, OtherClass}
     \<or> (\<exists>s. to_int (ex_status x) = Some s \<and> (s = 418 \<or> s = 429 \<or> 500 \<le> s))
     \<or> to_int (ex_code x) \<in> {Some (-1006), Some (-1007)}
     \<or> (ex_status x \<noteq> PNone \<and> to_int (ex_status x) = None) \<or> (ex_code x \<noteq> PNone \<and> to_int (ex_code x) = None)"

lemma classify_conservative: "maybe_landed x \<Longrightarrow> \<not> classify_submission_error (ClientExn x)"
  by (cases "ex_class x") (auto simp: maybe_landed_def classify_submission_error_def int_or_none_def split: option.splits)

lemma definite_is_client: "classify_submission_error e \<Longrightarrow> \<exists>x. e = ClientExn x \<and> \<not> maybe_landed x"
  using classify_conservative by (cases e) (auto simp: classify_submission_error_def)

text \<open>The offset brings the middle of the round trip to the server's time.\<close>

lemma sync_offset_bounds:
  assumes "sync_offset max_rtt s f payload = Some off" "items payload = [(''serverTime'', PInt server)]"
  shows "s \<le> f \<and> f - s \<le> max_rtt * 1000000 \<and> off + (s + f) div 2 div 1000000 = server \<and> 0 < server"
  using assms by (auto simp: sync_offset_def split: if_splits option.splits)

end
