(* ===== verification/Adapter_Base.thy ===== *)
theory Adapter_Base
  imports Spot_Gateway
begin

text \<open>
  Metadata, events and order submission of the adapter,
  \<open>services/execution_sidecar/bitcoin_adapter.py\<close>: the intent is committed before
  the request is sent, and an answer that does not prove the outcome leaves the intent open
  and entries switched off. A decimal of the exchange that is not finite counts as
  malformed.
\<close>

record desk_env =
  de_env :: environ
  de_sha :: "string \<Rightarrow> string"
  de_loads :: "string \<Rightarrow> pyval option"
  de_redact :: "py_exn \<Rightarrow> string"
  de_settings :: protection_settings
  de_limits :: guard_limits
  de_size_base :: "dec option"
  de_live :: bool
  de_max_open :: int
  de_filter_age :: rat

subsection \<open>Steps on the parts of the state\<close>

definition store_step :: "('e \<Rightarrow> py_exn) \<Rightarrow> (store \<Rightarrow> 'e + store) \<Rightarrow> ('x, unit) desk_eff" where
  "store_step f m = bindW (askW (\<lambda>d. exn f (m (dk_store d)))) (\<lambda>s. modifyW (\<lambda>d. d\<lparr>dk_store := s\<rparr>))"

definition store_query :: "('e \<Rightarrow> py_exn) \<Rightarrow> (store \<Rightarrow> 'e + 'a) \<Rightarrow> ('x, 'a) desk_eff" where
  "store_query f m = askW (\<lambda>d. exn f (m (dk_store d)))"

definition store_get :: "(store \<Rightarrow> 'a) \<Rightarrow> ('x, 'a) desk_eff" where
  "store_get m = getW (\<lambda>d. m (dk_store d))"

definition intents_of :: "(intents \<Rightarrow> intent_error + intents) \<Rightarrow> store \<Rightarrow> intent_error + store" where
  "intents_of m s = bindE (m (st_intents s)) (\<lambda>t. Inr (s\<lparr>st_intents := t\<rparr>))"

definition upsert :: "'x outside \<Rightarrow> string \<Rightarrow> string \<Rightarrow> pydict \<Rightarrow> ('x, unit) desk_eff" where
  "upsert ow tid pair given = bindW (look ow) (\<lambda>r. store_step StoreExn (upsert_trade (rd_now r) tid pair given))"

definition mark_submitting :: "'x outside \<Rightarrow> string \<Rightarrow> ('x, unit) desk_eff" where
  "mark_submitting ow k =
     bindW (look ow) (\<lambda>r. store_step IntentExn (intents_of (mark_intent_submitting (rd_now r) k)))"

definition finish :: "'x outside \<Rightarrow> string \<Rightarrow> string \<Rightarrow> pyval \<Rightarrow> pyval \<Rightarrow> string \<Rightarrow> ('x, unit) desk_eff" where
  "finish ow k state order order_list error =
     bindW (look ow) (\<lambda>r. store_step IntentExn (intents_of (finish_intent (rd_now r) k state order order_list error)))"

definition prepare :: "'x outside \<Rightarrow> desk_env \<Rightarrow> intent_request \<Rightarrow> ('x, bool) desk_eff" where
  "prepare ow env q =
     bindW (look ow) (\<lambda>r.
     bindW (store_query IntentExn (\<lambda>s. prepare_intent (de_sha env) (rd_now r) q (st_intents s))) (\<lambda>(won, t).
     bindW (modifyW (\<lambda>d. d\<lparr>dk_store := (dk_store d)\<lparr>st_intents := t\<rparr>\<rparr>)) (\<lambda>_. returnW won)))"

definition put_guard :: "guard_world \<Rightarrow> 'x desk \<Rightarrow> 'x desk" where
  "put_guard g d = d\<lparr>dk_guard := gw_state g, dk_store := gw_store g\<rparr>"

definition guard_of :: "'x desk \<Rightarrow> guard_world" where
  "guard_of d = \<lparr>gw_state = dk_guard d, gw_store = dk_store d\<rparr>"

text \<open>An operation of the guard, which shares the store.\<close>

definition guard_step :: "(guard_world, risk_error, 'a) eff \<Rightarrow> ('x, 'a) desk_eff" where
  "guard_step m = (\<lambda>d. case m (guard_of d) of (r, g) \<Rightarrow> (exn RiskExn r, put_guard g d))"

text \<open>\<open>_pause\<close>: a failing guard is ignored.\<close>

definition pause :: "'x outside \<Rightarrow> desk_env \<Rightarrow> string \<Rightarrow> ('x, unit) desk_eff" where
  "pause ow env reason =
     bindW (modifyW (\<lambda>d. d\<lparr>dk_enabled := False\<rparr>)) (\<lambda>_.
     bindW (modifyW (\<lambda>d. d\<lparr>dk_store := set_entries False reason (dk_store d)\<rparr>)) (\<lambda>_.
     bindW (look ow) (\<lambda>r.
     catchW (guard_step (set_global_pause (de_sha env) (rd_io r) reason)) (\<lambda>_. returnW ()))))"

definition load_pair :: "('x, pydict) desk_eff" where
  "load_pair = askW (\<lambda>d. case dk_pair d of Inl _ \<Rightarrow> Inl PairStateExn | Inr p \<Rightarrow> Inr p)"

subsection \<open>Metadata\<close>

definition finite_dec :: "pyval \<Rightarrow> py_exn + dec" where
  "finite_dec v = of_option DecimalExn (to_finite v)"

text \<open>\<open>_decimal(mapping, key, default)\<close>.\<close>

definition decimal_or :: "pydict \<Rightarrow> string \<Rightarrow> pyval \<Rightarrow> py_exn + dec" where
  "decimal_or m k dflt = finite_dec (por (get_or m k dflt) dflt)"

definition integer :: "pyval \<Rightarrow> py_exn + int" where
  "integer v = of_option IntExn (to_int v)"

definition symbol_rules_of :: "string \<Rightarrow> string \<Rightarrow> pydict \<Rightarrow> py_exn + symbol_rules" where
  "symbol_rules_of symbol pair md =
     (let raw = elems (get_or md ''filters'' (PList [])) in
      if \<not> list_all is_dict raw then Inl AttributeExn
      else let rows = map items raw; lot = filter_row rows ''LOT_SIZE''; price = filter_row rows ''PRICE_FILTER'';
        notional = or_row (filter_row rows ''NOTIONAL'') (filter_row rows ''MIN_NOTIONAL'');
        trailing = filter_row rows ''TRAILING_DELTA''; zero = PStr ''0'' in
      bindE (decimal_or price ''tickSize'' zero) (\<lambda>tick.
      bindE (decimal_or lot ''stepSize'' zero) (\<lambda>step.
      bindE (decimal_or lot ''minQty'' zero) (\<lambda>min_qty.
      bindE (decimal_or lot ''maxQty'' zero) (\<lambda>max_qty.
      bindE (decimal_or notional ''minNotional'' (PStr (pstr (get_or notional ''notional'' zero)))) (\<lambda>min_notional.
      bindE (decimal_or notional ''maxNotional'' zero) (\<lambda>max_notional.
      bindE (integer (get_or trailing ''minTrailingBelowDelta'' (PInt 10))) (\<lambda>trail_min.
      bindE (integer (get_or trailing ''maxTrailingBelowDelta'' (PInt 2000))) (\<lambda>trail_max.
      if dle tick dzero \<or> dle step dzero then Inl (RuntimeExn ''symbol lacks required filters'')
      else Inr \<lparr>r_symbol = symbol, r_quote = quote_of pair, r_tick = tick, r_step = step, r_min_qty = min_qty,
        r_max_qty = max_qty, r_min_notional = min_notional, r_max_notional = max_notional,
        r_trail_min = trail_min, r_trail_max = trail_max, r_oco_allowed = truthy (get md ''ocoAllowed''),
        r_oto_allowed = truthy (get md ''otoAllowed''), r_trailing_allowed = truthy (get md ''allowTrailingStop'')\<rparr>)))))))))"

definition rules_for :: "'x outside \<Rightarrow> desk_env \<Rightarrow> string \<Rightarrow> ('x, symbol_rules) desk_eff" where
  "rules_for ow env pair0 =
     bindW (liftW (exn PolicyExn (canonical_pair (de_env env) pair0 None))) (\<lambda>pair.
     let symbol = symbol_of pair in
     bindW (symbol_info ow symbol) (\<lambda>row.
     bindW (liftW (exn PolicyExn (allowed_quotes_from_env (de_env env)))) (\<lambda>quotes.
     bindW (liftW (exn PolicyExn (validate_exchange_symbol (de_env env) pair row (Some quotes) False))) (\<lambda>md.
     liftW (symbol_rules_of symbol pair md)))))"

definition missing_capabilities :: "symbol_rules \<Rightarrow> protection_mode \<Rightarrow> bool \<Rightarrow> string list" where
  "missing_capabilities rules mode for_entry =
     (if for_entry \<and> \<not> r_oto_allowed rules then [''OTO''] else [])
     @ (if mode \<in> {FIXED_OCO, OCO_TRAILING} \<and> \<not> r_oco_allowed rules then [''OCO''] else [])
     @ (if mode \<in> {TRAILING_ONLY, OCO_TRAILING} \<and> \<not> r_trailing_allowed rules then [''trailing-stop''] else [])"

definition require_capabilities :: "symbol_rules \<Rightarrow> protection_mode \<Rightarrow> bool \<Rightarrow> py_exn + unit" where
  "require_capabilities rules mode for_entry =
     assertE (missing_capabilities rules mode for_entry = []) (FilterExn (FilterViolation ''capability''))"

definition mode_in_use :: "('x, protection_mode) desk_eff" where
  "mode_in_use = askW (\<lambda>d. of_option (ValueExn ''protection mode'') (mode_of (get_mode (dk_store d))))"

definition positive_price :: "pyval \<Rightarrow> py_exn + dec" where
  "positive_price v = bindE (finite_dec v) (\<lambda>p. if dle p dzero then Inl (ValueExn ''price'') else Inr p)"

text \<open>The best price of one side of the book.\<close>

definition best_price :: "'x outside \<Rightarrow> string \<Rightarrow> string \<Rightarrow> ('x, dec) desk_eff" where
  "best_price ow side symbol =
     bindW (ask ow (OrderBook symbol 5)) (\<lambda>answer.
     bindW (liftW (as_dict (por answer (PDict [])))) (\<lambda>book.
     case por (get book side) (PList []) of
       PList [] \<Rightarrow> raiseW (RuntimeExn ''book is empty'')
     | PList (PList (p # _) # _) \<Rightarrow> liftW (positive_price p)
     | _ \<Rightarrow> raiseW KeyExn))"

definition current_price :: "'x outside \<Rightarrow> string \<Rightarrow> ('x, dec) desk_eff" where
  "current_price ow symbol =
     bindW (ask ow (Ticker symbol)) (\<lambda>answer. bindW (liftW (as_dict answer)) (\<lambda>d. liftW (positive_price (get d ''price''))))"

definition balance_row :: "pyval \<Rightarrow> py_exn + (string \<times> dec \<times> dec)" where
  "balance_row row =
     bindE (as_dict row) (\<lambda>r. let asset = token r ''asset'' in
     if asset = [] then Inr ([], dzero, dzero)
     else bindE (finite_dec (get_or r ''free'' (PStr ''0''))) (\<lambda>free. bindE (finite_dec (get_or r ''locked'' (PStr ''0''))) (\<lambda>locked.
       Inr (asset, free, locked))))"

text \<open>Free and locked amounts per asset; a later row of an asset replaces an earlier one.\<close>

definition balances_of :: "pyval \<Rightarrow> py_exn + (string \<times> dec \<times> dec) list" where
  "balances_of account =
     (let rows = get (items account) ''balances'' in
      if \<not> is_list rows then Inl (RuntimeExn ''no balances list'')
      else bindE (mapE balance_row (elems rows)) (\<lambda>bs. Inr (rev (List.filter (\<lambda>b. fst b \<noteq> []) bs))))"

definition balance_in :: "(string \<times> dec \<times> dec) list \<Rightarrow> string \<Rightarrow> dec \<times> dec" where
  "balance_in bs asset = (case map_of bs asset of None \<Rightarrow> (dzero, dzero) | Some b \<Rightarrow> b)"

definition account_balances :: "'x outside \<Rightarrow> ('x, (string \<times> dec \<times> dec) list) desk_eff" where
  "account_balances ow = bindW (ask ow Account) (\<lambda>a. liftW (balances_of a))"

definition free_balance :: "'x outside \<Rightarrow> string \<Rightarrow> ('x, dec) desk_eff" where
  "free_balance ow asset = bindW (account_balances ow) (\<lambda>bs. returnW (fst (balance_in bs asset)))"

subsection \<open>Responses and events\<close>

text \<open>\<open>int(v or 0) or None\<close>.\<close>

definition id_or_none :: "pyval \<Rightarrow> py_exn + int option" where
  "id_or_none v = bindE (integer (por v (PInt 0))) (\<lambda>i. Inr (if i = 0 then None else Some i))"

definition id_value :: "int option \<Rightarrow> pyval" where
  "id_value i = (case i of None \<Rightarrow> PNone | Some n \<Rightarrow> PInt n)"

definition client_roles :: "pydict \<Rightarrow> (string \<times> string) list" where
  "client_roles q =
     (let key = (\<lambda>ks. pstr (foldr (\<lambda>k v. por (get q k) v) ks (PStr []))) in
      rev (List.filter (\<lambda>r. fst r \<noteq> [])
       [(key [''workingClientOrderId''], ''entry''),
        (key [''pendingAboveClientOrderId'', ''aboveClientOrderId''], ''take_profit''),
        (key [''pendingBelowClientOrderId'', ''belowClientOrderId''], ''stop''),
        (key [''pendingClientOrderId'', ''newClientOrderId''], ''stop'')]))"

record order_ids =
  oi_list :: "int option"
  oi_entry :: "int option"
  oi_take_profit :: "int option"
  oi_stop :: "int option"

definition report_role :: "pydict \<Rightarrow> pydict \<Rightarrow> string option" where
  "report_role q report = map_of (client_roles q)
     (pstr (por (por (get report ''clientOrderId'') (get report ''origClientOrderId'')) (PStr [])))"

definition assign_report :: "pydict \<Rightarrow> pyval \<Rightarrow> order_ids \<Rightarrow> py_exn + order_ids" where
  "assign_report q report ids =
     bindE (as_dict report) (\<lambda>r.
     bindE (id_or_none (get_or r ''orderId'' (PInt 0))) (\<lambda>order.
     let side = token r ''side''; type = token r ''type''; role = report_role q r in
     Inr (if side = ''BUY'' \<or> role = Some ''entry'' then ids\<lparr>oi_entry := order\<rparr>
          else if type = ''LIMIT_MAKER'' \<or> role = Some ''take_profit'' then ids\<lparr>oi_take_profit := order\<rparr>
          else if type \<in> {''STOP_LOSS'', ''STOP_LOSS_LIMIT''} \<or> role = Some ''stop'' then ids\<lparr>oi_stop := order\<rparr>
          else ids)))"

fun assign_reports :: "pydict \<Rightarrow> pyval list \<Rightarrow> order_ids \<Rightarrow> py_exn + order_ids" where
  "assign_reports q [] ids = Inr ids"
| "assign_reports q (r # rs) ids = bindE (assign_report q r ids) (assign_reports q rs)"

definition response_ids :: "pydict \<Rightarrow> pydict \<Rightarrow> py_exn + order_ids" where
  "response_ids response q =
     bindE (id_or_none (get_or response ''orderListId'' (PInt 0))) (\<lambda>list_id.
     assign_reports q (elems (por (por (get response ''orderReports'') (get response ''orders'')) (PList [])))
       \<lparr>oi_list = list_id, oi_entry = None, oi_take_profit = None, oi_stop = None\<rparr>)"

text \<open>The event a REST answer amounts to; the outer failure is \<open>int\<close> of a malformed identifier.\<close>

definition rest_event :: "pyval \<Rightarrow> pyval \<Rightarrow> py_exn + pydict option" where
  "rest_event order order_list_id =
     (let o1 = items order in
      if \<not> is_dict order \<or> \<not> truthy (get o1 ''orderId'') \<or> \<not> truthy (get o1 ''status'') then Inr None
      else bindE (integer (get o1 ''orderId'')) (\<lambda>i.
        let status = token o1 ''status'';
            time = por (por (por (get o1 ''updateTime'') (get o1 ''transactTime'')) (get o1 ''time'')) (PInt 0);
            executed = get_or o1 ''executedQty'' (PStr ''0'') in
        Inr (Some [(''e'', PStr ''executionReport''), (''s'', PStr (token o1 ''symbol'')), (''i'', PInt i),
          (''g'', get_or o1 ''orderListId'' order_list_id), (''S'', get_or o1 ''side'' (PStr [])), (''X'', PStr status),
          (''o'', get_or o1 ''type'' (PStr [])), (''z'', executed),
          (''Z'', get_or o1 ''cummulativeQuoteQty'' (get_or o1 ''cumulativeQuoteQty'' (PStr ''0''))),
          (''q'', get_or o1 ''origQty'' (get_or o1 ''quantity'' (PStr ''0''))), (''E'', time),
          (''I'', PStr (colon_join [''REST'', int_text i, status, pstr time, pstr executed]))])))"

text \<open>Events of other symbols of the account are recognised from the exchange's metadata.\<close>

definition event_in_scope :: "'x outside \<Rightarrow> pydict \<Rightarrow> ('x, bool) desk_eff" where
  "event_in_scope ow e =
     (let symbol = pstr (por (por (get e ''s'') (get e ''symbol'')) (PStr [])) in
      if symbol = [] then raiseW (ValueExn ''order event has no symbol'')
      else bindW (store_get (pair_for_symbol symbol)) (\<lambda>mapped. case mapped of
          Inr pair \<Rightarrow>
            if before (CHR ''/'') pair \<noteq> ''BTC'' \<or> symbol_of pair \<noteq> symbol
            then raiseW (ValueExn ''order event pair mapping is invalid'') else returnW True
        | Inl _ \<Rightarrow>
            bindW (symbol_info ow symbol) (\<lambda>row.
            let md = items row in
            if get md ''symbol'' \<noteq> PStr symbol \<or> \<not> truthy (get md ''baseAsset'')
            then raiseW (ValueExn ''order event metadata identity is unverified'')
            else if get md ''baseAsset'' \<noteq> PStr ''BTC'' then returnW False
            else raiseW (ValueExn ''unregistered BTC order event requires ownership reconciliation''))))"

definition record_event :: "'x outside \<Rightarrow> pydict \<Rightarrow> ('x, bool) desk_eff" where
  "record_event ow e =
     bindW (look ow) (\<lambda>r.
     bindW (store_query StoreExn (record_exchange_event (rd_now r) e)) (\<lambda>(fresh, s).
     bindW (modifyW (\<lambda>d. d\<lparr>dk_store := s\<rparr>)) (\<lambda>_. returnW fresh)))"

definition record_authenticated_event :: "'x outside \<Rightarrow> desk_env \<Rightarrow> pydict \<Rightarrow> ('x, bool) desk_eff" where
  "record_authenticated_event ow env e =
     bindW (event_in_scope ow e) (\<lambda>ours.
     if \<not> ours then returnW False
     else bindW (record_event ow e) (\<lambda>fresh.
       if \<not> fresh then returnW False
       else bindW (look ow) (\<lambda>r.
         bindW (guard_step (on_exchange_event (de_sha env) (rd_io r) (de_env env) (de_limits env) (rd_moment r) e)) (\<lambda>_.
         returnW True))))"

text \<open>Looping over answers of the exchange.\<close>

fun each :: "('a \<Rightarrow> ('s, 'e, unit) eff) \<Rightarrow> 'a list \<Rightarrow> ('s, 'e, unit) eff" where
  "each f [] = returnW ()"
| "each f (x # xs) = bindW (f x) (\<lambda>_. each f xs)"

definition record_rest :: "'x outside \<Rightarrow> desk_env \<Rightarrow> pyval \<Rightarrow> pyval \<Rightarrow> ('x, bool) desk_eff" where
  "record_rest ow env list_id order =
     bindW (liftW (rest_event order list_id)) (\<lambda>ev. case ev of
         None \<Rightarrow> returnW False
       | Some e \<Rightarrow> bindW (record_authenticated_event ow env e) (\<lambda>_. returnW True))"

definition record_response_events :: "'x outside \<Rightarrow> desk_env \<Rightarrow> pydict \<Rightarrow> pyval \<Rightarrow> ('x, unit) desk_eff" where
  "record_response_events ow env response list_id =
     each (\<lambda>order. bindW (record_rest ow env list_id order) (\<lambda>_. returnW ()))
       (elems (por (get response ''orderReports'') (PList []))
        @ (if truthy (get response ''orderId'') then [PDict response] else []))"

definition replay_trade :: "'x outside \<Rightarrow> string \<Rightarrow> ('x, unit) desk_eff" where
  "replay_trade ow tid = bindW (look ow) (\<lambda>r.
     modifyW (\<lambda>d. d\<lparr>dk_store := snd (replay_exchange_events_for_trade (rd_now r) tid (dk_store d))\<rparr>))"

end
