(* ===== verification/Adapter_Submit.thy ===== *)
theory Adapter_Submit
  imports Adapter_Base
begin

text \<open>
  Submission of one request and its recovery, \<open>services/execution_sidecar/bitcoin_adapter.py\<close>:
  the intent is committed before the request is sent, and an answer that does not prove the
  outcome leaves the intent open and entries switched off. Requests prepared but never
  sent are resumed once, requests that may have landed are looked up and never sent again.
\<close>

definition tryW :: "('s, 'e, 'a) eff \<Rightarrow> ('s, 'e, 'e + 'a) eff" where
  "tryW m = catchW (bindW m (\<lambda>x. returnW (Inr x))) (\<lambda>e. returnW (Inl e))"

subsection \<open>Identifiers and prevalidation\<close>

definition new_id :: "'x outside \<Rightarrow> string \<Rightarrow> ('x, string) desk_eff" where
  "new_id ow role =
     bindW (look ow) (\<lambda>r.
     bindW (askW (\<lambda>d. exn IdExn (new_client_id (dk_ids d) role (rd_ns r) (rd_random r)))) (\<lambda>(v, ids).
     bindW (modifyW (\<lambda>d. d\<lparr>dk_ids := ids\<rparr>)) (\<lambda>_. returnW v)))"

fun draw_ids :: "'x outside \<Rightarrow> string list \<Rightarrow> ('x, string \<Rightarrow> string) desk_eff" where
  "draw_ids ow [] = returnW (\<lambda>_. [])"
| "draw_ids ow (role # roles) =
     bindW (new_id ow role) (\<lambda>v. bindW (draw_ids ow roles) (\<lambda>ids. returnW (ids(role := v))))"

definition entry_roles :: "protection_mode \<Rightarrow> string list" where
  "entry_roles mode = [''ENTRYLIST'', ''ENTRY''] @ (if mode = TRAILING_ONLY then [''TRAIL''] else [''TP'', ''STOP''])"

definition replacement_roles :: "protection_mode \<Rightarrow> string list" where
  "replacement_roles mode = (if mode = TRAILING_ONLY then [''TRAIL''] else [''PROTECT'', ''TP'', ''STOP''])"

text \<open>A request of the factory, with identifiers drawn in the factory's order.\<close>

definition build ::
  "'x outside \<Rightarrow> string list \<Rightarrow> ((string \<Rightarrow> string) \<Rightarrow> factory_error + order_request) \<Rightarrow> ('x, order_request) desk_eff" where
  "build ow roles request =
     bindW (liftW (exn FactoryExn (request (\<lambda>_. [])))) (\<lambda>_.
     bindW (draw_ids ow roles) (\<lambda>ids. liftW (exn FactoryExn (request ids))))"

definition build_entry ::
  "'x outside \<Rightarrow> desk_env \<Rightarrow> protection_mode \<Rightarrow> symbol_rules \<Rightarrow> dec \<Rightarrow> dec \<Rightarrow> ('x, order_request) desk_eff" where
  "build_entry ow env mode rules qty entry =
     build ow (entry_roles mode) (\<lambda>ids. entry_request ids (de_settings env) mode rules qty entry)"

definition build_replacement ::
  "'x outside \<Rightarrow> desk_env \<Rightarrow> protection_mode \<Rightarrow> symbol_rules \<Rightarrow> dec \<Rightarrow> dec \<Rightarrow> dec \<Rightarrow> dec option \<Rightarrow> int option \<Rightarrow>
   ('x, order_request) desk_eff" where
  "build_replacement ow env mode rules qty entry current stop_price delta =
     build ow (replacement_roles mode)
       (\<lambda>ids. replacement_request ids (de_settings env) mode rules qty entry current stop_price delta)"

definition preflight ::
  "'x outside \<Rightarrow> desk_env \<Rightarrow> symbol_rules \<Rightarrow> string \<Rightarrow> pydict \<Rightarrow> pyval list \<Rightarrow> bool \<Rightarrow> ('x, unit) desk_eff" where
  "preflight ow env rules endpoint params replacing_ids replacing_list =
     bindW (look ow) (\<lambda>r.
     bindW (getW (\<lambda>d. validate_replacement (de_env env) (rd_public r) (de_filter_age env) (dval (rd_mono r)) (dval (rd_mono r))
        ((rd_get r)\<lparr>pr_replacing_ids := replacing_ids, pr_replacing_list := replacing_list\<rparr>)
        (dk_cache d) (r_symbol rules) endpoint params)) (\<lambda>(cache, verdict).
     bindW (modifyW (\<lambda>d. d\<lparr>dk_cache := cache\<rparr>)) (\<lambda>_.
     bindW (liftW (exn FilterExn verdict)) (\<lambda>_. returnW ()))))"

subsection \<open>Submitting once\<close>

definition is_list_endpoint :: "string \<Rightarrow> bool" where
  "is_list_endpoint endpoint \<longleftrightarrow> starts_with ''orderList/'' endpoint"

definition lookup :: "'x outside \<Rightarrow> string \<Rightarrow> string \<Rightarrow> pydict \<Rightarrow> ('x, pyval) desk_eff" where
  "lookup ow endpoint symbol params = catchW
     (if is_list_endpoint endpoint
      then get_order_list ow PNone (pstr (get_or params ''listClientOrderId'' (PStr [])))
      else get_order ow symbol PNone (pstr (get_or params ''newClientOrderId'' (PStr []))))
     (\<lambda>_. returnW PNone)"

definition identified :: "pyval \<Rightarrow> bool" where
  "identified v \<longleftrightarrow> is_dict v \<and> (truthy (get (items v) ''orderListId'') \<or> truthy (get (items v) ''orderId''))"

definition exchange_id :: "string \<Rightarrow> pydict \<Rightarrow> pyval" where
  "exchange_id endpoint response = get response (if is_list_endpoint endpoint then ''orderListId'' else ''orderId'')"

text \<open>
  The POST and what a failed one is taken for: the answer, or the terminal state recorded
  for the intent and its error text.
\<close>

definition post_once ::
  "'x outside \<Rightarrow> desk_env \<Rightarrow> string \<Rightarrow> string \<Rightarrow> string \<Rightarrow> pydict \<Rightarrow> ('x, (string \<times> string) + pyval) desk_eff" where
  "post_once ow env k endpoint symbol params =
     bindW (mark_submitting ow k) (\<lambda>_.
     bindW (tryW (place ow k endpoint params)) (\<lambda>answer. case answer of
         Inr v \<Rightarrow> returnW (Inr v)
       | Inl e \<Rightarrow>
           bindW (lookup ow endpoint symbol params) (\<lambda>found.
           if identified found then returnW (Inr found)
           else let state = (if classify_submission_error e then ''DEFINITE_REJECT'' else ''AMBIGUOUS'') in
             bindW (finish ow k state PNone PNone (de_redact env e)) (\<lambda>_.
             returnW (Inl (state, de_redact env e))))))"

definition confirm :: "'x outside \<Rightarrow> string \<Rightarrow> pydict \<Rightarrow> ('x, unit) desk_eff" where
  "confirm ow k response =
     finish ow k ''CONFIRMED'' (get response ''orderId'') (get response ''orderListId'') []"

definition intent_text :: "intent_state \<Rightarrow> string" where
  "intent_text s = (case s of PREPARED \<Rightarrow> ''PREPARED'' | SUBMITTING \<Rightarrow> ''SUBMITTING'' | CONFIRMED \<Rightarrow> ''CONFIRMED''
     | DEFINITE_REJECT \<Rightarrow> ''DEFINITE_REJECT'' | INTENT_AMBIGUOUS \<Rightarrow> ''AMBIGUOUS'' | ABORTED \<Rightarrow> ''ABORTED'')"

definition find_intent :: "string \<Rightarrow> ('x, intent_row) desk_eff" where
  "find_intent k = askW (\<lambda>d. of_option AttributeExn (intent k (st_intents (dk_store d))))"

definition digest_id :: "desk_env \<Rightarrow> pyval \<Rightarrow> string" where
  "digest_id env v = take 32 (de_sha env (json_dumps v))"

record submission =
  sb_status :: string
  sb_response :: pyval
  sb_detail :: string
  sb_intent :: string

abbreviation sub :: "string \<Rightarrow> pyval \<Rightarrow> string \<Rightarrow> string \<Rightarrow> submission" where
  "sub st resp det k \<equiv> \<lparr>sb_status = st, sb_response = resp, sb_detail = det, sb_intent = k\<rparr>"

definition ambiguous_pause :: string where
  "ambiguous_pause = ''ambiguous-order-submission-reconcile-required''"

definition submission_intent :: "desk_env \<Rightarrow> string \<Rightarrow> string \<Rightarrow> string \<Rightarrow> string \<Rightarrow> pydict \<Rightarrow> string \<Rightarrow> intent_request" where
  "submission_intent env operation tid symbol endpoint params parent =
     (let list_client = pstr (get_or params ''listClientOrderId'' (PStr []));
          client = pstr (por (por (get params ''newClientOrderId'') (get params ''workingClientOrderId'')) (PStr [])) in
      \<lparr>q_id = digest_id env (PList (map PStr [operation, tid, symbol, endpoint, list_client, client])),
       q_operation = operation, q_trade = Some tid, q_symbol = symbol, q_endpoint = endpoint, q_params = params,
       q_client = client, q_list_client = list_client, q_parent = parent, q_close_parent = parent\<rparr>)"

text \<open>What a first answer amounts to: one without an exchange identifier is looked up once.\<close>

definition settle_submission ::
  "'x outside \<Rightarrow> desk_env \<Rightarrow> string \<Rightarrow> string \<Rightarrow> string \<Rightarrow> pydict \<Rightarrow> (string \<times> string) + pyval \<Rightarrow> ('x, submission) desk_eff" where
  "settle_submission ow env k endpoint symbol params answer = (case answer of
       Inl (state, err) \<Rightarrow>
         bindW (if state = ''AMBIGUOUS'' then pause ow env ambiguous_pause else returnW ()) (\<lambda>_.
         returnW (sub state PNone err k))
     | Inr v \<Rightarrow>
         bindW (liftW (as_dict v)) (\<lambda>first.
         bindW (if truthy (exchange_id endpoint first) then returnW first
                else bindW (lookup ow endpoint symbol params) (\<lambda>found.
                  returnW (if is_dict found then items found else first))) (\<lambda>response.
         if truthy (exchange_id endpoint response) then
           bindW (confirm ow k response) (\<lambda>_. returnW (sub ''CONFIRMED'' (PDict response) ''confirmed'' k))
         else
           bindW (finish ow k ''AMBIGUOUS'' PNone PNone ''malformed success response'') (\<lambda>_.
           bindW (pause ow env ambiguous_pause) (\<lambda>_.
           returnW (sub ''AMBIGUOUS'' PNone ''success response had no exchange identifier'' k))))))"

definition submit_once ::
  "'x outside \<Rightarrow> desk_env \<Rightarrow> string \<Rightarrow> string \<Rightarrow> string \<Rightarrow> string \<Rightarrow> pydict \<Rightarrow> string \<Rightarrow> ('x, submission) desk_eff" where
  "submit_once ow env operation tid symbol endpoint params parent =
     (let q = submission_intent env operation tid symbol endpoint params parent; k = q_id q in
      bindW (prepare ow env q) (\<lambda>won.
      if \<not> won then bindW (find_intent k) (\<lambda>prior.
        returnW (sub (intent_text (i_state prior)) PNone ''existing operation intent'' k))
      else bindW (post_once ow env k endpoint symbol params) (settle_submission ow env k endpoint symbol params)))"

definition terminal_order_status :: "pydict \<Rightarrow> bool" where
  "terminal_order_status response \<longleftrightarrow>
     token response ''status'' \<in> {''FILLED'', ''CANCELED'', ''EXPIRED'', ''EXPIRED_IN_MATCH'', ''REJECTED''}"

definition terminal_list_status :: "pydict \<Rightarrow> bool" where
  "terminal_list_status response \<longleftrightarrow>
     token response ''listStatusType'' = ''ALL_DONE'' \<or> token response ''listOrderStatus'' = ''ALL_DONE''"

text \<open>The committed request of an intent, checked against its digest.\<close>

definition intent_body :: "desk_env \<Rightarrow> intent_row \<Rightarrow> py_exn + pydict" where
  "intent_body env i =
     (if de_sha env (i_request i) \<noteq> i_sha256 i then Inl (RuntimeExn ''durable intent request hash mismatch'')
      else bindE (of_option (ValueExn ''json'') (de_loads env (i_request i))) (\<lambda>v.
        if is_dict v then Inr (items v) else Inl (RuntimeExn ''durable intent request is not an object'')))"

text \<open>A child proven never submitted crosses the POST boundary once.\<close>

definition resume_submission ::
  "'x outside \<Rightarrow> desk_env \<Rightarrow> intent_row \<Rightarrow> pydict \<Rightarrow> ('x, string \<times> pyval) desk_eff" where
  "resume_submission ow env i request =
     bindW (post_once ow env (i_id i) (i_endpoint i) (i_symbol i) request) (\<lambda>answer. case answer of
         Inl (state, err) \<Rightarrow> returnW (state, PNone)
       | Inr v \<Rightarrow>
           bindW (liftW (as_dict v)) (\<lambda>response.
           if truthy (exchange_id (i_endpoint i) response) then
             bindW (confirm ow (i_id i) response) (\<lambda>_. returnW (''CONFIRMED'', PDict response))
           else
             bindW (finish ow (i_id i) ''AMBIGUOUS'' PNone PNone ''resumed POST returned no exchange identifier'') (\<lambda>_.
             returnW (''AMBIGUOUS'', PNone))))"

subsection \<open>Binding a confirmed intent to its trade\<close>

definition text_of :: "string option \<Rightarrow> string" where
  "text_of v = (case v of None \<Rightarrow> [] | Some s \<Rightarrow> s)"

definition request_mode :: "string \<Rightarrow> pydict \<Rightarrow> protection_mode" where
  "request_mode endpoint request =
     (if endpoint = ''order'' then TRAILING_ONLY
      else if get request ''belowTrailingDelta'' \<noteq> PNone then OCO_TRAILING else FIXED_OCO)"

definition mode_lifecycle :: "protection_mode \<Rightarrow> lifecycle" where
  "mode_lifecycle mode = (if mode = TRAILING_ONLY then TRAILING_ACTIVE else PROTECTION_ACTIVE)"

abbreviation lifecycle_is :: "lifecycle \<Rightarrow> string \<times> pyval" where
  "lifecycle_is l \<equiv> (''lifecycle_state'', PStr (lc_value l))"

abbreviation remark :: "string \<Rightarrow> string \<times> pyval" where
  "remark t \<equiv> (''reconciliation_status'', PStr t)"

definition bound_columns :: "intent_row \<Rightarrow> trade_row \<Rightarrow> pydict \<Rightarrow> pydict \<Rightarrow> order_ids \<Rightarrow> py_exn + pydict" where
  "bound_columns i row response request ids =
     (let operation = upper (i_operation i); note = remark (operation @ ''_INTENT_CONFIRMED_BY_LOOKUP'') in
      if operation = ''ENTRY'' then Inr [note, lifecycle_is ENTRY_SUBMITTED,
        (''order_list_id'', id_value (oi_list ids)), (''entry_order_id'', id_value (oi_entry ids)),
        (''take_profit_order_id'', id_value (oi_take_profit ids)), (''stop_order_id'', id_value (oi_stop ids))]
      else if operation \<in> {''PROTECTION'', ''PARTIAL_FILL_PROTECTION''} then
        (let protected = por (por (get request ''quantity'') (get request ''pendingQuantity'')) (get request ''workingQuantity'');
             mode = request_mode (i_endpoint i) request in
         bindE (if oi_stop ids \<noteq> None then Inr (oi_stop ids) else id_or_none (get_or response ''orderId'' (PInt 0))) (\<lambda>stop.
         Inr [note, lifecycle_is (mode_lifecycle mode), (''order_list_id'', id_value (oi_list ids)),
           (''take_profit_order_id'', id_value (oi_take_profit ids)), (''stop_order_id'', id_value stop),
           (''protected_quantity'', PStr (pstr (por (por protected (t_cols row ''protected_quantity'')) (PStr ''0'')))),
           (''protection_mode'', PStr (mode_value mode)),
           (''trailing_delta'', por (get request ''trailingDelta'') (get request ''belowTrailingDelta''))]))
      else Inr [note])"

definition bind_confirmed ::
  "'x outside \<Rightarrow> desk_env \<Rightarrow> intent_row \<Rightarrow> pyval \<Rightarrow> pydict \<Rightarrow> ('x, unit) desk_eff" where
  "bind_confirmed ow env i answer request =
     (let tid = text_of (i_trade i) in
      if tid = [] then returnW ()
      else bindW (store_get (trade tid)) (\<lambda>found. case found of
          None \<Rightarrow> returnW ()
        | Some row \<Rightarrow>
            bindW (liftW (as_dict answer)) (\<lambda>response.
            bindW (liftW (response_ids response request)) (\<lambda>ids.
            bindW (liftW (bound_columns i row response request ids)) (\<lambda>columns.
            bindW (upsert ow tid (t_pair row) columns) (\<lambda>_.
            bindW (record_response_events ow env response (id_value (oi_list ids))) (\<lambda>_.
            replay_trade ow tid)))))))"

definition bind_submission ::
  "'x outside \<Rightarrow> desk_env \<Rightarrow> submission \<Rightarrow> pydict \<Rightarrow> ('x, unit) desk_eff" where
  "bind_submission ow env s request =
     bindW (find_intent (sb_intent s)) (\<lambda>i. bind_confirmed ow env i (sb_response s) request)"

text \<open>The trade of a replacement that a restart found confirmed.\<close>

definition rebind ::
  "'x outside \<Rightarrow> desk_env \<Rightarrow> intent_row \<Rightarrow> trade_row \<Rightarrow> string \<Rightarrow> pyval \<Rightarrow> pydict \<Rightarrow> pydict \<Rightarrow> string \<Rightarrow> ('x, unit) desk_eff" where
  "rebind ow env i row endpoint response request shape note =
     bindW (bind_confirmed ow env i response request) (\<lambda>_.
     let mode = request_mode endpoint shape in
     upsert ow (t_id row) (t_pair row) [lifecycle_is (mode_lifecycle mode),
       (''protection_mode'', PStr (mode_value mode)), remark note])"

end
