(* ===== verification/Adapter_Recover.thy ===== *)
theory Adapter_Recover
  imports Adapter_Submit
begin

text \<open>
  Recovery of order intents after a restart, \<open>_resume_prepared_replacement\<close> and
  \<open>_resolve_operation_intents\<close>: what was never sent is resumed or aborted, what may
  have landed is looked up by its identifiers and never sent again.
\<close>

text \<open>A lookup whose answer must be a mapping.\<close>

definition fetch_order :: "'x outside \<Rightarrow> string \<Rightarrow> pyval \<Rightarrow> string \<Rightarrow> ('x, pydict) desk_eff" where
  "fetch_order ow symbol order_id client_id = bindW (get_order ow symbol order_id client_id) (\<lambda>v. liftW (as_dict v))"

definition fetch_list :: "'x outside \<Rightarrow> pyval \<Rightarrow> string \<Rightarrow> ('x, pydict) desk_eff" where
  "fetch_list ow list_id client_id = bindW (get_order_list ow list_id client_id) (\<lambda>v. liftW (as_dict v))"

definition require_trade :: "string \<Rightarrow> string \<Rightarrow> ('x, trade_row) desk_eff" where
  "require_trade tid why = askW (\<lambda>d. of_option (RuntimeExn why) (trade tid (dk_store d)))"

definition abort :: "'x outside \<Rightarrow> string \<Rightarrow> string \<Rightarrow> ('x, unit) desk_eff" where
  "abort ow k why = finish ow k ''ABORTED'' PNone PNone why"

subsection \<open>A replacement plan\<close>

definition cancel_is_terminal :: "'x outside \<Rightarrow> string \<Rightarrow> string \<Rightarrow> pydict \<Rightarrow> ('x, bool) desk_eff" where
  "cancel_is_terminal ow endpoint symbol request =
     (if endpoint = ''DELETE/orderList''
      then bindW (fetch_list ow (get request ''orderListId'') []) (\<lambda>v. returnW (terminal_list_status v))
      else bindW (fetch_order ow symbol (get request ''orderId'') []) (\<lambda>v. returnW (terminal_order_status v)))"

text \<open>A PREPARED protection child is sent once and bound when it is confirmed.\<close>

definition resume_child ::
  "'x outside \<Rightarrow> desk_env \<Rightarrow> trade_row \<Rightarrow> symbol_rules \<Rightarrow> intent_row \<Rightarrow> pydict \<Rightarrow> string \<Rightarrow> ('x, string) desk_eff" where
  "resume_child ow env row rules child request note =
     bindW (preflight ow env rules (i_endpoint child) request [] False) (\<lambda>_.
     bindW (resume_submission ow env child request) (\<lambda>(state, response).
     bindW (if state = ''CONFIRMED'' \<and> is_dict response
            then bindW (find_intent (i_id child)) (\<lambda>i.
              rebind ow env i row (i_endpoint child) response request request note)
            else returnW ()) (\<lambda>_. returnW state)))"

definition continue_child ::
  "'x outside \<Rightarrow> desk_env \<Rightarrow> intent_row \<Rightarrow> trade_row \<Rightarrow> symbol_rules \<Rightarrow> intent_row \<Rightarrow> ('x, bool) desk_eff" where
  "continue_child ow env plan row rules child =
     (if i_state child = PREPARED then
        bindW (liftW (intent_body env child)) (\<lambda>request.
        bindW (resume_child ow env row rules child request ''CRASHED_PREPARED_CHILD_RESUMED_AND_CONFIRMED'') (\<lambda>state.
        bindW (abort ow (i_id plan) (''prepared replacement child resumed with state '' @ state)) (\<lambda>_. returnW True)))
      else if i_state child = CONFIRMED then
        bindW (if is_list_endpoint (i_endpoint child)
               then get_order_list ow PNone (text_of (i_list_client child))
               else get_order ow (i_symbol plan) PNone (text_of (i_client child))) (\<lambda>answer.
        bindW (liftW (intent_body env child)) (\<lambda>request.
        bindW (rebind ow env child row (i_endpoint child) answer request request ''CRASHED_CONFIRMED_CHILD_REBOUND'') (\<lambda>_.
        bindW (abort ow (i_id plan) ''replacement child was already confirmed and rebound'') (\<lambda>_. returnW True))))
      else if i_state child \<in> {SUBMITTING, INTENT_AMBIGUOUS} then returnW False
      else bindW (abort ow (i_id plan) (''replacement child ended '' @ intent_text (i_state child) @ ''; no blind retry''))
        (\<lambda>_. returnW True))"

definition held_btc :: "'x outside \<Rightarrow> symbol_rules \<Rightarrow> ('x, dec) desk_eff" where
  "held_btc ow rules = bindW (free_balance ow ''BTC'') (\<lambda>b. liftW (exn FactoryExn (floor_step b (r_step rules))))"

text \<open>Whether BTC is still there, free or locked, when none is free.\<close>

definition btc_remains :: "'x outside \<Rightarrow> symbol_rules \<Rightarrow> ('x, bool) desk_eff" where
  "btc_remains ow rules =
     bindW (account_balances ow) (\<lambda>bs. let (free, locked) = balance_in bs ''BTC'' in
     bindW (liftW (exn FactoryExn (floor_step (dadd free locked) (r_step rules)))) (\<lambda>amount. returnW (dlt dzero amount)))"

definition resume_plan ::
  "'x outside \<Rightarrow> desk_env \<Rightarrow> intent_row \<Rightarrow> pydict \<Rightarrow> trade_row \<Rightarrow> symbol_rules \<Rightarrow> ('x, bool) desk_eff" where
  "resume_plan ow env plan request row rules =
     bindW (liftW (finite_dec (por (get request ''quantity'') (PStr ''0'')))) (\<lambda>wanted.
     if dle wanted dzero then raiseW (RuntimeExn ''replacement plan quantity is invalid'')
     else
     bindW (held_btc ow rules) (\<lambda>held.
     if dle held dzero then
       bindW (btc_remains ow rules) (\<lambda>remains.
       if remains then raiseW (RuntimeExn ''BTC remains locked while replacement recovery is pending'')
       else
         bindW (abort ow (i_id plan) ''position exited before crashed replacement could resume'') (\<lambda>_.
         bindW (upsert ow (t_id row) (t_pair row)
           [lifecycle_is EXIT_FILLED, remark ''EXIT_VERIFIED_DURING_REPLACEMENT_RECOVERY'']) (\<lambda>_. returnW True)))
     else
     bindW (liftW (exn FactoryExn (floor_step wanted (r_step rules)))) (\<lambda>whole.
     let params = (if dlt held whole then alist_put ''quantity'' (dtext held) request else request) in
     bindW (preflight ow env rules (i_endpoint plan) params [] False) (\<lambda>_.
     bindW (submit_once ow env ''PROTECTION'' (text_of (i_trade plan)) (i_symbol plan) (i_endpoint plan) params (i_id plan)) (\<lambda>s.
     bindW (abort ow (i_id plan)
       (''replacement plan resumed into child intent '' @ sb_intent s @ '': '' @ sb_status s)) (\<lambda>_.
     bindW (if sb_status s = ''CONFIRMED'' \<and> is_dict (sb_response s)
            then bindW (find_intent (sb_intent s)) (\<lambda>i.
              rebind ow env i row (i_endpoint plan) (sb_response s) params request
                ''CRASHED_REPLACEMENT_RESUMED_AND_CONFIRMED'')
            else returnW ()) (\<lambda>_. returnW True)))))))"

text \<open>The last of a list, in the order of creation.\<close>

definition newest_of :: "'a list \<Rightarrow> 'a option" where
  "newest_of xs = (if xs = [] then None else Some (last xs))"

definition resume_prepared_replacement :: "'x outside \<Rightarrow> desk_env \<Rightarrow> intent_row \<Rightarrow> ('x, bool) desk_eff" where
  "resume_prepared_replacement ow env plan =
     bindW (liftW (intent_body env plan)) (\<lambda>request.
     let tid = text_of (i_trade plan) in
     bindW (store_get (\<lambda>s. intents_for_trade tid (st_intents s))) (\<lambda>related.
     case newest_of (List.filter (\<lambda>i. i_operation i = ''CANCEL_PROTECTION'') related) of
       None \<Rightarrow> bindW (abort ow (i_id plan) ''replacement plan ended before any cancel intent was prepared'')
         (\<lambda>_. returnW True)
     | Some cancel \<Rightarrow>
         if i_state cancel \<noteq> CONFIRMED then returnW False
         else
         bindW (liftW (intent_body env cancel)) (\<lambda>cancel_request.
         bindW (cancel_is_terminal ow (i_endpoint cancel) (i_symbol plan) cancel_request) (\<lambda>gone.
         if \<not> gone then returnW False
         else
         bindW (require_trade tid ''replacement plan has no durable trade'') (\<lambda>row.
         bindW load_pair (\<lambda>active.
         bindW (rules_for ow env (pstr (get active ''pair''))) (\<lambda>rules.
         case newest_of (List.filter (\<lambda>i. text_of (i_parent i) = i_id plan) related) of
           Some child \<Rightarrow> continue_child ow env plan row rules child
         | None \<Rightarrow> resume_plan ow env plan request row rules)))))))"

subsection \<open>Every open intent\<close>

text \<open>A PREPARED intent other than a plan: the answer is whether it counts as resolved.\<close>

definition resolve_prepared :: "'x outside \<Rightarrow> desk_env \<Rightarrow> intent_row \<Rightarrow> pydict \<Rightarrow> ('x, bool) desk_eff" where
  "resolve_prepared ow env i request =
     (let operation = upper (i_operation i); tid = text_of (i_trade i) in
      if operation = ''REPLACE_PROTECTION'' then returnW False
      else if operation = ''PROTECTION'' \<and> text_of (i_parent i) \<noteq> [] then
        bindW (require_trade tid ''prepared protection child has no durable trade'') (\<lambda>row.
        bindW (rules_for ow env (t_pair row)) (\<lambda>rules.
        bindW (resume_child ow env row rules i request ''PREPARED_REPLACEMENT_CHILD_RESUMED'') (\<lambda>_. returnW True)))
      else
        bindW (abort ow (i_id i) ''startup proved POST was never begun'') (\<lambda>_.
        bindW (if operation = ''ENTRY'' \<and> tid \<noteq> [] then
                 bindW (store_get (trade tid)) (\<lambda>found. case found of
                     None \<Rightarrow> returnW ()
                   | Some row \<Rightarrow> upsert ow (t_id row) (t_pair row)
                       [lifecycle_is ENTRY_REJECTED, remark ''ENTRY_PREPARED_ABORTED_BEFORE_POST''])
               else returnW ()) (\<lambda>_. returnW True)))"

definition resolve_cancel :: "'x outside \<Rightarrow> intent_row \<Rightarrow> pydict \<Rightarrow> ('x, bool) desk_eff" where
  "resolve_cancel ow i request =
     (let why = ''cancel terminal state confirmed by GET'' in
      if i_endpoint i = ''DELETE/orderList'' then
        bindW (fetch_list ow (get request ''orderListId'') []) (\<lambda>response.
        if terminal_list_status response
        then bindW (finish ow (i_id i) ''CONFIRMED'' PNone (get response ''orderListId'') why) (\<lambda>_. returnW True)
        else raiseW (RuntimeExn ''order-list cancel outcome not terminal''))
      else
        bindW (fetch_order ow (i_symbol i) (get request ''orderId'') []) (\<lambda>response.
        if terminal_order_status response
        then bindW (finish ow (i_id i) ''CONFIRMED'' (get response ''orderId'') PNone why) (\<lambda>_. returnW True)
        else raiseW (RuntimeExn ''order cancel outcome not terminal'')))"

text \<open>A placement that may have landed is looked up by its client identifier.\<close>

definition resolve_placement :: "'x outside \<Rightarrow> desk_env \<Rightarrow> intent_row \<Rightarrow> pydict \<Rightarrow> ('x, bool) desk_eff" where
  "resolve_placement ow env i request =
     bindW (if is_list_endpoint (i_endpoint i) then get_order_list ow PNone (text_of (i_list_client i))
            else if i_endpoint i = ''order'' then get_order ow (i_symbol i) PNone (text_of (i_client i))
            else raiseW (RuntimeExn ''unsupported durable intent endpoint'')) (\<lambda>answer.
     let response = items answer in
     if \<not> truthy (exchange_id (i_endpoint i) response)
     then raiseW (RuntimeExn ''client-ID lookup returned no exchange identifier'')
     else
     bindW (finish ow (i_id i) ''CONFIRMED'' (get response ''orderId'') (get response ''orderListId'')
       ''confirmed by deterministic client-ID GET'') (\<lambda>_.
     bindW (find_intent (i_id i)) (\<lambda>confirmed.
     bindW (bind_confirmed ow env confirmed answer request) (\<lambda>_. returnW True))))"

definition resolve_intent :: "'x outside \<Rightarrow> desk_env \<Rightarrow> intent_row \<Rightarrow> ('x, bool) desk_eff" where
  "resolve_intent ow env i =
     bindW (liftW (intent_body env i)) (\<lambda>request.
     if i_state i = PREPARED then resolve_prepared ow env i request
     else if i_endpoint i \<in> {''DELETE/orderList'', ''DELETE/order''} then resolve_cancel ow i request
     else resolve_placement ow env i request)"

text \<open>\<open>try\<close> for every element; a failure does not stop the loop.\<close>

fun attempts :: "('a \<Rightarrow> ('s, 'e, 'b) eff) \<Rightarrow> 'a list \<Rightarrow> ('s, 'e, ('e + 'b) list) eff" where
  "attempts f [] = returnW []"
| "attempts f (x # xs) = bindW (tryW (f x)) (\<lambda>r. bindW (attempts f xs) (\<lambda>rs. returnW (r # rs)))"

record resolution =
  rs_resolved :: nat
  rs_remaining :: nat
  rs_errors :: nat

definition is_plan :: "intent_row \<Rightarrow> bool" where
  "is_plan i \<longleftrightarrow> i_state i = PREPARED \<and> i_operation i = ''REPLACE_PROTECTION''"

definition resolve_operation_intents :: "'x outside \<Rightarrow> desk_env \<Rightarrow> ('x, resolution) desk_eff" where
  "resolve_operation_intents ow env =
     bindW (store_get (\<lambda>s. unresolved_intents (st_intents s))) (\<lambda>open_intents.
     bindW (attempts (resolve_intent ow env) open_intents) (\<lambda>first.
     bindW (store_get (\<lambda>s. List.filter is_plan (unresolved_intents (st_intents s)))) (\<lambda>plans.
     bindW (attempts (resume_prepared_replacement ow env) plans) (\<lambda>second.
     bindW (store_get (\<lambda>s. length (unresolved_intents (st_intents s)))) (\<lambda>remaining.
     let rs = first @ second in
     returnW \<lparr>rs_resolved = length (List.filter (\<lambda>r. r = Inr True) rs), rs_remaining = remaining,
       rs_errors = length (List.filter (\<lambda>r. isl r) rs)\<rparr>)))))"

end
