(* ===== verification/Adapter_Entry.thy ===== *)
theory Adapter_Entry
  imports Adapter_Recover
begin

text \<open>
  Entries that are not fully filled: cancelling the rest of the order list, protecting
  what was bought and expiring an entry that stays open too long
  (\<open>_cancel_entry_list\<close>, \<open>_place_partial_protection\<close>, \<open>_expire_stale_entry\<close>).
  The seed of an identifier is written with compact separators throughout, and a difference
  of two clock readings is the difference of their decimal texts.
\<close>

text \<open>Iterating over a value: a mapping gives its keys, a text its characters.\<close>

definition iterate :: "pyval \<Rightarrow> py_exn + pyval list" where
  "iterate v = (case v of
       PList xs \<Rightarrow> Inr xs
     | PDict kvs \<Rightarrow> Inr (map (\<lambda>(k, _). PStr k) kvs)
     | PStr s \<Rightarrow> Inr (map (\<lambda>c. PStr [c]) s)
     | _ \<Rightarrow> Inl AttributeExn)"

text \<open>\<open>int(row.get(col) or 0)\<close>.\<close>

definition row_id :: "trade_row \<Rightarrow> string \<Rightarrow> py_exn + int" where
  "row_id row col = integer (por (t_cols row col) (PInt 0))"

definition item_id :: "pydict \<Rightarrow> string \<Rightarrow> py_exn + int" where
  "item_id item key = integer (por (get_or item key (PInt 0)) (PInt 0))"

definition ids_in :: "string \<Rightarrow> pyval list \<Rightarrow> py_exn + int list" where
  "ids_in key xs = mapE (\<lambda>v. item_id (items v) key) (List.filter is_dict xs)"

definition protection_is_open :: "trade_row \<Rightarrow> pyval \<Rightarrow> pyval \<Rightarrow> py_exn + bool" where
  "protection_is_open row orders order_lists =
     bindE (bindE (iterate orders) (ids_in ''orderId'')) (\<lambda>order_ids.
     bindE (bindE (iterate order_lists) (ids_in ''orderListId'')) (\<lambda>list_ids.
     bindE (row_id row ''stop_order_id'') (\<lambda>stop.
     bindE (row_id row ''take_profit_order_id'') (\<lambda>tp.
     if pstr (por (t_cols row ''protection_mode'') (PStr [])) = mode_value TRAILING_ONLY
     then Inr (stop \<noteq> 0 \<and> stop \<in> set order_ids)
     else bindE (row_id row ''order_list_id'') (\<lambda>lst.
       Inr (lst \<noteq> 0 \<and> lst \<in> set list_ids \<and> stop \<in> set order_ids \<and> tp \<in> set order_ids))))))"

text \<open>An intent that carries no client identifiers.\<close>

definition plain_intent :: "string \<Rightarrow> string \<Rightarrow> string \<Rightarrow> string \<Rightarrow> string \<Rightarrow> pydict \<Rightarrow> intent_request" where
  "plain_intent k operation tid symbol endpoint request =
     \<lparr>q_id = k, q_operation = operation, q_trade = Some tid, q_symbol = symbol, q_endpoint = endpoint,
      q_params = request, q_client = [], q_list_client = [], q_parent = [], q_close_parent = []\<rparr>"

definition already_confirmed :: "string \<Rightarrow> ('x, bool) desk_eff" where
  "already_confirmed k = getW (\<lambda>d. state_of k (st_intents (dk_store d)) = Some CONFIRMED)"

definition cancel_entry_list ::
  "'x outside \<Rightarrow> desk_env \<Rightarrow> trade_row \<Rightarrow> string \<Rightarrow> string \<Rightarrow> ('x, bool \<times> string) desk_eff" where
  "cancel_entry_list ow env row symbol operation =
     bindW (liftW (row_id row ''order_list_id'')) (\<lambda>lst.
     if lst = 0 then returnW (True, ''entry list is already absent'')
     else
     let request = [(''symbol'', PStr symbol), (''orderListId'', PInt lst)];
         k = digest_id env (PList [PStr operation, PStr (t_id row), PDict request]) in
     bindW (prepare ow env (plain_intent k operation (t_id row) symbol ''DELETE/orderList'' request)) (\<lambda>won.
     if \<not> won then bindW (already_confirmed k) (\<lambda>yes. returnW
         (if yes then (True, ''entry-list cancellation was already confirmed'')
          else (False, ''entry-list cancellation remains unresolved'')))
     else
     bindW (mark_submitting ow k) (\<lambda>_.
     bindW (tryW (cancel_order_list ow k symbol lst)) (\<lambda>answer. case answer of
         Inl e \<Rightarrow> bindW (finish ow k ''AMBIGUOUS'' PNone PNone (de_redact env e)) (\<lambda>_.
           returnW (False, ''entry-list cancellation outcome is ambiguous''))
       | Inr v \<Rightarrow>
           if is_dict v \<and> terminal_list_status (items v) then
             bindW (finish ow k ''CONFIRMED'' PNone (get (items v) ''orderListId'') []) (\<lambda>_.
             returnW (True, ''partially-filled entry list canceled''))
           else
             bindW (finish ow k ''AMBIGUOUS'' PNone PNone ''cancel response did not prove ALL_DONE'') (\<lambda>_.
             returnW (False, ''entry-list cancellation response was not terminal''))))))"

subsection \<open>Protection of a partial fill\<close>

text \<open>Looking an entry up: its answer after it was recorded as an event, or a reason.\<close>

definition observe_entry ::
  "'x outside \<Rightarrow> desk_env \<Rightarrow> trade_row \<Rightarrow> string \<Rightarrow> string \<Rightarrow> string \<Rightarrow> ('x, string + pydict) desk_eff" where
  "observe_entry ow env row symbol mismatch no_status =
     bindW (fetch_order ow symbol (por (t_cols row ''entry_order_id'') PNone)
       (pstr (por (t_cols row ''entry_client_order_id'') (PStr [])))) (\<lambda>entry.
     bindW (liftW (item_id entry ''orderId'')) (\<lambda>seen.
     bindW (liftW (row_id row ''entry_order_id'')) (\<lambda>known.
     if seen \<noteq> known then returnW (Inl mismatch)
     else
     bindW (liftW (rest_event (PDict entry) (t_cols row ''order_list_id''))) (\<lambda>ev. case ev of
         None \<Rightarrow> returnW (Inl no_status)
       | Some e \<Rightarrow> bindW (record_authenticated_event ow env e) (\<lambda>_. returnW (Inr entry))))))"

definition reread :: "trade_row \<Rightarrow> ('x, trade_row) desk_eff" where
  "reread row = store_get (\<lambda>s. case trade (t_id row) s of None \<Rightarrow> row | Some r \<Rightarrow> r)"

fun list_is_open :: "trade_row \<Rightarrow> pyval list \<Rightarrow> py_exn + bool" where
  "list_is_open row [] = Inr False"
| "list_is_open row (v # vs) =
     bindE (as_dict v) (\<lambda>item.
     bindE (item_id item ''orderListId'') (\<lambda>i.
     bindE (row_id row ''order_list_id'') (\<lambda>lst. if i = lst then Inr True else list_is_open row vs)))"

definition refetch_entry :: "'x outside \<Rightarrow> trade_row \<Rightarrow> string \<Rightarrow> ('x, pydict) desk_eff" where
  "refetch_entry ow row symbol =
     bindW (liftW (integer (t_cols row ''entry_order_id''))) (\<lambda>i. fetch_order ow symbol (PInt i) [])"

definition dmin :: "dec \<Rightarrow> dec \<Rightarrow> dec" where
  "dmin a b = (if dlt b a then b else a)"

definition quantity_column :: "trade_row \<Rightarrow> string \<Rightarrow> py_exn + dec" where
  "quantity_column row col = finite_dec (por (t_cols row col) (PStr ''0''))"

text \<open>The sell orders for what was bought, once the entry can fill no further.\<close>

definition protect_filled ::
  "'x outside \<Rightarrow> desk_env \<Rightarrow> trade_row \<Rightarrow> pydict \<Rightarrow> symbol_rules \<Rightarrow> string \<Rightarrow> ('x, bool \<times> string) desk_eff" where
  "protect_filled ow env row active rules symbol =
     bindW (free_balance ow ''BTC'') (\<lambda>held.
     bindW (liftW (quantity_column row ''filled_quantity'')) (\<lambda>filled.
     bindW (liftW (exn FactoryExn (floor_step (dmin held filled) (r_step rules)))) (\<lambda>qty.
     if dle qty dzero then returnW (False, ''no sellable BTC quantity for partial-fill protection'')
     else
     bindW (let v = t_cols row ''average_entry_price'' in
            if truthy v then liftW (finite_dec v) else current_price ow symbol) (\<lambda>entry_price.
     bindW (current_price ow symbol) (\<lambda>current.
     bindW mode_in_use (\<lambda>mode.
     bindW (liftW (require_capabilities rules mode False)) (\<lambda>_.
     bindW (build_replacement ow env mode rules qty entry_price current None None) (\<lambda>(endpoint, params).
     bindW (preflight ow env rules endpoint params [] False) (\<lambda>_.
     bindW (submit_once ow env ''PARTIAL_FILL_PROTECTION'' (t_id row) symbol endpoint params []) (\<lambda>s.
     if sb_status s \<noteq> ''CONFIRMED'' then returnW (False, ''partial-fill protection not confirmed: '' @ sb_detail s)
     else
     bindW (bind_submission ow env s params) (\<lambda>_.
     bindW (upsert ow (t_id row) (pstr (get active ''pair'')) [remark ''PARTIAL_FILL_PROTECTED'']) (\<lambda>_.
     returnW (True, ''partial fill protected'')))))))))))))"

text \<open>
  The order list is still open: it is cancelled and the entry is read again. Its final
  cumulative fill is what may be sold.
\<close>

definition close_entry ::
  "'x outside \<Rightarrow> desk_env \<Rightarrow> trade_row \<Rightarrow> string \<Rightarrow> ('x, string + trade_row) desk_eff" where
  "close_entry ow env row symbol =
     bindW (cancel_entry_list ow env row symbol ''CANCEL_PARTIAL_ENTRY'') (\<lambda>(canceled, why).
     if \<not> canceled then returnW (Inl why)
     else
     bindW (refetch_entry ow row symbol) (\<lambda>entry.
     bindW (liftW (rest_event (PDict entry) (t_cols row ''order_list_id''))) (\<lambda>ev. case ev of
         None \<Rightarrow> returnW (Inl ''working entry is not terminal after list cancellation'')
       | Some e \<Rightarrow>
           if \<not> terminal_order_status entry then returnW (Inl ''working entry is not terminal after list cancellation'')
           else
           bindW (record_authenticated_event ow env e) (\<lambda>_.
           bindW (replay_trade ow (t_id row)) (\<lambda>_.
           bindW (reread row) (\<lambda>row'. returnW (Inr row')))))))"

definition recoverable :: "string list" where
  "recoverable = [''PARTIALLY_FILLED'', ''CANCELED'', ''EXPIRED'', ''REJECTED'', ''FILLED'']"

definition place_partial_protection :: "'x outside \<Rightarrow> desk_env \<Rightarrow> string \<Rightarrow> ('x, bool \<times> string) desk_eff" where
  "place_partial_protection ow env symbol =
     bindW (store_query StoreExn (active_trade_for_symbol symbol)) (\<lambda>found. case found of
       None \<Rightarrow> returnW (False, ''partial trade record is missing'')
     | Some row0 \<Rightarrow>
     bindW load_pair (\<lambda>active.
     bindW (rules_for ow env (pstr (get active ''pair''))) (\<lambda>rules.
     bindW (observe_entry ow env row0 symbol ''working entry lookup identity mismatch''
       ''working entry lookup did not contain a terminal/active status'') (\<lambda>seen. case seen of
       Inl why \<Rightarrow> returnW (False, why)
     | Inr entry \<Rightarrow>
     bindW (replay_trade ow (t_id row0)) (\<lambda>_.
     bindW (reread row0) (\<lambda>row.
     let status = token entry ''status'' in
     bindW (ask ow (OpenOrders (Some symbol))) (\<lambda>open_orders.
     bindW (open_order_lists ow) (\<lambda>open_lists.
     bindW (if status = ''FILLED'' then liftW (protection_is_open row open_orders open_lists) else returnW False) (\<lambda>covered.
     if covered then
       bindW (upsert ow (t_id row) (pstr (get active ''pair''))
         [lifecycle_is PROTECTION_ACTIVE, remark ''ENTRY_FILLED_AND_PENDING_PROTECTION_VERIFIED_OPEN'']) (\<lambda>_.
       returnW (True, ''entry completed and exchange protection is verified open''))
     else if status \<notin> set recoverable then returnW (False, ''working entry status is not recoverable'')
     else
     bindW (liftW (bindE (iterate open_lists) (list_is_open row))) (\<lambda>original_open.
     if original_open then
       bindW (close_entry ow env row symbol) (\<lambda>closed. case closed of
           Inl why \<Rightarrow> returnW (False, why)
         | Inr row' \<Rightarrow> protect_filled ow env row' active rules symbol)
     else if \<not> terminal_order_status entry then
       returnW (False, ''working BUY is still active while its order list is absent; ''
         @ ''standalone protection would create a double-sell race'')
     else protect_filled ow env row active rules symbol))))))))))"

subsection \<open>Expiry of an entry\<close>

text \<open>A quantity; the inner \<open>None\<close> is one that is not finite or negative.\<close>

definition amount_of :: "pyval \<Rightarrow> py_exn + dec option" where
  "amount_of v = (case to_dec (por v (PStr ''0'')) of
       None \<Rightarrow> Inl DecimalExn
     | Some (Fin x) \<Rightarrow> Inr (if dlt x dzero then None else Some x)
     | Some _ \<Rightarrow> Inr None)"

definition executed_quantity :: "pydict \<Rightarrow> py_exn + dec option" where
  "executed_quantity order = amount_of (get order ''executedQty'')"

definition add_recovery :: "string \<Rightarrow> ('x, unit) desk_eff" where
  "add_recovery symbol = modifyW (\<lambda>d. d\<lparr>dk_partial := List.insert symbol (dk_partial d)\<rparr>)"

definition trade_symbol :: "trade_row \<Rightarrow> string" where
  "trade_symbol row = remove_char (CHR ''/'') (t_pair row)"

text \<open>When the entry was sent: \<open>None\<close> for a time that is no finite number.\<close>

definition submitted_at :: "trade_row \<Rightarrow> py_exn + dec option" where
  "submitted_at row = (case to_float (por (t_cols row ''entry_submitted_at'') (PFloat NotANumber)) of
       None \<Rightarrow> Inl DecimalExn | Some (Fin t) \<Rightarrow> Inr (Some t) | Some _ \<Rightarrow> Inr None)"

definition entry_closed ::
  "'x outside \<Rightarrow> desk_env \<Rightarrow> trade_row \<Rightarrow> string \<Rightarrow> dec \<Rightarrow> string \<Rightarrow> ('x, bool \<times> string) desk_eff" where
  "entry_closed ow env row symbol executed status =
     (if dlt dzero executed \<or> status = ''FILLED'' then
        bindW (add_recovery symbol) (\<lambda>_.
        bindW (pause ow env ''stale-entry-fill-needs-protection'') (\<lambda>_.
        place_partial_protection ow env symbol))
      else
        bindW (store_get (trade (t_id row))) (\<lambda>current.
        bindW (if current \<noteq> None then upsert ow (t_id row) (t_pair row)
                 [lifecycle_is ENTRY_REJECTED, remark ''STALE_ENTRY_CANCELED_WITH_NO_FILL''] else returnW ()) (\<lambda>_.
        returnW (True, ''stale unfilled entry canceled and verified terminal''))))"

definition expire_open_entry ::
  "'x outside \<Rightarrow> desk_env \<Rightarrow> trade_row \<Rightarrow> string \<Rightarrow> ('x, bool \<times> string) desk_eff" where
  "expire_open_entry ow env row symbol =
     bindW (cancel_entry_list ow env row symbol ''CANCEL_STALE_ENTRY'') (\<lambda>(canceled, why).
     if \<not> canceled then returnW (False, why)
     else
     bindW (refetch_entry ow row symbol) (\<lambda>entry.
     if \<not> terminal_order_status entry
     then returnW (False, ''stale working BUY is not terminal after cancellation'')
     else
     bindW (liftW (rest_event (PDict entry) (t_cols row ''order_list_id''))) (\<lambda>ev. case ev of
       None \<Rightarrow> returnW (False, ''terminal stale entry lookup returned no status'')
     | Some e \<Rightarrow>
     bindW (record_authenticated_event ow env e) (\<lambda>_.
     bindW (liftW (executed_quantity entry)) (\<lambda>executed. case executed of
       None \<Rightarrow> returnW (False, ''terminal stale entry quantity is malformed'')
     | Some x \<Rightarrow> entry_closed ow env row symbol x (token entry ''status''))))))"

definition expire_stale_entry :: "'x outside \<Rightarrow> desk_env \<Rightarrow> trade_row \<Rightarrow> ('x, bool \<times> string) desk_eff" where
  "expire_stale_entry ow env row =
     (let symbol = trade_symbol row in
     bindW (liftW (submitted_at row)) (\<lambda>sent. case sent of
       None \<Rightarrow> returnW (False, ''entry submission time is missing or malformed'')
     | Some t \<Rightarrow>
     bindW (look ow) (\<lambda>r.
     if dle (dsub (rd_time r) t) (of_int_dec (de_max_open env))
     then returnW (True, ''entry remains within its bounded open window'')
     else
     bindW (observe_entry ow env row symbol ''stale entry lookup identity mismatch''
       ''stale entry lookup returned no status'') (\<lambda>seen. case seen of
       Inl why \<Rightarrow> returnW (False, why)
     | Inr entry \<Rightarrow>
     bindW (liftW (executed_quantity entry)) (\<lambda>executed. case executed of
       None \<Rightarrow> returnW (False, ''stale entry executed quantity is malformed'')
     | Some x \<Rightarrow>
         if terminal_order_status entry then entry_closed ow env row symbol x (token entry ''status'')
         else expire_open_entry ow env row symbol)))))"

end
