(* ===== verification/Adapter_Reconcile.thy ===== *)
theory Adapter_Reconcile
  imports Adapter_Entry
begin

text \<open>
  Reconciliation with the exchange: every open intent, every nonterminal trade, every open
  order and the BTC balance have to be explained by the durable records before entries may
  be armed (\<open>verified_reconcile\<close>), and nothing may be open before the pair is
  switched (\<open>verify_flat_for_switch\<close>).
\<close>

subsection \<open>Ownership\<close>

text \<open>The exceptions that \<open>except (ArithmeticError, TypeError, ValueError)\<close> takes.\<close>

definition is_value_error :: "py_exn \<Rightarrow> bool" where
  "is_value_error e = (case e of
       FactoryExn _ \<Rightarrow> True | DecimalExn \<Rightarrow> True | IntExn \<Rightarrow> True | ValueExn _ \<Rightarrow> True | PolicyExn _ \<Rightarrow> True
     | ConfigExn _ \<Rightarrow> True | FilterExn (FilterViolation _) \<Rightarrow> True | _ \<Rightarrow> False)"

definition known_ids :: "trade_row list \<Rightarrow> string list \<Rightarrow> py_exn + int list" where
  "known_ids rows cols =
     mapE integer (List.filter stored_id (concat (map (\<lambda>r. map (t_cols r) cols) rows)))"

definition order_columns :: "string list" where
  "order_columns = [''entry_order_id'', ''take_profit_order_id'', ''stop_order_id'']"

text \<open>The identifiers of open orders; \<open>None\<close> where one is missing or malformed.\<close>

definition exchange_ids :: "string \<Rightarrow> pyval list \<Rightarrow> int list option" where
  "exchange_ids key xs =
     (case mapE (\<lambda>v. of_option IntExn (Option.bind (map_of (items v) key) to_int)) (List.filter is_dict xs) of
        Inl _ \<Rightarrow> None | Inr is \<Rightarrow> Some (remdups is))"

definition protected_lifecycles :: "lifecycle list" where
  "protected_lifecycles = [ENTRY_FILLED, PROTECTION_ACTIVE, BREAK_EVEN_ARMED, PROFIT_LOCKED, TRAILING_ACTIVE]"

definition lifecycle_in :: "trade_row \<Rightarrow> lifecycle list \<Rightarrow> bool" where
  "lifecycle_in row ls \<longleftrightarrow> lifecycle_of row \<in> set (map lc_value ls)"

text \<open>One trade is open: the BTC of the account lies between its protected and its recorded quantity.\<close>

definition owned_by_row :: "trade_row \<Rightarrow> symbol_rules \<Rightarrow> dec \<Rightarrow> pyval \<Rightarrow> pyval \<Rightarrow> py_exn + bool \<times> string" where
  "owned_by_row row rules held orders order_lists =
     bindE (quantity_column row ''filled_quantity'') (\<lambda>filled.
     bindE (quantity_column row ''protected_quantity'') (\<lambda>protected.
     if dlt filled dzero \<or> dlt protected dzero then Inl (ValueExn ''invalid recorded BTC quantity'')
     else
     bindE (exn FactoryExn (floor_step (dmax filled protected) (r_step rules))) (\<lambda>most.
     bindE (exn FactoryExn (floor_step protected (r_step rules))) (\<lambda>least.
     if dlt most held \<or> dlt held least
     then Inr (False, ''BTC balance is outside the durable bot-owned quantity'')
     else if lifecycle_in row [ENTRY_PARTIALLY_FILLED]
     then Inr (False, ''partially-filled entry BTC is not yet verified protected'')
     else if lifecycle_in row [ENTRY_SUBMITTED] \<and> dlt dzero held
     then Inr (False, ''submitted entry has BTC exposure but no verified protection'')
     else if lifecycle_in row protected_lifecycles then
       bindE (protection_is_open row orders order_lists) (\<lambda>covered.
       Inr (if covered then (True, []) else (False, ''durable exchange protection is not open'')))
     else Inr (True, [])))))"

definition owned_balance ::
  "'x outside \<Rightarrow> desk_env \<Rightarrow> string \<Rightarrow> trade_row list \<Rightarrow> pyval \<Rightarrow> pyval \<Rightarrow> dec \<times> dec \<Rightarrow> ('x, bool \<times> string) desk_eff" where
  "owned_balance ow env pair rows orders order_lists btc = catchW
     (let held = dadd (fst btc) (snd btc) in
      if dlt held dzero then raiseW (ValueExn ''invalid BTC total'')
      else
      bindW (rules_for ow env pair) (\<lambda>rules.
      bindW (liftW (exn FactoryExn (floor_step held (r_step rules)))) (\<lambda>rounded.
      case rows of
        [] \<Rightarrow> returnW (if dlt dzero rounded then (False, ''unowned BTC balance exists'') else (True, []))
      | row # _ \<Rightarrow> liftW (owned_by_row row rules rounded orders order_lists))))
     (\<lambda>e. if is_value_error e then returnW (False, ''BTC ownership state is malformed'') else raiseW e)"

definition reconciled_ownership ::
  "'x outside \<Rightarrow> desk_env \<Rightarrow> pyval \<Rightarrow> pyval \<Rightarrow> (string \<times> dec \<times> dec) list \<Rightarrow> ('x, bool \<times> string) desk_eff" where
  "reconciled_ownership ow env orders order_lists balances =
     bindW (store_get active_trade_rows) (\<lambda>rows.
     if 1 < length rows then returnW (False, ''multiple nonterminal BTC trade records'')
     else
     bindW load_pair (\<lambda>active.
     if list_ex (\<lambda>r. PStr (t_pair r) \<noteq> get active ''pair'') rows
     then returnW (False, ''nonterminal trade belongs to another pair'')
     else
     bindW (liftW (known_ids rows order_columns)) (\<lambda>known_orders.
     bindW (liftW (known_ids rows [''order_list_id''])) (\<lambda>known_lists.
     case (exchange_ids ''orderId'' (elems orders), exchange_ids ''orderListId'' (elems order_lists)) of
       (Some order_ids, Some list_ids) \<Rightarrow>
         if length order_ids \<noteq> length (elems orders) then returnW (False, ''exchange open-order identity is incomplete'')
         else if length list_ids \<noteq> length (elems order_lists) then returnW (False, ''exchange open-list identity is incomplete'')
         else if \<not> (set order_ids \<subseteq> set known_orders \<and> set list_ids \<subseteq> set known_lists)
         then returnW (False, ''unowned exchange order or order list exists'')
         else owned_balance ow env (pstr (get active ''pair'')) rows orders order_lists (balance_in balances ''BTC'')
     | _ \<Rightarrow> returnW (False, ''exchange order identity is malformed'')))))"

subsection \<open>Missed events\<close>

definition refresh_order :: "'x outside \<Rightarrow> desk_env \<Rightarrow> trade_row \<Rightarrow> pyval \<times> pyval \<Rightarrow> ('x, unit) desk_eff" where
  "refresh_order ow env row query = (case query of (order_id, client_id) \<Rightarrow>
     (let symbol = trade_symbol row in
      if \<not> stored_id order_id \<and> \<not> truthy client_id then returnW ()
      else
      bindW (get_order ow symbol (if stored_id order_id then order_id else PNone) (pstr (por client_id (PStr [])))) (\<lambda>v.
      let response = items v in
      if \<not> truthy (get response ''orderId'') then raiseW (RuntimeExn ''order GET returned no orderId'')
      else
      bindW (if stored_id order_id then
               bindW (liftW (integer (get response ''orderId''))) (\<lambda>seen.
               bindW (liftW (integer order_id)) (\<lambda>known.
               if seen = known then returnW () else raiseW (RuntimeExn ''order GET identity mismatch'')))
             else returnW ()) (\<lambda>_.
      if upper (pstr (get_or response ''symbol'' (PStr symbol))) \<noteq> symbol
      then raiseW (RuntimeExn ''order GET symbol mismatch'')
      else bindW (record_rest ow env (t_cols row ''order_list_id'') v) (\<lambda>_. returnW ())))))"

definition list_event :: "string \<Rightarrow> int \<Rightarrow> pyval \<Rightarrow> pydict \<Rightarrow> pydict" where
  "list_event symbol lst raw listing =
     (let type = get_or listing ''listStatusType'' (PStr []); status = get_or listing ''listOrderStatus'' (PStr []) in
      [(''e'', PStr ''listStatus''), (''s'', PStr symbol), (''g'', PInt lst), (''l'', type), (''L'', status),
       (''E'', get_or listing ''transactionTime'' (get_or listing ''updateTime'' (PInt 0))),
       (''u'', PStr (colon_join [''REST-LIST'', pstr raw, pstr type, pstr status]))])"

definition refresh_list :: "'x outside \<Rightarrow> desk_env \<Rightarrow> trade_row \<Rightarrow> ('x, unit) desk_eff" where
  "refresh_list ow env row =
     (let raw = t_cols row ''order_list_id'' in
      bindW (liftW (integer raw)) (\<lambda>lst.
      bindW (fetch_list ow (PInt lst) []) (\<lambda>listing.
      bindW (liftW (item_id listing ''orderListId'')) (\<lambda>seen.
      if seen \<noteq> lst then raiseW (RuntimeExn ''order-list GET identity mismatch'')
      else
      bindW (record_event ow (list_event (trade_symbol row) lst raw listing)) (\<lambda>_.
      bindW (liftW (iterate (por (get listing ''orderReports'') (PList [])))) (\<lambda>reports.
      each (\<lambda>report. bindW (record_rest ow env raw report) (\<lambda>_. returnW ())) reports))))))"

definition refresh_trade :: "'x outside \<Rightarrow> desk_env \<Rightarrow> trade_row \<Rightarrow> ('x, unit) desk_eff" where
  "refresh_trade ow env row =
     bindW (attempts (refresh_order ow env row)
       [(t_cols row ''entry_order_id'', t_cols row ''entry_client_order_id''),
        (t_cols row ''take_profit_order_id'', PStr []), (t_cols row ''stop_order_id'', PStr [])]) (\<lambda>_.
     bindW (attempts (refresh_list ow env) (if stored_id (t_cols row ''order_list_id'') then [row] else [])) (\<lambda>_.
     bindW (replay_trade ow (t_id row)) (\<lambda>_.
     bindW (store_get (trade (t_id row))) (\<lambda>current. case current of
         None \<Rightarrow> returnW ()
       | Some now \<Rightarrow>
           if lifecycle_in now [ENTRY_PARTIALLY_FILLED] then
             bindW (add_recovery (trade_symbol row)) (\<lambda>_. pause ow env ''partial-entry-fill-needs-protection'')
           else returnW ()))))"

definition refresh_durable_exchange_state :: "'x outside \<Rightarrow> desk_env \<Rightarrow> ('x, unit) desk_eff" where
  "refresh_durable_exchange_state ow env =
     bindW (store_get active_trade_rows) (\<lambda>rows. each (refresh_trade ow env) rows)"

subsection \<open>Confirmed emergency exits\<close>

definition confirmed_emergency :: "intent_row \<Rightarrow> bool" where
  "confirmed_emergency i \<longleftrightarrow> upper (i_operation i) = ''EMERGENCY_EXIT'' \<and> i_state i = CONFIRMED"

definition prove_emergency ::
  "'x outside \<Rightarrow> desk_env \<Rightarrow> trade_row \<Rightarrow> intent_row \<Rightarrow> int \<Rightarrow> ('x, bool) desk_eff" where
  "prove_emergency ow env row i order_id =
     bindW (liftW (bindE (of_option (ValueExn ''json'') (de_loads env (i_request i))) as_dict)) (\<lambda>request.
     bindW (liftW (finite_dec (por (get request ''quantity'') (PStr ''0'')))) (\<lambda>requested.
     bindW (liftW (quantity_column row ''filled_quantity'')) (\<lambda>filled.
     bindW (liftW (quantity_column row ''protected_quantity'')) (\<lambda>protected.
     let recorded = dmax filled protected in
     bindW (rules_for ow env (t_pair row)) (\<lambda>rules.
     bindW (fetch_order ow (upper (i_symbol i)) (PInt order_id) []) (\<lambda>order.
     bindW (liftW (item_id order ''orderId'')) (\<lambda>seen.
     if seen \<noteq> order_id then raiseW (RuntimeExn ''emergency order identity mismatch'')
     else if token order ''symbol'' \<noteq> upper (i_symbol i) then raiseW (RuntimeExn ''emergency order symbol mismatch'')
     else if token order ''side'' \<noteq> ''SELL'' then raiseW (RuntimeExn ''emergency order side mismatch'')
     else
     bindW (liftW (finite_dec (por (get order ''executedQty'') (PStr ''0'')))) (\<lambda>executed.
     if list_ex (\<lambda>v. dle v dzero) [requested, recorded, executed]
     then raiseW (RuntimeExn ''emergency quantities are not finite positive values'')
     else if get request ''newClientOrderId'' \<noteq> get order ''clientOrderId''
     then raiseW (RuntimeExn ''emergency client order identity mismatch'')
     else
     bindW (liftW (exn FactoryExn (floor_step recorded (r_step rules)))) (\<lambda>whole.
     bindW (if token order ''status'' = ''FILLED'' \<and> dec_eq executed requested
            then bindW (liftW (finite_dec (por (get order ''origQty'') (PStr ''0'')))) (\<lambda>orig. returnW (dec_eq orig requested))
            else returnW False) (\<lambda>full_fill.
     if dec_eq requested whole \<and> full_fill then
       bindW (record_rest ow env PNone (PDict order)) (\<lambda>_.
       bindW (upsert ow (t_id row) (t_pair row) [lifecycle_is EXIT_FILLED, remark ''EMERGENCY_EXIT_RECONCILED'']) (\<lambda>_.
       returnW True))
     else returnW False))))))))))"

definition reconcile_emergency :: "'x outside \<Rightarrow> desk_env \<Rightarrow> trade_row \<Rightarrow> ('x, bool) desk_eff" where
  "reconcile_emergency ow env row =
     bindW (store_get (\<lambda>s. newest_of (List.filter confirmed_emergency (intents_for_trade (t_id row) (st_intents s))))) (\<lambda>found.
     case found of
       None \<Rightarrow> returnW True
     | Some i \<Rightarrow>
         bindW (liftW (integer (por (i_order i) (PInt 0)))) (\<lambda>order_id.
         if order_id \<le> 0 then returnW False
         else catchW (prove_emergency ow env row i order_id) (\<lambda>_. returnW False)))"

fun collect :: "('a \<Rightarrow> ('s, 'e, bool) eff) \<Rightarrow> 'a list \<Rightarrow> ('s, 'e, bool) eff" where
  "collect f [] = returnW True"
| "collect f (x # xs) = bindW (f x) (\<lambda>b. bindW (collect f xs) (\<lambda>bs. returnW (b \<and> bs)))"

definition reconcile_confirmed_emergency_exits :: "'x outside \<Rightarrow> desk_env \<Rightarrow> ('x, bool) desk_eff" where
  "reconcile_confirmed_emergency_exits ow env =
     bindW (store_get active_trade_rows) (\<lambda>rows. collect (reconcile_emergency ow env) rows)"

subsection \<open>Verified reconciliation\<close>

text \<open>A step whose exception counts as a failure.\<close>

definition ok_of :: "('s, 'e, bool \<times> string) eff \<Rightarrow> ('s, 'e, bool) eff" where
  "ok_of m = catchW (bindW m (\<lambda>(ok, why). returnW ok)) (\<lambda>_. returnW False)"

definition stale_entry_step :: "'x outside \<Rightarrow> desk_env \<Rightarrow> trade_row \<Rightarrow> ('x, bool) desk_eff" where
  "stale_entry_step ow env row = ok_of
     (bindW (liftW (submitted_at row)) (\<lambda>sent. case sent of
         None \<Rightarrow> expire_stale_entry ow env row
       | Some t \<Rightarrow>
           bindW (look ow) (\<lambda>r.
           if dlt (of_int_dec (de_max_open env)) (dsub (rd_time r) t) then expire_stale_entry ow env row
           else returnW (True, ''entry remains within its bounded open window''))))"

definition drop_recovery :: "string \<Rightarrow> ('x, unit) desk_eff" where
  "drop_recovery symbol = modifyW (\<lambda>d. d\<lparr>dk_partial := removeAll symbol (dk_partial d)\<rparr>)"

definition partial_step :: "'x outside \<Rightarrow> desk_env \<Rightarrow> string \<Rightarrow> ('x, bool) desk_eff" where
  "partial_step ow env symbol =
     bindW (ok_of (place_partial_protection ow env symbol)) (\<lambda>ok.
     bindW (if ok then drop_recovery symbol else returnW ()) (\<lambda>_. returnW ok))"

text \<open>The answer of an enumeration that must be a list; \<open>None\<close> where it failed.\<close>

definition enumerate :: "'x outside \<Rightarrow> request \<Rightarrow> ('x, pyval option) desk_eff" where
  "enumerate ow q = catchW (bindW (ask ow q) (\<lambda>v. returnW (if is_list v then Some v else None))) (\<lambda>_. returnW None)"

definition all_balances :: "'x outside \<Rightarrow> ('x, (string \<times> dec \<times> dec) list option) desk_eff" where
  "all_balances ow = catchW (bindW (account_balances ow) (\<lambda>b. returnW (Some b))) (\<lambda>_. returnW None)"

definition ownership_step ::
  "'x outside \<Rightarrow> desk_env \<Rightarrow> ('x, bool) desk_eff" where
  "ownership_step ow env =
     bindW (enumerate ow (OpenOrders None)) (\<lambda>orders.
     bindW (enumerate ow (GetSigned ''openOrderList'' [])) (\<lambda>order_lists.
     bindW (all_balances ow) (\<lambda>balances.
     bindW (store_get (\<lambda>s. unresolved_intents (st_intents s) = [])) (\<lambda>resolved.
     case (orders, order_lists, balances) of
       (Some os, Some ls, Some bs) \<Rightarrow>
         bindW (reconciled_ownership ow env os ls bs) (\<lambda>(owned, why). returnW (resolved \<and> owned))
     | _ \<Rightarrow> returnW False))))"

definition note_reconciliation :: "'x outside \<Rightarrow> string \<Rightarrow> ('x, unit) desk_eff" where
  "note_reconciliation ow status =
     bindW (look ow) (\<lambda>r. modifyW (\<lambda>d. d\<lparr>dk_store := (dk_store d)\<lparr>st_data :=
       alist_put ''last_reconciliation_at'' (PFloat (Fin (rd_time r)))
         (alist_put ''last_reconciliation_status'' (PStr status) (st_data (dk_store d)))\<rparr>\<rparr>))"

definition verified_reconcile :: "'x outside \<Rightarrow> desk_env \<Rightarrow> ('x, bool) desk_eff" where
  "verified_reconcile ow env =
     bindW (resolve_operation_intents ow env) (\<lambda>resolution.
     bindW (refresh_durable_exchange_state ow env) (\<lambda>_.
     bindW (reconcile_confirmed_emergency_exits ow env) (\<lambda>emergency.
     bindW (store_get (\<lambda>s. List.filter (\<lambda>r. lifecycle_in r [ENTRY_SUBMITTED]) (active_trade_rows s))) (\<lambda>waiting.
     bindW (collect (stale_entry_step ow env) waiting) (\<lambda>stale.
     bindW (getW (\<lambda>d. sort (dk_partial d))) (\<lambda>symbols.
     bindW (collect (partial_step ow env) symbols) (\<lambda>partial.
     bindW (ownership_step ow env) (\<lambda>owned.
     let ok = (rs_remaining resolution = 0 \<and> emergency \<and> stale \<and> partial \<and> owned) in
     bindW (note_reconciliation ow (if ok then ''RECONCILED'' else ''RECONCILIATION_FAILED'')) (\<lambda>_.
     bindW (if ok then returnW () else pause ow env ''reconciliation-failed'') (\<lambda>_. returnW ok))))))))))"

subsection \<open>Flatness and pair checks\<close>

definition pair_registered :: "string \<Rightarrow> store \<Rightarrow> pyval" where
  "pair_registered symbol s = get (items (get_or (st_data s) ''symbol_pairs'' (PDict []))) symbol"

definition check_target :: "'x outside \<Rightarrow> desk_env \<Rightarrow> string \<Rightarrow> ('x, unit) desk_eff" where
  "check_target ow env symbol =
     bindW (store_get (pair_registered symbol)) (\<lambda>pair.
     if truthy pair then bindW (rules_for ow env (pstr pair)) (\<lambda>_. returnW ()) else returnW ())"

text \<open>The balances of a flat account are only reported; a failure to read them is no refusal.\<close>

definition verify_flat_for_switch :: "'x outside \<Rightarrow> desk_env \<Rightarrow> string list \<Rightarrow> ('x, bool \<times> string) desk_eff" where
  "verify_flat_for_switch ow env symbols =
     bindW (pause ow env ''pair-switch-verification'') (\<lambda>_.
     bindW (store_get active_trade_rows) (\<lambda>rows.
     if rows \<noteq> [] then returnW (False, ''nonterminal trade record exists'')
     else
     bindW (store_get (\<lambda>s. unresolved_intents (st_intents s))) (\<lambda>open_intents.
     if open_intents \<noteq> [] then returnW (False, ''unresolved operation intent exists'')
     else
     bindW (tryW (bindW (ask ow (OpenOrders None)) (\<lambda>os. bindW (open_order_lists ow) (\<lambda>ls. returnW (os, ls))))) (\<lambda>answer.
     case answer of
       Inl _ \<Rightarrow> returnW (False, ''authenticated flatness enumeration failed'')
     | Inr (orders, order_lists) \<Rightarrow>
         if truthy orders \<or> truthy order_lists
         then returnW (False, ''an exchange order or order list is still open'')
         else
         bindW (each (check_target ow env) symbols) (\<lambda>_.
         bindW (tryW (account_balances ow)) (\<lambda>_.
         returnW (True, ''exchange and durable state verified flat'')))))))"

definition validate_pair :: "'x outside \<Rightarrow> desk_env \<Rightarrow> string \<Rightarrow> ('x, symbol_rules \<times> protection_mode) desk_eff" where
  "validate_pair ow env pair =
     bindW (rules_for ow env pair) (\<lambda>rules.
     bindW mode_in_use (\<lambda>mode.
     bindW (liftW (require_capabilities rules mode True)) (\<lambda>_. returnW (rules, mode))))"

definition configured_entry_quantity :: "desk_env \<Rightarrow> symbol_rules \<Rightarrow> dec \<Rightarrow> ('x, dec \<times> dec) desk_eff" where
  "configured_entry_quantity env rules entry =
     bindW (askW (\<lambda>d. exn FactoryExn (case de_size_base env of
         Some base \<Rightarrow> floor_step base (r_step rules)
       | None \<Rightarrow> bindE (arith (ddiv (dk_size d) entry)) (\<lambda>q. floor_step q (r_step rules))))) (\<lambda>quantity.
     if dle quantity dzero then raiseW (RuntimeExn ''configured BTC entry quantity rounds to zero'')
     else returnW (quantity, dmul quantity entry))"

definition entry_at_ask :: "'x outside \<Rightarrow> symbol_rules \<Rightarrow> string \<Rightarrow> ('x, dec) desk_eff" where
  "entry_at_ask ow rules symbol =
     bindW (best_price ow ''asks'' symbol) (\<lambda>p. liftW (exn FactoryExn (floor_step p (r_tick rules))))"

definition validate_pair_funding ::
  "'x outside \<Rightarrow> desk_env \<Rightarrow> string \<Rightarrow> ('x, symbol_rules \<times> protection_mode \<times> dec \<times> dec) desk_eff" where
  "validate_pair_funding ow env pair =
     bindW (validate_pair ow env pair) (\<lambda>(rules, mode).
     bindW (free_balance ow (r_quote rules)) (\<lambda>quote_free.
     bindW (entry_at_ask ow rules (r_symbol rules)) (\<lambda>entry.
     bindW (configured_entry_quantity env rules entry) (\<lambda>(quantity, required).
     if dlt quote_free required then raiseW (RuntimeExn ''selected pair is not funded'')
     else
     bindW (build_entry ow env mode rules quantity entry) (\<lambda>(endpoint, params).
     bindW (preflight ow env rules endpoint params [] False) (\<lambda>_.
     returnW (rules, mode, quote_free, required)))))))"

end
