(* ===== verification/Adapter_Protect.thy ===== *)
theory Adapter_Protect
  imports Adapter_Reconcile
begin

text \<open>
  Changing and leaving a position: cancel-and-replace of the protective orders, its
  automatic use by market flow, and the emergency exit (\<open>_cancel_protection\<close>,
  \<open>convert\<close>, \<open>_auto_convert\<close>, \<open>maybe_auto_manage\<close>, \<open>emergency_exit\<close>).
\<close>

subsection \<open>Cancelling the protection\<close>

definition has_list :: "trade_row \<Rightarrow> bool" where
  "has_list row \<longleftrightarrow> truthy (t_cols row ''order_list_id'')"

text \<open>Whether an answer shows the protective orders of the row in a terminal state.\<close>

definition protection_gone :: "trade_row \<Rightarrow> pydict \<Rightarrow> py_exn + bool" where
  "protection_gone row response =
     (let (key, col) = (if has_list row then (''orderListId'', ''order_list_id'') else (''orderId'', ''stop_order_id'')) in
      bindE (item_id response key) (\<lambda>seen.
      bindE (integer (t_cols row col)) (\<lambda>known.
      Inr (seen = known \<and> (if has_list row then terminal_list_status response else terminal_order_status response)))))"

definition observe_protection :: "'x outside \<Rightarrow> trade_row \<Rightarrow> string \<Rightarrow> ('x, bool) desk_eff" where
  "observe_protection ow row symbol = catchW
     (bindW (if has_list row
             then bindW (liftW (integer (t_cols row ''order_list_id''))) (\<lambda>i. fetch_list ow (PInt i) [])
             else bindW (liftW (integer (t_cols row ''stop_order_id''))) (\<lambda>i. fetch_order ow symbol (PInt i) [])) (\<lambda>observed.
      liftW (protection_gone row observed)))
     (\<lambda>_. returnW False)"

definition send_cancel :: "'x outside \<Rightarrow> string \<Rightarrow> trade_row \<Rightarrow> string \<Rightarrow> ('x, pyval) desk_eff" where
  "send_cancel ow k row symbol =
     (if has_list row
      then bindW (liftW (integer (t_cols row ''order_list_id''))) (\<lambda>i. cancel_order_list ow k symbol i)
      else bindW (liftW (integer (t_cols row ''stop_order_id''))) (\<lambda>i. cancel_order ow k symbol i))"

definition cancel_protection :: "'x outside \<Rightarrow> desk_env \<Rightarrow> trade_row \<Rightarrow> string \<Rightarrow> ('x, bool \<times> string) desk_eff" where
  "cancel_protection ow env row symbol =
     (if \<not> has_list row \<and> \<not> truthy (t_cols row ''stop_order_id'')
      then returnW (False, ''no recorded protection identifier'')
      else
      let request = [(''symbol'', PStr symbol), (''orderListId'', t_cols row ''order_list_id''),
            (''orderId'', t_cols row ''stop_order_id'')];
          k = digest_id env (PList [PStr ''CANCEL_PROTECTION'', PStr (t_id row), PDict request]) in
      bindW (prepare ow env (plain_intent k ''CANCEL_PROTECTION'' (t_id row) symbol
        (if has_list row then ''DELETE/orderList'' else ''DELETE/order'') request)) (\<lambda>won.
      if \<not> won then
        bindW (already_confirmed k) (\<lambda>confirmed.
        bindW (if confirmed then observe_protection ow row symbol else returnW False) (\<lambda>gone. returnW
          (if gone then (True, ''old protection cancellation already confirmed'')
           else (False, ''cancel intent already exists but terminal exchange state is unproven''))))
      else
      bindW (mark_submitting ow k) (\<lambda>_.
      bindW (tryW (send_cancel ow k row symbol)) (\<lambda>answer. case answer of
          Inl e \<Rightarrow> bindW (finish ow k ''AMBIGUOUS'' PNone PNone (de_redact env e)) (\<lambda>_.
            returnW (False, ''cancel outcome is ambiguous; replacement blocked''))
        | Inr v \<Rightarrow>
            if \<not> is_dict v then
              bindW (finish ow k ''AMBIGUOUS'' PNone PNone ''cancel response is not an object'') (\<lambda>_.
              returnW (False, ''cancel response did not prove terminal identity''))
            else
            bindW (liftW (protection_gone row (items v))) (\<lambda>valid.
            if \<not> valid then
              bindW (finish ow k ''AMBIGUOUS'' PNone PNone ''cancel response identity/status was not terminal'') (\<lambda>_.
              returnW (False, ''cancel response did not prove requested order terminal''))
            else
              bindW (confirm ow k (items v)) (\<lambda>_. returnW (True, ''old protection canceled'')))))))"

subsection \<open>Replacing the protection\<close>

definition to_integral_up :: "dec \<Rightarrow> dec" where
  "to_integral_up x = (let t = to_integral_down x in if dlt t x then dadd t (of_int_dec 1) else t)"

definition ceil_step :: "dec \<Rightarrow> dec \<Rightarrow> factory_error + dec" where
  "ceil_step x step = bindE (arith (ddiv x step)) (\<lambda>q. Inr (dmul (to_integral_up q) step))"

definition break_even_of :: "desk_env \<Rightarrow> dec \<Rightarrow> py_exn + dec" where
  "break_even_of env entry =
     (let fee = fee_pct_per_side (de_settings env) in
      bindE (exn ConfigExn (env_float (de_env env) ''BREAK_EVEN_SLIPPAGE_PCT'' (Dec 5 (-2)) dzero (of_int_dec 5))) (\<lambda>slip.
      exn FactoryExn (fee_adjusted_break_even entry fee fee slip)))"

text \<open>The stop that locks break-even or a profit, rounded up so that its limit stays above.\<close>

definition locked_stop :: "desk_env \<Rightarrow> symbol_rules \<Rightarrow> dec \<Rightarrow> dec option \<Rightarrow> py_exn + dec" where
  "locked_stop env rules entry lock =
     bindE (break_even_of env entry) (\<lambda>floor_price.
     exn FactoryExn (
       bindE (case lock of None \<Rightarrow> Inr floor_price
              | Some pct \<Rightarrow> bindE (plus_pct pct) (\<lambda>up. Inr (dmax floor_price (dmul entry up)))) (\<lambda>stop0.
       bindE (ceil_step stop0 (r_tick rules)) (\<lambda>stop1.
       bindE (minus_bips (limit_fill_buffer_bips (de_settings env))) (\<lambda>down.
       bindE (arith (ddiv stop1 down)) (\<lambda>stop2.
       ceil_step stop2 (r_tick rules)))))))"

text \<open>The arguments of a conversion; a profit to lock is given by its absolute percentage.\<close>

record conversion =
  cv_break_even :: bool
  cv_lock :: "dec option"
  cv_delta :: "int option"

definition managed_lifecycles :: "lifecycle list" where
  "managed_lifecycles = [PROTECTION_ACTIVE, BREAK_EVEN_ARMED, PROFIT_LOCKED, TRAILING_ACTIVE]"

definition conversion_lifecycle :: "conversion \<Rightarrow> protection_mode \<Rightarrow> lifecycle" where
  "conversion_lifecycle cv mode =
     (if cv_break_even cv then BREAK_EVEN_ARMED else if cv_lock cv \<noteq> None then PROFIT_LOCKED
      else if mode \<in> {TRAILING_ONLY, OCO_TRAILING} then TRAILING_ACTIVE else PROTECTION_ACTIVE)"

text \<open>\<open>a or b\<close> of a delta.\<close>

definition delta_or :: "int option \<Rightarrow> int \<Rightarrow> int" where
  "delta_or delta dflt = (case delta of Some n \<Rightarrow> if n = 0 then dflt else n | None \<Rightarrow> dflt)"

definition suspend_for_conversion :: "('x, unit) desk_eff" where
  "suspend_for_conversion = modifyW (\<lambda>d. d\<lparr>dk_enabled := False,
     dk_store := set_entries False ''protection-conversion-in-progress'' (dk_store d)\<rparr>)"

text \<open>The replacement after the old protection is gone.\<close>

definition submit_replacement ::
  "'x outside \<Rightarrow> desk_env \<Rightarrow> trade_row \<Rightarrow> string \<Rightarrow> string \<Rightarrow> symbol_rules \<Rightarrow> protection_mode \<Rightarrow> conversion \<Rightarrow>
   dec \<Rightarrow> dec \<Rightarrow> string \<Rightarrow> string \<Rightarrow> pydict \<Rightarrow> ('x, bool \<times> string) desk_eff" where
  "submit_replacement ow env row pair symbol rules mode cv qty held plan endpoint params =
     bindW (preflight ow env rules endpoint params [] False) (\<lambda>_.
     bindW (submit_once ow env ''PROTECTION'' (t_id row) symbol endpoint params plan) (\<lambda>s.
     if sb_status s \<noteq> ''CONFIRMED'' then
       bindW (upsert ow (t_id row) pair [lifecycle_is AMBIGUOUS, remark ''PROTECTION_REPLACEMENT_UNCONFIRMED'']) (\<lambda>_.
       returnW (False, ''replacement unconfirmed; no blind second sell: '' @ sb_detail s))
     else
     bindW (bind_submission ow env s params) (\<lambda>_.
     bindW (liftW (as_dict (sb_response s))) (\<lambda>response.
     bindW (liftW (response_ids response params)) (\<lambda>ids.
     bindW (if endpoint = ''order'' then liftW (id_or_none (get_or response ''orderId'' (PInt 0)))
            else returnW (oi_stop ids)) (\<lambda>stop.
     bindW (upsert ow (t_id row) pair [lifecycle_is (conversion_lifecycle cv mode),
       (''order_list_id'', id_value (oi_list ids)), (''take_profit_order_id'', id_value (oi_take_profit ids)),
       (''stop_order_id'', id_value stop), (''protected_quantity'', PStr (dec_str (dmin held qty))),
       (''protection_mode'', PStr (mode_value mode)),
       (''trailing_delta'', PInt (delta_or (cv_delta cv) (trailing_delta_bips (de_settings env)))),
       remark ''PROTECTION_REPLACED'']) (\<lambda>_.
     returnW (True, ''protection changed''))))))))"

definition replace_protection ::
  "'x outside \<Rightarrow> desk_env \<Rightarrow> trade_row \<Rightarrow> string \<Rightarrow> string \<Rightarrow> symbol_rules \<Rightarrow> protection_mode \<Rightarrow> conversion \<Rightarrow>
   dec \<Rightarrow> dec \<Rightarrow> dec \<Rightarrow> dec option \<Rightarrow> ('x, bool \<times> string) desk_eff" where
  "replace_protection ow env row pair symbol rules mode cv entry current qty stop_price =
     bindW (liftW (require_capabilities rules mode False)) (\<lambda>_.
     bindW (build_replacement ow env mode rules qty entry current stop_price (cv_delta cv)) (\<lambda>(endpoint, params).
     bindW (preflight ow env rules endpoint params
       [t_cols row ''take_profit_order_id'', t_cols row ''stop_order_id''] (has_list row)) (\<lambda>_.
     let plan = digest_id env (PList [PStr ''REPLACE_PROTECTION'', PStr (t_id row), PDict params]) in
     bindW (prepare ow env (plain_intent plan ''REPLACE_PROTECTION'' (t_id row) symbol endpoint params
       \<lparr>q_client := pstr (get_or params ''newClientOrderId'' (PStr [])),
        q_list_client := pstr (get_or params ''listClientOrderId'' (PStr []))\<rparr>)) (\<lambda>won.
     if \<not> won then returnW (False, ''replacement intent already exists'')
     else
     bindW suspend_for_conversion (\<lambda>_.
     bindW (cancel_protection ow env row symbol) (\<lambda>(canceled, why).
     if \<not> canceled then returnW (False, why)
     else
     bindW (held_btc ow rules) (\<lambda>held.
     if dle held dzero then
       bindW (btc_remains ow rules) (\<lambda>remains.
       if remains then returnW (False, ''BTC remains locked after cancellation; replacement plan retained'')
       else
         bindW (abort ow plan ''position exited during protection cancellation'') (\<lambda>_.
         bindW (upsert ow (t_id row) pair [lifecycle_is EXIT_FILLED, remark ''EXITED_DURING_PROTECTION_CONVERSION'']) (\<lambda>_.
         returnW (True, ''position exited while old protection was canceled; no replacement placed''))))
     else
     bindW (if dlt held qty
            then bindW (current_price ow symbol) (\<lambda>now.
              build_replacement ow env mode rules held entry now stop_price (cv_delta cv))
            else returnW (endpoint, params)) (\<lambda>(endpoint', params').
     submit_replacement ow env row pair symbol rules mode cv qty held plan endpoint' params'))))))))"

definition convert ::
  "'x outside \<Rightarrow> desk_env \<Rightarrow> string \<Rightarrow> protection_mode \<Rightarrow> conversion \<Rightarrow> ('x, bool \<times> string) desk_eff" where
  "convert ow env symbol0 mode cv =
     (let symbol = upper symbol0 in
     bindW (store_query StoreExn (active_trade_for_symbol symbol)) (\<lambda>found. case found of
       None \<Rightarrow> returnW (False, ''position not found'')
     | Some row \<Rightarrow>
     bindW (store_get (\<lambda>s. unresolved_intents (st_intents s))) (\<lambda>open_intents.
     if open_intents \<noteq> [] then returnW (False, ''unresolved operation intent; reconcile before changing protection'')
     else if \<not> lifecycle_in row managed_lifecycles then returnW (False, ''position is not in a confirmed protected lifecycle'')
     else
     bindW load_pair (\<lambda>active.
     if get active ''symbol'' \<noteq> PStr symbol \<or> get active ''pair'' \<noteq> PStr (t_pair row)
     then returnW (False, ''protection belongs to a different active pair'')
     else
     let pair = pstr (get active ''pair'') in
     bindW (rules_for ow env pair) (\<lambda>rules.
     bindW (liftW (quantity_column row ''average_entry_price'')) (\<lambda>entry.
     bindW (current_price ow symbol) (\<lambda>current.
     bindW (liftW (finite_dec (por (por (t_cols row ''protected_quantity'') (t_cols row ''filled_quantity'')) (PStr ''0'')))) (\<lambda>raw.
     bindW (liftW (exn FactoryExn (floor_step raw (r_step rules)))) (\<lambda>qty.
     if dle entry dzero \<or> dle qty dzero
     then returnW (False, ''entry price or protected quantity is unavailable'')
     else if cv_break_even cv \<or> cv_lock cv \<noteq> None then
       bindW (liftW (locked_stop env rules entry (cv_lock cv))) (\<lambda>stop.
       if \<not> (dlt entry stop \<and> dlt stop current)
       then returnW (False, ''profit-lock stop must be above entry and below current price'')
       else replace_protection ow env row pair symbol rules FIXED_OCO cv entry current qty (Some stop))
     else replace_protection ow env row pair symbol rules mode cv entry current qty None)))))))))"

subsection \<open>Automatic management\<close>

definition risk_paused :: "'x desk \<Rightarrow> bool" where
  "risk_paused d \<longleftrightarrow> truthy (get (dk_guard d) ''global_pause'')"

definition arm :: "('x, unit) desk_eff" where
  "arm = modifyW (\<lambda>d. d\<lparr>dk_enabled := True, dk_store := set_entries True [] (dk_store d)\<rparr>)"

text \<open>Only the entries this conversion suspended are armed again.\<close>

definition auto_convert ::
  "'x outside \<Rightarrow> desk_env \<Rightarrow> string \<Rightarrow> protection_mode \<Rightarrow> conversion \<Rightarrow> ('x, string) desk_eff" where
  "auto_convert ow env symbol mode cv =
     bindW (getW (\<lambda>d. dk_enabled d \<and> entries_on (dk_store d))) (\<lambda>was_enabled.
     bindW (convert ow env symbol mode cv) (\<lambda>(ok, detail).
     bindW (if ok then
              bindW (verified_reconcile ow env) (\<lambda>proof_ok.
              bindW (getW (\<lambda>d. get (st_data (dk_store d)) ''pause_reason'' = PStr ''protection-conversion-in-progress''
                \<and> \<not> risk_paused d)) (\<lambda>ours.
              if proof_ok \<and> was_enabled \<and> ours then arm else returnW ()))
            else returnW ()) (\<lambda>_.
     returnW detail)))"

definition auto_enabled :: "desk_env \<Rightarrow> store \<Rightarrow> bool" where
  "auto_enabled env s =
     (let v = get (st_data s) ''auto_protection_enabled'' in
      if v = PNone then (case de_env env ''AUTO_PROTECTION_ENABLED'' of None \<Rightarrow> False
        | Some t \<Rightarrow> lower (strip t) = ''true'')
      else is_true v)"

text \<open>The age of the market state in seconds: \<open>None\<close> for a malformed time.\<close>

definition flow_age :: "dec \<Rightarrow> pydict \<Rightarrow> dec option" where
  "flow_age now flow = (case to_float (get_or flow ''generated_at_epoch'' (PInt 0)) of
       Some (Fin t) \<Rightarrow> Some (dsub now t) | _ \<Rightarrow> None)"

definition flow_is_stale :: "desk_env \<Rightarrow> dec \<Rightarrow> py_exn + bool" where
  "flow_is_stale env age =
     (if dlt age (of_int_dec (-30)) then Inr True
      else bindE (exn ConfigExn (env_int (de_env env) ''MAX_FLOW_AGE_SECONDS'' 45 5 300)) (\<lambda>most.
        Inr (dlt (of_int_dec most) age)))"

definition manage_position ::
  "'x outside \<Rightarrow> desk_env \<Rightarrow> pydict \<Rightarrow> pydict \<Rightarrow> trade_row \<Rightarrow> ('x, string) desk_eff" where
  "manage_position ow env flow active row =
     (let symbol = pstr (get active ''symbol'') in
     bindW (liftW (of_option DecimalExn (to_dec (t_cols row ''average_entry_price'')))) (\<lambda>entry0.
     bindW (current_price ow symbol) (\<lambda>current.
     case entry0 of
       Fin entry \<Rightarrow>
         if dle entry dzero then returnW ''automatic protection blocked: invalid entry price''
         else
         bindW (liftW (exn ConfigExn (env_float (de_env env) ''AUTO_BREAK_EVEN_TRIGGER_PCT'' (Dec 5 (-1)) (Dec 5 (-2)) (of_int_dec 20)))) (\<lambda>trigger.
         if is_true (get (items (get flow ''classification'')) ''bullish'') \<and> dlt entry current then
           if lifecycle_in row [TRAILING_ACTIVE] \<or> t_cols row ''protection_mode'' = PStr (mode_value TRAILING_ONLY)
           then returnW ''exchange-native trailing protection is already active''
           else
           bindW (rules_for ow env (pstr (get active ''pair''))) (\<lambda>rules.
           bindW (liftW (exn ConfigExn (env_int (de_env env) ''AUTO_TIGHT_TRAIL_BIPS'' 20 10 2000))) (\<lambda>tight.
           let delta = clamp_delta rules tight in
           bindW (liftW (break_even_of env entry)) (\<lambda>break_even.
           bindW (liftW (exn FactoryExn (scaled current (minus_bips (delta + limit_fill_buffer_bips (de_settings env))) (r_tick rules)))) (\<lambda>limit_floor.
           if dlt limit_floor break_even
           then returnW ''keep existing OCO: trailing limit would be below fee-adjusted break-even''
           else auto_convert ow env symbol TRAILING_ONLY \<lparr>cv_break_even = False, cv_lock = None, cv_delta = Some delta\<rparr>))))
         else
         bindW (liftW (exn FactoryExn (plus_pct trigger))) (\<lambda>up.
         if dle (dmul entry up) current \<and> lifecycle_in row [PROTECTION_ACTIVE]
         then auto_convert ow env symbol FIXED_OCO \<lparr>cv_break_even = True, cv_lock = None, cv_delta = None\<rparr>
         else returnW ''automatic protection conditions not met''))
     | _ \<Rightarrow> returnW ''automatic protection blocked: invalid entry price'')))"

definition maybe_auto_manage ::
  "'x outside \<Rightarrow> desk_env \<Rightarrow> bool \<Rightarrow> pyval \<Rightarrow> ('x, string) desk_eff" where
  "maybe_auto_manage ow env stream_ready flow_value =
     bindW (store_get id) (\<lambda>s.
     if \<not> auto_enabled env s then returnW ''automatic protection management disabled''
     else if unresolved_intents (st_intents s) \<noteq> [] then returnW ''automatic protection blocked: unresolved operation intent''
     else if \<not> starts_with ''RECONCILED'' (pstr (get_or (st_data s) ''last_reconciliation_status'' (PStr [])))
     then returnW ''automatic protection blocked: reconciliation required''
     else
     bindW (getW dk_dirty) (\<lambda>dirty.
     if dirty \<noteq> None then returnW ''automatic protection waiting for account reconciliation''
     else
     bindW load_pair (\<lambda>active.
     let flow = items flow_value in
     if \<not> is_true (get flow ''ok'') \<or> get flow ''pair_state_hash'' \<noteq> get active ''state_hash''
     then returnW ''money-flow state unavailable or belongs to another pair generation''
     else
     bindW (look ow) (\<lambda>r. case flow_age (rd_time r) flow of
       None \<Rightarrow> returnW ''money-flow timestamp is malformed''
     | Some age \<Rightarrow>
     bindW (liftW (flow_is_stale env age)) (\<lambda>stale.
     if stale then returnW ''money-flow state is stale''
     else
     bindW (store_query StoreExn (active_trade_for_symbol (pstr (get active ''symbol'')))) (\<lambda>found. case found of
       None \<Rightarrow> returnW ''no managed BTC position''
     | Some row \<Rightarrow>
         if \<not> truthy (t_cols row ''average_entry_price'') then returnW ''no managed BTC position''
         else if \<not> lifecycle_in row managed_lifecycles
         then returnW ''automatic protection blocked: position requires reconciliation''
         else if \<not> stream_ready then returnW ''automatic protection blocked: user stream is not ready''
         else manage_position ow env flow active row))))))"

subsection \<open>Emergency exit\<close>

definition emergency_request :: "string \<Rightarrow> dec \<Rightarrow> dec \<Rightarrow> string \<Rightarrow> pydict" where
  "emergency_request symbol qty price client =
     [(''symbol'', PStr symbol), (''side'', PStr ''SELL''), (''type'', PStr ''LIMIT''), (''timeInForce'', PStr ''IOC''),
      (''quantity'', dtext qty), (''price'', dtext price), (''newClientOrderId'', PStr client)]"

text \<open>The executed quantity of the terminal order; the inner \<open>None\<close> is a malformed one.\<close>

definition emergency_fill :: "'x outside \<Rightarrow> desk_env \<Rightarrow> string \<Rightarrow> pydict \<Rightarrow> ('x, dec option) desk_eff" where
  "emergency_fill ow env symbol response =
     bindW (liftW (item_id response ''orderId'')) (\<lambda>sent.
     bindW (fetch_order ow symbol (PInt sent) []) (\<lambda>order.
     bindW (liftW (item_id order ''orderId'')) (\<lambda>seen.
     if seen \<noteq> sent then raiseW (RuntimeExn ''emergency order lookup identity mismatch'')
     else if \<not> terminal_order_status order then raiseW (RuntimeExn ''emergency IOC is not terminal'')
     else
     bindW (record_rest ow env PNone (PDict order)) (\<lambda>_.
     liftW (executed_quantity order)))))"

text \<open>The exit counts only when what remains is dust and the account's free BTC fell accordingly.\<close>

definition settle_emergency ::
  "'x outside \<Rightarrow> trade_row \<Rightarrow> string \<Rightarrow> symbol_rules \<Rightarrow> dec \<Rightarrow> dec \<Rightarrow> dec \<Rightarrow> ('x, bool \<times> string) desk_eff" where
  "settle_emergency ow row pair rules recorded free_before executed =
     bindW (liftW (exn FactoryExn (floor_step (dmax dzero (dsub recorded executed)) (r_step rules)))) (\<lambda>remaining.
     bindW (held_btc ow rules) (\<lambda>account_free.
     let reduction = dsub free_before account_free;
         verified = dlt remaining (r_min_qty rules) \<and> dle executed (dadd reduction (r_step rules)) in
     bindW (if verified then upsert ow (t_id row) pair [lifecycle_is EXIT_FILLED, remark ''EMERGENCY_EXIT_VERIFIED'']
            else returnW ()) (\<lambda>_.
     returnW (verified, if verified then ''verified-exit'' else ''partial-or-unfilled''))))"

definition submit_emergency ::
  "'x outside \<Rightarrow> desk_env \<Rightarrow> trade_row \<Rightarrow> string \<Rightarrow> string \<Rightarrow> symbol_rules \<Rightarrow> dec \<Rightarrow> ('x, bool \<times> string) desk_eff" where
  "submit_emergency ow env row pair symbol rules recorded =
     bindW (held_btc ow rules) (\<lambda>free_before.
     bindW (liftW (exn FactoryExn (floor_step (dmin free_before recorded) (r_step rules)))) (\<lambda>qty.
     if dle qty dzero then returnW (False, ''nothing-to-sell'')
     else
     bindW (best_price ow ''bids'' symbol) (\<lambda>bid.
     bindW (liftW (exn FactoryExn (floor_step (dmul bid (Dec 99 (-2))) (r_tick rules)))) (\<lambda>price.
     bindW (new_id ow ''EMERGENCY'') (\<lambda>client.
     let params = emergency_request symbol qty price client in
     bindW (preflight ow env rules ''order'' params [] False) (\<lambda>_.
     bindW (submit_once ow env ''EMERGENCY_EXIT'' (t_id row) symbol ''order'' params []) (\<lambda>s.
     if sb_status s \<noteq> ''CONFIRMED'' then returnW (False, ''submit-unconfirmed'')
     else
     bindW (bind_submission ow env s params) (\<lambda>_.
     bindW (tryW (emergency_fill ow env symbol (items (sb_response s)))) (\<lambda>fill. case fill of
         Inl _ \<Rightarrow> returnW (False, ''terminal-status-unproven'')
       | Inr None \<Rightarrow> returnW (False, ''malformed-fill'')
       | Inr (Some executed) \<Rightarrow>
           if dlt qty executed then returnW (False, ''malformed-fill'')
           else settle_emergency ow row pair rules recorded free_before executed)))))))))"

definition emergency_exit :: "'x outside \<Rightarrow> desk_env \<Rightarrow> string \<Rightarrow> ('x, bool \<times> string) desk_eff" where
  "emergency_exit ow env symbol0 =
     (let symbol = upper symbol0 in
     bindW (store_query StoreExn (active_trade_for_symbol symbol)) (\<lambda>found. case found of
       None \<Rightarrow> returnW (False, ''not-found'')
     | Some row \<Rightarrow>
     bindW (pause ow env ''manual-emergency-exit'') (\<lambda>_.
     bindW (cancel_protection ow env row symbol) (\<lambda>(canceled, why).
     if \<not> canceled then returnW (False, ''cancel-ambiguous'')
     else
     bindW load_pair (\<lambda>active.
     let pair = pstr (get active ''pair'') in
     bindW (rules_for ow env pair) (\<lambda>rules.
     bindW (liftW (amount_of (t_cols row ''filled_quantity''))) (\<lambda>filled.
     bindW (liftW (amount_of (t_cols row ''protected_quantity''))) (\<lambda>protected.
     case (filled, protected) of
       (Some f, Some p) \<Rightarrow> submit_emergency ow env row pair symbol rules (dmax f p)
     | _ \<Rightarrow> returnW (False, ''malformed-state'')))))))))"

end
