(* ===== verification/Adapter_Desk.thy ===== *)
theory Adapter_Desk
  imports Adapter_Protect
begin

text \<open>
  The adapter's entry points, \<open>services/execution_sidecar/bitcoin_adapter.py\<close>: start-up,
  arming, the entry, the handlers of the user stream and the periodic tick, and one relation
  over all of them.
\<close>

subsection \<open>Construction\<close>

definition settings_of :: "environ \<Rightarrow> config_error + protection_settings" where
  "settings_of env =
     bindE (env_float env ''TAKE_PROFIT_PCT'' (Dec 12 (-1)) (Dec 5 (-2)) (of_int_dec 100)) (\<lambda>tp.
     bindE (env_float env ''FIXED_STOP_PCT'' (Dec 20 (-1)) (Dec 5 (-2)) (of_int_dec 50)) (\<lambda>stop.
     bindE (env_int env ''TRAILING_DELTA_BIPS'' 40 10 2000) (\<lambda>delta.
     bindE (env_int env ''LIMIT_FILL_BUFFER_BIPS'' 20 1 1000) (\<lambda>buffer.
     bindE (env_float env ''FEE_PCT_PER_SIDE'' (Dec 1 (-1)) dzero (of_int_dec 5)) (\<lambda>fee.
     Inr \<lparr>take_profit_pct = tp, fixed_stop_pct = stop, trailing_delta_bips = delta, limit_fill_buffer_bips = buffer,
       fee_pct_per_side = fee\<rparr>)))))"

definition base_size_of :: "environ \<Rightarrow> py_exn + dec option" where
  "base_size_of env =
     (let t = (case env ''TRADE_SIZE_BASE'' of None \<Rightarrow> [] | Some s \<Rightarrow> strip s) in
      if t = [] then Inr None
      else bindE (of_option DecimalExn (parse_dec t)) (\<lambda>v. case v of
          Fin d \<Rightarrow> if dle d dzero \<or> dlt (of_int_dec 9000) d then Inl (ValueExn ''TRADE_SIZE_BASE'') else Inr (Some d)
        | _ \<Rightarrow> Inl (ValueExn ''TRADE_SIZE_BASE'')))"

record adapter_config =
  ac_live :: bool
  ac_ids :: client_ids
  ac_size :: dec
  ac_base :: "dec option"
  ac_max_open :: int
  ac_settings :: protection_settings

definition adapter_init :: "environ \<Rightarrow> string option \<Rightarrow> py_exn + adapter_config" where
  "adapter_init env execution_mode =
     (let dflt = (case env ''EXECUTION_MODE'' of None \<Rightarrow> ''simulation'' | Some s \<Rightarrow> s);
          mode = lower (case execution_mode of Some m \<Rightarrow> if m = [] then dflt else m | None \<Rightarrow> dflt);
          prefix = (case env ''CLIENT_ORDER_PREFIX'' of None \<Rightarrow> ''BTCB'' | Some s \<Rightarrow> s) in
      if mode \<notin> {''testnet'', ''live''} then Inl (ValueExn ''BitcoinSpotAdapter is only for testnet/live'')
      else
      bindE (exn IdExn (client_ids_init prefix)) (\<lambda>ids.
      bindE (exn ConfigExn (env_float env ''TRADE_SIZE_QUOTE'' (of_int_dec 100) (of_int_dec 5) (of_int_dec 100000))) (\<lambda>size.
      bindE (base_size_of env) (\<lambda>base.
      bindE (exn ConfigExn (env_int env ''MAX_ENTRY_OPEN_SECONDS'' 300 30 900)) (\<lambda>most.
      bindE (exn ConfigExn (settings_of env)) (\<lambda>settings.
      Inr \<lparr>ac_live = (mode = ''live''), ac_ids = ids, ac_size = size, ac_base = base, ac_max_open = most,
        ac_settings = settings\<rparr>))))))"

subsection \<open>Lifecycle\<close>

text \<open>The stream's thread is outside the model; \<open>stream_ok\<close> says whether it starts.\<close>

definition start :: "'x outside \<Rightarrow> desk_env \<Rightarrow> bool \<Rightarrow> ('x, unit) desk_eff" where
  "start ow env stream_ok =
     bindW load_pair (\<lambda>active.
     bindW (rules_for ow env (pstr (get active ''pair''))) (\<lambda>rules.
     bindW mode_in_use (\<lambda>mode.
     bindW (liftW (require_capabilities rules mode True)) (\<lambda>_.
     bindW (store_step StoreExn (register_symbol_pair (pstr (get active ''symbol'')) (pstr (get active ''pair'')))) (\<lambda>_.
     bindW (modifyW (\<lambda>d. d\<lparr>dk_enabled := False,
       dk_store := set_entries False ''startup-reconciliation-required'' (dk_store d)\<rparr>)) (\<lambda>_.
     bindW (guardW stream_ok (RuntimeExn ''user data stream did not start'')) (\<lambda>_.
     bindW (verified_reconcile ow env) (\<lambda>ok.
     if ok then modifyW (\<lambda>d. d\<lparr>dk_started := True\<rparr>)
     else raiseW (RuntimeExn ''reconciliation incomplete; entries remain paused'')))))))))"

definition set_enabled :: "'x outside \<Rightarrow> desk_env \<Rightarrow> bool \<Rightarrow> ('x, string) desk_eff" where
  "set_enabled ow env on =
     (if \<not> on then bindW (modifyW (\<lambda>d. d\<lparr>dk_enabled := False\<rparr>)) (\<lambda>_. returnW ''OFF'')
      else
      bindW (store_get (\<lambda>s. truthy (get_or (st_data s) ''live_restart_required'' (PBool False)))) (\<lambda>restart.
      if de_live env \<and> restart then returnW ''OFF: live pair/policy changed; fresh signed evidence and restart required''
      else
      bindW (getW (\<lambda>d. pstr (get_or (dk_guard d) ''global_pause'' (PStr [])))) (\<lambda>risk_pause.
      if risk_pause \<noteq> [] then returnW (''OFF: global risk pause: '' @ risk_pause)
      else
      bindW (verified_reconcile ow env) (\<lambda>ok.
      if \<not> ok then returnW ''OFF: reconciliation failed: reconciliation incomplete; entries remain paused''
      else
      bindW (store_get (\<lambda>s. unresolved_intents (st_intents s))) (\<lambda>open_intents.
      if open_intents \<noteq> [] then returnW ''OFF: unresolved operation intent''
      else bindW (modifyW (\<lambda>d. d\<lparr>dk_enabled := True\<rparr>)) (\<lambda>_. returnW ''ON''))))))"

definition restart_user_stream :: "'x outside \<Rightarrow> desk_env \<Rightarrow> bool \<Rightarrow> ('x, bool) desk_eff" where
  "restart_user_stream ow env stream_ok =
     bindW (pause ow env ''user-stream-manual-restart'') (\<lambda>_.
     bindW (guardW stream_ok (RuntimeExn ''user data stream did not start'')) (\<lambda>_.
     verified_reconcile ow env))"

definition set_size :: "desk_env \<Rightarrow> dec \<Rightarrow> ('x, string) desk_eff" where
  "set_size env v =
     (if de_size_base env \<noteq> None then returnW ''fixed base size active; quote-size changes disabled''
      else if dlt v (of_int_dec 5) \<or> dlt (of_int_dec 100000) v then returnW ''size must be 5-100000 quote units''
      else bindW (getW dk_size) (\<lambda>size.
        if de_live env \<and> \<not> dec_eq v size then returnW ''live trade size is evidence-bound; change TRADE_SIZE_QUOTE, produce fresh signed evidence, and redeploy''
        else bindW (modifyW (\<lambda>d. d\<lparr>dk_size := v\<rparr>)) (\<lambda>_. returnW (''trade size = '' @ dec_str v @ '' quote units''))))"

definition set_max :: "int \<Rightarrow> string" where
  "set_max count = (if count = 1 then ''max concurrent positions = 1'' else ''Bitcoin release permits exactly one position'')"

subsection \<open>The entry\<close>

definition armed :: "'x desk \<Rightarrow> bool" where
  "armed d \<longleftrightarrow> dk_started d \<and> dk_enabled d \<and> entries_on (dk_store d)"

definition place_entry ::
  "'x outside \<Rightarrow> desk_env \<Rightarrow> string \<Rightarrow> string \<Rightarrow> string \<Rightarrow> symbol_rules \<Rightarrow> protection_mode \<Rightarrow> dec \<Rightarrow> dec \<Rightarrow>
   ('x, bool \<times> string) desk_eff" where
  "place_entry ow env symbol tid pair rules mode quantity entry =
     bindW (build_entry ow env mode rules quantity entry) (\<lambda>(endpoint, params).
     bindW (preflight ow env rules endpoint params [] False) (\<lambda>_.
     bindW (look ow) (\<lambda>r.
     bindW (store_get get_mode) (\<lambda>mode_text.
     bindW (upsert ow tid pair [lifecycle_is ENTRY_SUBMITTED,
       (''entry_client_order_id'', get params ''workingClientOrderId''),
       (''entry_submitted_at'', PStr (dec_str (rd_time r))), (''protection_mode'', PStr mode_text),
       (''trailing_delta'', PInt (trailing_delta_bips (de_settings env))), remark ''ENTRY_INTENT_PREPARED'']) (\<lambda>_.
     bindW (submit_once ow env ''ENTRY'' tid symbol endpoint params []) (\<lambda>s.
     if sb_status s = ''DEFINITE_REJECT'' then
       bindW (upsert ow tid pair [lifecycle_is ENTRY_REJECTED, remark ''ENTRY_DEFINITELY_REJECTED'']) (\<lambda>_.
       returnW (False, sb_detail s))
     else if sb_status s \<noteq> ''CONFIRMED'' then
       bindW (upsert ow tid pair [lifecycle_is AMBIGUOUS, remark ''ENTRY_AMBIGUOUS_RECONCILE_REQUIRED'']) (\<lambda>_.
       returnW (False, ''entry outcome ambiguous; entries paused and no retry permitted''))
     else
     bindW (bind_submission ow env s params) (\<lambda>_.
     bindW (liftW (bindE (as_dict (sb_response s)) (\<lambda>response. response_ids response params))) (\<lambda>ids.
     returnW (True, symbol @ '' OTO/OTOCO entry confirmed'')))))))))"

definition submit :: "'x outside \<Rightarrow> desk_env \<Rightarrow> string \<Rightarrow> string \<Rightarrow> ('x, bool \<times> string) desk_eff" where
  "submit ow env symbol0 tid =
     bindW (getW armed) (\<lambda>ready.
     if \<not> ready then returnW (False, ''entries are not armed'')
     else
     bindW load_pair (\<lambda>active.
     let symbol = upper symbol0; pair = pstr (get active ''pair'') in
     if get active ''symbol'' \<noteq> PStr symbol then returnW (False, ''signal symbol is not the active BTC pair'')
     else if tid = [] then returnW (False, ''trade_id is required for intent-first execution'')
     else
     bindW (store_get active_trade_rows) (\<lambda>rows.
     if list_ex (\<lambda>r. t_id r \<noteq> tid) rows then returnW (False, ''another BTC exposure is nonterminal'')
     else
     bindW (store_get (\<lambda>s. unresolved_intents (st_intents s))) (\<lambda>open_intents.
     if open_intents \<noteq> [] then returnW (False, ''an operation intent is unresolved'')
     else
     bindW (rules_for ow env pair) (\<lambda>rules.
     bindW (free_balance ow (r_quote rules)) (\<lambda>quote_free.
     bindW (entry_at_ask ow rules symbol) (\<lambda>entry.
     bindW (configured_entry_quantity env rules entry) (\<lambda>(quantity, required).
     if dlt quote_free required then returnW (False, ''insufficient '' @ r_quote rules @ '' balance'')
     else
     bindW mode_in_use (\<lambda>mode.
     bindW (liftW (require_capabilities rules mode True)) (\<lambda>_.
     place_entry ow env symbol tid pair rules mode quantity entry))))))))))"

subsection \<open>User stream\<close>

text \<open>\<open>Decimal(str(v)) > 0\<close>; a NaN raises.\<close>

definition positive_amount :: "pyval \<Rightarrow> py_exn + bool" where
  "positive_amount v = bindE (of_option DecimalExn (to_dec v)) (\<lambda>x.
     case pd_lt (Fin dzero) x of Inl _ \<Rightarrow> Inl DecimalExn | Inr b \<Rightarrow> Inr b)"

definition on_order_update :: "'x outside \<Rightarrow> desk_env \<Rightarrow> pydict \<Rightarrow> ('x, unit) desk_eff" where
  "on_order_update ow env e = catchW
     (bindW (event_in_scope ow e) (\<lambda>ours.
      if \<not> ours then returnW ()
      else
      bindW (record_authenticated_event ow env e) (\<lambda>_.
      bindW (if token e ''S'' = ''BUY'' \<and> token e ''X'' \<in> {''PARTIALLY_FILLED'', ''CANCELED'', ''EXPIRED'', ''REJECTED''}
             then liftW (positive_amount (por (get e ''z'') (PStr ''0''))) else returnW False) (\<lambda>bought.
      if bought then bindW (add_recovery (token e ''s'')) (\<lambda>_. pause ow env ''partial-entry-fill-needs-protection'')
      else returnW ()))))
     (\<lambda>_. pause ow env ''user-stream-event-processing-failed'')"

definition on_list_update :: "'x outside \<Rightarrow> desk_env \<Rightarrow> pydict \<Rightarrow> ('x, unit) desk_eff" where
  "on_list_update ow env e = catchW
     (bindW (event_in_scope ow e) (\<lambda>ours.
      if \<not> ours then returnW () else bindW (record_event ow e) (\<lambda>_. returnW ())))
     (\<lambda>_. pause ow env ''user-stream-list-processing-failed'')"

definition on_resync :: "'x outside \<Rightarrow> desk_env \<Rightarrow> ('x, unit) desk_eff" where
  "on_resync ow env =
     bindW (note_reconciliation ow ''RECONCILIATION_REQUIRED'') (\<lambda>_.
     pause ow env ''user-stream-reconnect-reconciliation-required'')"

definition on_account_update :: "'x outside \<Rightarrow> ('x, unit) desk_eff" where
  "on_account_update ow = bindW (look ow) (\<lambda>r.
     modifyW (\<lambda>d. if dk_dirty d = None then d\<lparr>dk_dirty := Some (rd_mono r)\<rparr> else d))"

subsection \<open>The periodic tick\<close>

definition settle_account :: "'x outside \<Rightarrow> desk_env \<Rightarrow> ('x, unit) desk_eff" where
  "settle_account ow env =
     bindW (getW dk_dirty) (\<lambda>dirty. case dirty of
         None \<Rightarrow> returnW ()
       | Some since \<Rightarrow>
           bindW (look ow) (\<lambda>r.
           if dle (of_int_dec 5) (dsub (rd_mono r) since) then
             bindW (modifyW (\<lambda>d. d\<lparr>dk_dirty := None\<rparr>)) (\<lambda>_.
             bindW (verified_reconcile ow env) (\<lambda>_. returnW ()))
           else returnW ()))"

definition expire_step :: "'x outside \<Rightarrow> desk_env \<Rightarrow> trade_row \<Rightarrow> ('x, unit) desk_eff" where
  "expire_step ow env row =
     (if \<not> lifecycle_in row [ENTRY_SUBMITTED] then returnW ()
      else bindW (ok_of (expire_stale_entry ow env row)) (\<lambda>ok.
        if ok then returnW () else pause ow env ''stale-entry-cancellation-unresolved''))"

text \<open>The recovery candidates are a set; the loop takes them in the order they were added.\<close>

definition recovery_candidates :: "'x desk \<Rightarrow> string list" where
  "recovery_candidates d = remdups (dk_partial d @
     map trade_symbol (List.filter (\<lambda>r. lifecycle_in r [ENTRY_PARTIALLY_FILLED]) (active_trade_rows (dk_store d))))"

definition tick :: "'x outside \<Rightarrow> desk_env \<Rightarrow> ('x, unit) desk_eff" where
  "tick ow env =
     bindW (settle_account ow env) (\<lambda>_.
     bindW (store_get active_trade_rows) (\<lambda>rows.
     bindW (each (expire_step ow env) rows) (\<lambda>_.
     bindW (getW recovery_candidates) (\<lambda>symbols.
     each (\<lambda>symbol. bindW (partial_step ow env symbol) (\<lambda>_. returnW ())) symbols))))"

subsection \<open>All operations\<close>

datatype desk_op =
    Start bool
  | SetEnabled bool
  | RestartStream bool
  | SetSize dec
  | Submit string string
  | OrderUpdate pydict
  | ListUpdate pydict
  | Resync
  | AccountUpdate
  | TickOp
  | Convert string protection_mode conversion
  | AutoManage bool pyval
  | Reconcile
  | VerifyFlat "string list"
  | ValidatePair string
  | EmergencyExit string

definition ignore :: "('s, 'e, 'a) eff \<Rightarrow> ('s, 'e, unit) eff" where
  "ignore m = bindW m (\<lambda>_. returnW ())"

fun desk_step :: "'x outside \<Rightarrow> desk_env \<Rightarrow> desk_op \<Rightarrow> ('x, unit) desk_eff" where
  "desk_step ow env (Start ok) = start ow env ok"
| "desk_step ow env (SetEnabled on) = ignore (set_enabled ow env on)"
| "desk_step ow env (RestartStream ok) = ignore (restart_user_stream ow env ok)"
| "desk_step ow env (SetSize v) = ignore (set_size env v)"
| "desk_step ow env (Submit symbol tid) = ignore (submit ow env symbol tid)"
| "desk_step ow env (OrderUpdate e) = on_order_update ow env e"
| "desk_step ow env (ListUpdate e) = on_list_update ow env e"
| "desk_step ow env Resync = on_resync ow env"
| "desk_step ow env AccountUpdate = on_account_update ow"
| "desk_step ow env TickOp = tick ow env"
| "desk_step ow env (Convert symbol mode cv) = ignore (convert ow env symbol mode cv)"
| "desk_step ow env (AutoManage ready flow) = ignore (maybe_auto_manage ow env ready flow)"
| "desk_step ow env Reconcile = ignore (verified_reconcile ow env)"
| "desk_step ow env (VerifyFlat symbols) = ignore (verify_flat_for_switch ow env symbols)"
| "desk_step ow env (ValidatePair pair) = ignore (validate_pair_funding ow env pair)"
| "desk_step ow env (EmergencyExit symbol) = ignore (emergency_exit ow env symbol)"

text \<open>
  Any sequence of operations, each with the settings in force. Between operations the pair
  may be switched and the process restarted: the memory is lost, the store and the record of
  what was sent stay.
\<close>

datatype desk_event = Operation desk_env desk_op | PairFile "unit + pydict" | ProcessRestart pydict client_ids

fun desk_event_step :: "'x outside \<Rightarrow> desk_event \<Rightarrow> 'x desk \<Rightarrow> 'x desk" where
  "desk_event_step ow (Operation env op) d = snd (desk_step ow env op d)"
| "desk_event_step ow (PairFile p) d = d\<lparr>dk_pair := p\<rparr>"
| "desk_event_step ow (ProcessRestart guard ids) d =
     d\<lparr>dk_guard := guard, dk_ids := ids, dk_enabled := False, dk_started := False, dk_partial := [], dk_dirty := None,
       dk_cache := (\<lambda>_. None)\<rparr>"

definition run_desk :: "'x outside \<Rightarrow> desk_event list \<Rightarrow> 'x desk \<Rightarrow> 'x desk" where
  "run_desk ow es d = fold (desk_event_step ow) es d"

end
