(* ===== verification/Adapter_Ledger.thy ===== *)
theory Adapter_Ledger
  imports Adapter_Desk Store_Safety Risk_Guarantees
begin

text \<open>
  What every operation of the adapter preserves. The adapter changes the durable store only
  by the operations of the store component and sends a request only in the step after its
  intent moved to SUBMITTING; \<open>desk_invariant\<close> is that contract, proved once for every
  operation and used on each invariant of the store and of the requests sent.
\<close>

subsection \<open>Preservation\<close>

definition keeps :: "('s \<Rightarrow> bool) \<Rightarrow> ('s, 'e, 'a) eff \<Rightarrow> bool" where
  "keeps J m \<longleftrightarrow> (\<forall>s. J s \<longrightarrow> J (snd (m s)))"

lemma keepsD: "keeps J m \<Longrightarrow> J s \<Longrightarrow> J (snd (m s))"
  by (simp add: keeps_def)

lemma keeps_wp: "keeps J m \<longleftrightarrow> (\<forall>s. J s \<longrightarrow> wp m (\<lambda>_. J) (\<lambda>_. J) s)"
  by (simp add: keeps_def always_wp [unfolded always_def])

lemma keeps_return [simp, intro!]: "keeps J (returnW x)"
  and keeps_raise [simp, intro!]: "keeps J (raiseW e)"
  and keeps_get [simp, intro!]: "keeps J (getW f)"
  and keeps_ask [simp, intro!]: "keeps J (askW g)"
  and keeps_lift [simp, intro!]: "keeps J (liftW r)"
  and keeps_guard [simp, intro!]: "keeps J (guardW b e)"
  by (simp_all add: keeps_def eff_eval)

lemma keeps_modify: "(\<And>s. J s \<Longrightarrow> J (u s)) \<Longrightarrow> keeps J (modifyW u)"
  by (simp add: keeps_def modifyW_def)

lemma keeps_bind: "keeps J m \<Longrightarrow> (\<And>x. keeps J (f x)) \<Longrightarrow> keeps J (bindW m f)"
  unfolding keeps_wp wp_bind by (blast intro: wp_mono [of m "\<lambda>_. J" "\<lambda>_. J"])

lemma keeps_catch: "keeps J m \<Longrightarrow> (\<And>e. keeps J (h e)) \<Longrightarrow> keeps J (catchW m h)"
  unfolding keeps_wp wp_catch by (blast intro: wp_mono [of m "\<lambda>_. J" "\<lambda>_. J"])

lemma keeps_try: "keeps J m \<Longrightarrow> keeps J (tryW m)"
  unfolding tryW_def by (intro keeps_catch keeps_bind) simp_all

lemma keeps_if: "(b \<Longrightarrow> keeps J m) \<Longrightarrow> (\<not> b \<Longrightarrow> keeps J n) \<Longrightarrow> keeps J (if b then m else n)"
  by simp

lemma keeps_let: "(\<And>x. keeps J (f x)) \<Longrightarrow> keeps J (Let v f)"
  by simp

lemma keeps_option: "keeps J m \<Longrightarrow> (\<And>x. keeps J (f x)) \<Longrightarrow> keeps J (case v of None \<Rightarrow> m | Some x \<Rightarrow> f x)"
  by (simp split: option.split)

lemma keeps_sum: "(\<And>x. keeps J (f x)) \<Longrightarrow> (\<And>y. keeps J (g y)) \<Longrightarrow> keeps J (case v of Inl x \<Rightarrow> f x | Inr y \<Rightarrow> g y)"
  by (simp split: sum.split)

lemma keeps_prod: "(\<And>x y. keeps J (f x y)) \<Longrightarrow> keeps J (case v of (x, y) \<Rightarrow> f x y)"
  by (simp split: prod.split)

lemma keeps_list: "keeps J m \<Longrightarrow> (\<And>x xs. keeps J (f x xs)) \<Longrightarrow> keeps J (case v of [] \<Rightarrow> m | x # xs \<Rightarrow> f x xs)"
  by (simp split: list.split)

lemma keeps_pydec:
  "(\<And>x. keeps J (f x)) \<Longrightarrow> (\<And>b. keeps J (g b)) \<Longrightarrow> keeps J n \<Longrightarrow>
   keeps J (case v of Fin x \<Rightarrow> f x | Infinite b \<Rightarrow> g b | NotANumber \<Rightarrow> n)"
  by (simp split: pydec.split)

lemma keeps_pyval:
  "keeps J a \<Longrightarrow> (\<And>x. keeps J (b x)) \<Longrightarrow> (\<And>x. keeps J (c x)) \<Longrightarrow> (\<And>x. keeps J (d x)) \<Longrightarrow> (\<And>x. keeps J (e x)) \<Longrightarrow>
   (\<And>x. keeps J (f x)) \<Longrightarrow> (\<And>x. keeps J (g x)) \<Longrightarrow>
   keeps J (case v of PNone \<Rightarrow> a | PBool x \<Rightarrow> b x | PInt x \<Rightarrow> c x | PFloat x \<Rightarrow> d x | PStr x \<Rightarrow> e x | PList x \<Rightarrow> f x | PDict x \<Rightarrow> g x)"
  by (simp split: pyval.split)

lemmas keeps_rules = keeps_return keeps_raise keeps_get keeps_ask keeps_lift keeps_guard keeps_bind keeps_catch keeps_try
  keeps_if keeps_let keeps_option keeps_sum keeps_prod keeps_list keeps_pydec keeps_pyval

lemma keeps_each: "(\<And>x. keeps J (f x)) \<Longrightarrow> keeps J (each f xs)"
  by (induction xs) (auto intro: keeps_rules)

lemma keeps_attempts: "(\<And>x. keeps J (f x)) \<Longrightarrow> keeps J (attempts f xs)"
  by (induction xs) (auto intro!: keeps_rules)

lemma keeps_collect: "(\<And>x. keeps J (f x)) \<Longrightarrow> keeps J (collect f xs)"
  by (induction xs) (auto intro!: keeps_rules)

lemma keeps_ignore: "keeps J m \<Longrightarrow> keeps J (ignore m)"
  unfolding ignore_def by (intro keeps_rules)

lemma keeps_ok_of: "keeps J m \<Longrightarrow> keeps J (ok_of m)"
  unfolding ok_of_def by (intro keeps_rules)

lemmas keeps_loops = keeps_each keeps_attempts keeps_collect keeps_ignore keeps_ok_of

subsection \<open>Reading the world\<close>

text \<open>
  \<open>frame J d\<close>: a property of the store, the requests sent and the enabled flag, which
  reading never changes; \<open>ledger J d\<close> looks at the store and the requests only.
\<close>

definition frame :: "(store \<Rightarrow> (string \<times> request) list \<Rightarrow> bool \<Rightarrow> bool) \<Rightarrow> 'x desk \<Rightarrow> bool" where
  "frame J d \<longleftrightarrow> J (dk_store d) (dk_sent d) (dk_enabled d)"

abbreviation ledger :: "(store \<Rightarrow> (string \<times> request) list \<Rightarrow> bool) \<Rightarrow> 'x desk \<Rightarrow> bool" where
  "ledger J \<equiv> frame (\<lambda>s x _. J s x)"

lemma keeps_look [simp, intro!]: "keeps (frame J) (look ow)"
  by (simp add: keeps_def look_def frame_def split: prod.split)

lemma keeps_request [simp, intro!]: "keeps (frame J) (ask ow q)"
  by (simp add: keeps_def ask_def frame_def split: prod.split)

lemma keeps_memory:
  "(\<And>d. dk_store (u d) = dk_store d \<and> dk_sent (u d) = dk_sent d \<and> dk_enabled (u d) = dk_enabled d) \<Longrightarrow>
   keeps (frame J) (modifyW u)"
  by (rule keeps_modify) (simp add: frame_def)

lemma keeps_flags: "(\<And>d. dk_store (u d) = dk_store d \<and> dk_sent (u d) = dk_sent d) \<Longrightarrow> keeps (ledger J) (modifyW u)"
  by (rule keeps_modify) (simp add: frame_def)

lemma keeps_store_get [simp, intro!]: "keeps J (store_get f)"
  and keeps_store_query [simp, intro!]: "keeps J (store_query g m)"
  and keeps_load_pair [simp, intro!]: "keeps J load_pair"
  and keeps_mode_in_use [simp, intro!]: "keeps J mode_in_use"
  and keeps_find_intent [simp, intro!]: "keeps J (find_intent k)"
  and keeps_already [simp, intro!]: "keeps J (already_confirmed k)"
  and keeps_require [simp, intro!]: "keeps J (require_trade tid why)"
  and keeps_reread [simp, intro!]: "keeps J (reread row)"
  by (simp_all add: store_get_def store_query_def load_pair_def mode_in_use_def find_intent_def already_confirmed_def
      require_trade_def reread_def)

lemmas reads = keeps_look keeps_request keeps_store_get keeps_store_query keeps_load_pair keeps_mode_in_use keeps_find_intent
  keeps_already keeps_require keeps_reread

lemma keeps_lookups [simp, intro!]:
  "keeps (frame J) (symbol_info ow symbol)" "keeps (frame J) (get_order ow symbol i c)"
  "keeps (frame J) (get_order_list ow i c)" "keeps (frame J) (open_order_lists ow)"
  unfolding symbol_info_def get_order_def get_order_list_def open_order_lists_def by (intro keeps_rules reads)+

lemma keeps_rules_for [simp, intro!]: "keeps (frame J) (rules_for ow env pair)"
  unfolding rules_for_def by (intro keeps_rules reads keeps_lookups)

lemma keeps_prices [simp, intro!]:
  "keeps (frame J) (best_price ow side symbol)" "keeps (frame J) (current_price ow symbol)"
  "keeps (frame J) (account_balances ow)"
  unfolding best_price_def current_price_def account_balances_def by (intro keeps_rules reads)+

lemma keeps_balances [simp, intro!]: "keeps (frame J) (free_balance ow asset)"
  "keeps (frame J) (held_btc ow rules)" "keeps (frame J) (btc_remains ow rules)"
  unfolding free_balance_def held_btc_def btc_remains_def free_balance_def by (intro keeps_rules keeps_prices)+

lemma keeps_fetches [simp, intro!]: "keeps (frame J) (lookup ow endpoint symbol params)"
  "keeps (frame J) (fetch_order ow symbol i c)" "keeps (frame J) (fetch_list ow i c)"
  "keeps (frame J) (refetch_entry ow row symbol)" "keeps (frame J) (cancel_is_terminal ow endpoint symbol request)"
  "keeps (frame J) (observe_protection ow row symbol)"
  unfolding lookup_def fetch_order_def fetch_list_def refetch_entry_def cancel_is_terminal_def observe_protection_def
    fetch_order_def fetch_list_def
  by (intro keeps_rules keeps_lookups)+

lemma keeps_new_id [simp, intro!]: "keeps (frame J) (new_id ow role)"
  unfolding new_id_def by (intro keeps_rules reads keeps_memory) simp

lemma keeps_draw_ids [simp, intro!]: "keeps (frame J) (draw_ids ow roles)"
  by (induction roles) (auto intro!: keeps_rules)

lemma keeps_build [simp, intro!]: "keeps (frame J) (build_entry ow env mode rules qty entry)"
  "keeps (frame J) (build_replacement ow env mode rules qty entry current stop delta)"
  unfolding build_entry_def build_replacement_def build_def by (intro keeps_rules keeps_draw_ids)+

lemma keeps_preflight [simp, intro!]: "keeps (frame J) (preflight ow env rules endpoint params ids lst)"
  unfolding preflight_def by (intro keeps_rules reads keeps_memory) simp

lemma keeps_scope [simp, intro!]: "keeps (frame J) (event_in_scope ow e)"
  unfolding event_in_scope_def by (intro keeps_rules reads keeps_lookups)

lemma keeps_recovery [simp, intro!]: "keeps (frame J) (add_recovery symbol)" "keeps (frame J) (drop_recovery symbol)"
  unfolding add_recovery_def drop_recovery_def by (rule keeps_memory; simp)+

lemma keeps_enumerate [simp, intro!]: "keeps (frame J) (enumerate ow q)" "keeps (frame J) (all_balances ow)"
  unfolding enumerate_def all_balances_def by (intro keeps_rules reads keeps_prices)+

lemma keeps_ownership [simp, intro!]: "keeps (frame J) (reconciled_ownership ow env orders ls balances)"
  "keeps (frame J) (ownership_step ow env)"
  unfolding reconciled_ownership_def ownership_step_def owned_balance_def reconciled_ownership_def
  by (intro keeps_rules reads keeps_rules_for keeps_enumerate)+

lemma keeps_validation [simp, intro!]: "keeps (frame J) (check_target ow env symbol)"
  "keeps (frame J) (validate_pair ow env pair)" "keeps (frame J) (configured_entry_quantity env rules entry)"
  "keeps (frame J) (entry_at_ask ow rules symbol)"
  unfolding check_target_def validate_pair_def configured_entry_quantity_def entry_at_ask_def
  by (intro keeps_rules reads keeps_rules_for keeps_prices)+

lemma keeps_funding [simp, intro!]: "keeps (frame J) (validate_pair_funding ow env pair)"
  unfolding validate_pair_funding_def by (intro keeps_rules keeps_validation keeps_balances keeps_build keeps_preflight)

lemmas keeps_reads = reads keeps_lookups keeps_rules_for keeps_prices keeps_balances keeps_fetches keeps_new_id keeps_build
  keeps_preflight keeps_scope keeps_recovery keeps_enumerate keeps_ownership keeps_validation keeps_funding

subsection \<open>The contract of the store and of sending\<close>

lemma guard_frame:
  assumes "\<And>s v. G s \<Longrightarrow> G (s\<lparr>st_data := v\<rparr>)" "\<And>s v. G s \<Longrightarrow> G (s\<lparr>st_risk := v\<rparr>)"
  shows "keeps (\<lambda>w. G (gw_store w)) (set_global_pause sha256 io reason)"
    and "keeps (\<lambda>w. G (gw_store w)) (on_exchange_event sha256 io env lm clock e)"
proof -
  have save: "wp (save_guard sha256 io prior) (\<lambda>_ w. G (gw_store w)) (\<lambda>_ w. G (gw_store w)) w" if "G (gw_store w)" for prior w
    using that assms by (auto simp: wp_save_guard save_risk_Inr suspended_def split: sum.splits)
  show "keeps (\<lambda>w. G (gw_store w)) (set_global_pause sha256 io reason)"
    unfolding keeps_wp set_global_pause_def using save by (auto simp: put_state_def)
  have "keeps (\<lambda>w. G (gw_store w)) (record_stopout sha256 io lm clock symbol t)" for symbol t
    unfolding keeps_wp record_stopout_def prune_days_def count_day_def mark_stopout_def using save
    by (auto simp: put_state_def wp_ask wp_lift Let_def split: sum.splits)
  then show "keeps (\<lambda>w. G (gw_store w)) (on_exchange_event sha256 io env lm clock e)"
    unfolding on_exchange_event_def by (intro keeps_rules)
qed

text \<open>A step that sends at most one request, for the intent \<open>k\<close>, and leaves the store alone.\<close>

definition sends :: "string \<Rightarrow> ('x, 'a) desk_eff \<Rightarrow> bool" where
  "sends k m \<longleftrightarrow> (\<forall>d. dk_store (snd (m d)) = dk_store d
     \<and> (dk_sent (snd (m d)) = dk_sent d \<or> (\<exists>q. dk_sent (snd (m d)) = (k, q) # dk_sent d)))"

lemma sends_send: "sends k (send ow k q)"
  by (simp add: sends_def send_def ask_def split: prod.split)

lemma sends_if: "(b \<Longrightarrow> sends k m) \<Longrightarrow> (\<not> b \<Longrightarrow> sends k n) \<Longrightarrow> sends k (if b then m else n)"
  by simp

lemma sends_lift: "(\<And>x. sends k (f x)) \<Longrightarrow> sends k (bindW (liftW r) f)"
  by (cases r) (simp_all add: sends_def eff_eval)

lemma sends_raise: "sends k (raiseW e)"
  by (simp add: sends_def eff_eval)

lemma sends_try: "sends k m \<Longrightarrow> sends k (tryW m)"
  unfolding sends_def
proof
  fix d
  assume m: "\<forall>d. dk_store (snd (m d)) = dk_store d \<and> (dk_sent (snd (m d)) = dk_sent d \<or> (\<exists>q. dk_sent (snd (m d)) = (k, q) # dk_sent d))"
  have "snd (tryW m d) = snd (m d)" by (simp add: tryW_def eff_eval split: sum.split prod.split)
  then show "dk_store (snd (tryW m d)) = dk_store d
      \<and> (dk_sent (snd (tryW m d)) = dk_sent d \<or> (\<exists>q. dk_sent (snd (tryW m d)) = (k, q) # dk_sent d))"
    using m by simp
qed

lemma sends_requests: "sends k (place ow k endpoint params)" "sends k (cancel_order ow k symbol i)"
  "sends k (cancel_order_list ow k symbol i)" "sends k (send_cancel ow k row symbol)"
  unfolding place_def cancel_order_def cancel_order_list_def send_cancel_def
  by (intro sends_if sends_lift sends_send sends_raise)+

locale desk_invariant =
  fixes J :: "store \<Rightarrow> (string \<times> request) list \<Rightarrow> bool"
  assumes operation: "J s x \<Longrightarrow> J (apply_op sha256 loads op s) x"
    and data: "J s x \<Longrightarrow> J (s\<lparr>st_data := v\<rparr>) x"
    and risk: "J s x \<Longrightarrow> J (s\<lparr>st_risk := r\<rparr>) x"
    and sending: "J s x \<Longrightarrow> mark_intent_submitting now k (st_intents s) = Inr t \<Longrightarrow>
      J (s\<lparr>st_intents := t\<rparr>) ((k, q) # x)"
begin

text \<open>Steps on the store.\<close>

lemma upsert [intro!]: "keeps (ledger J) (upsert ow tid pair given)"
proof -
  have "J s' x" if "upsert_trade now tid pair given s = Inr s'" "J s x" for now s s' x
    using operation [OF that(2), of "\<lambda>_. []" "\<lambda>_. None" "OpUpsert now tid pair given"] that(1)
    by (simp add: apply_op_def or_keep_def)
  then show ?thesis unfolding upsert_def store_step_def
    by - (rule keeps_bind [OF keeps_look], auto simp: keeps_def eff_eval frame_def exn_def split: sum.splits prod.splits)
qed

lemma finishing [intro!]: "keeps (ledger J) (finish ow k state order order_list error)"
proof -
  have "J (s\<lparr>st_intents := t\<rparr>) x" if "finish_intent now k state order order_list error (st_intents s) = Inr t" "J s x" for now s t x
    using operation [OF that(2), of "\<lambda>_. []" "\<lambda>_. None" "OpFinish now k state order order_list error"] that(1)
    by (simp add: apply_op_def with_intents_def)
  then show ?thesis unfolding finish_def store_step_def intents_of_def
    by - (rule keeps_bind [OF keeps_look], auto simp: keeps_def eff_eval frame_def exn_def bindE_def split: sum.splits prod.splits)
qed

lemma preparing [intro!]: "keeps (ledger J) (prepare ow env q)"
proof -
  have "J (s\<lparr>st_intents := t\<rparr>) x" if "prepare_intent (de_sha env) now q (st_intents s) = Inr (won, t)" "J s x" for now s t x won
    using operation [OF that(2), of "de_sha env" "\<lambda>_. None" "OpPrepare now q"] that(1) by (simp add: apply_op_def)
  then show ?thesis unfolding prepare_def store_query_def
    by - (rule keeps_bind [OF keeps_look], auto simp: keeps_def eff_eval frame_def exn_def split: sum.splits prod.splits)
qed

lemma recording [intro!]: "keeps (ledger J) (record_event ow e)"
proof -
  have "J s' x" if "record_exchange_event now e s = Inr (b, s')" "J s x" for now s s' x b
    using operation [OF that(2), of "\<lambda>_. []" "\<lambda>_. None" "OpEvent now e"] that(1) by (simp add: apply_op_def)
  then show ?thesis unfolding record_event_def store_query_def
    by - (rule keeps_bind [OF keeps_look], auto simp: keeps_def eff_eval frame_def exn_def split: sum.splits prod.splits)
qed

lemma replaying [intro!]: "keeps (ledger J) (replay_trade ow tid)"
proof -
  have "J (snd (replay_exchange_events_for_trade now tid s)) x" if "J s x" for now s x
    using operation [OF that, of "\<lambda>_. []" "\<lambda>_. None" "OpReplay now tid"] by (simp add: apply_op_def)
  then show ?thesis unfolding replay_trade_def by (intro keeps_rules reads keeps_modify) (simp add: frame_def)
qed

lemma guarding:
  assumes "\<And>x. keeps (\<lambda>w. J (gw_store w) x) m"
  shows "keeps (ledger J) (guard_step m)"
  unfolding keeps_def frame_def
proof (intro allI impI)
  fix d :: "'x desk"
  assume "J (dk_store d) (dk_sent d)"
  then have "J (gw_store (snd (m (guard_of d)))) (dk_sent d)"
    using assms [of "dk_sent d"] by (auto simp: keeps_def guard_of_def)
  then show "J (dk_store (snd (guard_step m d))) (dk_sent (snd (guard_step m d)))"
    by (cases "m (guard_of d)") (simp add: guard_step_def put_guard_def)
qed

lemma pausing [intro!]: "keeps (ledger J) (pause ow env reason)"
  unfolding pause_def
  by (intro keeps_rules reads keeps_modify guarding guard_frame)
     (auto simp: frame_def set_entries_def data risk)

lemma noting [intro!]: "keeps (ledger J) (note_reconciliation ow status)"
  unfolding note_reconciliation_def by (intro keeps_rules reads keeps_modify) (auto simp: frame_def data)

lemma authenticated [intro!]: "keeps (ledger J) (record_authenticated_event ow env e)"
  unfolding record_authenticated_event_def
  by (intro keeps_rules reads keeps_scope recording guarding guard_frame) (auto simp: data risk)

lemma rest [intro!]: "keeps (ledger J) (record_rest ow env lst order)"
  "keeps (ledger J) (record_response_events ow env response lst)"
  unfolding record_response_events_def record_rest_def by (intro keeps_rules keeps_each authenticated)+

text \<open>Marking and sending are one step of the contract.\<close>

lemma marking [intro!]: "keeps (ledger J) (mark_submitting ow k)"
proof -
  have "J (s\<lparr>st_intents := t\<rparr>) x" if "mark_intent_submitting now k (st_intents s) = Inr t" "J s x" for now s t x
    using operation [OF that(2), of "\<lambda>_. []" "\<lambda>_. None" "OpSubmit now k"] that(1) by (simp add: apply_op_def with_intents_def)
  then show ?thesis unfolding mark_submitting_def store_step_def intents_of_def
    by - (rule keeps_bind [OF keeps_look], auto simp: keeps_def eff_eval frame_def exn_def bindE_def split: sum.splits prod.splits)
qed

lemma marked_send:
  fixes m :: "('x, 'a) desk_eff"
  assumes m: "sends k m" and f: "\<And>x. keeps (ledger J) (f x)"
  shows "keeps (ledger J) (bindW (mark_submitting ow k) (\<lambda>_. bindW m f))"
  unfolding keeps_def
proof (intro allI impI)
  fix d :: "'x desk"
  assume d: "ledger J d"
  obtain r d1 where mark: "mark_submitting ow k d = (r, d1)" by fastforce
  show "ledger J (snd (bindW (mark_submitting ow k) (\<lambda>_. bindW m f) d))"
  proof (cases r)
    case (Inl e)
    then show ?thesis using keepsD [OF marking d, of ow k] mark by (simp add: bindW_def)
  next
    case (Inr u)
    obtain t now where t: "mark_intent_submitting now k (st_intents (dk_store d)) = Inr t"
      "dk_store d1 = (dk_store d)\<lparr>st_intents := t\<rparr>" "dk_sent d1 = dk_sent d"
      using mark Inr by (auto simp: mark_submitting_def look_def store_step_def intents_of_def exn_def eff_eval bindE_def
          split: sum.splits prod.splits)
    have d1: "ledger J d1" using keepsD [OF marking d, of ow k] mark by simp
    have "ledger J (snd (m d1))"
      using m d1 sending [OF d [unfolded frame_def] t(1)] t(2,3) by (auto simp: sends_def frame_def; metis)
    then have "ledger J (snd (bindW m f d1))"
      using f by (auto simp: bindW_def keeps_def split: sum.splits prod.splits; metis snd_conv)
    then show ?thesis using mark Inr by (simp add: bindW_def [of "mark_submitting ow k"])
  qed
qed

lemmas writes = upsert finishing preparing recording replaying pausing noting authenticated rest

subsubsection \<open>Submission and recovery\<close>

lemma post [intro!]: "keeps (ledger J) (post_once ow env k endpoint symbol params)"
  unfolding post_once_def by (intro marked_send sends_try sends_requests keeps_rules keeps_reads writes)

lemma confirming [intro!]: "keeps (ledger J) (confirm ow k response)"
  unfolding confirm_def by (rule finishing)

lemma submitting [intro!]: "keeps (ledger J) (submit_once ow env operation tid symbol endpoint params parent)"
  "keeps (ledger J) (resume_submission ow env i request)"
  unfolding submit_once_def settle_submission_def resume_submission_def by (intro keeps_rules keeps_reads writes post confirming)+

lemma binding [intro!]: "keeps (ledger J) (bind_confirmed ow env i answer request)"
  "keeps (ledger J) (bind_submission ow env s request)"
  "keeps (ledger J) (rebind ow env i row endpoint answer request shape note)"
  unfolding bind_submission_def rebind_def bind_confirmed_def by (intro keeps_rules keeps_reads writes)+

lemma aborting [intro!]: "keeps (ledger J) (abort ow k why)"
  unfolding abort_def by (rule finishing)

lemmas submissions = post confirming submitting binding aborting

lemma resuming [intro!]: "keeps (ledger J) (resume_child ow env row rules child request note)"
  "keeps (ledger J) (continue_child ow env plan row rules child)"
  "keeps (ledger J) (resume_plan ow env plan request row rules)"
  unfolding continue_child_def resume_plan_def resume_child_def by (intro keeps_rules keeps_reads writes submissions)+

lemma resolving [intro!]: "keeps (ledger J) (resume_prepared_replacement ow env plan)"
  "keeps (ledger J) (resolve_intent ow env i)"
  unfolding resume_prepared_replacement_def resolve_intent_def resolve_prepared_def resolve_cancel_def resolve_placement_def
  by (intro keeps_rules keeps_reads writes submissions resuming)+

lemma resolving_all [intro!]: "keeps (ledger J) (resolve_operation_intents ow env)"
  unfolding resolve_operation_intents_def by (intro keeps_rules keeps_reads keeps_attempts resolving)

subsubsection \<open>Entries\<close>

lemma cancelling [intro!]: "keeps (ledger J) (cancel_entry_list ow env row symbol operation)"
  "keeps (ledger J) (cancel_protection ow env row symbol)"
  unfolding cancel_entry_list_def cancel_protection_def
  by (intro marked_send sends_try sends_requests keeps_rules keeps_reads writes submissions)+

lemma observing [intro!]: "keeps (ledger J) (observe_entry ow env row symbol a b)"
  "keeps (ledger J) (close_entry ow env row symbol)"
  unfolding observe_entry_def close_entry_def by (intro keeps_rules keeps_reads writes cancelling)+

lemma protecting [intro!]: "keeps (ledger J) (protect_filled ow env row active rules symbol)"
  unfolding protect_filled_def by (intro keeps_rules keeps_reads writes submissions)

lemma partial [intro!]: "keeps (ledger J) (place_partial_protection ow env symbol)"
  unfolding place_partial_protection_def by (intro keeps_rules keeps_reads writes observing protecting)

lemma expiring [intro!]: "keeps (ledger J) (expire_stale_entry ow env row)"
  unfolding expire_stale_entry_def expire_open_entry_def entry_closed_def
  by (intro keeps_rules keeps_reads writes cancelling observing partial)

subsubsection \<open>Reconciliation\<close>

lemma refreshing [intro!]: "keeps (ledger J) (refresh_durable_exchange_state ow env)"
  unfolding refresh_durable_exchange_state_def refresh_trade_def refresh_list_def refresh_order_def
  by (intro keeps_rules keeps_reads writes keeps_each keeps_attempts)

lemma emergencies [intro!]: "keeps (ledger J) (reconcile_confirmed_emergency_exits ow env)"
  unfolding reconcile_confirmed_emergency_exits_def reconcile_emergency_def prove_emergency_def
  by (intro keeps_rules keeps_reads writes keeps_collect)

lemma stepping [intro!]: "keeps (ledger J) (stale_entry_step ow env row)" "keeps (ledger J) (partial_step ow env symbol)"
  unfolding stale_entry_step_def partial_step_def by (intro keeps_ok_of keeps_rules keeps_reads expiring partial)+

lemma reconciling [intro!]: "keeps (ledger J) (verified_reconcile ow env)"
  unfolding verified_reconcile_def
  by (intro keeps_rules keeps_reads writes keeps_collect resolving_all refreshing emergencies stepping)

lemma flatness [intro!]: "keeps (ledger J) (verify_flat_for_switch ow env symbols)"
  unfolding verify_flat_for_switch_def by (intro keeps_rules keeps_reads writes keeps_each)

subsubsection \<open>Positions\<close>

lemma suspending [intro!]: "keeps (ledger J) suspend_for_conversion" "keeps (ledger J) arm"
  unfolding suspend_for_conversion_def arm_def by (rule keeps_modify; simp add: frame_def set_entries_def data)+

lemma replacing [intro!]: "keeps (ledger J) (submit_replacement ow env row pair symbol rules mode cv qty held plan endpoint params)"
  "keeps (ledger J) (replace_protection ow env row pair symbol rules mode cv entry current qty stop)"
  unfolding replace_protection_def submit_replacement_def
  by (intro keeps_rules keeps_reads writes submissions cancelling suspending)+

lemma converting [intro!]: "keeps (ledger J) (convert ow env symbol mode cv)" "keeps (ledger J) (auto_convert ow env symbol mode cv)"
  unfolding auto_convert_def convert_def by (intro keeps_rules keeps_reads replacing reconciling suspending)+

lemma managing [intro!]: "keeps (ledger J) (maybe_auto_manage ow env ready flow)"
  unfolding maybe_auto_manage_def manage_position_def by (intro keeps_rules keeps_reads converting)

lemma exiting [intro!]: "keeps (ledger J) (emergency_exit ow env symbol)"
  unfolding emergency_exit_def submit_emergency_def settle_emergency_def emergency_fill_def
  by (intro keeps_rules keeps_reads writes submissions cancelling)

subsubsection \<open>Every operation\<close>

lemma starting [intro!]: "keeps (ledger J) (start ow env ok)"
proof -
  have "J s' x" if "register_symbol_pair a b s = Inr s'" "J s x" for a b s s' x
    using operation [OF that(2), of "\<lambda>_. []" "\<lambda>_. None" "OpRegister a b"] that(1) by (simp add: apply_op_def or_keep_def)
  then have "keeps (ledger J) (store_step StoreExn (register_symbol_pair a b) :: ('x, unit) desk_eff)" for a b
    by (auto simp: store_step_def keeps_def eff_eval frame_def exn_def split: sum.splits)
  then show ?thesis unfolding start_def
    by (intro keeps_rules keeps_reads reconciling) (auto intro: keeps_modify simp: frame_def set_entries_def data)
qed

lemma entering [intro!]: "keeps (ledger J) (submit ow env symbol tid)"
  unfolding submit_def place_entry_def by (intro keeps_rules keeps_reads writes submissions)

lemma ticking [intro!]: "keeps (ledger J) (tick ow env)"
  unfolding tick_def settle_account_def expire_step_def
  by (intro keeps_rules keeps_reads writes keeps_each keeps_ok_of reconciling expiring stepping keeps_flags) simp

lemma streaming [intro!]: "keeps (ledger J) (on_order_update ow env e)" "keeps (ledger J) (on_list_update ow env e)"
  "keeps (ledger J) (on_resync ow env)" "keeps (ledger J) (on_account_update ow)"
  unfolding on_order_update_def on_list_update_def on_resync_def on_account_update_def
  by (intro keeps_rules keeps_reads writes keeps_flags; simp)+

lemma controls [intro!]: "keeps (ledger J) (set_enabled ow env on)" "keeps (ledger J) (restart_user_stream ow env ok)"
  "keeps (ledger J) (set_size env v)"
  unfolding set_enabled_def restart_user_stream_def set_size_def
  by (intro keeps_rules keeps_reads writes reconciling keeps_flags; simp)+

lemma desk_step_keeps: "keeps (ledger J) (desk_step ow env op)"
  by (cases op) (auto intro!: keeps_ignore keeps_funding)

lemma event_keeps: "ledger J d \<Longrightarrow> ledger J (desk_event_step ow e d)"
  using keepsD [OF desk_step_keeps] by (cases e) (auto simp: frame_def)

lemma run_keeps: "ledger J d \<Longrightarrow> ledger J (run_desk ow es d)"
  unfolding run_desk_def by (induction es arbitrary: d) (auto intro: event_keeps)

end

end
