(* ===== verification/Adapter_Guarantees.thy ===== *)
theory Adapter_Guarantees
  imports Adapter_Ledger
begin

text \<open>
  What the adapter guarantees: a request is sent at most once per committed intent whatever
  the exchange answers and whenever the process restarts, entries are sent only from a clear
  desk, and neither arming nor a pair switch passes over anything unexplained.
\<close>

subsection \<open>At most one request per intent\<close>

definition sent_once :: "store \<Rightarrow> (string \<times> request) list \<Rightarrow> bool" where
  "sent_once s x \<longleftrightarrow> store_ok s \<and> distinct (map fst x)
     \<and> (\<forall>k \<in> fst ` set x. state_of k (st_intents s) \<notin> {None, Some PREPARED})"

lemma left_prepared_op:
  assumes "intents_ok (st_intents s)" "state_of k (st_intents s) \<notin> {None, Some PREPARED}"
  shows "state_of k (st_intents (apply_op sha256 loads op s)) \<notin> {None, Some PREPARED}"
proof (cases op)
  case (OpPrepare now q)
  then show ?thesis using assms left_prepared_prepare [OF assms(1) _ assms(2)]
    by (auto simp: apply_op_def simp del: insert_iff split: sum.splits prod.splits)
next
  case (OpSubmit now j)
  then show ?thesis using assms state_after_submitting [OF assms(1)]
    by (auto simp: apply_op_def with_intents_def split: sum.splits)
next
  case (OpFinish now j st a b e)
  then show ?thesis using assms left_prepared_finish
    by (auto simp: apply_op_def with_intents_def simp del: insert_iff split: sum.splits)
qed (use assms in \<open>auto simp: apply_op_def or_keep_def set_mode_def set_entries_def register_symbol_pair_def claim_signal_def
    record_signal_def claim_command_def record_command_def upsert_trade_def record_exchange_event_def
    replay_exchange_events_for_trade_def initialize_risk_guard_state_def save_risk_guard_state_def Let_def bindE_def
    simp del: insert_iff split: sum.splits option.splits prod.splits if_splits\<close>)

lemma store_ok_parts [simp]: "store_ok (s\<lparr>st_data := v\<rparr>) = store_ok s" "store_ok (s\<lparr>st_risk := r\<rparr>) = store_ok s"
  by (simp_all add: store_ok_def)

interpretation once: desk_invariant sent_once
proof
  fix s :: store and x sha256 loads op v r k now t q
  assume J: "sent_once s x"
  then have ok: "store_ok s" "intents_ok (st_intents s)" by (simp_all add: sent_once_def store_ok_def)
  show "sent_once (apply_op sha256 loads op s) x"
    using J store_ok_step [OF ok(1)] left_prepared_op [OF ok(2)] by (simp add: sent_once_def del: insert_iff)
  show "sent_once (s\<lparr>st_data := v\<rparr>) x" "sent_once (s\<lparr>st_risk := r\<rparr>) x" using J by (simp_all add: sent_once_def)
  assume m: "mark_intent_submitting now k (st_intents s) = Inr t"
  have fresh: "k \<notin> fst ` set x" using J state_after_submitting(1) [OF ok(2) m] by (auto simp: sent_once_def)
  have "store_ok (s\<lparr>st_intents := t\<rparr>)" using ok submitting_ok [OF ok(2) m] by (simp add: store_ok_def)
  moreover have "state_of j t \<notin> {None, Some PREPARED}" if "j \<in> insert k (fst ` set x)" for j
    using that J state_after_submitting(2) [OF ok(2) m, of j] by (auto simp: sent_once_def)
  ultimately show "sent_once (s\<lparr>st_intents := t\<rparr>) ((k, q) # x)"
    using J fresh by (simp add: sent_once_def)
qed

text \<open>The request committed with an intent is the one found again by every later recovery.\<close>

definition request_committed :: "string \<Rightarrow> string \<times> string option \<times> string \<times> string \<times> string \<times> string \<times> string option \<times> string option \<Rightarrow>
    store \<Rightarrow> (string \<times> request) list \<Rightarrow> bool" where
  "request_committed k c s x \<longleftrightarrow> committed_request k (st_intents s) = Some c"

interpretation committed: desk_invariant "request_committed k c"
proof
  fix s :: store and x sha256 loads op v r j now t q
  assume J: "request_committed k c s x"
  show "request_committed k c (apply_op sha256 loads op s) x"
  proof (cases op)
    case (OpPrepare now q)
    then show ?thesis using J committed_prepare
      by (auto simp: request_committed_def apply_op_def split: sum.splits prod.splits)
  next
    case (OpSubmit now i)
    then show ?thesis using J by (auto simp: request_committed_def apply_op_def with_intents_def committed_submit split: sum.splits)
  next
    case (OpFinish now i st a b e)
    then show ?thesis using J by (auto simp: request_committed_def apply_op_def with_intents_def committed_finish split: sum.splits)
  qed (use J in \<open>auto simp: request_committed_def apply_op_def or_keep_def set_mode_def set_entries_def register_symbol_pair_def
      claim_signal_def record_signal_def claim_command_def record_command_def upsert_trade_def record_exchange_event_def
      replay_exchange_events_for_trade_def initialize_risk_guard_state_def save_risk_guard_state_def Let_def bindE_def
      split: sum.splits option.splits prod.splits if_splits\<close>)
  show "request_committed k c (s\<lparr>st_data := v\<rparr>) x" "request_committed k c (s\<lparr>st_risk := r\<rparr>) x"
    using J by (simp_all add: request_committed_def)
  assume "mark_intent_submitting now j (st_intents s) = Inr t"
  then show "request_committed k c (s\<lparr>st_intents := t\<rparr>) ((j, q) # x)"
    using J by (simp add: request_committed_def committed_submit)
qed

text \<open>C1: Whatever the exchange answers or raises, in whatever order the operations of the adapter run, however
  often the process restarts and the pair file changes, no two requests that change the account are sent for one
  intent, and every request sent belongs to an intent of the durable ledger that is no longer PREPARED.\<close>

theorem request_sent_at_most_once:
  assumes "store_ok (dk_store d)" "dk_sent d = []"
  shows "distinct (map fst (dk_sent (run_desk ow es d)))
    \<and> (\<forall>k \<in> fst ` set (dk_sent (run_desk ow es d)).
        \<exists>i. intent k (st_intents (dk_store (run_desk ow es d))) = Some i \<and> i_state i \<noteq> PREPARED)"
proof -
  have "ledger sent_once (run_desk ow es d)"
    by (rule once.run_keeps) (simp add: frame_def sent_once_def assms)
  then show ?thesis by (auto simp: frame_def sent_once_def state_of_def)
qed

definition demo_exn :: client_exn where
  "demo_exn = \<lparr>ex_class = RequestsError, ex_status = PNone, ex_code = PNone, ex_text = ''timeout''\<rparr>"

definition demo_readings :: readings where
  "demo_readings = \<lparr>rd_now = 100, rd_time = Dec 100 0, rd_mono = Dec 7 0,
     rd_moment = \<lparr>mo_local = 0, mo_offset = 0\<rparr>, rd_ns = 5, rd_random = ''AB'',
     rd_io = \<lparr>io_commit = True, io_folder = True\<rparr>,
     rd_public = \<lparr>api_exchange_info = (\<lambda>_. Inl ()), api_avg_price = (\<lambda>_. Inl ()), api_ticker_price = (\<lambda>_. Inl ()),
       api_reference_price = (\<lambda>_. Inl ()), api_execution_rules = (\<lambda>_. Inl ())\<rparr>,
     rd_get = \<lparr>pr_symbol_orders = None, pr_all_orders = None, pr_order_lists = None, pr_account = None,
       pr_replacing_ids = [], pr_replacing_list = False\<rparr>\<rparr>"

text \<open>An exchange that never answers.\<close>

definition silent_exchange :: "unit outside" where
  "silent_exchange = \<lparr>ow_ask = (\<lambda>q x. (Inl demo_exn, x)), ow_look = (\<lambda>x. (demo_readings, x))\<rparr>"

definition demo_env :: desk_env where
  "demo_env = \<lparr>de_env = (\<lambda>_. None), de_sha = (\<lambda>t. t), de_loads = (\<lambda>_. None), de_redact = (\<lambda>_. ''timeout''),
     de_settings = default_settings,
     de_limits = \<lparr>lim_pair = 3, lim_global = 10, lim_cooldown = 60, lim_age = 180, lim_candle = 180\<rparr>,
     de_size_base = None, de_live = False, de_max_open = 300, de_filter_age = 60\<rparr>"

definition demo_position :: trade_row where
  "demo_position = \<lparr>t_id = ''t1'', t_pair = ''BTC/USDC'', t_updated = 5,
     t_cols = (\<lambda>_. PNone)(''lifecycle_state'' := PStr ''PROTECTION_ACTIVE'', ''stop_order_id'' := PInt 42)\<rparr>"

definition demo_store :: store where
  "demo_store = \<lparr>st_data = [(''entries_enabled'', PBool True),
       (''symbol_pairs'', PDict [(''BTCUSDC'', PStr ''BTC/USDC'')])],
     st_version = 2, st_risk = Some ([], []), st_migration = None, st_signals = [], st_commands = [],
     st_trades = [demo_position], st_events = [], st_intents = []\<rparr>"

definition demo_desk :: "unit desk" where
  "demo_desk = \<lparr>dk_out = (), dk_sent = [], dk_store = demo_store, dk_guard = [], dk_enabled = True, dk_started = True,
     dk_partial = [], dk_dirty = None, dk_cache = (\<lambda>_. None), dk_ids = \<lparr>cid_prefix = ''BTCB'', cid_counter = 0\<rparr>,
     dk_size = Dec 100 0, dk_pair = Inr [(''pair'', PStr ''BTC/USDC''), (''symbol'', PStr ''BTCUSDC'')]\<rparr>"

definition two_exits :: "desk_event list" where
  "two_exits = [Operation demo_env (EmergencyExit ''btcusdc''), Operation demo_env (EmergencyExit ''btcusdc'')]"

lemma demo_desk_ok: "store_ok (dk_store demo_desk)" "dk_sent demo_desk = []"
  by (simp_all add: demo_desk_def demo_store_def store_ok_def intents_ok_def)

lemma two_exits_send_one: "map snd (dk_sent (run_desk silent_exchange two_exits demo_desk)) = [CancelOrder ''BTCUSDC'' 42]"
  by code_simp

lemma request_sent_at_most_once_witness:
  "distinct (map fst (dk_sent (run_desk silent_exchange two_exits demo_desk)))
   \<and> map snd (dk_sent (run_desk silent_exchange two_exits demo_desk)) = [CancelOrder ''BTCUSDC'' 42]"
  using request_sent_at_most_once [of demo_desk silent_exchange two_exits] demo_desk_ok two_exits_send_one by simp

interpretation wellformed: desk_invariant "\<lambda>s _. store_ok s"
proof
  fix s :: store and sha256 loads op v r k now t
  assume ok: "store_ok s"
  show "store_ok (apply_op sha256 loads op s)" by (rule store_ok_step [OF ok])
  show "store_ok (s\<lparr>st_data := v\<rparr>)" "store_ok (s\<lparr>st_risk := r\<rparr>)" using ok by simp_all
  assume "mark_intent_submitting now k (st_intents s) = Inr t"
  then show "store_ok (s\<lparr>st_intents := t\<rparr>)" using ok submitting_ok by (auto simp: store_ok_def)
qed



subsection \<open>The entry\<close>

text \<open>C6: \<open>submit\<close> sends a request only when the desk was armed: the adapter started and enabled, entries on,
  the signal's symbol the active one, no other trade nonterminal and no intent unresolved.\<close>

theorem entry_needs_clear_desk:
  "dk_sent (snd (submit ow env symbol tid d)) = dk_sent d \<or>
   (dk_started d \<and> dk_enabled d \<and> entries_on (dk_store d) \<and> tid \<noteq> []
    \<and> (\<exists>p. dk_pair d = Inr p \<and> get p ''symbol'' = PStr (upper symbol))
    \<and> list_all (\<lambda>r. t_id r = tid) (active_trade_rows (dk_store d))
    \<and> unresolved_intents (st_intents (dk_store d)) = [])"
  by (auto simp: submit_def armed_def load_pair_def store_get_def eff_eval Let_def list_ex_iff list_all_iff
      split: if_splits sum.splits)

end
