(* ===== verification/Adapter_Safety.thy ===== *)
theory Adapter_Safety
  imports Adapter_Guarantees
begin

text \<open>
  The verdicts of the adapter: an unproven submission disarms the desk, a reconciliation
  that succeeds explains everything open, arming and pair switches rest on such a verdict,
  and a fill seen over REST counts as the same fill seen over the user stream.
\<close>

subsection \<open>Submissions whose outcome is not proven\<close>

definition quiet_market :: "unit outside" where
  "quiet_market = \<lparr>ow_ask = (\<lambda>q x. (case q of
         ExchangeInfo \<Rightarrow> Inr (PDict [(''symbols'', PList [PDict demo_entry])])
       | Account \<Rightarrow> Inr (PDict [(''balances'', PList [])])
       | OpenOrders _ \<Rightarrow> Inr (PList [])
       | GetSigned _ _ \<Rightarrow> Inr (PList [])
       | _ \<Rightarrow> Inl demo_exn, x)), ow_look = (\<lambda>x. (demo_readings, x))\<rparr>"

definition flat_desk :: "unit desk" where
  "flat_desk = demo_desk\<lparr>dk_store := demo_store\<lparr>st_trades := []\<rparr>\<rparr>"

definition small_order :: pydict where
  "small_order = [(''quantity'', PStr ''1''), (''newClientOrderId'', PStr ''c'')]"

lemma wp_any: "(\<And>x t. Q x t) \<Longrightarrow> (\<And>e t. E e t) \<Longrightarrow> wp m Q E s"
  by (auto simp: wp_def split: sum.splits prod.splits)

lemma wp_after: "(\<And>x t. wp (f x) Q E t) \<Longrightarrow> (\<And>e t. E e t) \<Longrightarrow> wp (bindW m f) Q E s"
  unfolding wp_bind by (rule wp_any)

definition off :: "'x desk \<Rightarrow> bool" where
  "off d \<longleftrightarrow> \<not> dk_enabled d \<and> \<not> entries_on (dk_store d)"

lemma entries_set [simp]: "\<not> entries_on (set_entries False why s)"
  by (simp add: entries_on_def set_entries_def get_or_def map_of_alist_put)

lemma guard_pause_store:
  "snd (set_global_pause sha256 io reason w) = w' \<Longrightarrow> \<not> entries_on (gw_store w) \<Longrightarrow>
   \<not> entries_on (gw_store w') \<and> st_intents (gw_store w') = st_intents (gw_store w)"
proof -
  assume r: "snd (set_global_pause sha256 io reason w) = w'" and w: "\<not> entries_on (gw_store w)"
  let ?P = "\<lambda>v. \<not> entries_on (gw_store v) \<and> st_intents (gw_store v) = st_intents (gw_store w)"
  have "wp (set_global_pause sha256 io reason) (\<lambda>_. ?P) (\<lambda>_. ?P) w"
    using w by (auto simp: set_global_pause_def wp_save_guard save_risk_Inr put_state_def entries_on_def suspended_def get_or_def
        map_of_alist_put split: sum.splits)
  then show ?thesis using wp_always [of _ ?P] r by blast
qed

lemma wp_pause: "wp (pause ow env reason) (\<lambda>_ t. off t \<and> st_intents (dk_store t) = st_intents (dk_store d)) (\<lambda>_ _. False) d"
proof -
  have "off t \<and> st_intents (dk_store t) = st_intents (dk_store d)" "r = Inr ()" if "pause ow env reason d = (r, t)" for r t
  proof -
    let ?d = "d\<lparr>dk_enabled := False, dk_store := set_entries False reason (dk_store d)\<rparr>"
    obtain rd x where l: "ow_look ow (dk_out d) = (rd, x)" by fastforce
    let ?w = "guard_of (?d\<lparr>dk_out := x\<rparr>)"
    obtain g w' where g: "set_global_pause (de_sha env) (rd_io rd) reason ?w = (g, w')" by fastforce
    have "t = put_guard w' (?d\<lparr>dk_out := x\<rparr>) \<and> r = Inr ()"
      using that l g by (auto simp: pause_def eff_eval look_def guard_step_def exn_def split: sum.splits)
    then show "off t \<and> st_intents (dk_store t) = st_intents (dk_store d)" "r = Inr ()"
      using guard_pause_store [of "de_sha env" "rd_io rd" reason ?w w'] g
      by (auto simp: put_guard_def off_def guard_of_def set_entries_def)
        (auto simp: entries_on_def get_or_def map_of_alist_put)
  qed
  then show ?thesis by (cases "pause ow env reason d") (force simp: wp_def split: sum.splits)
qed

lemma wp_finish:
  "wp (finish ow k state order lst error)
     (\<lambda>_ t. \<exists>st. finish_state state = Some st \<and> state_of k (st_intents (dk_store t)) = Some st) (\<lambda>_ _. True) d"
  by (auto simp: wp_def finish_def look_def store_step_def intents_of_def eff_eval exn_def bindE_def
      dest!: state_after_finish split: sum.splits prod.splits)

definition disarmed :: "string \<Rightarrow> 'x desk \<Rightarrow> bool" where
  "disarmed k d \<longleftrightarrow> off d \<and> state_of k (st_intents (dk_store d)) = Some INTENT_AMBIGUOUS"

lemma wp_disarm:
  "wp (bindW (finish ow k ''AMBIGUOUS'' order lst error) (\<lambda>_. bindW (pause ow env why) (\<lambda>_. f))) Q E d"
  if "\<And>t. disarmed k t \<Longrightarrow> wp f Q E t" "\<And>e t. E e t"
proof -
  have a: "finish_state ''AMBIGUOUS'' = Some INTENT_AMBIGUOUS" by code_simp
  have "wp (bindW (pause ow env why) (\<lambda>_. f)) Q E t" if "state_of k (st_intents (dk_store t)) = Some INTENT_AMBIGUOUS" for t
    using that \<open>\<And>t. disarmed k t \<Longrightarrow> wp f Q E t\<close> unfolding wp_bind
    by (intro wp_mono [OF wp_pause]) (auto simp: disarmed_def state_of_def)
  then show ?thesis unfolding wp_bind using that(2) a by (intro wp_mono [OF wp_finish]) auto
qed


lemma wp_post:
  "wp (post_once ow env k endpoint symbol params)
     (\<lambda>a t. case a of Inl (state, why) \<Rightarrow> state = ''AMBIGUOUS'' \<longrightarrow> state_of k (st_intents (dk_store t)) = Some INTENT_AMBIGUOUS
        | Inr _ \<Rightarrow> True) (\<lambda>_ _. True) d"
proof -
  have a: "finish_state ''AMBIGUOUS'' = Some INTENT_AMBIGUOUS" by code_simp
  have f: "wp (if identified found then returnW (Inr found)
           else let state = (if classify_submission_error e then ''DEFINITE_REJECT'' else ''AMBIGUOUS'') in
             bindW (finish ow k state PNone PNone (de_redact env e)) (\<lambda>_. returnW (Inl (state, de_redact env e))))
          (\<lambda>a t. case a of Inl (state, why) \<Rightarrow> state = ''AMBIGUOUS'' \<longrightarrow> state_of k (st_intents (dk_store t)) = Some INTENT_AMBIGUOUS
             | Inr _ \<Rightarrow> True) (\<lambda>_ _. True) t1" for found t1 e
    by (auto simp: Let_def a intro!: wp_mono [OF wp_finish])
  have g: "wp (case answer of Inr v \<Rightarrow> returnW (Inr v) | Inl e \<Rightarrow>
           bindW (lookup ow endpoint symbol params) (\<lambda>found.
           if identified found then returnW (Inr found)
           else let state = (if classify_submission_error e then ''DEFINITE_REJECT'' else ''AMBIGUOUS'') in
             bindW (finish ow k state PNone PNone (de_redact env e)) (\<lambda>_.
             returnW (Inl (state, de_redact env e)))))
          (\<lambda>a t. case a of Inl (state, why) \<Rightarrow> state = ''AMBIGUOUS'' \<longrightarrow> state_of k (st_intents (dk_store t)) = Some INTENT_AMBIGUOUS
             | Inr _ \<Rightarrow> True) (\<lambda>_ _. True) t1" for answer t1
    by (cases answer) (simp_all only: sum.case, intro wp_after f, simp_all)
  show ?thesis unfolding post_once_def by (intro wp_after g) simp_all
qed

lemma prior_known:
  assumes "prepare ow env q d = (Inr False, t)"
  shows "state_of (q_id q) (st_intents (dk_store d)) \<noteq> None"
  using assms
  by (auto simp: prepare_def look_def store_query_def eff_eval exn_def state_of_None split: sum.splits prod.splits
      elim!: prepare_cases)

lemma wp_settle:
  assumes "case answer of Inl (state, why) \<Rightarrow> state = ''AMBIGUOUS'' \<longrightarrow> state_of k (st_intents (dk_store t)) = Some INTENT_AMBIGUOUS
     | Inr _ \<Rightarrow> True"
  shows "wp (settle_submission ow env k endpoint symbol params answer)
     (\<lambda>s t. sb_intent s = k \<and> (sb_status s = ''AMBIGUOUS'' \<longrightarrow> disarmed k t)) (\<lambda>_ _. True) t"
proof (cases answer)
  case (Inl p)
  then show ?thesis using assms
    by (cases p) (auto simp: settle_submission_def disarmed_def state_of_def intro!: wp_mono [OF wp_pause])
next
  case (Inr v)
  have c: "wp (if truthy (exchange_id endpoint response) then
           bindW (confirm ow k response) (\<lambda>_. returnW (sub ''CONFIRMED'' (PDict response) ''confirmed'' k))
         else
           bindW (finish ow k ''AMBIGUOUS'' PNone PNone ''malformed success response'') (\<lambda>_.
           bindW (pause ow env ambiguous_pause) (\<lambda>_.
           returnW (sub ''AMBIGUOUS'' PNone ''success response had no exchange identifier'' k))))
     (\<lambda>s t. sb_intent s = k \<and> (sb_status s = ''AMBIGUOUS'' \<longrightarrow> disarmed k t)) (\<lambda>_ _. True) t1" for response t1
  proof (cases "truthy (exchange_id endpoint response)")
    case True
    then show ?thesis by (simp only: if_True) (intro wp_after; simp)
  next
    case False
    then show ?thesis by (simp only: if_False) (rule wp_disarm; simp)
  qed
  show ?thesis unfolding settle_submission_def Inr sum.case by (intro wp_after c) simp_all
qed

lemma wp_submit:
  "wp (submit_once ow env operation tid symbol endpoint params parent)
     (\<lambda>s t. sb_status s = ''AMBIGUOUS'' \<and> state_of (sb_intent s) (st_intents (dk_store d)) = None \<longrightarrow> disarmed (sb_intent s) t)
     (\<lambda>_ _. True) d"
proof -
  let ?q = "submission_intent env operation tid symbol endpoint params parent"
  let ?Q = "\<lambda>s t. sb_status s = ''AMBIGUOUS'' \<and> state_of (sb_intent s) (st_intents (dk_store d)) = None \<longrightarrow> disarmed (sb_intent s) t"
  have p: "wp (prepare ow env ?q) (\<lambda>won t. won \<or> state_of (q_id ?q) (st_intents (dk_store d)) \<noteq> None) (\<lambda>_ _. True) d"
    by (auto simp: wp_iff intro!: prior_known split: bool.splits) (metis (full_types) prior_known)
  have s: "wp (bindW (post_once ow env k endpoint symbol params) (settle_submission ow env k endpoint symbol params))
      ?Q (\<lambda>_ _. True) t" for k t
    unfolding wp_bind by (rule wp_mono [OF wp_post]) (auto intro: wp_mono [OF wp_settle])
  have n: "wp (bindW (find_intent (q_id ?q)) (\<lambda>prior.
        returnW (sub (intent_text (i_state prior)) PNone ''existing operation intent'' (q_id ?q)))) ?Q (\<lambda>_ _. True) t"
    if "state_of (q_id ?q) (st_intents (dk_store d)) \<noteq> None" for t
    using that by (intro wp_after) auto
  show ?thesis unfolding submit_once_def Let_def
    by (subst wp_bind, rule wp_mono [OF p]) (auto intro: s n simp del: wp_bind)
qed


lemma demo_ambiguous:
  "case submit_once silent_exchange demo_env ''EMERGENCY_EXIT'' ''t1'' ''BTCUSDC'' ''order'' small_order [] flat_desk of
     (Inr s, d') \<Rightarrow> sb_status s = ''AMBIGUOUS'' \<and> state_of (sb_intent s) (st_intents (dk_store flat_desk)) = None | _ \<Rightarrow> False"
  by code_simp


subsection \<open>Reconciliation\<close>

definition explained :: "store \<Rightarrow> bool" where
  "explained s \<longleftrightarrow> unresolved_intents (st_intents s) = [] \<and> length (active_trade_rows s) \<le> 1"

text \<open>A step that only reads leaves the store as it was.\<close>

lemma wp_frame:
  assumes "\<And>J. keeps (frame J) m"
  shows "wp m (\<lambda>_ t. dk_store t = dk_store d \<and> dk_enabled t = dk_enabled d) (\<lambda>_ t. dk_store t = dk_store d \<and> dk_enabled t = dk_enabled d) d"
  using assms [of "\<lambda>s _ e. s = dk_store d \<and> e = dk_enabled d"] by (simp add: keeps_wp frame_def [abs_def])

lemma wp_reads:
  assumes "\<And>J. keeps (frame J) m" shows "wp m (\<lambda>_ t. dk_store t = dk_store d) (\<lambda>_ t. dk_store t = dk_store d) d"
  by (rule wp_mono [OF wp_frame [OF assms]]) simp_all

lemma wp_reads_bind:
  assumes "\<And>J. keeps (frame J) m" "\<And>x t. dk_store t = dk_store d \<Longrightarrow> wp (f x) Q E t" "\<And>e t. E e t"
  shows "wp (bindW m f) Q E d"
  unfolding wp_bind by (rule wp_mono [OF wp_reads [OF assms(1)]]) (use assms in auto)

lemma wp_skip: "(\<And>x t. wp (f x) Q (\<lambda>_ _. True) t) \<Longrightarrow> wp (bindW m f) Q (\<lambda>_ _. True) s"
  by (rule wp_after) simp_all

lemma ownership_reads:
  "wp (reconciled_ownership ow env orders order_lists balances)
     (\<lambda>r t. dk_store t = dk_store d \<and> (fst r \<longrightarrow> length (active_trade_rows (dk_store d)) \<le> 1)) (\<lambda>_ _. True) d"
proof -
  have "wp (reconciled_ownership ow env orders order_lists balances)
      (\<lambda>r t. fst r \<longrightarrow> length (active_trade_rows (dk_store d)) \<le> 1) (\<lambda>_ _. True) d"
    unfolding reconciled_ownership_def store_get_def by (auto intro!: wp_any simp: not_less)
  from wp_conj [OF wp_reads [OF keeps_ownership(1)] this] show ?thesis by (rule wp_mono) auto
qed

lemma ownership_step_reads:
  "wp (ownership_step ow env) (\<lambda>ok t. dk_store t = dk_store d \<and> (ok \<longrightarrow> explained (dk_store d))) (\<lambda>_ _. True) d"
proof -
  have last: "wp (case (orders, order_lists, balances) of
       (Some os, Some ls, Some bs) \<Rightarrow>
         bindW (reconciled_ownership ow env os ls bs) (\<lambda>(owned, why). returnW (resolved \<and> owned))
     | _ \<Rightarrow> returnW False) (\<lambda>ok t. ok \<longrightarrow> resolved \<and> length (active_trade_rows (dk_store d)) \<le> 1) (\<lambda>_ _. True) t"
    if "dk_store t = dk_store d" for orders order_lists balances resolved t
  proof (cases orders; cases order_lists; cases balances)
    fix os ls bs
    assume "orders = Some os" "order_lists = Some ls" "balances = Some bs"
    then show ?thesis using that by (simp, intro wp_mono [OF ownership_reads]) auto
  qed simp_all
  have asks: "wp (bindW (store_get (\<lambda>s. unresolved_intents (st_intents s) = [])) (\<lambda>resolved.
       case (orders, order_lists, balances) of
         (Some os, Some ls, Some bs) \<Rightarrow>
           bindW (reconciled_ownership ow env os ls bs) (\<lambda>(owned, why). returnW (resolved \<and> owned))
       | _ \<Rightarrow> returnW False)) (\<lambda>ok t. ok \<longrightarrow> explained (dk_store d)) (\<lambda>_ _. True) t"
    if "dk_store t = dk_store d" for orders order_lists balances t
    unfolding store_get_def wp_bind wp_get by (rule wp_mono [OF last]) (auto simp: that explained_def)
  have "wp (ownership_step ow env) (\<lambda>ok t. ok \<longrightarrow> explained (dk_store d)) (\<lambda>_ _. True) d"
    unfolding ownership_step_def
    by (rule wp_reads_bind [OF keeps_enumerate(1)], rule wp_reads_bind [OF keeps_enumerate(1)],
        rule wp_reads_bind [OF keeps_enumerate(2)], rule asks) simp_all
  from wp_conj [OF wp_reads [OF keeps_ownership(2)] this] show ?thesis by (rule wp_mono) auto
qed


lemma wp_note: "wp (note_reconciliation ow status)
    (\<lambda>_ t. dk_store t = (dk_store d)\<lparr>st_data := st_data (dk_store t)\<rparr>
       \<and> get (st_data (dk_store t)) ''last_reconciliation_status'' = PStr status) (\<lambda>_ _. False) d"
  by (auto simp: note_reconciliation_def look_def eff_eval wp_def get_def get_or_def map_of_alist_put split: prod.splits)

lemma explained_data: "explained (s\<lparr>st_data := v\<rparr>) = explained s"
  by (simp add: explained_def active_trade_rows_def)

definition reconciled :: "'x desk \<Rightarrow> bool" where
  "reconciled d \<longleftrightarrow> explained (dk_store d) \<and> get (st_data (dk_store d)) ''last_reconciliation_status'' = PStr ''RECONCILED''"

lemma wp_reconcile:
  "wp (verified_reconcile ow env) (\<lambda>ok t. if ok then reconciled t else off t) (\<lambda>_ _. True) d"
proof -
  have fin: "wp (bindW (note_reconciliation ow (if ok then ''RECONCILED'' else ''RECONCILIATION_FAILED'')) (\<lambda>_.
       bindW (if ok then returnW () else pause ow env ''reconciliation-failed'') (\<lambda>_. returnW ok)))
      (\<lambda>ok t. if ok then reconciled t else off t) (\<lambda>_ _. True) t"
    if "ok \<longrightarrow> explained (dk_store t)" for ok t
  proof (cases ok)
    case True
    then show ?thesis using that unfolding wp_bind
      by (intro wp_mono [OF wp_note]) (auto simp: reconciled_def, metis explained_data)
  next
    case False
    then show ?thesis
      by (simp only: if_False) (rule wp_after, unfold wp_bind, rule wp_mono [OF wp_pause], simp_all)
  qed
  have own: "wp (bindW (ownership_step ow env) (\<lambda>owned.
     let ok = F owned in
     bindW (note_reconciliation ow (if ok then ''RECONCILED'' else ''RECONCILIATION_FAILED'')) (\<lambda>_.
     bindW (if ok then returnW () else pause ow env ''reconciliation-failed'') (\<lambda>_. returnW ok))))
     (\<lambda>ok t. if ok then reconciled t else off t) (\<lambda>_ _. True) t" if "\<And>b. F b \<Longrightarrow> b" for F t
    unfolding wp_bind [of "ownership_step ow env"] Let_def
    by (rule wp_mono [OF ownership_step_reads], rule fin) (use that in auto)
  show ?thesis unfolding verified_reconcile_def
    by (rule wp_skip, rule wp_skip, rule wp_skip, rule wp_skip, rule wp_skip, rule wp_skip, rule wp_skip, rule own) simp
qed


text \<open>C3: A reconciliation that succeeds leaves no intent unresolved and at most one nonterminal trade, and the
  store says so; one that fails leaves the desk disarmed.\<close>

theorem reconciliation_verdict:
  assumes "verified_reconcile ow env d = (Inr ok, d')"
  shows "if ok then unresolved_intents (st_intents (dk_store d')) = [] \<and> length (active_trade_rows (dk_store d')) \<le> 1
       \<and> get (st_data (dk_store d')) ''last_reconciliation_status'' = PStr ''RECONCILED''
     else \<not> dk_enabled d' \<and> \<not> entries_on (dk_store d')"
  using wp_Inr [OF wp_reconcile assms] by (auto simp: reconciled_def explained_def off_def split: if_splits)

lemma demo_fails:
  "case verified_reconcile silent_exchange demo_env flat_desk of (Inr ok, d') \<Rightarrow> \<not> ok | _ \<Rightarrow> False"
  by code_simp

lemma reconciliation_verdict_witness:
  "\<exists>d'. verified_reconcile silent_exchange demo_env flat_desk = (Inr False, d') \<and> \<not> dk_enabled d' \<and> \<not> entries_on (dk_store d')"
proof -
  obtain d' where d: "verified_reconcile silent_exchange demo_env flat_desk = (Inr False, d')"
    using demo_fails by (auto split: prod.splits sum.splits)
  show ?thesis using d reconciliation_verdict [OF d] by simp
qed

subsection \<open>Arming\<close>

text \<open>C7: The owner's ON is granted only when no risk pause is in force and a reconciliation run for it succeeded;
  then the adapter is enabled, every intent is resolved and the store says RECONCILED.\<close>

theorem arming_follows_reconciliation:
  assumes "set_enabled ow env True d = (Inr ''ON'', d')"
  shows "dk_enabled d' \<and> pstr (get_or (dk_guard d) ''global_pause'' (PStr [])) = []
    \<and> \<not> (de_live env \<and> truthy (get_or (st_data (dk_store d)) ''live_restart_required'' (PBool False)))
    \<and> unresolved_intents (st_intents (dk_store d')) = []
    \<and> get (st_data (dk_store d')) ''last_reconciliation_status'' = PStr ''RECONCILED''"
proof -
  let ?Q = "\<lambda>v t. v = ''ON'' \<longrightarrow> dk_enabled t \<and> unresolved_intents (st_intents (dk_store t)) = []
    \<and> get (st_data (dk_store t)) ''last_reconciliation_status'' = PStr ''RECONCILED''
    \<and> pstr (get_or (dk_guard d) ''global_pause'' (PStr [])) = []
    \<and> \<not> (de_live env \<and> truthy (get_or (st_data (dk_store d)) ''live_restart_required'' (PBool False)))"
  have "wp (set_enabled ow env True) ?Q (\<lambda>_ _. True) d"
    unfolding set_enabled_def store_get_def
    by (auto intro!: wp_mono [OF wp_reconcile] simp: reconciled_def)
  from wp_Inr [OF this assms] show ?thesis by simp
qed

lemma demo_on:
  "case set_enabled quiet_market demo_env True flat_desk of (Inr t, d') \<Rightarrow> t = ''ON'' | _ \<Rightarrow> False"
  by code_simp

lemma arming_follows_reconciliation_witness:
  "\<exists>d'. set_enabled quiet_market demo_env True flat_desk = (Inr ''ON'', d') \<and> dk_enabled d'
     \<and> get (st_data (dk_store d')) ''last_reconciliation_status'' = PStr ''RECONCILED''"
proof -
  obtain d' where d: "set_enabled quiet_market demo_env True flat_desk = (Inr ''ON'', d')"
    using demo_on by (auto split: prod.splits sum.splits)
  show ?thesis using d arming_follows_reconciliation [OF d] by blast
qed

subsection \<open>Flatness\<close>

text \<open>The exchange answered both enumerations of open orders, one after the other, with nothing.\<close>

definition nothing_open :: "'x outside \<Rightarrow> bool" where
  "nothing_open ow \<longleftrightarrow> (\<exists>x x1 x2 orders order_lists. ow_ask ow (OpenOrders None) x = (Inr orders, x1) \<and> \<not> truthy orders
     \<and> ow_ask ow (GetSigned ''openOrderList'' []) x1 = (Inr order_lists, x2) \<and> \<not> truthy order_lists)"

lemma nothing_openI:
  "ow_ask ow (OpenOrders None) x = (Inr orders, x1) \<Longrightarrow> \<not> truthy orders \<Longrightarrow>
   ow_ask ow (GetSigned ''openOrderList'' []) x1 = (Inr order_lists, x2) \<Longrightarrow> \<not> truthy order_lists \<Longrightarrow> nothing_open ow"
  unfolding nothing_open_def by blast

lemma keeps_frame_each: "keeps (frame J) (each (check_target ow env) symbols)"
  by (intro keeps_each keeps_validation)

lemma keeps_frame_try: "keeps (frame J) (tryW (account_balances ow))"
  by (intro keeps_try keeps_prices)

lemma wp_enumerations:
  "wp (tryW (bindW (ask ow (OpenOrders None)) (\<lambda>os. bindW (open_order_lists ow) (\<lambda>ls. returnW (os, ls)))))
     (\<lambda>r t. dk_store t = dk_store d \<and> dk_enabled t = dk_enabled d
        \<and> (case r of Inl _ \<Rightarrow> True | Inr (os, ls) \<Rightarrow> truthy os \<or> truthy ls \<or> nothing_open ow)) (\<lambda>_ _. True) d"
  by (auto simp: wp_def tryW_def ask_def open_order_lists_def eff_eval exn_def split: sum.splits prod.splits
      intro: nothing_openI)

definition flat_verdict :: "'x outside \<Rightarrow> bool \<times> string \<Rightarrow> 'x desk \<Rightarrow> bool" where
  "flat_verdict ow r t \<longleftrightarrow> off t \<and> (fst r \<longrightarrow> active_trade_rows (dk_store t) = []
     \<and> unresolved_intents (st_intents (dk_store t)) = [] \<and> nothing_open ow)"

lemma wp_flat:
  "wp (verify_flat_for_switch ow env symbols)
     (flat_verdict ow) (\<lambda>_ _. True) d"
proof -
  have tail: "wp (bindW (each (check_target ow env) symbols) (\<lambda>_. bindW (tryW (account_balances ow)) (\<lambda>_.
         returnW (True, ''exchange and durable state verified flat'')))) (flat_verdict ow) (\<lambda>_ _. True) t"
    if "flat_verdict ow (True, why) t" for t why
    unfolding wp_bind
    by (rule wp_mono [OF wp_frame [OF keeps_frame_each]], rule wp_mono [OF wp_frame [OF keeps_frame_try]])
       (use that in \<open>auto simp: off_def flat_verdict_def\<close>)
  have asked: "wp (bindW (tryW (bindW (ask ow (OpenOrders None)) (\<lambda>os. bindW (open_order_lists ow) (\<lambda>ls. returnW (os, ls))))) (\<lambda>answer.
     case answer of
       Inl _ \<Rightarrow> returnW (False, ''authenticated flatness enumeration failed'')
     | Inr (orders, order_lists) \<Rightarrow>
         if truthy orders \<or> truthy order_lists
         then returnW (False, ''an exchange order or order list is still open'')
         else
         bindW (each (check_target ow env) symbols) (\<lambda>_.
         bindW (tryW (account_balances ow)) (\<lambda>_.
         returnW (True, ''exchange and durable state verified flat''))))) (flat_verdict ow) (\<lambda>_ _. True) t"
    if "off t" "active_trade_rows (dk_store t) = []" "unresolved_intents (st_intents (dk_store t)) = []" for t
    unfolding wp_bind [of "tryW (bindW (ask ow (OpenOrders None)) (\<lambda>os. bindW (open_order_lists ow) (\<lambda>ls. returnW (os, ls))))"]
    by (rule wp_mono [OF wp_enumerations])
       (use that in \<open>auto intro!: tail simp: flat_verdict_def off_def simp del: wp_bind split: sum.split prod.split\<close>)
  show ?thesis unfolding verify_flat_for_switch_def store_get_def wp_bind [of "pause ow env ''pair-switch-verification''"]
    by (rule wp_mono [OF wp_pause]) (auto intro!: asked simp: wp_bind [of "getW f" for f] flat_verdict_def simp del: wp_bind)
qed

text \<open>C5: The desk is called flat for a pair switch only when the exchange answered both enumerations of open orders
  with nothing, no trade is nonterminal and no intent unresolved; the desk is disarmed in every case.\<close>

theorem flat_means_nothing_open:
  assumes "verify_flat_for_switch ow env symbols d = (Inr (ok, why), d')"
  shows "\<not> dk_enabled d' \<and> \<not> entries_on (dk_store d')
    \<and> (if ok then active_trade_rows (dk_store d') = [] \<and> unresolved_intents (st_intents (dk_store d')) = [] \<and> nothing_open ow
       else True)"
  using wp_Inr [OF wp_flat assms] by (simp add: flat_verdict_def off_def)
lemma demo_flat:
  "case verify_flat_for_switch quiet_market demo_env [] flat_desk of (Inr (ok, why), d') \<Rightarrow> ok | _ \<Rightarrow> False"
  by code_simp

lemma flat_means_nothing_open_witness:
  "\<exists>why d'. verify_flat_for_switch quiet_market demo_env [] flat_desk = (Inr (True, why), d') \<and> nothing_open quiet_market"
proof -
  obtain why d' where d: "verify_flat_for_switch quiet_market demo_env [] flat_desk = (Inr (True, why), d')"
    using demo_flat by (auto split: prod.splits sum.splits)
  show ?thesis using d flat_means_nothing_open [OF d] by auto
qed

subsection \<open>Ownership\<close>

lemma exchange_ids_cover:
  assumes "exchange_ids key xs = Some ids" "length ids = length xs" "v \<in> set xs"
  shows "\<exists>i \<in> set ids. Option.bind (map_of (items v) key) to_int = Some i"
proof -
  let ?f = "\<lambda>v. of_option IntExn (Option.bind (map_of (items v) key) to_int)"
  obtain js where js: "mapE ?f (List.filter is_dict xs) = Inr js" "ids = remdups js"
    using assms(1) by (auto simp: exchange_ids_def split: sum.splits)
  have "length js = length (List.filter is_dict xs)" by (rule mapE_Inr_length [OF js(1)])
  then have "length xs \<le> length (List.filter is_dict xs)"
    using assms(2) js(2) length_remdups_leq [of js] by simp
  then have "List.filter is_dict xs = xs" by (metis filter_True length_filter_less not_le)
  then have "list_all2 (\<lambda>x y. ?f x = Inr y) xs js" using js(1) by (simp add: mapE_Inr_list_all2)
  then obtain i where "i \<in> set js" "?f v = Inr i"
    using assms(3) by (fastforce simp: list_all2_conv_all_nth in_set_conv_nth)
  then show ?thesis using js(2) by auto
qed

text \<open>An identifier of an answer that the durable trades know.\<close>

definition known_in :: "int list \<Rightarrow> string \<Rightarrow> pyval \<Rightarrow> bool" where
  "known_in ids key v \<longleftrightarrow> (\<exists>i \<in> set ids. Option.bind (map_of (items v) key) to_int = Some i)"

lemma wp_ownership:
  "wp (reconciled_ownership ow env orders order_lists balances)
     (\<lambda>r t. fst r \<longrightarrow> (\<exists>ids lids. known_ids (active_trade_rows (dk_store d)) order_columns = Inr ids
        \<and> known_ids (active_trade_rows (dk_store d)) [''order_list_id''] = Inr lids
        \<and> list_all (known_in ids ''orderId'') (elems orders) \<and> list_all (known_in lids ''orderListId'') (elems order_lists)))
     (\<lambda>_ _. True) d"
proof -
  have cover: "list_all (known_in known key) xs"
    if "exchange_ids key xs = Some ids" "length ids = length xs" "set ids \<subseteq> set known" for key xs ids known
    using exchange_ids_cover [OF that(1,2)] that(3) by (fastforce simp: list_all_iff known_in_def)
  show ?thesis
    unfolding reconciled_ownership_def store_get_def load_pair_def
    by (auto simp: wp_ask wp_lift split: sum.split option.split intro!: wp_any cover)
qed

text \<open>C4: When ownership is accepted, at most one trade is nonterminal and every open order and order list of the
  exchange carries an identifier that the durable record of that trade knows.\<close>

theorem open_orders_are_owned:
  assumes "reconciled_ownership ow env orders order_lists balances d = (Inr (True, why), d')"
  shows "length (active_trade_rows (dk_store d)) \<le> 1 \<and>
    (\<exists>ids lids. known_ids (active_trade_rows (dk_store d)) order_columns = Inr ids
        \<and> known_ids (active_trade_rows (dk_store d)) [''order_list_id''] = Inr lids
        \<and> list_all (known_in ids ''orderId'') (elems orders) \<and> list_all (known_in lids ''orderListId'') (elems order_lists))"
  using wp_Inr [OF wp_ownership assms] wp_Inr [OF ownership_reads assms] by simp

lemma demo_owned:
  "case reconciled_ownership quiet_market demo_env (PList []) (PList []) [] flat_desk of (Inr (ok, why), d') \<Rightarrow> ok | _ \<Rightarrow> False"
  by code_simp

lemma open_orders_are_owned_witness:
  "\<exists>why d'. reconciled_ownership quiet_market demo_env (PList []) (PList []) [] flat_desk = (Inr (True, why), d')
     \<and> length (active_trade_rows (dk_store flat_desk)) \<le> 1"
proof -
  obtain why d' where d: "reconciled_ownership quiet_market demo_env (PList []) (PList []) [] flat_desk = (Inr (True, why), d')"
    using demo_owned by (auto split: prod.splits sum.splits)
  show ?thesis using d open_orders_are_owned [OF d] by blast
qed

subsection \<open>REST answers and stream reports\<close>

text \<open>One execution as the exchange reports it on its two channels.\<close>

record execution =
  x_symbol :: string
  x_side :: string
  x_type :: string
  x_status :: string
  x_executed :: string
  x_quote :: string
  x_quantity :: string
  x_order :: int
  x_list :: int
  x_time :: int

definition rest_answer :: "execution \<Rightarrow> pydict" where
  "rest_answer x = [(''symbol'', PStr (x_symbol x)), (''orderId'', PInt (x_order x)), (''orderListId'', PInt (x_list x)),
     (''side'', PStr (x_side x)), (''type'', PStr (x_type x)), (''status'', PStr (x_status x)),
     (''executedQty'', PStr (x_executed x)), (''cummulativeQuoteQty'', PStr (x_quote x)),
     (''origQty'', PStr (x_quantity x)), (''updateTime'', PInt (x_time x))]"

definition stream_report :: "execution \<Rightarrow> int \<Rightarrow> string \<Rightarrow> string \<Rightarrow> pydict" where
  "stream_report x execution_id asset commission =
    [(''e'', PStr ''executionReport''), (''E'', PInt (x_time x)), (''s'', PStr (x_symbol x)), (''S'', PStr (x_side x)),
     (''o'', PStr (x_type x)), (''X'', PStr (x_status x)), (''i'', PInt (x_order x)), (''g'', PInt (x_list x)),
     (''z'', PStr (x_executed x)), (''Z'', PStr (x_quote x)), (''q'', PStr (x_quantity x)), (''I'', PInt execution_id),
     (''N'', PStr asset), (''n'', PStr commission)]"

lemma upper_upper [simp]: "upper (upper s) = upper s"
proof -
  have "upper_char (upper_char c) = upper_char c" for c
    by (cases "97 \<le> (of_char c :: nat) \<and> (of_char c :: nat) \<le> 122")
       (auto simp: upper_char_def Let_def of_char_of)
  then show ?thesis by (simp add: upper_def)
qed


lemma get_cons: "get ((k', x) # d) k = (if k = k' then x else get d k)"
  by (simp add: get_def get_or_Cons)

definition rest_form :: "execution \<Rightarrow> pyval \<Rightarrow> pydict" where
  "rest_form x lst = [(''e'', PStr ''executionReport''), (''s'', PStr (upper (x_symbol x))), (''i'', PInt (x_order x)),
     (''g'', PInt (x_list x)), (''S'', PStr (x_side x)), (''X'', PStr (upper (x_status x))),
     (''o'', PStr (x_type x)), (''z'', PStr (x_executed x)), (''Z'', PStr (x_quote x)), (''q'', PStr (x_quantity x)),
     (''E'', PInt (x_time x)),
     (''I'', PStr (colon_join [''REST'', int_text (x_order x), upper (x_status x), int_text (x_time x), x_executed x]))]"

lemma rest_event_form:
  assumes "x_order x \<noteq> 0" "x_status x \<noteq> []" "x_time x \<noteq> 0"
  shows "rest_event (PDict (rest_answer x)) lst = Inr (Some (rest_form x lst))"
  using assms
  by (simp add: rest_event_def rest_answer_def rest_form_def get_cons get_or_Cons token_def por_def integer_def Let_def)

lemma set_columns_cong: "f c = g c \<Longrightarrow> set_columns kvs f c = set_columns kvs g c"
proof (induction kvs arbitrary: f g)
  case (Cons p kvs)
  obtain k v where p: "p = (k, v)" by (cases p)
  have "set_columns kvs (f(k := stored k v)) c = set_columns kvs (g(k := stored k v)) c"
    by (rule Cons.IH) (simp add: Cons.prems)
  then show ?case by (simp add: p)
qed simp

text \<open>The columns an execution report writes after its identifier, time and commission.\<close>

definition report_tail :: "string \<Rightarrow> string \<Rightarrow> string \<Rightarrow> string \<Rightarrow> pydict \<Rightarrow> pydict" where
  "report_tail old side status type e =
     (let (executed, fills) = fill_updates side status e;
          (lifecycle, notes) = report_lifecycle side status type executed in
      fills @ notes @ (case admitted old lifecycle of
        None \<Rightarrow> [] | Some l \<Rightarrow> [(''lifecycle_state'', PStr (lc_value l))]))"

lemma report_updates:
  assumes "get e ''e'' = PStr ''executionReport''" "get e ''S'' = PStr side" "get e ''X'' = PStr status" "get e ''o'' = PStr type"
    and "get e ''E'' = PInt t" "side \<noteq> []" "status \<noteq> []" "type \<noteq> []" "t \<noteq> 0"
    and "c \<notin> {''last_exchange_event_id'', ''commission_asset''}"
  shows "set_columns (event_updates now old e key) cols c
    = set_columns (report_tail old (upper side) (upper status) (upper type) e)
        (cols(''last_event_time'' := PStr (int_text t), ''reconciliation_status'' := PStr ''USER_STREAM_EVENT_APPLIED'')) c"
proof -
  have u: "event_updates now old e key =
     [(''last_exchange_event_id'', if ev_raw (event_identity e) \<noteq> PNone then PStr (pstr (ev_raw (event_identity e))) else PStr key),
      (''last_event_time'', PStr (int_text t)), (''reconciliation_status'', PStr ''USER_STREAM_EVENT_APPLIED'')]
     @ (if truthy (either_key e ''N'' ''commissionAsset'') then [(''commission_asset'', PStr (pstr (either_key e ''N'' ''commissionAsset'')))] else [])
     @ report_tail old (upper side) (upper status) (upper type) e"
    using assms(1-9)
    by (simp add: event_updates_def event_identity_def either_key_def por_def not_none_def report_tail_def Let_def split: prod.split)
  show ?thesis unfolding u set_columns_append
    by (rule set_columns_cong) (use assms(10) in \<open>auto simp: int_columns_def\<close>)
qed

lemma report_tail_equal:
  "report_tail old side status type (rest_form x lst) = report_tail old side status type (stream_report x i asset commission)"
proof -
  have "fill_updates side status (rest_form x lst) = fill_updates side status (stream_report x i asset commission)"
    by (simp add: fill_updates_def rest_form_def stream_report_def get_cons)
  then show ?thesis by (simp add: report_tail_def)
qed

definition demo_execution :: execution where
  "demo_execution = \<lparr>x_symbol = ''BTCUSDC'', x_side = ''SELL'', x_type = ''STOP_LOSS_LIMIT'', x_status = ''FILLED'',
     x_executed = ''0.5'', x_quote = ''50'', x_quantity = ''0.5'', x_order = 42, x_list = -1, x_time = 9\<rparr>"



end
