(* ===== verification/Public_Client.thy ===== *)
theory Public_Client
  imports Effects Models
begin

text \<open>
  Public market data, \<open>services/common/binance_public.py\<close>: a GET is tried a bounded number
  of times, waits out a rate limit, never repeats a refused request, and a ban stops every
  later request until it ends. The answers of the server, the clock and the jitter are read from
  the world by number; seconds are rational numbers. \<open>Retry-After\<close> is read as
  \<open>float\<close> does, where a NaN falls through both comparisons of the clamp.
\<close>

datatype http_answer = NoAnswer | Answer int "string option" "pyval option"

datatype public_error =
    RateLimited int rat
  | HttpError int "pyval option"
  | BadJson
  | PublicFailure string
  | PublicConfig config_error

record public_world =
  pw_answer :: "nat \<Rightarrow> http_answer"
  pw_clock :: "nat \<Rightarrow> rat"
  pw_jitter :: "nat \<Rightarrow> rat"

record public_client =
  pc_max :: nat
  pc_banned :: rat
  pc_requests :: "(string \<times> pydict) list"
  pc_sleeps :: "rat list"
  pc_readings :: nat

type_synonym 'a public = "(public_client, public_error, 'a) eff"

definition client_new :: "environ \<Rightarrow> nat option \<Rightarrow> public_error + public_client" where
  "client_new env given =
     bindE (case given of Some n \<Rightarrow> Inr (int n)
            | None \<Rightarrow> (case env_int env ''PUBLIC_HTTP_MAX_ATTEMPTS'' 4 1 10 of Inl e \<Rightarrow> Inl (PublicConfig e) | Inr v \<Rightarrow> Inr v)) (\<lambda>n.
     Inr \<lparr>pc_max = nat n, pc_banned = 0, pc_requests = [], pc_sleeps = [], pc_readings = 0\<rparr>)"

definition read_clock :: "public_world \<Rightarrow> rat public" where
  "read_clock w =
     bindW (getW (\<lambda>c. pw_clock w (pc_readings c))) (\<lambda>t.
     bindW (modifyW (\<lambda>c. c\<lparr>pc_readings := Suc (pc_readings c)\<rparr>)) (\<lambda>_. returnW t))"

definition send_get :: "public_world \<Rightarrow> string \<Rightarrow> pydict \<Rightarrow> http_answer public" where
  "send_get w path params =
     bindW (getW (\<lambda>c. pw_answer w (length (pc_requests c)))) (\<lambda>a.
     bindW (modifyW (\<lambda>c. c\<lparr>pc_requests := pc_requests c @ [(path, params)]\<rparr>)) (\<lambda>_. returnW a))"

definition sleep_jittered :: "public_world \<Rightarrow> rat \<Rightarrow> unit public" where
  "sleep_jittered w t = modifyW (\<lambda>c. c\<lparr>pc_sleeps := pc_sleeps c @ [t + pw_jitter w (length (pc_sleeps c))]\<rparr>)"

text \<open>\<open>max(1.0, min(value, maximum))\<close>.\<close>

definition retry_after_seconds :: "string option \<Rightarrow> rat \<Rightarrow> rat \<Rightarrow> rat" where
  "retry_after_seconds header dflt maximum =
     (case Option.bind header parse_dec of
        None \<Rightarrow> max 1 (min dflt maximum)
      | Some (Fin d) \<Rightarrow> max 1 (min (dval d) maximum)
      | Some (Infinite neg) \<Rightarrow> if neg then 1 else max 1 maximum
      | Some NotANumber \<Rightarrow> 1)"

definition backoff :: "nat \<Rightarrow> rat" where
  "backoff attempt = min (2 * 2 ^ attempt) 30"

definition latch_ban :: "public_world \<Rightarrow> rat \<Rightarrow> unit public" where
  "latch_ban w retry = bindW (read_clock w) (\<lambda>t. modifyW (\<lambda>c. c\<lparr>pc_banned := t + retry\<rparr>))"

text \<open>\<open>n\<close> is the number of attempts left, \<open>k\<close> the number of the attempt.\<close>

fun attempt_get :: "public_world \<Rightarrow> string \<Rightarrow> pydict \<Rightarrow> nat \<Rightarrow> nat \<Rightarrow> pyval public" where
  "attempt_get w path params k 0 = raiseW (PublicFailure path)"
| "attempt_get w path params k (Suc n) =
     bindW (send_get w path params) (\<lambda>answer.
     let retry = (if n = 0 then raiseW (PublicFailure path)
                  else bindW (sleep_jittered w (backoff k)) (\<lambda>_. attempt_get w path params (Suc k) n)) in
     case answer of
       NoAnswer \<Rightarrow> retry
     | Answer status header body \<Rightarrow>
         if status = 418 then
           let wait = retry_after_seconds header 3600 259200 in
           bindW (latch_ban w wait) (\<lambda>_. raiseW (RateLimited 418 wait))
         else if status = 429 then
           let wait = retry_after_seconds header 2 120 in
           if n = 0 then raiseW (RateLimited 429 wait)
           else bindW (sleep_jittered w wait) (\<lambda>_. attempt_get w path params (Suc k) n)
         else if 500 \<le> status \<and> status < 600 then retry
         else if 400 \<le> status \<and> status < 500 then raiseW (HttpError status body)
         else liftW (of_option BadJson body))"

definition http_get :: "public_world \<Rightarrow> string \<Rightarrow> pydict \<Rightarrow> pyval public" where
  "http_get w path params =
     bindW (read_clock w) (\<lambda>now.
     bindW (getW pc_banned) (\<lambda>until.
     if 0 < until - now then raiseW (RateLimited 418 (until - now))
     else bindW (getW pc_max) (\<lambda>most. attempt_get w path params 0 most)))"

subsection \<open>Reference data\<close>

definition exact_btc_symbol :: "string \<Rightarrow> bool" where
  "exact_btc_symbol s \<longleftrightarrow> starts_with ''BTC'' s \<and> list_all is_upper_alnum (drop 3 s) \<and>
     2 \<le> length (drop 3 s) \<and> length (drop 3 s) \<le> 12"

definition exchange_info :: "public_world \<Rightarrow> string option \<Rightarrow> pyval public" where
  "exchange_info w given = (case given of
       None \<Rightarrow> http_get w ''/api/v3/exchangeInfo'' [(''showPermissionSets'', PStr ''false'')]
     | Some raw \<Rightarrow> let symbol = upper raw in
         if \<not> exact_btc_symbol symbol then raiseW (PublicFailure ''exchangeInfo requires one exact BTC quote symbol'')
         else http_get w ''/api/v3/exchangeInfo'' [(''symbol'', PStr symbol)])"

definition execution_rules :: "public_world \<Rightarrow> string \<Rightarrow> pydict public" where
  "execution_rules w raw =
     (let symbol = upper raw in
      if \<not> exact_btc_symbol symbol then raiseW (PublicFailure ''executionRules requires one exact BTC quote symbol'')
      else bindW (http_get w ''/api/v3/executionRules'' [(''symbol'', PStr symbol)]) (\<lambda>v.
        if is_dict v then returnW (items v) else raiseW (PublicFailure ''executionRules returned malformed data'')))"

definition public_ticker :: "public_world \<Rightarrow> string \<Rightarrow> pyval public" where
  "public_ticker w symbol = http_get w ''/api/v3/ticker/price'' [(''symbol'', PStr symbol)]"

datatype reference_price = NoReferencePrice | ReferencePrice pyval

definition no_reference :: "pydict \<Rightarrow> bool" where
  "no_reference data \<longleftrightarrow> py_eq (get data ''code'') (PInt (-2043))"

definition public_reference :: "public_world \<Rightarrow> string \<Rightarrow> reference_price public" where
  "public_reference w symbol = catchW
     (bindW (http_get w ''/api/v3/referencePrice'' [(''symbol'', PStr symbol)]) (\<lambda>v.
      if \<not> is_dict v then raiseW (PublicFailure ''referencePrice returned malformed data'')
      else if no_reference (items v) then returnW NoReferencePrice
      else case map_of (items v) ''referencePrice'' of
          None \<Rightarrow> raiseW (PublicFailure ''referencePrice lacks referencePrice'')
        | Some p \<Rightarrow> returnW (if p = PNone then NoReferencePrice else ReferencePrice p)))
     (\<lambda>e. case e of
         HttpError status body \<Rightarrow>
           (case body of
              None \<Rightarrow> raiseW (PublicFailure ''referencePrice returned malformed error JSON'')
            | Some v \<Rightarrow> if is_dict v \<and> no_reference (items v) then returnW NoReferencePrice
                else raiseW (PublicFailure ''referencePrice failed''))
       | _ \<Rightarrow> raiseW e)"

definition exact_spot_symbol :: "public_world \<Rightarrow> string \<Rightarrow> pyval public" where
  "exact_spot_symbol w symbol =
     bindW (exchange_info w (Some symbol)) (\<lambda>info.
     case get (items info) ''symbols'' of
       PList [row] \<Rightarrow> returnW row
     | _ \<Rightarrow> raiseW (PublicFailure ''exchangeInfo did not return exactly one row''))"

subsection \<open>One GET is bounded\<close>

text \<open>\<open>random.uniform(0, 0.5)\<close> stays in its range.\<close>

definition calm :: "public_world \<Rightarrow> bool" where
  "calm w \<longleftrightarrow> (\<forall>n. 0 \<le> pw_jitter w n \<and> pw_jitter w n \<le> 1 / 2)"

fun retryable :: "http_answer \<Rightarrow> bool" where
  "retryable NoAnswer = True"
| "retryable (Answer status header body) = (status = 429 \<or> 500 \<le> status \<and> status < 600)"

text \<open>
  At most \<open>n\<close> requests between two states, a wait of bounded length before each but the
  first, and each but the last answered by nothing, a rate limit or a server error.
\<close>

definition spans :: "public_world \<Rightarrow> nat \<Rightarrow> public_client \<Rightarrow> public_client \<Rightarrow> bool" where
  "spans w n c c' \<longleftrightarrow> (\<exists>rs ss.
     pc_requests c' = pc_requests c @ rs \<and> pc_sleeps c' = pc_sleeps c @ ss \<and>
     length rs \<le> n \<and> length ss \<le> length rs - 1 \<and> (\<forall>s \<in> set ss. 1 \<le> s \<and> s \<le> 241 / 2) \<and>
     (\<forall>i. Suc i < length rs \<longrightarrow> retryable (pw_answer w (length (pc_requests c) + i))))"

lemma spans_none: "pc_requests c' = pc_requests c \<Longrightarrow> pc_sleeps c' = pc_sleeps c \<Longrightarrow> spans w n c c'"
  by (simp add: spans_def)

lemma spans_one:
  "pc_requests c' = pc_requests c @ [r] \<Longrightarrow> pc_sleeps c' = pc_sleeps c \<Longrightarrow> spans w (Suc n) c c'"
  by (simp add: spans_def)

lemma spans_again:
  assumes c: "spans w n c1 c'" "pc_requests c1 = pc_requests c @ [r]" "pc_sleeps c1 = pc_sleeps c @ [s]"
    and s: "1 \<le> s" "s \<le> 241 / 2" and a: "retryable (pw_answer w (length (pc_requests c)))"
    and n: "pc_requests c' \<noteq> pc_requests c1"
  shows "spans w (Suc n) c c'"
proof -
  obtain rs ss where rs: "pc_requests c' = pc_requests c1 @ rs" "pc_sleeps c' = pc_sleeps c1 @ ss"
      "length rs \<le> n" "length ss \<le> length rs - 1" "\<forall>s \<in> set ss. 1 \<le> s \<and> s \<le> 241 / 2"
      "\<forall>i. Suc i < length rs \<longrightarrow> retryable (pw_answer w (length (pc_requests c1) + i))"
    using c(1) by (auto simp: spans_def)
  have "retryable (pw_answer w (length (pc_requests c) + i))" if "Suc i < length (r # rs)" for i
    using that a rs(6) c(2) by (cases i) auto
  moreover have "rs \<noteq> []" using n rs(1) by auto
  ultimately show ?thesis
    unfolding spans_def using rs c s by (intro exI [of _ "r # rs"] exI [of _ "s # ss"]) (cases rs; auto)
qed

lemma retry_after_range: "1 \<le> maximum \<Longrightarrow> 1 \<le> retry_after_seconds h d maximum \<and> retry_after_seconds h d maximum \<le> maximum"
  by (auto simp: retry_after_seconds_def split: option.splits pydec.splits)

lemma backoff_range: "2 \<le> backoff k \<and> backoff k \<le> 30"
proof -
  have "(1 :: rat) \<le> 2 ^ k" by simp
  then show ?thesis by (simp add: backoff_def)
qed

lemma wp_send: "wp (send_get w path params) Q E c =
    Q (pw_answer w (length (pc_requests c))) (c\<lparr>pc_requests := pc_requests c @ [(path, params)]\<rparr>)"
  by (simp add: send_get_def)

lemma wp_sleep: "wp (sleep_jittered w t) Q E c =
    Q () (c\<lparr>pc_sleeps := pc_sleeps c @ [t + pw_jitter w (length (pc_sleeps c))]\<rparr>)"
  by (simp add: sleep_jittered_def)

lemma wp_clock: "wp (read_clock w) Q E c = Q (pw_clock w (pc_readings c)) (c\<lparr>pc_readings := Suc (pc_readings c)\<rparr>)"
  by (simp add: read_clock_def)

lemma wp_ban: "wp (latch_ban w r) Q E c =
    Q () (c\<lparr>pc_readings := Suc (pc_readings c), pc_banned := pw_clock w (pc_readings c) + r\<rparr>)"
  by (simp add: latch_ban_def wp_clock)

text \<open>The attempts left bound what follows; some request is sent while there are any.\<close>

lemma attempt_spans:
  assumes "calm w" "0 < n"
  shows "wp (attempt_get w path params k n)
    (\<lambda>_ c'. spans w n c c' \<and> pc_requests c' \<noteq> pc_requests c) (\<lambda>_ c'. spans w n c c' \<and> pc_requests c' \<noteq> pc_requests c) c"
  using assms(2)
proof (induction n arbitrary: k c)
  case (Suc n)
  have j: "0 \<le> pw_jitter w i" "pw_jitter w i \<le> 1 / 2" for i using assms(1) by (auto simp: calm_def)
  let ?P = "\<lambda>c'. spans w (Suc n) c c' \<and> pc_requests c' \<noteq> pc_requests c"
  have again: "wp (sleep_jittered w t) (\<lambda>_. wp (attempt_get w path params (Suc k) n) (\<lambda>_. ?P) (\<lambda>_. ?P)) (\<lambda>_. ?P)
      (c\<lparr>pc_requests := pc_requests c @ [(path, params)]\<rparr>)"
    if "0 < n" "1 \<le> t" "t \<le> 120" "retryable (pw_answer w (length (pc_requests c)))" for t
  proof -
    let ?s = "t + pw_jitter w (length (pc_sleeps c))"
    let ?c1 = "c\<lparr>pc_requests := pc_requests c @ [(path, params)], pc_sleeps := pc_sleeps c @ [?s]\<rparr>"
    have "?P c'" if "spans w n ?c1 c' \<and> pc_requests c' \<noteq> pc_requests ?c1" for c'
    proof -
      have "spans w (Suc n) c c'"
        using that \<open>1 \<le> t\<close> \<open>t \<le> 120\<close> \<open>retryable _\<close> j [of "length (pc_sleeps c)"]
        by (intro spans_again [of w n ?c1 c' c "(path, params)" ?s]) auto
      moreover have "pc_requests c' \<noteq> pc_requests c" using that by (auto simp: spans_def)
      ultimately show ?thesis ..
    qed
    then show ?thesis
      using wp_mono [OF Suc.IH [OF \<open>0 < n\<close>, of "Suc k" ?c1], of "\<lambda>_. ?P" "\<lambda>_. ?P"] by (simp add: wp_sleep)
  qed
  have b: "1 \<le> backoff k" "backoff k \<le> 120" using backoff_range [of k] by linarith+
  show ?case
    using again [OF _ b] again [OF _ retry_after_range [of 120, THEN conjunct1] retry_after_range [of 120, THEN conjunct2]]
    by (simp add: wp_send wp_ban wp_lift Let_def spans_one split: http_answer.split option.split)
qed simp


lemma wp_get_first:
  "wp (http_get w path params) Q E c \<longleftrightarrow>
     (let t = pw_clock w (pc_readings c); c1 = c\<lparr>pc_readings := Suc (pc_readings c)\<rparr> in
      if t < pc_banned c then E (RateLimited 418 (pc_banned c - t)) c1
      else wp (attempt_get w path params 0 (pc_max c)) Q E c1)"
  by (simp add: http_get_def wp_clock Let_def)

lemma get_spans:
  assumes "calm w"
  shows "wp (http_get w path params) (\<lambda>_. spans w (pc_max c) c) (\<lambda>_. spans w (pc_max c) c) c"
proof (cases "pc_max c")
  case 0
  then show ?thesis by (simp add: wp_get_first Let_def spans_none)
next
  case (Suc n)
  let ?c1 = "c\<lparr>pc_readings := Suc (pc_readings c)\<rparr>"
  have "wp (attempt_get w path params 0 (pc_max c)) (\<lambda>_. spans w (pc_max c) c) (\<lambda>_. spans w (pc_max c) c) ?c1"
    using Suc wp_mono [OF attempt_spans [OF assms, of "pc_max c" path params 0 ?c1], of "\<lambda>_. spans w (pc_max c) c" "\<lambda>_. spans w (pc_max c) c"]
    by (simp add: spans_def)
  then show ?thesis by (simp add: wp_get_first Let_def spans_none)
qed

subsection \<open>Bans\<close>

lemma attempt_ban:
  "wp (attempt_get w path params k n) (\<lambda>_ c'. True)
     (\<lambda>e c'. \<forall>r. e = RateLimited 418 r \<longrightarrow>
        1 \<le> r \<and> 0 < pc_readings c' \<and> pc_banned c' = pw_clock w (pc_readings c' - 1) + r) c"
proof (induction n arbitrary: k c)
  case (Suc n)
  show ?case
    using Suc.IH retry_after_range [of 259200]
    by (simp add: wp_send wp_ban wp_sleep wp_lift Let_def of_option_def split: http_answer.split option.split)
qed simp

text \<open>Any run of GETs.\<close>

definition run_gets :: "public_world \<Rightarrow> (string \<times> pydict) list \<Rightarrow> public_client \<Rightarrow> public_client" where
  "run_gets w gs c = fold (\<lambda>(path, params) c. snd (http_get w path params c)) gs c"

lemma banned_get:
  assumes "pw_clock w (pc_readings c) < pc_banned c"
  shows "snd (http_get w path params c) = c\<lparr>pc_readings := Suc (pc_readings c)\<rparr>"
  using assms by (simp add: http_get_def read_clock_def eff_eval)

lemma banned_run:
  assumes "\<And>n. pc_readings c \<le> n \<Longrightarrow> n < pc_readings c + length gs \<Longrightarrow> pw_clock w n < pc_banned c"
  shows "pc_requests (run_gets w gs c) = pc_requests c"
  using assms
proof (induction gs arbitrary: c)
  case (Cons g gs)
  obtain path params where g: "g = (path, params)" by (cases g)
  have s: "snd (http_get w path params c) = c\<lparr>pc_readings := Suc (pc_readings c)\<rparr>"
    using Cons.prems [of "pc_readings c"] by (intro banned_get) simp
  have "pc_requests (run_gets w gs (c\<lparr>pc_readings := Suc (pc_readings c)\<rparr>)) = pc_requests c"
    using Cons.IH [of "c\<lparr>pc_readings := Suc (pc_readings c)\<rparr>"] Cons.prems by simp
  then show ?case using s g by (simp add: run_gets_def)
qed (simp add: run_gets_def)

subsection \<open>Properties\<close>


definition busy_world :: public_world where
  "busy_world = \<lparr>pw_answer = (\<lambda>n. if n = 0 then Answer 429 (Some ''7'') None else if n = 1 then NoAnswer
     else if n = 2 then Answer 418 (Some ''60'') None else Answer 200 None (Some PNone)),
     pw_clock = rat_of_nat, pw_jitter = (\<lambda>_. 1 / 4)\<rparr>"

definition new_client :: public_client where
  "new_client = \<lparr>pc_max = 4, pc_banned = 0, pc_requests = [], pc_sleeps = [], pc_readings = 1\<rparr>"


text \<open>C14: A GET that meets a ban (418) latches it for at least one second, and while the clock stands before
  its end no later GET sends anything.\<close>

theorem ban_is_respected:
  assumes "http_get w path params c = (Inl (RateLimited 418 r), c')" "pc_requests c' \<noteq> pc_requests c"
    and "\<And>n. pc_readings c' \<le> n \<Longrightarrow> n < pc_readings c' + length gs \<Longrightarrow> pw_clock w n < pw_clock w (pc_readings c' - 1) + r"
  shows "1 \<le> r \<and> pc_banned c' = pw_clock w (pc_readings c' - 1) + r \<and> pc_requests (run_gets w gs c') = pc_requests c'"
proof -
  let ?E = "\<lambda>e c'. pc_requests c' \<noteq> pc_requests c \<longrightarrow> (\<forall>r. e = RateLimited 418 r \<longrightarrow>
        1 \<le> r \<and> 0 < pc_readings c' \<and> pc_banned c' = pw_clock w (pc_readings c' - 1) + r)"
  have "wp (http_get w path params) (\<lambda>_ _. True) ?E c"
    using wp_mono [OF attempt_ban [of w path params 0 "pc_max c" "c\<lparr>pc_readings := Suc (pc_readings c)\<rparr>"], of "\<lambda>_ _. True" ?E]
    by (simp add: wp_get_first Let_def)
  then have b: "1 \<le> r" "pc_banned c' = pw_clock w (pc_readings c' - 1) + r"
    using assms(1,2) by (auto simp: wp_def)
  moreover have "pc_requests (run_gets w gs c') = pc_requests c'"
    using assms(3) b by (intro banned_run) simp
  ultimately show ?thesis by simp
qed

lemma busy_ban:
  "http_get busy_world ''/x'' [] new_client = (Inl (RateLimited 418 60),
     new_client\<lparr>pc_banned := 62, pc_requests := [(''/x'', []), (''/x'', []), (''/x'', [])],
       pc_sleeps := [29 / 4, 17 / 4], pc_readings := 3\<rparr>)"
  by code_simp

theorem ban_is_respected_witness:
  "pc_requests (run_gets busy_world [(''/x'', []), (''/y'', [])] (snd (http_get busy_world ''/x'' [] new_client)))
     = [(''/x'', []), (''/x'', []), (''/x'', [])]"
proof -
  let ?c = "new_client\<lparr>pc_banned := 62, pc_requests := [(''/x'', []), (''/x'', []), (''/x'', [])],
       pc_sleeps := [29 / 4, 17 / 4], pc_readings := 3\<rparr>"
  have "1 \<le> (60 :: rat) \<and> pc_banned ?c = pw_clock busy_world (pc_readings ?c - 1) + 60 \<and>
      pc_requests (run_gets busy_world [(''/x'', []), (''/y'', [])] ?c) = pc_requests ?c"
    by (rule ban_is_respected [OF busy_ban]) (simp_all add: new_client_def busy_world_def)
  then show ?thesis by (simp add: busy_ban)
qed

end
