(* ===== verification/Callbacks.thy ===== *)
theory Callbacks
  imports Py_Value
begin

text \<open>
  The confirmation tokens of the owner's chat, \<open>services/telegram_broker/callbacks.py\<close>, and
  the owner check of \<open>authorization.py\<close>. A token carries an action until it expires and is
  consumed or cancelled once. The clock and the random token of every call are arguments; the
  lock makes each operation one step.
\<close>

record callback_item =
  ci_expiry :: rat
  ci_action :: string
  ci_args :: pydict

record callback_store =
  cs_ttl :: rat
  cs_items :: "(string \<times> callback_item) list"
  cs_used :: "(string \<times> rat) list"

definition callbacks_new :: "rat \<Rightarrow> callback_store" where
  "callbacks_new ttl = \<lparr>cs_ttl = ttl, cs_items = [], cs_used = []\<rparr>"

definition cleanup :: "rat \<Rightarrow> callback_store \<Rightarrow> callback_store" where
  "cleanup now s = s\<lparr>cs_items := List.filter (\<lambda>(k, v). now \<le> ci_expiry v) (cs_items s),
     cs_used := List.filter (\<lambda>(k, t). now \<le> t) (cs_used s)\<rparr>"

definition drop_key :: "'k \<Rightarrow> ('k \<times> 'v) list \<Rightarrow> ('k \<times> 'v) list" where
  "drop_key k xs = List.filter (\<lambda>(k', v). k' \<noteq> k) xs"

definition issue :: "rat \<Rightarrow> string \<Rightarrow> string \<Rightarrow> pydict \<Rightarrow> callback_store \<Rightarrow> callback_store" where
  "issue now tok action args s0 =
     (let s = cleanup now s0 in
      s\<lparr>cs_items := alist_put tok \<lparr>ci_expiry = now + cs_ttl s, ci_action = action, ci_args = args\<rparr> (cs_items s)\<rparr>)"

datatype callback_answer = Granted string pydict | Refused string

text \<open>The item is removed before the expired entries are.\<close>

definition consume_item :: "rat \<Rightarrow> string \<Rightarrow> callback_store \<Rightarrow> callback_answer \<times> callback_store" where
  "consume_item now tok s0 =
     (let found = map_of (cs_items s0) tok;
          s = cleanup now (s0\<lparr>cs_items := drop_key tok (cs_items s0)\<rparr>) in
      case found of
        None \<Rightarrow> (Refused ''unknown callback'', s)
      | Some item \<Rightarrow>
          if ci_expiry item < now then (Refused ''expired callback'', s)
          else (Granted (ci_action item) (ci_args item), s\<lparr>cs_used := alist_put tok (ci_expiry item) (cs_used s)\<rparr>))"

definition consume :: "rat \<Rightarrow> string \<Rightarrow> callback_store \<Rightarrow> callback_answer \<times> callback_store" where
  "consume now tok s = (case map_of (cs_used s) tok of
       Some t \<Rightarrow> if now \<le> t then (Refused ''duplicate callback'', s)
                 else consume_item now tok (s\<lparr>cs_used := drop_key tok (cs_used s)\<rparr>)
     | None \<Rightarrow> consume_item now tok s)"

definition cancel :: "rat \<Rightarrow> string \<Rightarrow> callback_store \<Rightarrow> (bool \<times> string) \<times> callback_store" where
  "cancel now tok s0 =
     (let s1 = cleanup now s0;
          found = map_of (cs_items s1) tok;
          s = s1\<lparr>cs_items := drop_key tok (cs_items s1)\<rparr> in
      case found of
        None \<Rightarrow> ((False, ''unknown callback''), s)
      | Some item \<Rightarrow>
          if ci_expiry item < now then ((False, ''expired callback''), s)
          else ((True, ''canceled''), s\<lparr>cs_used := alist_put tok (ci_expiry item) (cs_used s)\<rparr>))"

text \<open>\<open>hmac.compare_digest\<close> compares two texts in constant time; an empty owner owns nothing.\<close>

definition is_owner :: "string \<Rightarrow> string \<Rightarrow> string option \<Rightarrow> bool" where
  "is_owner owner user chat \<longleftrightarrow> owner \<noteq> [] \<and> user = owner \<and> (case chat of None \<Rightarrow> True | Some c \<Rightarrow> c = owner)"

subsection \<open>Runs\<close>

datatype callback_op = Issue rat string string pydict | Consume rat string | Cancel rat string

text \<open>One operation, and the answer of a consumption.\<close>

fun callback_step :: "callback_op \<Rightarrow> callback_store \<Rightarrow> callback_answer option \<times> callback_store" where
  "callback_step (Issue now tok action args) s = (None, issue now tok action args s)"
| "callback_step (Consume now tok) s = (let (a, s') = consume now tok s in (Some a, s'))"
| "callback_step (Cancel now tok) s = (None, snd (cancel now tok s))"

fun run_callbacks :: "callback_op list \<Rightarrow> callback_store \<Rightarrow> callback_answer option list \<times> callback_store" where
  "run_callbacks [] s = ([], s)"
| "run_callbacks (op # ops) s =
     (let (a, s1) = callback_step op s; (as, s2) = run_callbacks ops s1 in (a # as, s2))"

fun issues :: "string \<Rightarrow> callback_op \<Rightarrow> bool" where
  "issues k (Issue now tok action args) = (tok = k)"
| "issues k _ = False"

fun consumes :: "string \<Rightarrow> callback_op \<Rightarrow> bool" where
  "consumes k (Consume now tok) = (tok = k)"
| "consumes k _ = False"

fun granted :: "callback_answer option \<Rightarrow> bool" where
  "granted (Some (Granted action args)) = True"
| "granted _ = False"

text \<open>How often a run grants the token.\<close>

definition grants :: "string \<Rightarrow> callback_op list \<Rightarrow> callback_answer option list \<Rightarrow> nat" where
  "grants k ops as = length (List.filter (\<lambda>(op, a). consumes k op \<and> granted a) (zip ops as))"

subsection \<open>Single use\<close>

definition held :: "string \<Rightarrow> callback_store \<Rightarrow> bool" where
  "held k s \<longleftrightarrow> k \<in> fst ` set (cs_items s)"

lemma held_cleanup: "held k (cleanup now s) \<Longrightarrow> held k s"
  by (auto simp: held_def cleanup_def)

lemma held_drop: "held k (s\<lparr>cs_items := drop_key k' (cs_items s)\<rparr>) \<longleftrightarrow> k \<noteq> k' \<and> held k s"
  by (auto simp: held_def drop_key_def)

lemma held_none: "map_of (cs_items s) k = None \<longleftrightarrow> \<not> held k s"
  by (simp add: held_def map_of_eq_None_iff)

lemma issue_held: "held k (issue now tok action args s) \<Longrightarrow> k = tok \<or> held k s"
  by (auto simp: issue_def Let_def held_def alist_put_fst cleanup_def)

lemma consume_item_held:
  "consume_item now tok s = (a, s') \<Longrightarrow>
     (held k s' \<longrightarrow> k \<noteq> tok \<and> held k s) \<and> (granted (Some a) \<longrightarrow> held tok s)"
  by (auto simp: consume_item_def Let_def held_def drop_key_def cleanup_def split: option.splits if_splits
      dest!: map_of_SomeD intro: rev_image_eqI)

lemma consume_held:
  "consume now tok s = (a, s') \<Longrightarrow>
     (held k s' \<longrightarrow> held k s \<and> (granted (Some a) \<longrightarrow> k \<noteq> tok)) \<and> (granted (Some a) \<longrightarrow> held tok s)"
  by (auto simp: consume_def split: option.splits if_splits dest!: consume_item_held [where k = k])
    (auto simp: held_def)

lemma cancel_held: "held k (snd (cancel now tok s)) \<Longrightarrow> k \<noteq> tok \<and> held k s"
  by (auto simp: cancel_def Let_def held_def drop_key_def cleanup_def split: option.splits if_splits)

lemma step_held:
  assumes "callback_step op s = (a, s')" "held k s'"
  shows "(issues k op \<or> held k s) \<and> \<not> (consumes k op \<and> granted a)"
  using assms by (cases op) (auto split: prod.splits dest: issue_held consume_held [where k = k] cancel_held)

lemma granted_held:
  "callback_step op s = (a, s') \<Longrightarrow> consumes k op \<Longrightarrow> granted a \<Longrightarrow> held k s"
  by (cases op) (auto split: prod.splits dest: consume_held [where k = k])

text \<open>A token is held at most as often as it was issued, and each grant takes it away.\<close>

lemma grants_bound:
  "run_callbacks ops s = (as, s') \<Longrightarrow>
     grants k ops as + of_bool (held k s') \<le> length (List.filter (issues k) ops) + of_bool (held k s)"
proof (induction ops arbitrary: s as)
  case (Cons op ops)
  obtain a s1 as2 where s1: "callback_step op s = (a, s1)" and r: "run_callbacks ops s1 = (as2, s')" and as: "as = a # as2"
    using Cons.prems by (auto split: prod.splits)
  have "of_bool (held k s1) + of_bool (consumes k op \<and> granted a) \<le> of_bool (issues k op) + (of_bool (held k s) :: nat)"
    using step_held [OF s1, of k] granted_held [OF s1, of k] by (cases "held k s1") auto
  then show ?case using Cons.IH [OF r] by (auto simp: grants_def as split: if_splits)
qed (simp add: grants_def)

text \<open>C12: A confirmation token is granted at most as often as it was issued: over any run of issues, consumptions
  and cancellations, at any times, a token that was issued once lets its action through at most once.\<close>

theorem token_used_once:
  assumes "run_callbacks ops (callbacks_new ttl) = (as, s)"
  shows "grants k ops as \<le> length (List.filter (issues k) ops)"
  using grants_bound [OF assms, of k] by (simp add: held_def callbacks_new_def)

definition press_twice :: "callback_op list" where
  "press_twice = [Issue 10 ''t'' ''entries'' [], Consume 20 ''t'', Consume 30 ''t'', Cancel 40 ''t'', Consume 200 ''t'']"

theorem token_used_once_witness:
  "grants ''t'' press_twice (fst (run_callbacks press_twice (callbacks_new 120))) \<le> 1 \<and>
   fst (run_callbacks press_twice (callbacks_new 120)) = [None, Some (Granted ''entries'' []),
     Some (Refused ''duplicate callback''), None, Some (Refused ''unknown callback'')]"
proof -
  have r: "fst (run_callbacks press_twice (callbacks_new 120)) = [None, Some (Granted ''entries'' []),
     Some (Refused ''duplicate callback''), None, Some (Refused ''unknown callback'')]"
    by code_simp
  have "grants ''t'' press_twice (fst (run_callbacks press_twice (callbacks_new 120))) \<le> length (List.filter (issues ''t'') press_twice)"
    by (rule token_used_once) (rule prod.collapse [symmetric])
  then show ?thesis using r by (simp add: press_twice_def)
qed


subsection \<open>What is granted was issued\<close>

text \<open>Every item held stems from an issue, and expires the lifetime of tokens after it.\<close>

definition stems_from :: "callback_op list \<Rightarrow> rat \<Rightarrow> string \<Rightarrow> string \<Rightarrow> pydict \<Rightarrow> rat \<Rightarrow> bool" where
  "stems_from ops ttl k action args expiry \<longleftrightarrow> (\<exists>now. Issue now k action args \<in> set ops \<and> expiry = now + ttl)"

definition sound_items :: "callback_op list \<Rightarrow> rat \<Rightarrow> callback_store \<Rightarrow> bool" where
  "sound_items ops ttl s \<longleftrightarrow> cs_ttl s = ttl \<and>
     (\<forall>(k, v) \<in> set (cs_items s). stems_from ops ttl k (ci_action v) (ci_args v) (ci_expiry v))"

lemma sound_shrink:
  "sound_items ops ttl s \<Longrightarrow> cs_ttl s' = cs_ttl s \<Longrightarrow> set (cs_items s') \<subseteq> set (cs_items s) \<Longrightarrow> sound_items ops ttl s'"
  by (auto simp: sound_items_def)

lemma shrinks:
  "cs_ttl (snd (consume now tok s)) = cs_ttl s" "set (cs_items (snd (consume now tok s))) \<subseteq> set (cs_items s)"
  "cs_ttl (snd (cancel now tok s)) = cs_ttl s" "set (cs_items (snd (cancel now tok s))) \<subseteq> set (cs_items s)"
  by (auto simp: consume_def consume_item_def cancel_def cleanup_def drop_key_def Let_def split: option.splits)

lemma step_sound:
  assumes "sound_items ops ttl s" "op \<in> set ops"
  shows "sound_items ops ttl (snd (callback_step op s))"
proof (cases op)
  case (Issue now k action args)
  then have "stems_from ops ttl k action args (now + ttl)" using assms(2) by (auto simp: stems_from_def)
  then show ?thesis
    using assms(1) set_alist_put [of k _ "cs_items (cleanup now s)"] Issue
    by (fastforce simp: sound_items_def issue_def Let_def cleanup_def)
next
  case Consume
  then show ?thesis
    using sound_shrink [OF assms(1) shrinks(1,2)] by (simp split: prod.split) (metis snd_conv)
next
  case Cancel
  then show ?thesis using sound_shrink [OF assms(1) shrinks(3,4)] by simp
qed

lemma consume_granted:
  assumes "sound_items ops ttl s" "consume now tok s = (Granted action args, s')"
  shows "\<exists>t. Issue t tok action args \<in> set ops \<and> now \<le> t + ttl"
proof -
  obtain item where item: "(tok, item) \<in> set (cs_items s)" "now \<le> ci_expiry item" "ci_action item = action" "ci_args item = args"
    using assms(2)
    by (auto simp: consume_def consume_item_def Let_def split: option.splits if_splits dest!: map_of_SomeD)
  then show ?thesis using assms(1) by (fastforce simp: sound_items_def stems_from_def)
qed

lemma run_granted:
  assumes "run_callbacks ops s = (as, s')" "sound_items all ttl s" "set ops \<subseteq> set all"
    and "(Consume now tok, Some (Granted action args)) \<in> set (zip ops as)"
  shows "\<exists>t. Issue t tok action args \<in> set all \<and> now \<le> t + ttl"
  using assms
proof (induction ops arbitrary: s as)
  case (Cons op ops)
  obtain a s1 as2 where s1: "callback_step op s = (a, s1)" and r: "run_callbacks ops s1 = (as2, s')" and as: "as = a # as2"
    using Cons.prems(1) by (auto split: prod.splits)
  have "sound_items all ttl s1" using step_sound [OF Cons.prems(2), of op] s1 Cons.prems(3) by simp
  then show ?case
    using Cons.IH [OF r] Cons.prems s1 as by (auto split: prod.splits dest: consume_granted)
qed simp

text \<open>C13: A granted confirmation carries exactly the action and arguments its token was issued with, and comes no
  later than the lifetime of a token after that issue.\<close>

theorem granted_was_issued:
  assumes "run_callbacks ops (callbacks_new ttl) = (as, s)"
    and "(Consume now tok, Some (Granted action args)) \<in> set (zip ops as)"
  shows "\<exists>t. Issue t tok action args \<in> set ops \<and> now \<le> t + ttl"
  using assms by (intro run_granted [of ops "callbacks_new ttl"]) (auto simp: sound_items_def callbacks_new_def)

theorem granted_was_issued_witness:
  "\<exists>t. Issue t ''t'' ''entries'' [] \<in> set press_twice \<and> 20 \<le> t + 120"
proof -
  have "fst (run_callbacks press_twice (callbacks_new 120)) = [None, Some (Granted ''entries'' []),
     Some (Refused ''duplicate callback''), None, Some (Refused ''unknown callback'')]"
    by code_simp
  then show ?thesis
    using granted_was_issued [of press_twice 120 _ _ 20 "''t''" "''entries''" "[]", OF prod.collapse [symmetric]]
    by (simp add: press_twice_def)
qed

end
