(* ===== verification/Signal_Desk.thy ===== *)
theory Signal_Desk
  imports Adapter_Guarantees Envelope Risk_Guarantees
begin

text \<open>
  The consumer of the strategy's signed signals, \<open>services/execution_sidecar/order_manager.py\<close>:
  a file is verified, compared with the active pair, passed by the guard and the market gate, claimed
  in the store and only then handed to the adapter. The file, the market snapshot and whether
  the file can be moved away are arguments of a step; the audit log and the pruning of the archive
  are not modelled. \<open>ib_submitted\<close> lists, newest first, the keys handed to the adapter.
\<close>

record manager =
  mg_env :: desk_env
  mg_hmac :: "string \<Rightarrow> string \<Rightarrow> string"
  mg_install :: installation
  mg_flow_age :: int
  mg_require_flow :: bool

record signal_file =
  sf_name :: string
  sf_size :: "int option"
  sf_content :: json_file
  sf_movable :: bool

record 'x inbox =
  ib_desk :: "'x desk"
  ib_submitted :: "string list"
  ib_moved :: "(string \<times> bool) list"

type_synonym ('x, 'a) inbox_eff = "('x inbox, py_exn, 'a) eff"

definition on_desk :: "('x, 'a) desk_eff \<Rightarrow> ('x, 'a) inbox_eff" where
  "on_desk m = zoomW ib_desk (\<lambda>d b. b\<lparr>ib_desk := d\<rparr>) m"

text \<open>\<open>MAX_FLOW_AGE_SECONDS\<close> and \<open>REQUIRE_FLOW_CONTEXT\<close>.\<close>

definition manager_settings :: "environ \<Rightarrow> config_error + int \<times> bool" where
  "manager_settings env =
     bindE (env_int env ''MAX_FLOW_AGE_SECONDS'' 45 5 300) (\<lambda>age.
     Inr (age, (case env ''REQUIRE_FLOW_CONTEXT'' of None \<Rightarrow> False | Some s \<Rightarrow> lower s = ''true'')))"

subsection \<open>The market gate\<close>

definition flow_gate :: "int \<Rightarrow> dec \<Rightarrow> pydict \<Rightarrow> json_file \<Rightarrow> py_exn + bool \<times> string" where
  "flow_gate max_age now active file =
     (let snapshot = read_json file PNone; flow = items snapshot in
      if \<not> is_dict snapshot then Inr (False, ''money-flow snapshot missing'')
      else if \<not> py_eq (get flow ''pair'') (get active ''pair'')
        \<or> \<not> py_eq (get flow ''pair_state_hash'') (get active ''state_hash'')
      then Inr (False, ''money-flow snapshot belongs to another pair generation'')
      else (case flow_age now flow of
        None \<Rightarrow> Inr (False, ''money-flow timestamp is malformed'')
      | Some age \<Rightarrow>
          if dlt age (of_int_dec (-30)) \<or> dlt (of_int_dec max_age) age then Inr (False, ''money-flow snapshot is stale'')
          else if \<not> truthy (get flow ''ok'') then Inr (False, ''money-flow service is degraded'')
          else bindE (as_dict (por (get flow ''classification'') (PDict []))) (\<lambda>c.
            Inr (if truthy (get c ''bullish'') then (True, ''fresh bullish flow'')
                 else (False, ''money-flow context is not bullish'')))))"

subsection \<open>Reading a signal\<close>

definition id_char :: "char \<Rightarrow> bool" where
  "id_char c \<longleftrightarrow> is_digit c \<or> is_upper_alnum (upper_char c) \<or> c = CHR ''_'' \<or> c = CHR ''-''"

text \<open>\<open>[A-Za-z0-9_-]{1,128}\<close>.\<close>

definition safe_id :: "string \<Rightarrow> bool" where
  "safe_id s \<longleftrightarrow> s \<noteq> [] \<and> length s \<le> 128 \<and> list_all id_char s"

text \<open>The verified payload, or the reason of the refusal.\<close>

definition read_signal :: "manager \<Rightarrow> dec \<Rightarrow> signal_file \<Rightarrow> string + pydict" where
  "read_signal m now f =
     (case (sf_size f, env_int (de_env (mg_env m)) ''MAX_SIGNAL_FILE_BYTES'' 65536 1024 1048576, sf_content f) of
        (Some n, Inr most, content) \<Rightarrow>
          if most < n then Inl ''signal_file_too_large''
          else (case content of
              Json v \<Rightarrow> (case verify_envelope (mg_hmac m) (mg_install m) v ''signal'' [''freqtrade-strategy''] None
                    (Fin now) (Fin (Dec 30 0)) of
                  Inr sig \<Rightarrow> Inr sig | Inl _ \<Rightarrow> Inl ''invalid_signed_envelope'')
            | _ \<Rightarrow> Inl ''invalid_signed_envelope'')
      | _ \<Rightarrow> Inl ''invalid_signed_envelope'')"

definition signal_fields :: "string list" where
  "signal_fields = [''signal_id'', ''pair'', ''symbol'', ''candle_time'', ''generated_at'', ''strategy'', ''entry_tag'',
     ''pair_state_hash'', ''pair_generation'', ''pair_config_hash'', ''payload'']"

text \<open>Pair, symbol and identifier; or the reason and whether the refusal is recorded.\<close>

definition identify_signal :: "environ \<Rightarrow> pydict \<Rightarrow> string \<times> bool + string \<times> string \<times> string" where
  "identify_signal env sig =
     (if list_ex (\<lambda>k. map_of sig k = None) signal_fields then Inl (''missing_signal_fields'', True)
      else (case canonical_pair env (pstr (get sig ''pair'')) None of
        Inl _ \<Rightarrow> Inl (''invalid_pair'', True)
      | Inr pair \<Rightarrow> let symbol = token sig ''symbol''; k = pstr (get_or sig ''signal_id'' (PStr [])) in
          if before (CHR ''/'') pair \<noteq> ''BTC'' \<or> symbol \<noteq> symbol_of pair then Inl (''btc_pair_symbol_mismatch'', True)
          else if \<not> safe_id k then Inl (''invalid_signal_id'', False)
          else Inr (pair, symbol, k)))"

definition generation_mismatch :: "pydict \<Rightarrow> string \<Rightarrow> string \<Rightarrow> pydict \<Rightarrow> string option" where
  "generation_mismatch active pair symbol sig =
     (if PStr pair \<noteq> get active ''pair'' \<or> PStr symbol \<noteq> get active ''symbol'' then Some ''stale_or_wrong_active_pair''
      else if \<not> py_eq (get sig ''pair_state_hash'') (get active ''state_hash'') then Some ''pair_state_hash_mismatch''
      else if \<not> py_eq (get sig ''pair_generation'') (get active ''generation'') then Some ''pair_generation_mismatch''
      else if \<not> py_eq (get sig ''pair_config_hash'') (get active ''pair_config_hash'') then Some ''pair_config_hash_mismatch''
      else None)"

subsection \<open>Refusing and pausing\<close>

definition move_file :: "signal_file \<Rightarrow> bool \<Rightarrow> ('x, unit) inbox_eff" where
  "move_file f accepted =
     bindW (guardW (sf_movable f) (RuntimeExn ''file cannot be moved'')) (\<lambda>_.
     modifyW (\<lambda>b. b\<lparr>ib_moved := (sf_name f, accepted) # ib_moved b\<rparr>))"

text \<open>What the store keeps of a signal; SQLite refuses a list or a mapping.\<close>

definition signal_ref_of :: "pydict \<Rightarrow> py_exn + signal_ref" where
  "signal_ref_of sig =
     (let k = get sig ''signal_id''; pair = get sig ''pair''; candle = get sig ''candle_time'' in
      if bindable k \<and> bindable pair \<and> bindable candle
      then Inr \<lparr>sig_id = token_text k, sig_pair = token_text pair, sig_candle = candle\<rparr>
      else Inl (StoreExn Unbindable))"

definition note_signal :: "'x outside \<Rightarrow> pydict \<Rightarrow> string \<Rightarrow> ('x, unit) desk_eff" where
  "note_signal ow sig result =
     bindW (liftW (signal_ref_of sig)) (\<lambda>ref.
     bindW (look ow) (\<lambda>r. modifyW (\<lambda>d. d\<lparr>dk_store := record_signal (rd_now r) ref result (dk_store d)\<rparr>)))"

definition reject :: "'x outside \<Rightarrow> signal_file \<Rightarrow> pydict \<Rightarrow> string \<Rightarrow> bool \<Rightarrow> ('x, bool \<times> string) inbox_eff" where
  "reject ow f sig reason recorded =
     bindW (if recorded \<and> truthy (get sig ''signal_id'') \<and> truthy (get sig ''pair'')
            then on_desk (note_signal ow sig (''rejected:'' @ reason)) else returnW ()) (\<lambda>_.
     bindW (move_file f False) (\<lambda>_. returnW (False, reason)))"

definition manager_pause :: "'x outside \<Rightarrow> desk_env \<Rightarrow> string \<Rightarrow> ('x, unit) desk_eff" where
  "manager_pause ow env reason =
     bindW (modifyW (\<lambda>d. d\<lparr>dk_store := set_entries False reason (dk_store d)\<rparr>)) (\<lambda>_.
     bindW (look ow) (\<lambda>r.
     bindW (guard_step (set_global_pause (de_sha env) (rd_io r) reason)) (\<lambda>_.
     catchW (ignore (set_enabled ow env False)) (\<lambda>_. returnW ()))))"

subsection \<open>Submission\<close>

definition claim :: "'x outside \<Rightarrow> signal_ref \<Rightarrow> ('x, bool) desk_eff" where
  "claim ow ref =
     bindW (look ow) (\<lambda>r.
     bindW (getW (\<lambda>d. claim_signal (rd_now r) ref (dk_store d))) (\<lambda>(won, s).
     bindW (modifyW (\<lambda>d. d\<lparr>dk_store := s\<rparr>)) (\<lambda>_. returnW won)))"

text \<open>A refused entry that never left SIGNAL_APPROVED is closed.\<close>

definition close_refused :: "'x outside \<Rightarrow> string \<Rightarrow> string \<Rightarrow> string \<Rightarrow> ('x, unit) desk_eff" where
  "close_refused ow symbol k pair =
     bindW (store_query StoreExn (active_trade_for_symbol symbol)) (\<lambda>current. case current of
         None \<Rightarrow> returnW ()
       | Some row \<Rightarrow>
           if lifecycle_in row [SIGNAL_APPROVED]
           then upsert ow k pair [lifecycle_is ENTRY_REJECTED, remark ''ENTRY_NOT_SUBMITTED''] else returnW ())"

definition result_text :: "bool \<Rightarrow> bool \<Rightarrow> string \<Rightarrow> string" where
  "result_text simulation accepted message =
     (if simulation then ''simulated:'' else []) @ (if accepted then ''accepted'' else ''rejected:'' @ message)"

definition hand_over ::
  "'x outside \<Rightarrow> manager \<Rightarrow> signal_file \<Rightarrow> pydict \<Rightarrow> string \<Rightarrow> string \<Rightarrow> string \<Rightarrow> string \<Rightarrow> ('x, bool \<times> string) inbox_eff" where
  "hand_over ow m f sig pair symbol k key =
     (let env = mg_env m in
      bindW (on_desk (store_step StoreExn (register_symbol_pair symbol pair))) (\<lambda>_.
      bindW (on_desk (store_get get_mode)) (\<lambda>mode.
      bindW (on_desk (upsert ow k pair [lifecycle_is SIGNAL_APPROVED, (''protection_mode'', PStr mode), remark ''SIGNAL_ACCEPTED''])) (\<lambda>_.
      bindW (modifyW (\<lambda>b. b\<lparr>ib_submitted := key # ib_submitted b\<rparr>)) (\<lambda>_.
      bindW (on_desk (submit ow env symbol k)) (\<lambda>(accepted, message).
      bindW (on_desk (store_get (\<lambda>s. truthy (get_or (st_data s) ''simulation'' (PBool True))))) (\<lambda>simulation.
      let result = result_text simulation accepted message in
      bindW (on_desk (bindW (look ow) (\<lambda>r. guard_step (record_outcome (de_sha env) (rd_io r) (rd_moment r) sig result)))) (\<lambda>_.
      bindW (on_desk (note_signal ow sig result)) (\<lambda>_.
      bindW (if accepted then returnW () else on_desk (close_refused ow symbol k pair)) (\<lambda>_.
      bindW (move_file f accepted) (\<lambda>_. returnW (accepted, message))))))))))))"

definition claim_and_submit ::
  "'x outside \<Rightarrow> manager \<Rightarrow> signal_file \<Rightarrow> pydict \<Rightarrow> string \<Rightarrow> string \<Rightarrow> string \<Rightarrow> signal_ref \<Rightarrow> ('x, bool \<times> string) inbox_eff" where
  "claim_and_submit ow m f sig pair symbol k ref =
     bindW (on_desk (claim ow ref)) (\<lambda>won.
     if \<not> won then reject ow f sig ''duplicate_signal_token'' False
     else hand_over ow m f sig pair symbol k (sig_id ref))"

definition gated ::
  "'x outside \<Rightarrow> manager \<Rightarrow> signal_file \<Rightarrow> json_file \<Rightarrow> pydict \<Rightarrow> pydict \<Rightarrow> string \<Rightarrow> string \<Rightarrow> string \<Rightarrow>
   ('x, bool \<times> string) inbox_eff" where
  "gated ow m f flow active sig pair symbol k =
     bindW (on_desk (look ow)) (\<lambda>r.
     bindW (liftW (flow_gate (mg_flow_age m) (rd_time r) active flow)) (\<lambda>(flow_ok, flow_reason).
     if mg_require_flow m \<and> \<not> flow_ok then reject ow f sig ''flow_gate_blocked'' True
     else
     bindW (on_desk (store_get entries_on)) (\<lambda>on.
     if \<not> on then reject ow f sig ''entries_paused'' True
     else
     bindW (liftW (signal_ref_of sig)) (\<lambda>ref. claim_and_submit ow m f sig pair symbol k ref))))"

definition refuse_uncertain :: "'x outside \<Rightarrow> desk_env \<Rightarrow> signal_file \<Rightarrow> pydict \<Rightarrow> ('x, bool \<times> string) inbox_eff" where
  "refuse_uncertain ow env f sig =
     bindW (on_desk (manager_pause ow env ''uncertain-prior-signal-submission-reconcile-required'')) (\<lambda>_.
     reject ow f sig ''uncertain_prior_submission'' False)"

definition admit ::
  "'x outside \<Rightarrow> manager \<Rightarrow> signal_file \<Rightarrow> json_file \<Rightarrow> pydict \<Rightarrow> string \<Rightarrow> string \<Rightarrow> string \<Rightarrow> ('x, bool \<times> string) inbox_eff" where
  "admit ow m f flow sig pair symbol k =
     (let env = mg_env m in
      bindW (on_desk (store_get (signal_result k))) (\<lambda>prior.
      if prior = Some ''IN_PROGRESS'' then
        refuse_uncertain ow env f sig
      else if prior \<noteq> None then reject ow f sig ''duplicate_signal_token'' False
      else if pstr (get sig ''strategy'') \<noteq> ''IctSmcStrategy'' then reject ow f sig ''unexpected_strategy'' True
      else
      bindW (on_desk load_pair) (\<lambda>active.
      case generation_mismatch active pair symbol sig of
        Some why \<Rightarrow> reject ow f sig why True
      | None \<Rightarrow>
      bindW (on_desk (look ow)) (\<lambda>r.
      bindW (on_desk (askW (\<lambda>d. exn RiskExn (allow (de_limits env) (guard_of d) (rd_moment r) sig
        (pstr (get active ''pair'')) (pstr (get active ''state_hash'')))))) (\<lambda>(ok, why).
      if \<not> ok then reject ow f sig why True
      else gated ow m f flow active sig pair symbol k)))))"

definition process_signal ::
  "'x outside \<Rightarrow> manager \<Rightarrow> signal_file \<Rightarrow> json_file \<Rightarrow> ('x, bool \<times> string) inbox_eff" where
  "process_signal ow m f flow =
     bindW (on_desk (look ow)) (\<lambda>r.
     case read_signal m (rd_time r) f of
       Inl reason \<Rightarrow> reject ow f [] reason False
     | Inr sig \<Rightarrow>
     (case identify_signal (de_env (mg_env m)) sig of
       Inl (reason, recorded) \<Rightarrow> reject ow f sig reason recorded
     | Inr (pair, symbol, k) \<Rightarrow> admit ow m f flow sig pair symbol k))"

text \<open>
  Signal files and the adapter's own operations, in any order.
\<close>

datatype inbox_event = SignalFile manager signal_file json_file | DeskEvent desk_event

fun inbox_step :: "'x outside \<Rightarrow> inbox_event \<Rightarrow> 'x inbox \<Rightarrow> 'x inbox" where
  "inbox_step ow (SignalFile m f flow) b = snd (process_signal ow m f flow b)"
| "inbox_step ow (DeskEvent e) b = b\<lparr>ib_desk := desk_event_step ow e (ib_desk b)\<rparr>"

definition run_inbox :: "'x outside \<Rightarrow> inbox_event list \<Rightarrow> 'x inbox \<Rightarrow> 'x inbox" where
  "run_inbox ow es b = fold (inbox_step ow) es b"

subsection \<open>What a step of the adapter leaves of the inbox\<close>


lemma keeps_desk: "(\<And>b. keeps (\<lambda>d. I (b\<lparr>ib_desk := d\<rparr>)) m) \<Longrightarrow> keeps I (on_desk m)"
  unfolding keeps_def on_desk_def zoomW_def
  by (simp add: Let_def split: prod.split) (metis inbox.surjective inbox.update_convs(1) snd_conv)

lemma keeps_inbox: "(\<And>b. I b \<Longrightarrow> I (u b)) \<Longrightarrow> keeps I (modifyW u)"
  by (rule keeps_modify)

context desk_invariant
begin


lemma claiming [intro!]: "keeps (ledger J) (claim ow ref)"
proof -
  have "J (snd (claim_signal now ref s)) x" if "J s x" for now s x
    using operation [OF that, of "\<lambda>_. []" "\<lambda>_. None" "OpClaimSignal now ref"] by (simp add: apply_op_def)
  then show ?thesis unfolding claim_def
    by - (rule keeps_bind [OF keeps_look], auto simp: keeps_def eff_eval frame_def split: prod.splits; metis snd_conv)
qed

lemma registering [intro!]: "keeps (ledger J) (store_step StoreExn (register_symbol_pair a b))"
proof -
  have "J s' x" if "register_symbol_pair a b s = Inr s'" "J s x" for s s' x
    using operation [OF that(2), of "\<lambda>_. []" "\<lambda>_. None" "OpRegister a b"] that(1) by (simp add: apply_op_def or_keep_def)
  then show ?thesis by (auto simp: store_step_def keeps_def eff_eval frame_def exn_def split: sum.splits)
qed

lemma signal_noting [intro!]: "keeps (ledger J) (note_signal ow sig result)"
proof -
  have "J (record_signal now ref result s) x" if "J s x" for now ref s x
    using operation [OF that, of "\<lambda>_. []" "\<lambda>_. None" "OpRecordSignal now ref result"] by (simp add: apply_op_def)
  then show ?thesis unfolding note_signal_def by (intro keeps_rules reads keeps_modify) (simp add: frame_def)
qed

lemma outcome_noting [intro!]: "keeps (ledger J) (guard_step (record_outcome sha256 io clock sig result))"
proof (rule guarding)
  show "keeps (\<lambda>w. J (gw_store w) x) (record_outcome sha256 io clock sig result)" for x
    unfolding record_outcome_def keeps_wp using data risk
    by (auto simp: wp_save_guard save_risk_Inr suspended_def put_state_def wp_ask wp_lift Let_def split: sum.splits)
qed

lemma manager_pausing [intro!]: "keeps (ledger J) (manager_pause ow env reason)"
  unfolding manager_pause_def
  by (intro keeps_rules reads keeps_ignore controls guarding guard_frame)
     (auto intro!: keeps_modify simp: frame_def set_entries_def data risk)

lemma closing [intro!]: "keeps (ledger J) (close_refused ow symbol k pair)"
  unfolding close_refused_def by (intro keeps_rules reads writes)

lemmas handing = claiming registering signal_noting outcome_noting manager_pausing closing

text \<open>The law carried from the adapter to the inbox.\<close>

abbreviation inbox_ledger :: "'x inbox \<Rightarrow> bool" where
  "inbox_ledger b \<equiv> ledger J (ib_desk b)"

lemma on_desk_keeps: "keeps (ledger J) m \<Longrightarrow> keeps inbox_ledger (on_desk m)"
  by (rule keeps_desk) simp

lemma moving: "keeps inbox_ledger (move_file f accepted)"
  unfolding move_file_def by (intro keeps_rules keeps_modify) simp

lemma rejecting: "keeps inbox_ledger (reject ow f sig reason recorded)"
  unfolding reject_def by (intro keeps_rules on_desk_keeps moving signal_noting)

lemma processing: "keeps inbox_ledger (process_signal ow m f flow)"
  unfolding process_signal_def admit_def refuse_uncertain_def gated_def claim_and_submit_def hand_over_def
  by (intro keeps_rules on_desk_keeps keeps_reads writes handing moving rejecting entering keeps_modify) simp

lemma inbox_step_keeps: "inbox_ledger b \<Longrightarrow> inbox_ledger (inbox_step ow e b)"
  using keepsD [OF processing] event_keeps by (cases e) auto

lemma inbox_run_keeps: "inbox_ledger b \<Longrightarrow> inbox_ledger (run_inbox ow es b)"
  unfolding run_inbox_def by (induction es arbitrary: b) (auto intro: inbox_step_keeps)

end

subsection \<open>A signal is handed over at most once\<close>

definition all_claimed :: "string list \<Rightarrow> store \<Rightarrow> (string \<times> request) list \<Rightarrow> bool" where
  "all_claimed ks s x \<longleftrightarrow> set ks \<subseteq> p_key ` set (st_signals s)"

interpretation claims: desk_invariant "all_claimed ks"
proof
  fix s :: store and x sha256 loads op v r k now t q
  assume J: "all_claimed ks s x"
  show "all_claimed ks (apply_op sha256 loads op s) x"
    using J by (cases op) (auto simp: all_claimed_def signals_after insert_or_ignore_keeps insert_or_update_keeps)
  show "all_claimed ks (s\<lparr>st_data := v\<rparr>) x" "all_claimed ks (s\<lparr>st_risk := r\<rparr>) x"
    "all_claimed ks (s\<lparr>st_intents := t\<rparr>) ((k, q) # x)"
    using J by (simp_all add: all_claimed_def)
qed

text \<open>\<open>ks\<close> are the keys claimed in the running step and not handed over yet.\<close>

definition reserved :: "string list \<Rightarrow> 'x inbox \<Rightarrow> bool" where
  "reserved ks b \<longleftrightarrow> distinct (ks @ ib_submitted b) \<and> ledger (all_claimed (ks @ ib_submitted b)) (ib_desk b)"

lemma reserved_drop: "reserved [k] b \<Longrightarrow> reserved [] b"
  by (simp add: reserved_def frame_def all_claimed_def)

lemma reserved_desk: "(\<And>L. keeps (ledger (all_claimed L)) m) \<Longrightarrow> keeps (reserved ks) (on_desk m)"
  by (rule keeps_desk) (simp add: reserved_def keeps_def)

lemma reserved_moving: "keeps (reserved ks) (move_file f accepted)"
  unfolding move_file_def by (intro keeps_rules keeps_modify) (simp add: reserved_def)

lemma reserved_rejecting: "keeps (reserved ks) (reject ow f sig reason recorded)"
  unfolding reject_def by (intro keeps_rules reserved_desk reserved_moving claims.signal_noting)

lemma keeps_then: "keeps (reserved [k]) m \<Longrightarrow> (\<And>x b. reserved [k] b \<Longrightarrow> reserved [] (snd (f x b))) \<Longrightarrow> reserved [k] b \<Longrightarrow>
   reserved [] (snd (bindW m f b))"
  by (auto simp: keeps_def bindW_def dest: reserved_drop split: sum.splits prod.splits) (metis reserved_drop snd_conv)+

lemma handed_over:
  assumes "reserved [key] b"
  shows "reserved [] (snd (hand_over ow m f sig pair symbol k key b))"
proof -
  have after: "keeps (reserved []) (bindW (on_desk (submit ow env symbol k)) (\<lambda>(accepted, message).
      bindW (on_desk (store_get g)) (\<lambda>simulation.
      let result = result_text simulation accepted message in
      bindW (on_desk (bindW (look ow) (\<lambda>r. guard_step (record_outcome (de_sha env) (rd_io r) (rd_moment r) sig result)))) (\<lambda>_.
      bindW (on_desk (note_signal ow sig result)) (\<lambda>_.
      bindW (if accepted then returnW () else on_desk (close_refused ow symbol k pair)) (\<lambda>_.
      bindW (move_file f accepted) (\<lambda>_. returnW (accepted, message))))))))" for env g
    by (intro keeps_rules reserved_desk reserved_moving keeps_reads claims.handing claims.writes claims.entering)
  have push: "reserved [] (snd (bindW (modifyW (\<lambda>b. b\<lparr>ib_submitted := key # ib_submitted b\<rparr>)) (\<lambda>_. h) b))"
    if "keeps (reserved []) h" "reserved [key] b" for h b
    using that by (simp add: bindW_def modifyW_def keeps_def reserved_def)
  show ?thesis using assms unfolding hand_over_def Let_def
    by (intro keeps_then push after [unfolded Let_def] reserved_desk keeps_reads claims.handing claims.writes)
qed

lemma claim_wins:
  assumes "reserved [] b" "on_desk (claim ow ref) b = (Inr True, b')"
  shows "reserved [sig_id ref] b'"
proof -
  obtain now s where c: "claim_signal now ref (dk_store (ib_desk b)) = (True, s)" "dk_store (ib_desk b') = s"
    "ib_submitted b' = ib_submitted b"
    using assms(2) by (auto simp: on_desk_def claim_def look_def eff_eval Let_def split: prod.splits sum.splits)
  have "sig_id ref \<notin> p_key ` set (st_signals (dk_store (ib_desk b)))"
    "p_key ` set (st_signals s) = insert (sig_id ref) (p_key ` set (st_signals (dk_store (ib_desk b))))"
    using c(1) by (auto simp: claim_signal_def insert_or_ignore_def Let_def split: if_splits)
  then show ?thesis using assms(1) c by (auto simp: reserved_def frame_def all_claimed_def)
qed

lemma claim_and_hand_over:
  "keeps (reserved []) (claim_and_submit ow m f sig pair symbol k ref)"
  unfolding keeps_def
proof (intro allI impI)
  fix b :: "'a inbox"
  assume b: "reserved [] b"
  obtain r b' where c: "on_desk (claim ow ref) b = (r, b')" by fastforce
  have b': "reserved [] b'"
    using keepsD [OF reserved_desk b, of "claim ow ref"] claims.claiming c by fastforce
  show "reserved [] (snd (claim_and_submit ow m f sig pair symbol k ref b))"
    using b' handed_over [OF claim_wins [OF b]] c keepsD [OF reserved_rejecting b']
    by (auto simp: claim_and_submit_def bindW_def split: sum.splits)
qed

lemma signals_reserved: "keeps (reserved []) (process_signal ow m f flow)"
  unfolding process_signal_def admit_def refuse_uncertain_def gated_def
  by (intro claim_and_hand_over keeps_rules reserved_desk keeps_reads claims.handing reserved_rejecting)

lemma run_reserved: "reserved [] b \<Longrightarrow> reserved [] (run_inbox ow es b)"
proof -
  have "reserved [] (inbox_step ow e b)" if "reserved [] b" for e and b :: "'a inbox"
    using that keepsD [OF signals_reserved that] claims.event_keeps
    by (cases e) (auto simp: reserved_def)
  then show "reserved [] b \<Longrightarrow> reserved [] (run_inbox ow es b)"
    unfolding run_inbox_def by (induction es arbitrary: b) auto
qed


text \<open>C9: A signal is handed to the adapter at most once: over any sequence of signal files and operations
  of the adapter, across restarts and pair switches, the keys handed over are distinct, each is a claimed row of
  the store, and no intent is sent twice.\<close>

theorem signal_submitted_once:
  assumes "ib_submitted b = []" "dk_sent (ib_desk b) = []" "store_ok (dk_store (ib_desk b))"
  shows "distinct (ib_submitted (run_inbox ow es b))
    \<and> set (ib_submitted (run_inbox ow es b)) \<subseteq> p_key ` set (st_signals (dk_store (ib_desk (run_inbox ow es b))))
    \<and> distinct (map fst (dk_sent (ib_desk (run_inbox ow es b))))"
proof -
  have "reserved [] (run_inbox ow es b)"
    by (rule run_reserved) (simp add: assms reserved_def frame_def all_claimed_def)
  moreover have "ledger sent_once (ib_desk (run_inbox ow es b))"
    by (rule once.inbox_run_keeps) (simp add: assms frame_def sent_once_def)
  ultimately show ?thesis by (simp add: reserved_def frame_def all_claimed_def sent_once_def)
qed

subsection \<open>What must hold before a signal reaches the adapter\<close>

primrec reading :: "'x outside \<Rightarrow> nat \<Rightarrow> 'x \<Rightarrow> readings" where
  "reading ow 0 x = fst (ow_look ow x)"
| "reading ow (Suc n) x = reading ow n (snd (ow_look ow x))"

definition submitted_are :: "string list \<Rightarrow> 'x inbox \<Rightarrow> bool" where
  "submitted_are L b \<longleftrightarrow> ib_submitted b = L"

lemma submitted_desk: "keeps (submitted_are L) (on_desk m)"
  by (rule keeps_desk) (simp add: submitted_are_def keeps_def)

lemma submitted_moving: "keeps (submitted_are L) (move_file f accepted)"
  unfolding move_file_def by (intro keeps_rules keeps_modify) (simp add: submitted_are_def)

lemma submitted_rejecting: "keeps (submitted_are L) (reject ow f sig reason recorded)"
  unfolding reject_def by (intro keeps_rules submitted_desk submitted_moving)

lemma reject_submitted [simp]: "ib_submitted (snd (reject ow f sig reason recorded b)) = ib_submitted b"
  using keepsD [OF submitted_rejecting, of "ib_submitted b" b] by (simp add: submitted_are_def)

lemma keeps_before: "keeps (submitted_are L) m \<Longrightarrow> (\<And>x b. submitted_are L b \<Longrightarrow> ib_submitted (snd (f x b)) \<in> {L, K}) \<Longrightarrow> submitted_are L b \<Longrightarrow>
   ib_submitted (snd (bindW m f b)) \<in> {L, K}"
  by (auto simp: keeps_def bindW_def submitted_are_def split: sum.splits prod.splits) (metis snd_conv)+

lemma hand_over_submitted:
  "ib_submitted (snd (hand_over ow m f sig pair symbol k key b)) \<in> {ib_submitted b, key # ib_submitted b}"
proof -
  have after: "keeps (submitted_are L) (bindW (on_desk (submit ow env symbol k)) (\<lambda>(accepted, message).
      bindW (on_desk (store_get g)) (\<lambda>simulation.
      let result = result_text simulation accepted message in
      bindW (on_desk (bindW (look ow) (\<lambda>r. guard_step (record_outcome (de_sha env) (rd_io r) (rd_moment r) sig result)))) (\<lambda>_.
      bindW (on_desk (note_signal ow sig result)) (\<lambda>_.
      bindW (if accepted then returnW () else on_desk (close_refused ow symbol k pair)) (\<lambda>_.
      bindW (move_file f accepted) (\<lambda>_. returnW (accepted, message))))))))" for env g L
    by (intro keeps_rules submitted_desk submitted_moving)
  have push: "ib_submitted (snd (bindW (modifyW (\<lambda>b. b\<lparr>ib_submitted := key # ib_submitted b\<rparr>)) (\<lambda>_. h) b)) \<in> {L, key # L}"
    if "keeps (submitted_are (key # L)) h" "submitted_are L b" for h b and L
    using that by (auto simp: bindW_def modifyW_def keeps_def submitted_are_def)
  show ?thesis unfolding hand_over_def Let_def
    by (intro push keeps_before [OF submitted_desk] after [unfolded Let_def]) (simp_all add: submitted_are_def)
qed

text \<open>The conditions a signal has passed when the adapter is called; the readings are those of the step.\<close>

definition passed_checks :: "'x outside \<Rightarrow> manager \<Rightarrow> signal_file \<Rightarrow> json_file \<Rightarrow> 'x desk \<Rightarrow> signal_ref \<Rightarrow> bool" where
  "passed_checks ow m f flow d ref \<longleftrightarrow>
     (\<exists>sig pair symbol k active.
        read_signal m (rd_time (reading ow 0 (dk_out d))) f = Inr sig
      \<and> identify_signal (de_env (mg_env m)) sig = Inr (pair, symbol, k)
      \<and> signal_result k (dk_store d) = None \<and> pstr (get sig ''strategy'') = ''IctSmcStrategy''
      \<and> dk_pair d = Inr active \<and> generation_mismatch active pair symbol sig = None
      \<and> (\<exists>why. allow (de_limits (mg_env m)) (guard_of d) (rd_moment (reading ow 1 (dk_out d))) sig
            (pstr (get active ''pair'')) (pstr (get active ''state_hash'')) = Inr (True, why))
      \<and> (\<exists>ok why. flow_gate (mg_flow_age m) (rd_time (reading ow 2 (dk_out d))) active flow = Inr (ok, why)
            \<and> (ok \<or> \<not> mg_require_flow m))
      \<and> entries_on (dk_store d) \<and> signal_ref_of sig = Inr ref)"

lemma wp_look: "wp (look ow) Q E d = Q (fst (ow_look ow (dk_out d))) (d\<lparr>dk_out := snd (ow_look ow (dk_out d))\<rparr>)"
  by (simp add: wp_def look_def split: prod.split)

lemma wp_store_get: "wp (store_get f) Q E d = Q (f (dk_store d)) d"
  by (simp add: store_get_def)

lemma wp_on_desk: "wp (on_desk m) Q E b = wp m (\<lambda>x t. Q x (b\<lparr>ib_desk := t\<rparr>)) (\<lambda>e t. E e (b\<lparr>ib_desk := t\<rparr>)) (ib_desk b)"
  by (simp add: on_desk_def wp_zoom)

text \<open>A step that leaves \<open>ib_submitted\<close> alone meets every postcondition that only asks for that.\<close>

lemma wp_untouched:
  assumes "\<And>L. keeps (submitted_are L) m" "\<And>x t. ib_submitted t = ib_submitted b \<Longrightarrow> Q x t"
    "\<And>e t. ib_submitted t = ib_submitted b \<Longrightarrow> E e t"
  shows "wp m Q E b"
proof -
  have "wp m (\<lambda>_. submitted_are (ib_submitted b)) (\<lambda>_. submitted_are (ib_submitted b)) b"
    using assms(1) by (simp add: keeps_wp submitted_are_def)
  then show ?thesis using assms(2,3) by (rule wp_mono) (simp_all add: submitted_are_def)
qed

lemma wp_hand_over:
  assumes "ib_submitted t = L" "\<And>u. ib_submitted u \<in> {L, key # L} \<Longrightarrow> P u"
  shows "wp (hand_over ow m f sig pair symbol k key) (\<lambda>_. P) (\<lambda>_. P) t"
  using hand_over_submitted [of ow m f sig pair symbol k key t] assms
  by (cases "hand_over ow m f sig pair symbol k key t") (auto simp: wp_def split: sum.split)

text \<open>The adapter was called with \<open>key\<close>, or not at all.\<close>

definition at_most :: "string list \<Rightarrow> (string \<Rightarrow> bool) \<Rightarrow> 'x inbox \<Rightarrow> bool" where
  "at_most L C t \<longleftrightarrow> ib_submitted t = L \<or> (\<exists>key. C key \<and> ib_submitted t = key # L)"

lemma at_most_refuse: "wp (reject ow f sig reason recorded) (\<lambda>_. at_most L C) (\<lambda>_. at_most L C) b"
  if "ib_submitted b = L"
  using that by (intro wp_untouched submitted_rejecting) (simp_all add: at_most_def)

lemma at_most_same [simp]: "ib_submitted t = L \<Longrightarrow> at_most L C t"
  by (simp add: at_most_def)

lemma at_most_submit:
  assumes "C (sig_id ref)" "ib_submitted t = L"
  shows "wp (claim_and_submit ow m f sig pair symbol k ref) (\<lambda>_. at_most L C) (\<lambda>_. at_most L C) t"
  unfolding claim_and_submit_def wp_bind
  by (rule wp_untouched [OF submitted_desk])
     (use assms in \<open>auto intro!: at_most_refuse wp_hand_over simp: at_most_def\<close>)

lemma gated_checks:
  assumes "\<And>ok why ref. flow_gate (mg_flow_age m) (rd_time (fst (ow_look ow (dk_out (ib_desk b))))) active flow = Inr (ok, why) \<Longrightarrow>
      ok \<or> \<not> mg_require_flow m \<Longrightarrow> entries_on (dk_store (ib_desk b)) \<Longrightarrow> signal_ref_of sig = Inr ref \<Longrightarrow> C (sig_id ref)"
    "ib_submitted b = L"
  shows "wp (gated ow m f flow active sig pair symbol k) (\<lambda>_. at_most L C) (\<lambda>_. at_most L C) b"
  unfolding gated_def
  using assms by (auto simp: wp_on_desk wp_look wp_store_get wp_lift split: sum.split intro!: at_most_refuse at_most_submit)

lemma admit_checks:
  assumes "\<And>active why ok reason ref. signal_result k (dk_store (ib_desk b)) = None \<Longrightarrow> pstr (get sig ''strategy'') = ''IctSmcStrategy'' \<Longrightarrow>
      dk_pair (ib_desk b) = Inr active \<Longrightarrow> generation_mismatch active pair symbol sig = None \<Longrightarrow>
      allow (de_limits (mg_env m)) (guard_of (ib_desk b)) (rd_moment (reading ow 0 (dk_out (ib_desk b)))) sig
            (pstr (get active ''pair'')) (pstr (get active ''state_hash'')) = Inr (True, why) \<Longrightarrow>
      flow_gate (mg_flow_age m) (rd_time (reading ow 1 (dk_out (ib_desk b)))) active flow = Inr (ok, reason) \<Longrightarrow>
      ok \<or> \<not> mg_require_flow m \<Longrightarrow> entries_on (dk_store (ib_desk b)) \<Longrightarrow> signal_ref_of sig = Inr ref \<Longrightarrow> C (sig_id ref)"
    "ib_submitted b = L"
  shows "wp (admit ow m f flow sig pair symbol k) (\<lambda>_. at_most L C) (\<lambda>_. at_most L C) b"
proof -
  have paused: "wp (refuse_uncertain ow env f sig) (\<lambda>_. at_most (ib_submitted b) C) (\<lambda>_. at_most (ib_submitted b) C) b" for env
    unfolding refuse_uncertain_def wp_bind
    by (rule wp_untouched [OF submitted_desk]) (simp_all add: at_most_refuse)
  have exn: "exn g r = Inr v \<longleftrightarrow> r = Inr v" for g :: "risk_error \<Rightarrow> py_exn" and r and v :: "bool \<times> string"
    by (simp add: exn_def split: sum.split)
  show ?thesis
    unfolding admit_def using assms
    by (auto simp: wp_on_desk wp_look wp_ask load_pair_def exn guard_of_def wp_store_get Let_def split: sum.split option.split
        intro!: at_most_refuse gated_checks paused)
qed

text \<open>C10: A signal reaches the adapter only after every check: a signed envelope of the strategy that verified at the
  step's clock, well-formed fields of the active pair and its generation, a key never processed before, the guard's
  permission, a readable market gate that is open where it is required, and entries switched on; and the key
  handed over is the signal's.\<close>

theorem signal_submission_justified:
  "ib_submitted (snd (process_signal ow m f flow b)) = ib_submitted b
   \<or> (\<exists>ref. passed_checks ow m f flow (ib_desk b) ref
        \<and> ib_submitted (snd (process_signal ow m f flow b)) = sig_id ref # ib_submitted b)"
proof -
  let ?C = "\<lambda>key. \<exists>ref. key = sig_id ref \<and> passed_checks ow m f flow (ib_desk b) ref"
  have "wp (process_signal ow m f flow) (\<lambda>_. at_most (ib_submitted b) ?C) (\<lambda>_. at_most (ib_submitted b) ?C) b"
    unfolding process_signal_def
    by (auto simp: wp_on_desk wp_look guard_of_def split: sum.split intro!: at_most_refuse admit_checks)
       (auto simp: passed_checks_def guard_of_def eval_nat_numeral)
  then show ?thesis
    by (cases "process_signal ow m f flow b") (auto simp: wp_def at_most_def split: sum.splits)
qed

definition signal_install :: installation where
  "signal_install = \<lparr>in_env = (\<lambda>n. if n = ''ENVELOPE_RELEASE_HASH'' then Some ''r1''
     else if n = ''SIGNAL_HMAC_KEY'' then Some ''0123456789abcdef0123456789abcdef'' else None), in_release_file = None\<rparr>"

definition demo_fields :: pydict where
  "demo_fields = [(''signal_id'', PStr ''s1''), (''pair'', PStr ''BTC/USDT''), (''symbol'', PStr ''BTCUSDT''),
     (''candle_time'', PStr ''2026-08-01T12:00:00Z''), (''generated_at'', PStr ''2026-08-01T12:00:00+00:00''),
     (''strategy'', PStr ''IctSmcStrategy''), (''entry_tag'', PStr ''ict''), (''pair_state_hash'', PStr ''h''),
     (''pair_generation'', PInt 1), (''pair_config_hash'', PStr ''c''), (''payload'', PDict [])]"

definition demo_manager :: manager where
  "demo_manager = \<lparr>mg_env = demo_env, mg_hmac = demo_hmac, mg_install = signal_install, mg_flow_age = 45, mg_require_flow = False\<rparr>"

definition demo_file :: signal_file where
  "demo_file = \<lparr>sf_name = ''s1.json'', sf_size = Some 900, sf_content =
     (case sign_envelope demo_hmac signal_install ''freqtrade-strategy'' ''signal'' demo_fields (PInt 60) None ''n1'' (Fin (Dec 1000 0)) of
        Inr d \<Rightarrow> Json (PDict d) | Inl _ \<Rightarrow> Missing), sf_movable = True\<rparr>"

definition demo_world :: "unit outside" where
  "demo_world = \<lparr>ow_ask = (\<lambda>q x. (Inl demo_exn, x)), ow_look = (\<lambda>x. (demo_readings\<lparr>rd_time := Dec 1010 0, rd_moment := noon\<rparr>, x))\<rparr>"

definition demo_inbox :: "unit inbox" where
  "demo_inbox = \<lparr>ib_desk = demo_desk\<lparr>dk_store := gw_store demo_guard, dk_guard := gw_state demo_guard, dk_started := False,
       dk_pair := Inr [(''pair'', PStr ''BTC/USDT''), (''symbol'', PStr ''BTCUSDT''), (''state_hash'', PStr ''h''),
         (''generation'', PInt 1), (''pair_config_hash'', PStr ''c'')]\<rparr>, ib_submitted = [], ib_moved = []\<rparr>"

definition two_deliveries :: "inbox_event list" where
  "two_deliveries = [SignalFile demo_manager demo_file Missing, SignalFile demo_manager demo_file Missing]"

lemma signal_submitted_once_witness:
  "distinct (ib_submitted (run_inbox demo_world two_deliveries demo_inbox))
   \<and> set (ib_submitted (run_inbox demo_world two_deliveries demo_inbox))
      \<subseteq> p_key ` set (st_signals (dk_store (ib_desk (run_inbox demo_world two_deliveries demo_inbox))))"
  using signal_submitted_once [of demo_inbox demo_world two_deliveries]
  by (simp add: demo_inbox_def demo_desk_def demo_guard_def store_ok_def intents_ok_def)

lemma demo_read: "read_signal demo_manager (Dec 1010 0) demo_file = Inr demo_fields"
proof -
  have k: "case key_or_load signal_install ''signal'' None of Inr k \<Rightarrow> k \<noteq> [] | Inl _ \<Rightarrow> False"
    "installed_release_hash signal_install = ''r1''" by code_simp+
  obtain d where s: "sign_envelope demo_hmac signal_install ''freqtrade-strategy'' ''signal'' demo_fields (PInt 60) None ''n1''
      (Fin (Dec 1000 0)) = Inr d"
    using k that by (auto simp: sign_envelope_def max_ttl_seconds_def Let_def split: sum.splits)
  have "verify_envelope demo_hmac signal_install (PDict d) ''signal'' [''freqtrade-strategy''] None (Fin (Dec 1010 0)) (Fin (Dec 30 0))
      = Inr demo_fields"
    using sign_verifies [OF s _ demo_hex, of 60 "[''freqtrade-strategy'']" "Dec 30 0" "Dec 1010 0"] by (simp add: dval_Dec)
  moreover have "env_int (de_env demo_env) ''MAX_SIGNAL_FILE_BYTES'' 65536 1024 1048576 = Inr 65536" by code_simp
  ultimately show ?thesis by (simp add: read_signal_def demo_manager_def demo_file_def s)
qed

lemma demo_passes: "passed_checks demo_world demo_manager demo_file Missing (ib_desk demo_inbox)
     \<lparr>sig_id = ''s1'', sig_pair = ''BTC/USDT'', sig_candle = PStr ''2026-08-01T12:00:00Z''\<rparr>"
proof -
  define active where "active = [(''pair'', PStr ''BTC/USDT''), (''symbol'', PStr ''BTCUSDT''), (''state_hash'', PStr ''h''),
         (''generation'', PInt 1), (''pair_config_hash'', PStr ''c'')]"
  have "identify_signal (de_env demo_env) demo_fields = Inr (''BTC/USDT'', ''BTCUSDT'', ''s1'')"
    "generation_mismatch active ''BTC/USDT'' ''BTCUSDT'' demo_fields = None"
    "allow (de_limits demo_env) demo_guard noon demo_fields ''BTC/USDT'' ''h'' = Inr (True, ''fresh'')"
    "flow_gate 45 (Dec 1010 0) active Missing = Inr (False, ''money-flow snapshot missing'')"
    "signal_ref_of demo_fields = Inr \<lparr>sig_id = ''s1'', sig_pair = ''BTC/USDT'', sig_candle = PStr ''2026-08-01T12:00:00Z''\<rparr>"
    "signal_result ''s1'' (gw_store demo_guard) = None" "entries_on (gw_store demo_guard)"
    "pstr (get demo_fields ''strategy'') = ''IctSmcStrategy''" "pstr (get active ''pair'') = ''BTC/USDT''"
    "pstr (get active ''state_hash'') = ''h''"
    unfolding active_def by code_simp+
  moreover have "guard_of (ib_desk demo_inbox) = demo_guard" "dk_pair (ib_desk demo_inbox) = Inr active"
    by (simp_all add: demo_inbox_def demo_desk_def guard_of_def active_def)
  moreover have "reading demo_world n x = demo_readings\<lparr>rd_time := Dec 1010 0, rd_moment := noon\<rparr>" for n x
    by (induction n) (simp_all add: demo_world_def)
  moreover have "dk_store (ib_desk demo_inbox) = gw_store demo_guard" by (simp add: demo_inbox_def)
  moreover have "mg_env demo_manager = demo_env" "mg_flow_age demo_manager = 45" "\<not> mg_require_flow demo_manager"
    by (simp_all add: demo_manager_def)
  ultimately have "read_signal demo_manager (rd_time (reading demo_world 0 (dk_out (ib_desk demo_inbox)))) demo_file = Inr demo_fields
      \<and> identify_signal (de_env (mg_env demo_manager)) demo_fields = Inr (''BTC/USDT'', ''BTCUSDT'', ''s1'')
      \<and> signal_result ''s1'' (dk_store (ib_desk demo_inbox)) = None \<and> pstr (get demo_fields ''strategy'') = ''IctSmcStrategy''
      \<and> dk_pair (ib_desk demo_inbox) = Inr active \<and> generation_mismatch active ''BTC/USDT'' ''BTCUSDT'' demo_fields = None
      \<and> allow (de_limits (mg_env demo_manager)) (guard_of (ib_desk demo_inbox))
          (rd_moment (reading demo_world 1 (dk_out (ib_desk demo_inbox)))) demo_fields
            (pstr (get active ''pair'')) (pstr (get active ''state_hash'')) = Inr (True, ''fresh'')
      \<and> flow_gate (mg_flow_age demo_manager) (rd_time (reading demo_world 2 (dk_out (ib_desk demo_inbox)))) active Missing
          = Inr (False, ''money-flow snapshot missing'')
      \<and> \<not> mg_require_flow demo_manager \<and> entries_on (dk_store (ib_desk demo_inbox))
      \<and> signal_ref_of demo_fields = Inr \<lparr>sig_id = ''s1'', sig_pair = ''BTC/USDT'', sig_candle = PStr ''2026-08-01T12:00:00Z''\<rparr>"
    using demo_read by (simp del: reading.simps)
  then show ?thesis unfolding passed_checks_def by blast
qed

end
