(* ===== verification/Fingerprint.thy ===== *)
theory Fingerprint
  imports Py_Value
begin

text \<open>
  Fingerprints of the strategy's signal methods, \<open>services/common/strategy_fingerprint.py\<close>.
  The Python parser and tokenizer and SHA-256 are arguments: \<open>so_classes\<close> gives the classes of a source
  with the line numbers the \<open>ast\<close> module reports, \<open>so_tokens\<close> the named tokens of a text, both
  \<open>None\<close> where the source does not parse. Texts and their UTF-8 bytes are not told apart.
\<close>

record ast_method =
  am_name :: string
  am_line :: nat
  am_decorators :: "nat list"
  am_end :: "nat option"

record ast_class =
  cl_name :: string
  cl_methods :: "ast_method list"

record source_tools =
  so_classes :: "string \<Rightarrow> ast_class list option"
  so_tokens :: "string \<Rightarrow> (string \<times> string) list option"
  so_sha :: "string \<Rightarrow> string"

definition method_node :: "source_tools \<Rightarrow> string \<Rightarrow> string \<Rightarrow> string \<Rightarrow> ast_method option" where
  "method_node t source class_name method_name =
     Option.bind (so_classes t source) (\<lambda>classes.
     Option.bind (List.find (\<lambda>c. cl_name c = class_name) classes) (\<lambda>c.
     List.find (\<lambda>f. am_name f = method_name) (cl_methods c)))"

text \<open>\<open>str.splitlines\<close>: every line boundary of Python, a carriage return and line feed as one.\<close>

definition line_break :: "char \<Rightarrow> bool" where
  "line_break c \<longleftrightarrow> (of_char c :: nat) \<in> {10, 11, 12, 13, 28, 29, 30, 133}"

fun split_lines :: "string \<Rightarrow> string list" where
  "split_lines [] = []"
| "split_lines (c # cs) =
     (if c = CHR 0x0D \<and> take 1 cs = [CHR 0x0A] then [] # split_lines (drop 1 cs)
      else if line_break c then [] # split_lines cs
      else (case split_lines cs of [] \<Rightarrow> [[c]] | l # ls \<Rightarrow> (c # l) # ls))"

fun join_lines :: "string list \<Rightarrow> string" where
  "join_lines [] = []"
| "join_lines [l] = l"
| "join_lines (l # m # ls) = l @ CHR 0x0A # join_lines (m # ls)"

text \<open>\<open>int(fn.end_lineno or fn.lineno)\<close>.\<close>

definition last_line :: "ast_method \<Rightarrow> nat" where
  "last_line f = (case am_end f of Some n \<Rightarrow> if n = 0 then am_line f else n | None \<Rightarrow> am_line f)"

definition method_source_segment_from_text :: "source_tools \<Rightarrow> string \<Rightarrow> string \<Rightarrow> string \<Rightarrow> string option" where
  "method_source_segment_from_text t source class_name method_name =
     Option.bind (method_node t source class_name method_name) (\<lambda>f.
     let start = fold min (am_decorators f) (am_line f) - 1 in
     Some (join_lines (take (last_line f - start) (drop start (split_lines source))) @ [CHR 0x0A]))"

definition source_hash :: "source_tools \<Rightarrow> string \<Rightarrow> string \<Rightarrow> string \<Rightarrow> string option" where
  "source_hash t source class_name method_name =
     map_option (so_sha t) (method_source_segment_from_text t source class_name method_name)"

definition ignored_tokens :: "string list" where
  "ignored_tokens = [''COMMENT'', ''NL'', ''ENCODING'', ''ENDMARKER'']"

definition layout_tokens :: "string list" where
  "layout_tokens = [''NEWLINE'', ''INDENT'', ''DEDENT'']"

definition token_stream :: "source_tools \<Rightarrow> string \<Rightarrow> (string \<times> string) list option" where
  "token_stream t segment =
     map_option (\<lambda>toks. map (\<lambda>(name, text). (name, if name \<in> set layout_tokens then [] else text))
       (List.filter (\<lambda>(name, text). name \<notin> set ignored_tokens) toks)) (so_tokens t segment)"

fun separated :: "string list \<Rightarrow> string" where
  "separated [] = []"
| "separated [x] = x"
| "separated (x # y # ys) = x @ CHR 0x1F # separated (y # ys)"

definition token_payload :: "(string \<times> string) list \<Rightarrow> string" where
  "token_payload toks = separated (map (\<lambda>(name, text). name @ CHR 0x1E # text) toks)"

definition token_hash :: "source_tools \<Rightarrow> string \<Rightarrow> string \<Rightarrow> string \<Rightarrow> string option" where
  "token_hash t source class_name method_name =
     Option.bind (method_source_segment_from_text t source class_name method_name) (\<lambda>segment.
     map_option (\<lambda>toks. so_sha t (token_payload toks)) (token_stream t segment))"

text \<open>\<open>those\<close> of a list of entries; the first failure fails the whole.\<close>

fun collected :: "('a \<Rightarrow> 'b option) \<Rightarrow> 'a list \<Rightarrow> 'b list option" where
  "collected f [] = Some []"
| "collected f (x # xs) = Option.bind (f x) (\<lambda>y. map_option ((#) y) (collected f xs))"

text \<open>\<open>fingerprints\<close> of the installed file, whose text is the argument.\<close>

definition fingerprints :: "source_tools \<Rightarrow> string \<Rightarrow> string \<Rightarrow> string list \<Rightarrow> pydict option" where
  "fingerprints t source class_name methods =
     collected (\<lambda>m.
       Option.bind (source_hash t source class_name m) (\<lambda>s.
       map_option (\<lambda>h. (m, PDict [(''source_sha256'', PStr s), (''token_sha256'', PStr h)])) (token_hash t source class_name m)))
     methods"

definition fingerprints_source :: "source_tools \<Rightarrow> string \<Rightarrow> string \<Rightarrow> string list \<Rightarrow> pydict option" where
  "fingerprints_source t source class_name methods =
     collected (\<lambda>m.
       Option.bind (method_source_segment_from_text t source class_name m) (\<lambda>segment.
       Option.bind (token_stream t segment) (\<lambda>toks.
       Some (m, PDict [(''source_sha256'', PStr (so_sha t segment)), (''token_sha256'', PStr (so_sha t (token_payload toks)))]))))
     methods"

subsection \<open>What a fingerprint fixes\<close>

lemma fingerprints_agree: "fingerprints_source t source c ms = fingerprints t source c ms"
proof -
  have "(\<lambda>m. Option.bind (method_source_segment_from_text t source c m) (\<lambda>segment.
       Option.bind (token_stream t segment) (\<lambda>toks.
       Some (m, PDict [(''source_sha256'', PStr (so_sha t segment)), (''token_sha256'', PStr (so_sha t (token_payload toks)))]))))
     = (\<lambda>m. Option.bind (source_hash t source c m) (\<lambda>s.
       map_option (\<lambda>h. (m, PDict [(''source_sha256'', PStr s), (''token_sha256'', PStr h)])) (token_hash t source c m)))"
    by (rule ext) (auto simp: source_hash_def token_hash_def split: option.split bind_splits)
  then show ?thesis by (simp add: fingerprints_def fingerprints_source_def)
qed

lemma collected_Some: "collected f xs = Some ys \<Longrightarrow> list_all2 (\<lambda>x y. f x = Some y) xs ys"
  by (induction xs arbitrary: ys) (auto split: option.splits bind_splits)

lemma fingerprints_at:
  "fingerprints_source t source c ms = Some d \<Longrightarrow> list_all2 (\<lambda>m e. \<exists>segment toks.
     method_source_segment_from_text t source c m = Some segment \<and> token_stream t segment = Some toks
     \<and> e = (m, PDict [(''source_sha256'', PStr (so_sha t segment)), (''token_sha256'', PStr (so_sha t (token_payload toks)))])) ms d"
  unfolding fingerprints_source_def
  by (drule collected_Some, erule list.rel_mono_strong) (auto split: bind_splits)

text \<open>Two sources with the same fingerprints have the same methods, or show a collision of the digest.\<close>

lemma fingerprints_fix_methods:
  assumes "fingerprints_source t source c ms = Some d" "fingerprints t installed c ms = Some d" "m \<in> set ms"
  shows "\<exists>a b. method_source_segment_from_text t source c m = Some a \<and> method_source_segment_from_text t installed c m = Some b
    \<and> so_sha t a = so_sha t b"
proof -
  obtain i where i: "i < length ms" "m = ms ! i" using assms(3) by (auto simp: in_set_conv_nth)
  note both = fingerprints_at [OF assms(1)] fingerprints_at [OF assms(2) [folded fingerprints_agree]]
  show ?thesis using both [THEN list_all2_nthD, OF i(1)] by (auto simp: i(2))
qed

end
