(* ===== verification/Live_Evidence.thy ===== *)
theory Live_Evidence
  imports Fingerprint Evidence Market_Policy Json_File Models
begin

text \<open>
  The live-promotion gate, \<open>services/execution_sidecar/live_evidence.py\<close>: what a signed evidence
  document must say, and the backtest artifact it must agree with. The file system, the ZIP
  reader, the JSON and UTF-8 decoders and SHA-256 are arguments; files are read once, so a file that
  changes between two reads is not modelled. A refusal is \<open>Evidence\<close>; \<open>Crash\<close> is
  any other exception, which the caller turns into the same exit.
\<close>

datatype live_error = Evidence string | Crash

text \<open>An entry of the archive; \<open>zi_bytes\<close> is what \<open>read\<close> returns, \<open>None\<close> where it raises.\<close>

record zip_item =
  zi_name :: string
  zi_attr :: int
  zi_size :: int
  zi_bytes :: "string option"

text \<open>Paths are lists of parts under the file system's root.\<close>

record evidence_host =
  eh_env :: environ
  eh_source :: source_tools
  eh_utf8 :: "string \<Rightarrow> string option"
  eh_loads :: "string \<Rightarrow> pyval option"
  eh_unzip :: "string \<Rightarrow> zip_item list option"
  eh_root :: "string list"
  eh_resolve :: "string list \<Rightarrow> string list"
  eh_bytes :: "string list \<Rightarrow> string option"

abbreviation eh_sha :: "evidence_host \<Rightarrow> string \<Rightarrow> string" where
  "eh_sha h \<equiv> so_sha (eh_source h)"

subsection \<open>The policy of the deployment\<close>

definition env_flag :: "environ \<Rightarrow> string \<Rightarrow> bool \<Rightarrow> live_error + bool" where
  "env_flag env name dflt =
     (let value = lower (strip (case env name of None \<Rightarrow> if dflt then ''true'' else ''false'' | Some s \<Rightarrow> s)) in
      if value \<notin> {''true'', ''false''} then Inl (Evidence ''must be true or false'') else Inr (value = ''true''))"

fun strip_tens :: "nat \<Rightarrow> nat \<times> nat" where
  "strip_tens n = (if n = 0 \<or> n mod 10 \<noteq> 0 then (n, 0) else (let (m, k) = strip_tens (n div 10) in (m, Suc k)))"

declare strip_tens.simps [simp del]

text \<open>\<open>Decimal.normalize\<close>: rounded to the context, without trailing zeros.\<close>

definition normalize_dec :: "dec \<Rightarrow> dec" where
  "normalize_dec d0 = (let d = dfix d0; (m, k) = strip_tens (nat \<bar>coeff d\<bar>) in
     if coeff d = 0 then Dec 0 0 else Dec (sgn (coeff d) * int m) (expo d + int k))"

definition number_text :: "environ \<Rightarrow> string \<Rightarrow> string \<Rightarrow> live_error + pyval" where
  "number_text env name dflt =
     (case parse_dec (strip (case env name of None \<Rightarrow> dflt | Some s \<Rightarrow> s)) of
        Some (Fin d) \<Rightarrow> Inr (PStr (format_f (normalize_dec d)))
      | _ \<Rightarrow> Inl (Evidence ''not a finite decimal''))"

definition int_setting :: "environ \<Rightarrow> string \<Rightarrow> int \<Rightarrow> live_error + pyval" where
  "int_setting env name dflt = (case env name of None \<Rightarrow> Inr (PInt dflt)
     | Some s \<Rightarrow> of_option Crash (map_option PInt (parse_int s)))"

definition flag_setting :: "environ \<Rightarrow> string \<Rightarrow> live_error + pyval" where
  "flag_setting env name = bindE (env_flag env name False) (\<lambda>b. Inr (PBool b))"

text \<open>A dictionary display; its values are computed in order.\<close>

definition section_of :: "(string \<times> (live_error + pyval)) list \<Rightarrow> live_error + pyval" where
  "section_of fs = bindE (mapE (\<lambda>(k, r). bindE r (\<lambda>v. Inr (k, v))) fs) (\<lambda>d. Inr (PDict d))"

definition protection_section :: "environ \<Rightarrow> live_error + pyval" where
  "protection_section env = section_of
     [(''take_profit_pct'', number_text env ''TAKE_PROFIT_PCT'' ''1.2''),
      (''fixed_stop_pct'', number_text env ''FIXED_STOP_PCT'' ''2.0''),
      (''trailing_delta_bips'', int_setting env ''TRAILING_DELTA_BIPS'' 40),
      (''limit_fill_buffer_bips'', int_setting env ''LIMIT_FILL_BUFFER_BIPS'' 20),
      (''fee_pct_per_side'', number_text env ''FEE_PCT_PER_SIDE'' ''0.1''),
      (''break_even_slippage_pct'', number_text env ''BREAK_EVEN_SLIPPAGE_PCT'' ''0.05''),
      (''spot_filter_max_age_seconds'', int_setting env ''SPOT_FILTER_MAX_AGE_SECONDS'' 300),
      (''auto_enabled'', flag_setting env ''AUTO_PROTECTION_ENABLED''),
      (''auto_break_even_trigger_pct'', number_text env ''AUTO_BREAK_EVEN_TRIGGER_PCT'' ''0.5''),
      (''auto_tight_trail_bips'', int_setting env ''AUTO_TIGHT_TRAIL_BIPS'' 20)]"

definition freshness_section :: "environ \<Rightarrow> live_error + pyval" where
  "freshness_section env = section_of
     [(''max_signal_age_seconds'', int_setting env ''MAX_SIGNAL_AGE_SECONDS'' 180),
      (''max_candle_age_seconds'', int_setting env ''MAX_CANDLE_AGE_SECONDS'' 180),
      (''pair_cooldown_seconds'', int_setting env ''PAIR_COOLDOWN_SECONDS'' 60),
      (''max_stopouts_per_pair_day'', int_setting env ''MAX_STOPOUTS_PER_PAIR_DAY'' 3),
      (''max_stopouts_global_day'', int_setting env ''MAX_STOPOUTS_GLOBAL_DAY'' 10)]"

definition flow_section :: "environ \<Rightarrow> live_error + pyval" where
  "flow_section env = section_of
     [(''require_flow_context'', flag_setting env ''REQUIRE_FLOW_CONTEXT''),
      (''market_context_mode'', Inr (PStr ''spot_only'')),
      (''require_external_confluence'', flag_setting env ''REQUIRE_EXTERNAL_CONFLUENCE''),
      (''external_confluence_min_providers'', int_setting env ''EXTERNAL_CONFLUENCE_MIN_PROVIDERS'' 1),
      (''external_confluence_min_24h_change_pct'', number_text env ''EXTERNAL_CONFLUENCE_MIN_24H_CHANGE_PCT'' ''0''),
      (''external_confluence_max_price_deviation_bps'',
         number_text env ''EXTERNAL_CONFLUENCE_MAX_PRICE_DEVIATION_BPS'' ''100''),
      (''max_flow_age_seconds'', int_setting env ''MAX_FLOW_AGE_SECONDS'' 45),
      (''min_taker_buy_ratio'', number_text env ''FLOW_MIN_TAKER_BUY_RATIO'' ''0.55''),
      (''min_spot_imbalance'', number_text env ''FLOW_MIN_SPOT_IMBALANCE'' ''0.05''),
      (''refresh_seconds'', int_setting env ''MONEYFLOW_REFRESH_SECONDS'' 15),
      (''depth_limit'', int_setting env ''MONEYFLOW_DEPTH_LIMIT'' 100),
      (''trade_limit'', int_setting env ''MONEYFLOW_TRADE_LIMIT'' 500),
      (''depth_band_bps'', int_setting env ''MONEYFLOW_DEPTH_BAND_BPS'' 10),
      (''spot_stream_stale_seconds'', int_setting env ''MONEYFLOW_SPOT_STREAM_STALE_SECONDS'' 10)]"

definition backtest_section :: "environ \<Rightarrow> live_error + pyval" where
  "backtest_section env = section_of
     [(''minimum_trades'', int_setting env ''LIVE_MIN_BACKTEST_TRADES'' 100),
      (''minimum_profit_factor'', number_text env ''LIVE_MIN_PROFIT_FACTOR'' ''1.15''),
      (''minimum_profit_total'', number_text env ''LIVE_MIN_PROFIT_TOTAL'' ''0''),
      (''maximum_drawdown_account'', number_text env ''LIVE_MAX_DRAWDOWN_ACCOUNT'' ''0.20''),
      (''minimum_fee_per_side'', number_text env ''LIVE_MIN_BACKTEST_FEE'' ''0.001'')]"

definition entry_modes :: "string list" where
  "entry_modes = [''FIXED_OCO'', ''OCO_TRAILING'', ''TRAILING_ONLY'']"

definition policy_quotes :: "string list \<Rightarrow> string list" where
  "policy_quotes quotes = sort (map upper quotes)"

definition runtime_risk_policy :: "environ \<Rightarrow> string list \<Rightarrow> live_error + pyval" where
  "runtime_risk_policy env quotes =
     (let entry_mode = upper (strip (case env ''PROTECTION_MODE'' of None \<Rightarrow> ''OCO_TRAILING'' | Some s \<Rightarrow> s)) in
      if entry_mode \<notin> set entry_modes then Inl (Evidence ''PROTECTION_MODE is invalid'')
      else section_of
        [(''policy_version'', Inr (PInt 1)), (''market'', Inr (PStr ''BINANCE_SPOT'')), (''base_asset'', Inr (PStr ''BTC'')),
         (''max_positions'', Inr (PInt 1)), (''allowed_stable_quotes'', Inr (PList (map PStr (policy_quotes quotes)))),
         (''trade_size_quote'', number_text env ''TRADE_SIZE_QUOTE'' ''100''),
         (''max_entry_open_seconds'', int_setting env ''MAX_ENTRY_OPEN_SECONDS'' 300),
         (''entry_protection_mode'', Inr (PStr entry_mode)), (''protection'', protection_section env),
         (''freshness_and_stops'', freshness_section env), (''flow'', flow_section env),
         (''backtest_gate'', backtest_section env)])"

definition risk_policy_sha256 :: "(string \<Rightarrow> string) \<Rightarrow> environ \<Rightarrow> string list \<Rightarrow> live_error + string" where
  "risk_policy_sha256 sha256 env quotes =
     bindE (runtime_risk_policy env quotes) (\<lambda>policy. Inr (sha256 (json_dumps policy)))"

subsection \<open>The artifact\<close>

text \<open>The parts of a \<open>PurePosixPath\<close>: empty parts and dots fall out.\<close>

definition path_parts :: "string \<Rightarrow> string list" where
  "path_parts s = List.filter (\<lambda>p. p \<noteq> [] \<and> p \<noteq> ''.'') (split_on (CHR ''/'') s)"

definition absolute :: "string \<Rightarrow> bool" where
  "absolute s \<longleftrightarrow> starts_with ''/'' s"

definition within_root :: "string list \<Rightarrow> string list \<Rightarrow> bool" where
  "within_root folder target \<longleftrightarrow> take (length folder) target = folder"

definition safe_backtest_target :: "evidence_host \<Rightarrow> string \<Rightarrow> live_error + string list" where
  "safe_backtest_target h relative =
     (if relative = [] \<or> CHR 0x5C \<in> set relative then Inl (Evidence ''artifact_file must be a relative POSIX path'')
      else if absolute relative \<or> ''..'' \<in> set (path_parts relative) \<or> path_parts relative = []
      then Inl (Evidence ''backtest artifact path is unsafe'')
      else let target = eh_resolve h (eh_root h @ path_parts relative) in
        if within_root (eh_root h) target then Inr target
        else Inl (Evidence ''backtest artifact path escapes the runtime directory''))"

definition max_backtest_bytes :: int where
  "max_backtest_bytes = 100 * 1024 * 1024"

text \<open>What the reading of the archive has collected so far.\<close>

record archive_scan =
  as_names :: "string list"
  as_total :: int
  as_results :: "pydict list"
  as_configs :: "pydict list"
  as_sources :: "string list"

definition ends_with :: "string \<Rightarrow> string \<Rightarrow> bool" where
  "ends_with suffix s \<longleftrightarrow> length suffix \<le> length s \<and> drop (length s - length suffix) s = suffix"

definition is_symlink :: "int \<Rightarrow> bool" where
  "is_symlink attr \<longleftrightarrow> (attr div 2 ^ 16) div 2 ^ 12 mod 16 = 10"

definition read_source :: "evidence_host \<Rightarrow> zip_item \<Rightarrow> live_error + string" where
  "read_source h i = (case zi_bytes i of
       Some bytes \<Rightarrow> if eh_utf8 h bytes = None then Inl (Evidence ''embedded strategy is not valid UTF-8 source'') else Inr bytes
     | None \<Rightarrow> Inl (Evidence ''embedded strategy is not valid UTF-8 source''))"

definition read_entry :: "evidence_host \<Rightarrow> zip_item \<Rightarrow> pyval option" where
  "read_entry h i = Option.bind (zi_bytes i) (\<lambda>bytes. Option.bind (eh_utf8 h bytes) (eh_loads h))"

definition note_entry :: "string \<Rightarrow> pyval \<Rightarrow> archive_scan \<Rightarrow> archive_scan" where
  "note_entry name v s0 =
     (let s = (if ends_with ''_config.json'' name \<and> is_dict v then s0\<lparr>as_configs := as_configs s0 @ [items v]\<rparr> else s0) in
      if is_dict v \<and> is_dict (get (items v) ''strategy'')
         \<and> map_of (items (get (items v) ''strategy'')) ''IctSmcStrategy'' \<noteq> None
      then s\<lparr>as_results := as_results s @ [items v]\<rparr> else s)"

definition scan_item :: "evidence_host \<Rightarrow> zip_item \<Rightarrow> archive_scan \<Rightarrow> live_error + archive_scan" where
  "scan_item h i s0 =
     (if absolute (zi_name i) \<or> ''..'' \<in> set (path_parts (zi_name i)) \<or> CHR 0x5C \<in> set (zi_name i)
         \<or> zi_name i \<in> set (as_names s0)
      then Inl (Evidence ''backtest ZIP contains an unsafe or duplicate path'')
      else if is_symlink (zi_attr i) then Inl (Evidence ''backtest ZIP contains a symlink'')
      else let s = s0\<lparr>as_names := zi_name i # as_names s0, as_total := as_total s0 + zi_size i\<rparr>; name = lower (zi_name i) in
      if max_backtest_bytes < zi_size i \<or> 2 * max_backtest_bytes < as_total s
      then Inl (Evidence ''backtest ZIP expands beyond the allowed size'')
      else if ends_with ''/'' (zi_name i) then Inr s
      else if ends_with ''_ictsmcstrategy.py'' name
      then bindE (read_source h i) (\<lambda>src. Inr (s\<lparr>as_sources := as_sources s @ [src]\<rparr>))
      else if \<not> ends_with ''.json'' name then Inr s
      else (case read_entry h i of None \<Rightarrow> Inr s | Some v \<Rightarrow> Inr (note_entry name v s)))"

fun scan_items :: "evidence_host \<Rightarrow> zip_item list \<Rightarrow> archive_scan \<Rightarrow> live_error + archive_scan" where
  "scan_items h [] s = Inr s"
| "scan_items h (i # is) s = bindE (scan_item h i s) (scan_items h is)"

definition empty_scan :: archive_scan where
  "empty_scan = \<lparr>as_names = [], as_total = 0, as_results = [], as_configs = [], as_sources = []\<rparr>"

definition read_result_document :: "evidence_host \<Rightarrow> string \<Rightarrow> live_error + pydict \<times> pydict \<times> string" where
  "read_result_document h bytes =
     (if max_backtest_bytes < int (length bytes) then Inl (Evidence ''backtest artifact exceeds 100 MiB'')
      else (case eh_unzip h bytes of
        None \<Rightarrow> Inl (Evidence ''live promotion requires the official Freqtrade ZIP export'')
      | Some entries \<Rightarrow> bindE (scan_items h entries empty_scan) (\<lambda>s.
          case (as_results s, as_configs s, as_sources s) of
            ([r], [c], [src]) \<Rightarrow> Inr (r, c, src)
          | _ \<Rightarrow> Inl (Evidence ''backtest ZIP must contain exactly one result, config and strategy source''))))"

subsection \<open>The backtest\<close>

definition finite_metric :: "pydict \<Rightarrow> string \<Rightarrow> live_error + dec" where
  "finite_metric stats name =
     (case map_of stats name of
        None \<Rightarrow> Inl (Evidence ''backtest metric is missing or invalid'')
      | Some v \<Rightarrow> (case to_float v of
          Some (Fin d) \<Rightarrow> Inr d
        | Some _ \<Rightarrow> Inl (Evidence ''backtest metric is not finite'')
        | None \<Rightarrow> Inl (Evidence ''backtest metric is missing or invalid'')))"

text \<open>\<open>int(v)\<close> and \<open>float(v)\<close>, whose exceptions are not caught.\<close>

definition whole :: "pyval \<Rightarrow> live_error + int" where
  "whole v = of_option Crash (to_int v)"

definition gate_number :: "pydict \<Rightarrow> string \<Rightarrow> live_error + dec" where
  "gate_number g name = (case to_float (get g name) of Some (Fin d) \<Rightarrow> Inr d | _ \<Rightarrow> Inl Crash)"

definition signal_methods :: "string list" where
  "signal_methods = [''populate_indicators_5m'', ''populate_indicators'', ''populate_entry_trend'', ''populate_exit_trend'']"

definition hex64 :: "string \<Rightarrow> bool" where
  "hex64 s \<longleftrightarrow> length s = 64 \<and> list_all (\<lambda>c. is_digit c \<or> c \<in> set ''abcdef'') s"

text \<open>The bytes of the artifact, compared with the signed digest.\<close>

definition read_artifact :: "evidence_host \<Rightarrow> pydict \<Rightarrow> live_error + string \<times> string" where
  "read_artifact h meta =
     (let expected = pstr (get_or meta ''artifact_sha256'' (PStr [])) in
      if \<not> hex64 expected then Inl (Evidence ''backtest evidence lacks a valid artifact sha256'')
      else bindE (safe_backtest_target h (pstr (get_or meta ''artifact_file'' (PStr [])))) (\<lambda>target.
      case eh_bytes h target of
        None \<Rightarrow> Inl (Evidence ''backtest artifact is missing'')
      | Some bytes \<Rightarrow>
          if eh_sha h bytes \<noteq> expected then Inl (Evidence ''backtest artifact bytes do not match signed evidence'')
          else Inr (bytes, expected)))"

definition check_embedded :: "evidence_host \<Rightarrow> pydict \<Rightarrow> string \<Rightarrow> string \<Rightarrow> live_error + unit" where
  "check_embedded h prints file_hash src =
     (if eh_sha h src \<noteq> file_hash then Inl (Evidence ''embedded full strategy file differs from installed release'')
      else (case Option.bind (eh_utf8 h src) (\<lambda>text. fingerprints_source (eh_source h) text ''IctSmcStrategy'' signal_methods) of
        None \<Rightarrow> Inl (Evidence ''embedded strategy source is malformed'')
      | Some embedded \<Rightarrow> assertE (same (PDict embedded) (PDict prints))
          (Evidence ''embedded backtest strategy differs from installed release'')))"

record metrics =
  mt_trades :: int
  mt_factor :: dec
  mt_total :: dec
  mt_drawdown :: dec

definition check_metrics :: "pydict \<Rightarrow> metrics \<Rightarrow> live_error + unit" where
  "check_metrics g m =
     bindE (whole (get g ''minimum_trades'')) (\<lambda>least.
     if mt_trades m < least then Inl (Evidence ''backtest has too few trades'') else
     bindE (gate_number g ''minimum_profit_factor'') (\<lambda>factor.
     if dle (mt_factor m) factor then Inl (Evidence ''backtest profit factor does not pass the configured gate'') else
     bindE (gate_number g ''minimum_profit_total'') (\<lambda>total.
     if dle (mt_total m) total then Inl (Evidence ''backtest total profit does not pass the configured gate'') else
     bindE (gate_number g ''maximum_drawdown_account'') (\<lambda>most.
     if dle most (mt_drawdown m) then Inl (Evidence ''backtest account drawdown does not pass the configured gate'')
     else Inr ()))))"

text \<open>\<open>in {None, 'IctSmcStrategy'}\<close>; a list or a mapping cannot be looked up in a set.\<close>

definition check_run :: "pydict \<Rightarrow> live_error + unit" where
  "check_run stats =
     (let name = get stats ''strategy_name'' in
      if get stats ''timeframe'' \<noteq> PStr ''1m'' then Inl (Evidence ''backtest timeframe is not 1m'')
      else if is_dict name \<or> is_list name then Inl Crash
      else if name \<noteq> PNone \<and> name \<noteq> PStr ''IctSmcStrategy'' then Inl (Evidence ''backtest strategy_name is inconsistent'')
      else if get stats ''enable_protections'' \<noteq> PBool True then Inl (Evidence ''backtest did not enable protections'')
      else bindE (whole (get_or stats ''max_open_trades_setting'' (PInt (-1)))) (\<lambda>n.
        assertE (n = 1) (Evidence ''backtest max_open_trades_setting is not 1'')))"

definition check_trade :: "string \<Rightarrow> dec \<Rightarrow> pyval \<Rightarrow> live_error + unit" where
  "check_trade pair fee row =
     (if \<not> is_dict row \<or> get (items row) ''pair'' \<noteq> PStr pair
      then Inl (Evidence ''backtest contains a trade outside the active BTC pair'')
      else bindE (finite_metric (items row) ''fee_open'') (\<lambda>a.
        if dlt a fee then Inl (Evidence ''backtest fee assumption is below the configured minimum'')
        else bindE (finite_metric (items row) ''fee_close'') (\<lambda>b.
        assertE (\<not> dlt b fee) (Evidence ''backtest fee assumption is below the configured minimum''))))"

definition check_config :: "pydict \<Rightarrow> string \<Rightarrow> string \<Rightarrow> dec \<Rightarrow> live_error + unit" where
  "check_config config pair quote fee =
     (let exchange = items (get config ''exchange'') in
      if lower (pstr (get_or exchange ''name'' (PStr []))) \<noteq> ''binance'' then Inl (Evidence ''backtest config exchange is not Binance'')
      else if get config ''trading_mode'' \<noteq> PStr ''spot'' \<or> get config ''timeframe'' \<noteq> PStr ''1m''
      then Inl (Evidence ''backtest config is not 1m Spot'')
      else if pstr (get_or config ''strategy'' (PStr [])) \<noteq> ''IctSmcStrategy'' then Inl (Evidence ''backtest config strategy is inconsistent'')
      else bindE (whole (get_or config ''max_open_trades'' (PInt (-1)))) (\<lambda>n.
      if n \<noteq> 1 then Inl (Evidence ''backtest config max_open_trades is not 1'')
      else if get config ''stake_currency'' \<noteq> PStr quote
      then Inl (Evidence ''backtest config stake currency does not match active pair'')
      else if get exchange ''pair_whitelist'' \<noteq> PList [PStr pair]
      then Inl (Evidence ''backtest config whitelist is not the one active BTC pair'')
      else if get config ''enable_protections'' \<noteq> PBool True then Inl (Evidence ''backtest config did not enable protections'')
      else bindE (finite_metric config ''fee'') (\<lambda>configured.
        assertE (\<not> dlt configured fee) (Evidence ''backtest config fee is below the configured minimum''))))"

definition backtest_summary :: "string \<Rightarrow> string \<Rightarrow> metrics \<Rightarrow> string \<Rightarrow> string \<Rightarrow> pydict" where
  "backtest_summary digest pair m start end_date =
     [(''artifact_sha256'', PStr digest), (''strategy'', PStr ''IctSmcStrategy''), (''pair'', PStr pair), (''timeframe'', PStr ''1m''),
      (''trades'', PInt (mt_trades m)), (''profit_factor'', PFloat (Fin (mt_factor m))), (''profit_total'', PFloat (Fin (mt_total m))),
      (''max_drawdown_account'', PFloat (Fin (mt_drawdown m))), (''backtest_start'', PStr start), (''backtest_end'', PStr end_date)]"

text \<open>Everything that is read from the parsed result.\<close>

definition check_result :: "environ \<Rightarrow> string list \<Rightarrow> pydict \<Rightarrow> string \<Rightarrow> pydict \<Rightarrow> pydict \<Rightarrow> live_error + pydict" where
  "check_result env quotes active digest stats config =
     bindE (whole (get_or stats ''total_trades'' (PInt (-1)))) (\<lambda>trades.
     bindE (finite_metric stats ''profit_factor'') (\<lambda>factor.
     bindE (finite_metric stats ''profit_total'') (\<lambda>total.
     bindE (finite_metric stats ''max_drawdown_account'') (\<lambda>drawdown.
     bindE (runtime_risk_policy env quotes) (\<lambda>policy.
     let g = items (get (items policy) ''backtest_gate'');
         m = \<lparr>mt_trades = trades, mt_factor = factor, mt_total = total, mt_drawdown = drawdown\<rparr>;
         pair = pstr (get_or active ''pair'' (PStr [])); quote = pstr (get_or active ''quote'' (PStr []));
         start = strip (pstr (get_or stats ''backtest_start'' (PStr [])));
         end_date = strip (pstr (get_or stats ''backtest_end'' (PStr []))); rows = get stats ''trades'' in
     bindE (check_metrics g m) (\<lambda>_.
     bindE (check_run stats) (\<lambda>_.
     if get stats ''stake_currency'' \<noteq> PStr quote then Inl (Evidence ''backtest stake currency does not match the active pair'')
     else if \<not> is_list rows \<or> int (length (elems rows)) \<noteq> trades
     then Inl (Evidence ''backtest trade ledger is missing or count-mismatched'')
     else bindE (gate_number g ''minimum_fee_per_side'') (\<lambda>fee.
     bindE (forE (check_trade pair fee) (elems rows)) (\<lambda>_.
     if start = [] \<or> end_date = [] \<or> \<not> start < end_date then Inl (Evidence ''backtest date range is missing or invalid'')
     else bindE (check_config config pair quote fee) (\<lambda>_. Inr (backtest_summary digest pair m start end_date)))))))))))"

definition verified_backtest ::
  "evidence_host \<Rightarrow> pyval \<Rightarrow> pydict \<Rightarrow> string list \<Rightarrow> pydict \<Rightarrow> string \<Rightarrow> live_error + pydict" where
  "verified_backtest h backtest active quotes prints file_hash =
     (if \<not> is_dict backtest then Inl (Evidence ''live evidence lacks backtest artifact metadata'')
      else bindE (read_artifact h (items backtest)) (\<lambda>(bytes, digest).
      bindE (read_result_document h bytes) (\<lambda>(result, config, src).
      bindE (check_embedded h prints file_hash src) (\<lambda>_.
      let stats = get (items (get result ''strategy'')) ''IctSmcStrategy'' in
      if \<not> is_dict stats then Inl (Evidence ''backtest result is not for IctSmcStrategy'')
      else check_result (eh_env h) quotes active digest (items stats) config))))"

subsection \<open>The document\<close>

definition required_assertions :: "string list" where
  "required_assertions = [''binance_spot_testnet_lifecycle_passed'', ''oracle_fourteen_day_soak_completed'',
     ''partial_fill_and_restart_drills_passed'', ''cancel_replace_ambiguity_drills_passed'',
     ''freqtrade_lookahead_analysis_passed'', ''freqtrade_recursive_analysis_passed'', ''three_clean_release_passes_completed'']"

text \<open>
  \<open>sorted(v or [])\<close> where the elements are texts: a list of texts, the keys of a
  mapping, the characters of a text. \<open>None\<close> where some element is not a text, which no
  list of quotes equals; what cannot be sorted raises.
\<close>

fun is_text :: "pyval \<Rightarrow> bool" where
  "is_text (PStr s) = True"
| "is_text _ = False"

fun is_number :: "pyval \<Rightarrow> bool" where
  "is_number (PBool b) = True"
| "is_number (PInt i) = True"
| "is_number (PFloat x) = True"
| "is_number _ = False"

definition sorted_texts :: "pyval \<Rightarrow> live_error + string list option" where
  "sorted_texts v =
     (if \<not> truthy v then Inr (Some [])
      else (case v of
        PStr s \<Rightarrow> Inr (Some (map (\<lambda>c. [c]) (sort s)))
      | PDict d \<Rightarrow> Inr (Some (sort (map fst d)))
      | PList xs \<Rightarrow>
          if list_all is_text xs then Inr (Some (sort (map pstr xs)))
          else if length xs = 1 \<or> list_all is_number xs then Inr None else Inl Crash
      | _ \<Rightarrow> Inl Crash))"

record evidence_file =
  ef_symlink :: bool
  ef_regular :: bool
  ef_size :: int
  ef_content :: json_file

definition max_evidence_bytes :: int where
  "max_evidence_bytes = 256 * 1024"

text \<open>What the deployment is: the installed release and strategy, the active pair and the allowed quotes.\<close>

record deployment =
  dp_release :: string
  dp_prints :: pydict
  dp_file_hash :: string
  dp_active :: pydict
  dp_quotes :: "string list"

definition read_evidence :: "'k crypto \<Rightarrow> evidence_host \<Rightarrow> evidence_file \<Rightarrow> pydec \<Rightarrow> pydec \<Rightarrow> live_error + pydict" where
  "read_evidence cr h f now remaining =
     (if ef_symlink f \<or> \<not> ef_regular f \<or> max_evidence_bytes < ef_size f
      then Inl (Evidence ''live evidence is missing or exceeds 256 KiB'')
      else (case ef_content f of
        Json document \<Rightarrow> (case verify_document cr (eh_env h) document ''release-certifier'' None now (Fin (Dec 30 0)) remaining of
            Inr payload \<Rightarrow> Inr payload
          | Inl _ \<Rightarrow> Inl (Evidence ''live evidence signature rejected''))
      | _ \<Rightarrow> Inl (Evidence ''live evidence signature rejected'')))"

definition check_bindings :: "evidence_host \<Rightarrow> deployment \<Rightarrow> pydict \<Rightarrow> live_error + unit" where
  "check_bindings h dp payload =
     (if pstr (get_or payload ''release_hash'' (PStr [])) \<noteq> dp_release dp
      then Inl (Evidence ''live evidence is bound to a different release hash'')
      else if \<not> same (get payload ''strategy_fingerprints'') (PDict (dp_prints dp))
      then Inl (Evidence ''strategy fingerprints do not match installed strategy'')
      else if get payload ''strategy_file_sha256'' \<noteq> PStr (dp_file_hash dp)
      then Inl (Evidence ''live evidence full-strategy binding does not match installation'')
      else if pstr (get_or payload ''active_pair_state_hash'' (PStr [])) \<noteq> pair_state_hash (eh_sha h) (dp_active dp)
      then Inl (Evidence ''live evidence is bound to a different active pair generation'')
      else bindE (sorted_texts (get payload ''allowed_stable_quotes'')) (\<lambda>quotes.
      if quotes \<noteq> Some (policy_quotes (dp_quotes dp))
      then Inl (Evidence ''live evidence stable-quote policy does not match the installation'')
      else bindE (risk_policy_sha256 (eh_sha h) (eh_env h) (dp_quotes dp)) (\<lambda>policy.
        assertE (get payload ''risk_policy_sha256'' = PStr policy)
          (Evidence ''live evidence risk-policy binding does not match deployment''))))"

definition check_assertions :: "pydict \<Rightarrow> live_error + unit" where
  "check_assertions payload =
     (let claims = get payload ''assertions'' in
      if \<not> is_dict claims then Inl (Evidence ''live evidence lacks assertions'')
      else forE (\<lambda>name. assertE (is_true (get (items claims) name)) (Evidence ''live evidence assertion not satisfied''))
        required_assertions)"

definition verify_live_evidence ::
  "'k crypto \<Rightarrow> evidence_host \<Rightarrow> deployment \<Rightarrow> evidence_file \<Rightarrow> pydec \<Rightarrow> pydec \<Rightarrow> live_error + pydict" where
  "verify_live_evidence cr h dp f now remaining =
     bindE (read_evidence cr h f now remaining) (\<lambda>payload.
     bindE (check_bindings h dp payload) (\<lambda>_.
     bindE (verified_backtest h (get payload ''freqtrade_backtest'') (dp_active dp) (dp_quotes dp) (dp_prints dp)
       (dp_file_hash dp)) (\<lambda>summary.
     if \<not> same (get payload ''verified_backtest_metrics'') (PDict summary)
     then Inl (Evidence ''signed backtest summary differs from parsed artifact metrics'')
     else bindE (check_assertions payload) (\<lambda>_.
       Inr (alist_put ''verified_backtest_metrics'' (PDict summary) payload)))))"

subsection \<open>What an accepted document proves\<close>

lemma finite_metric_Inr: "finite_metric d k = Inr x \<longleftrightarrow> map_of d k \<noteq> None \<and> to_float (the (map_of d k)) = Some (Fin x)"
  by (auto simp: finite_metric_def split: option.split pydec.split)

lemma check_trade_Inr:
  "check_trade pair fee row = Inr u \<longleftrightarrow> (\<exists>d a b. row = PDict d \<and> get d ''pair'' = PStr pair
     \<and> finite_metric d ''fee_open'' = Inr a \<and> finite_metric d ''fee_close'' = Inr b \<and> \<not> dlt a fee \<and> \<not> dlt b fee)"
  by (cases row) (auto simp: check_trade_def bindE_Inr_iff assertE_Inr_iff)

lemma check_metrics_Inr:
  "check_metrics g m = Inr u \<longleftrightarrow> (\<exists>least factor total most.
      whole (get g ''minimum_trades'') = Inr least \<and> gate_number g ''minimum_profit_factor'' = Inr factor
    \<and> gate_number g ''minimum_profit_total'' = Inr total \<and> gate_number g ''maximum_drawdown_account'' = Inr most
    \<and> least \<le> mt_trades m \<and> \<not> dle (mt_factor m) factor \<and> \<not> dle (mt_total m) total \<and> \<not> dle most (mt_drawdown m))"
  by (auto simp: check_metrics_def bindE_Inr_iff not_less)

lemma check_bindings_Inr:
  assumes "check_bindings h dp payload = Inr u"
  shows "pstr (get_or payload ''release_hash'' (PStr [])) = dp_release dp"
    "same (get payload ''strategy_fingerprints'') (PDict (dp_prints dp))"
    "get payload ''strategy_file_sha256'' = PStr (dp_file_hash dp)"
    "pstr (get_or payload ''active_pair_state_hash'' (PStr [])) = pair_state_hash (eh_sha h) (dp_active dp)"
    "sorted_texts (get payload ''allowed_stable_quotes'') = Inr (Some (policy_quotes (dp_quotes dp)))"
    "\<exists>policy. runtime_risk_policy (eh_env h) (dp_quotes dp) = Inr policy
      \<and> get payload ''risk_policy_sha256'' = PStr (eh_sha h (json_dumps policy))"
  using assms by (auto simp: check_bindings_def bindE_Inr_iff assertE_Inr_iff risk_policy_sha256_def split: if_splits)

lemma check_assertions_Inr:
  "check_assertions payload = Inr u \<Longrightarrow> \<forall>name \<in> set required_assertions. get (items (get payload ''assertions'')) name = PBool True"
  by (auto simp: check_assertions_def Let_def forE_Inr_iff assertE_Inr_iff is_true_def split: if_splits)

lemma read_evidence_Inr:
  "read_evidence cr h f now remaining = Inr payload \<Longrightarrow> \<exists>document. ef_content f = Json document
     \<and> verify_document cr (eh_env h) document ''release-certifier'' None now (Fin (Dec 30 0)) remaining = Inr payload
     \<and> ef_regular f \<and> \<not> ef_symlink f \<and> ef_size f \<le> max_evidence_bytes"
  by (auto simp: read_evidence_def split: if_splits json_file.splits sum.splits)

lemma safe_target_within: "safe_backtest_target h relative = Inr target \<Longrightarrow> within_root (eh_root h) target"
  by (auto simp: safe_backtest_target_def Let_def split: if_splits)

lemma verified_backtest_Inr:
  assumes "verified_backtest h backtest active quotes prints file_hash = Inr summary"
  shows "\<exists>target bytes result config src text embedded stats.
      safe_backtest_target h (pstr (get_or (items backtest) ''artifact_file'' (PStr []))) = Inr target
    \<and> eh_bytes h target = Some bytes \<and> eh_sha h bytes = pstr (get_or (items backtest) ''artifact_sha256'' (PStr []))
    \<and> read_result_document h bytes = Inr (result, config, src)
    \<and> eh_sha h src = file_hash \<and> eh_utf8 h src = Some text
    \<and> fingerprints_source (eh_source h) text ''IctSmcStrategy'' signal_methods = Some embedded \<and> same (PDict embedded) (PDict prints)
    \<and> get (items (get result ''strategy'')) ''IctSmcStrategy'' = PDict stats
    \<and> check_result (eh_env h) quotes active (eh_sha h bytes) stats config = Inr summary"
proof -
  obtain bytes digest where a: "read_artifact h (items backtest) = Inr (bytes, digest)"
    using assms by (auto simp: verified_backtest_def bindE_Inr_iff split: if_splits)
  obtain result config src where r: "read_result_document h bytes = Inr (result, config, src)"
    using assms a by (auto simp: verified_backtest_def bindE_Inr_iff split: if_splits)
  have c: "check_embedded h prints file_hash src = Inr ()"
    using assms a r by (auto simp: verified_backtest_def bindE_Inr_iff split: if_splits)
  obtain stats where s: "get (items (get result ''strategy'')) ''IctSmcStrategy'' = PDict stats"
      "check_result (eh_env h) quotes active digest stats config = Inr summary"
    using assms a r c
    by (cases "get (items (get result ''strategy'')) ''IctSmcStrategy''")
      (auto simp: verified_backtest_def bindE_Inr_iff Let_def split: if_splits)
  have t: "\<exists>target. safe_backtest_target h (pstr (get_or (items backtest) ''artifact_file'' (PStr []))) = Inr target
      \<and> eh_bytes h target = Some bytes \<and> eh_sha h bytes = digest
      \<and> digest = pstr (get_or (items backtest) ''artifact_sha256'' (PStr []))"
    using a by (auto simp: read_artifact_def Let_def bindE_Inr_iff split: if_splits option.splits)
  have "\<exists>text embedded. eh_utf8 h src = Some text
      \<and> fingerprints_source (eh_source h) text ''IctSmcStrategy'' signal_methods = Some embedded \<and> same (PDict embedded) (PDict prints)"
    "eh_sha h src = file_hash"
    using c by (auto simp: check_embedded_def assertE_Inr_iff split: if_splits option.splits bind_splits simp del: same.simps)
  then show ?thesis using t s r by blast
qed


text \<open>The gate of the policy, read as numbers.\<close>

definition gate_of :: "environ \<Rightarrow> string list \<Rightarrow> pydict \<Rightarrow> bool" where
  "gate_of env quotes g \<longleftrightarrow> (\<exists>policy. runtime_risk_policy env quotes = Inr policy \<and> g = items (get (items policy) ''backtest_gate''))"

lemma check_result_Inr:
  assumes "check_result env quotes active digest stats config = Inr summary"
  shows "\<exists>g m fee start end_date. gate_of env quotes g \<and> check_metrics g m = Inr () \<and> check_run stats = Inr ()
    \<and> get stats ''stake_currency'' = PStr (pstr (get_or active ''quote'' (PStr [])))
    \<and> int (length (elems (get stats ''trades''))) = mt_trades m \<and> gate_number g ''minimum_fee_per_side'' = Inr fee
    \<and> forE (check_trade (pstr (get_or active ''pair'' (PStr []))) fee) (elems (get stats ''trades'')) = Inr ()
    \<and> start < end_date \<and> check_config config (pstr (get_or active ''pair'' (PStr []))) (pstr (get_or active ''quote'' (PStr []))) fee = Inr ()
    \<and> summary = backtest_summary digest (pstr (get_or active ''pair'' (PStr []))) m start end_date"
proof -
  have *: "\<exists>m start end_date. check_metrics g m = Inr () \<and> n = mt_trades m \<and> start < end_date
      \<and> backtest_summary digest pair m0 s0 e0 = backtest_summary digest pair m start end_date"
    if "check_metrics g m0 = Inr ()" "n = mt_trades m0" "s0 < e0" for g m0 n pair s0 and e0 :: string
    using that by blast
  show ?thesis
    using assms by (auto simp: check_result_def bindE_Inr_iff Let_def gate_of_def split: if_splits) (use * in fastforce)
qed


subsection \<open>The archive\<close>

definition tame :: "archive_scan \<Rightarrow> bool" where
  "tame s \<longleftrightarrow> distinct (as_names s)
     \<and> list_all (\<lambda>n. \<not> absolute n \<and> ''..'' \<notin> set (path_parts n) \<and> CHR 0x5C \<notin> set n) (as_names s)
     \<and> as_total s \<le> 2 * max_backtest_bytes"

lemma note_entry_names [simp]: "as_names (note_entry n v s) = as_names s" "as_total (note_entry n v s) = as_total s"
  by (simp_all add: note_entry_def Let_def)

lemma scan_item_Inr:
  assumes "scan_item h i s = Inr t"
  shows "as_names t = zi_name i # as_names s \<and> as_total t = as_total s + zi_size i \<and> (tame s \<longrightarrow> tame t)
    \<and> \<not> is_symlink (zi_attr i) \<and> zi_size i \<le> max_backtest_bytes"
  using assms
  by (auto simp: scan_item_def Let_def bindE_Inr_iff tame_def split: if_splits option.splits)

lemma scan_items_Inr:
  "scan_items h is s = Inr t \<Longrightarrow> as_names t = rev (map zi_name is) @ as_names s
    \<and> as_total t = as_total s + sum_list (map zi_size is) \<and> (tame s \<longrightarrow> tame t)
    \<and> list_all (\<lambda>i. \<not> is_symlink (zi_attr i) \<and> zi_size i \<le> max_backtest_bytes) is"
proof (induction "is" arbitrary: s)
  case (Cons i "is")
  then show ?case by (fastforce simp: bindE_Inr_iff dest: scan_item_Inr)
qed simp

text \<open>C33: An artifact is read only if it is small and its archive harmless: at most 100 MiB, no symbolic link among the
  entries, every name relative, without a parent reference or a backslash and different from the others, and a declared
  expansion of at most 200 MiB.\<close>

theorem archive_read_safely:
  assumes "read_result_document h bytes = Inr (result, config, src)"
  shows "int (length bytes) \<le> 104857600 \<and> (\<exists>entries. eh_unzip h bytes = Some entries
    \<and> distinct (map zi_name entries) \<and> sum_list (map zi_size entries) \<le> 209715200
    \<and> list_all (\<lambda>i. \<not> is_symlink (zi_attr i) \<and> zi_size i \<le> 104857600 \<and> \<not> absolute (zi_name i)
        \<and> ''..'' \<notin> set (path_parts (zi_name i)) \<and> CHR 0x5C \<notin> set (zi_name i)) entries)"
proof -
  obtain entries s where e: "eh_unzip h bytes = Some entries" "scan_items h entries empty_scan = Inr s"
      "int (length bytes) \<le> max_backtest_bytes"
    using assms by (auto simp: read_result_document_def bindE_def split: if_splits option.splits sum.splits)
  have "tame empty_scan" by (simp add: tame_def empty_scan_def max_backtest_bytes_def)
  then have "tame s" "as_names s = rev (map zi_name entries)" "as_total s = sum_list (map zi_size entries)"
      "list_all (\<lambda>i. \<not> is_symlink (zi_attr i) \<and> zi_size i \<le> max_backtest_bytes) entries"
    using scan_items_Inr [OF e(2)] by (simp_all add: empty_scan_def)
  then show ?thesis
    using e(1,3) by (auto simp: tame_def list_all_iff max_backtest_bytes_def distinct_rev)
qed

subsection \<open>A promoted deployment\<close>

definition demo_digest :: string where
  "demo_digest = replicate 64 (CHR ''a'')"

definition demo_tools :: source_tools where
  "demo_tools = \<lparr>so_classes = (\<lambda>_. Some [\<lparr>cl_name = ''IctSmcStrategy'', cl_methods =
       map (\<lambda>m. \<lparr>am_name = m, am_line = 1, am_decorators = [], am_end = Some 1\<rparr>) signal_methods\<rparr>]),
     so_tokens = (\<lambda>_. Some []), so_sha = (\<lambda>_. demo_digest)\<rparr>"

definition demo_stats :: pydict where
  "demo_stats = [(''total_trades'', PInt 1), (''profit_factor'', PFloat (Fin (Dec 2 0))), (''profit_total'', PFloat (Fin (Dec 1 (-1)))),
     (''max_drawdown_account'', PFloat (Fin (Dec 5 (-2)))), (''timeframe'', PStr ''1m''), (''enable_protections'', PBool True),
     (''max_open_trades_setting'', PInt 1), (''stake_currency'', PStr ''USDT''),
     (''trades'', PList [PDict [(''pair'', PStr ''BTC/USDT''), (''fee_open'', PFloat (Fin (Dec 1 (-3)))),
        (''fee_close'', PFloat (Fin (Dec 1 (-3))))]]),
     (''backtest_start'', PStr ''2026-01-01''), (''backtest_end'', PStr ''2026-06-01'')]"

definition demo_config :: pydict where
  "demo_config = [(''exchange'', PDict [(''name'', PStr ''binance''), (''pair_whitelist'', PList [PStr ''BTC/USDT''])]),
     (''trading_mode'', PStr ''spot''), (''timeframe'', PStr ''1m''), (''strategy'', PStr ''IctSmcStrategy''),
     (''max_open_trades'', PInt 1), (''stake_currency'', PStr ''USDT''), (''enable_protections'', PBool True),
     (''fee'', PFloat (Fin (Dec 1 (-3))))]"

definition demo_result :: pydict where
  "demo_result = [(''strategy'', PDict [(''IctSmcStrategy'', PDict demo_stats)])]"

definition demo_entries :: "zip_item list" where
  "demo_entries = map (\<lambda>(n, b). \<lparr>zi_name = n, zi_attr = 2175008768, zi_size = 900, zi_bytes = Some b\<rparr>)
     [(''run.json'', ''r''), (''run_config.json'', ''c''), (''run_IctSmcStrategy.py'', ''s'')]"

definition demo_host :: evidence_host where
  "demo_host = \<lparr>eh_env = (\<lambda>n. if n = ''LIVE_MIN_BACKTEST_TRADES'' then Some ''1''
       else if n = ''LIVE_EVIDENCE_PUBLIC_KEY'' then Some ''cGs='' else None),
     eh_source = demo_tools, eh_utf8 = Some,
     eh_loads = (\<lambda>t. if t = ''r'' then Some (PDict demo_result) else if t = ''c'' then Some (PDict demo_config) else None),
     eh_unzip = (\<lambda>_. Some demo_entries), eh_root = [''runtime'', ''backtests''], eh_resolve = id,
     eh_bytes = (\<lambda>p. if p = [''runtime'', ''backtests'', ''run.zip''] then Some ''z'' else None)\<rparr>"

definition demo_prints :: pydict where
  "demo_prints = map (\<lambda>m. (m, PDict [(''source_sha256'', PStr demo_digest), (''token_sha256'', PStr demo_digest)])) signal_methods"

definition demo_deployment :: deployment where
  "demo_deployment = \<lparr>dp_release = ''r1'', dp_prints = demo_prints, dp_file_hash = demo_digest,
     dp_active = [(''pair'', PStr ''BTC/USDT''), (''quote'', PStr ''USDT'')], dp_quotes = [''USDT'']\<rparr>"

definition demo_summary :: pydict where
  "demo_summary = backtest_summary demo_digest ''BTC/USDT''
     \<lparr>mt_trades = 1, mt_factor = Dec 2 0, mt_total = Dec 1 (-1), mt_drawdown = Dec 5 (-2)\<rparr> ''2026-01-01'' ''2026-06-01''"

definition demo_claims :: pydict where
  "demo_claims = [(''release_hash'', PStr ''r1''), (''strategy_fingerprints'', PDict demo_prints),
     (''strategy_file_sha256'', PStr demo_digest), (''active_pair_state_hash'', PStr demo_digest),
     (''allowed_stable_quotes'', PList [PStr ''USDT'']), (''risk_policy_sha256'', PStr demo_digest),
     (''freqtrade_backtest'', PDict [(''artifact_sha256'', PStr demo_digest), (''artifact_file'', PStr ''run.zip'')]),
     (''verified_backtest_metrics'', PDict demo_summary),
     (''assertions'', PDict (map (\<lambda>n. (n, PBool True)) required_assertions))]"

definition certified :: pydict where
  "certified = (case sign_document demo_crypto (PDict demo_claims) ''sk'' ''release-certifier'' (PInt 3600) (Fin (Dec 1000 0)) ''n''
     of Inr d \<Rightarrow> d | Inl _ \<Rightarrow> [])"

definition demo_evidence :: evidence_file where
  "demo_evidence = \<lparr>ef_symlink = False, ef_regular = True, ef_size = 4000, ef_content = Json (PDict certified)\<rparr>"

lemma certified_signed:
  "sign_document demo_crypto (PDict demo_claims) ''sk'' ''release-certifier'' (PInt 3600) (Fin (Dec 1000 0)) ''n'' = Inr certified"
  unfolding certified_def by (simp add: sign_document_def demo_crypto_def Let_def)

lemma imported_key:
  assumes "import_public_key cr env None = Inr k"
  shows "verify_document cr env document producer None now skew margin = verify_document cr env document producer (Some k) now skew margin"
  unfolding verify_document_def option.case assms sum.case by (rule refl)

lemma demo_evidence_read: "read_evidence demo_crypto demo_host demo_evidence (Fin (Dec 2000 0)) (Fin dzero) = Inr demo_claims"
proof -
  have "import_public_key demo_crypto (eh_env demo_host) None = Inr ''pk''" by code_simp
  then have "verify_document demo_crypto (eh_env demo_host) (PDict certified) ''release-certifier'' None (Fin (Dec 2000 0))
      (Fin (Dec 30 0)) (Fin dzero) = Inr demo_claims"
    using evidence_verifies [where ttl = 3600 and current = "Dec 2000 0" and ahead = "Dec 30 0" and margin = dzero,
        OF certified_signed _ demo_keys]
    by (simp add: imported_key [of demo_crypto "eh_env demo_host" "''pk''"] dval_Dec)
  then show ?thesis by (simp add: read_evidence_def demo_evidence_def max_evidence_bytes_def)
qed

lemma demo_policy: "\<exists>policy. runtime_risk_policy (eh_env demo_host) [''USDT''] = Inr policy"
proof -
  have "case runtime_risk_policy (eh_env demo_host) [''USDT''] of Inr p \<Rightarrow> True | Inl _ \<Rightarrow> False" by code_simp
  then show ?thesis by (auto split: sum.splits)
qed

lemma demo_bound: "check_bindings demo_host demo_deployment demo_claims = Inr ()"
proof -
  have s: "eh_sha demo_host t = demo_digest" for t by (simp add: demo_host_def demo_tools_def)
  have p: "risk_policy_sha256 (eh_sha demo_host) (eh_env demo_host) [''USDT''] = Inr demo_digest"
    using demo_policy by (auto simp: risk_policy_sha256_def s)
  have f: "same (PDict demo_prints) (PDict demo_prints)" "policy_quotes [''USDT''] = [''USDT'']"
    "sorted_texts (PList [PStr ''USDT'']) = Inr (Some [''USDT''])"
    by code_simp+
  have g: "get_or demo_claims ''release_hash'' (PStr []) = PStr ''r1''" "get demo_claims ''strategy_fingerprints'' = PDict demo_prints"
    "get demo_claims ''strategy_file_sha256'' = PStr demo_digest" "get_or demo_claims ''active_pair_state_hash'' (PStr []) = PStr demo_digest"
    "get demo_claims ''allowed_stable_quotes'' = PList [PStr ''USDT'']" "get demo_claims ''risk_policy_sha256'' = PStr demo_digest"
    by (simp_all add: demo_claims_def get_def get_or_def)
  show ?thesis
    by (simp add: check_bindings_def g demo_deployment_def p f s pair_state_hash_def assertE_def del: same.simps)
qed

lemma demo_artifact: "read_artifact demo_host (items (get demo_claims ''freqtrade_backtest'')) = Inr (''z'', demo_digest)"
  by code_simp

lemma demo_archive: "read_result_document demo_host ''z'' = Inr (demo_result, demo_config, ''s'')"
  by code_simp

lemma demo_embedded: "check_embedded demo_host demo_prints demo_digest ''s'' = Inr ()"
  by code_simp

lemma demo_checked: "check_result (eh_env demo_host) [''USDT''] (dp_active demo_deployment) demo_digest demo_stats demo_config
     = Inr demo_summary"
  by code_simp

lemma demo_backtest: "verified_backtest demo_host (get demo_claims ''freqtrade_backtest'') (dp_active demo_deployment) [''USDT'']
     demo_prints demo_digest = Inr demo_summary"
proof -
  have "is_dict (get demo_claims ''freqtrade_backtest'')" by (simp add: demo_claims_def get_def get_or_def)
  moreover have "get (items (get demo_result ''strategy'')) ''IctSmcStrategy'' = PDict demo_stats"
    by (simp add: demo_result_def get_def get_or_def)
  ultimately show ?thesis
    by (simp add: verified_backtest_def demo_artifact demo_archive demo_embedded demo_checked Let_def)
qed

lemma demo_accepted: "verify_live_evidence demo_crypto demo_host demo_deployment demo_evidence (Fin (Dec 2000 0)) (Fin dzero)
     = Inr (alist_put ''verified_backtest_metrics'' (PDict demo_summary) demo_claims)"
proof -
  have "dp_quotes demo_deployment = [''USDT'']" "dp_prints demo_deployment = demo_prints" "dp_file_hash demo_deployment = demo_digest"
    by (simp_all add: demo_deployment_def)
  moreover have "same (get demo_claims ''verified_backtest_metrics'') (PDict demo_summary)" by code_simp
  moreover have "check_assertions demo_claims = Inr ()" by code_simp
  ultimately show ?thesis
    by (simp add: verify_live_evidence_def demo_evidence_read demo_bound demo_backtest del: same.simps)
qed



lemma archive_read_safely_witness:
  "\<exists>entries. eh_unzip demo_host ''z'' = Some entries \<and> distinct (map zi_name entries)"
  using archive_read_safely [OF demo_archive] by blast

end
