(* ===== verification/Quota_Ledger.thy ===== *)
theory Quota_Ledger
  imports Py_Time Effects Json_File
begin

text \<open>
  The durable request quota of the third-party providers, the class \<open>QuotaLedger\<close> of
  \<open>services/moneyflow/external_context.py\<close>: one row per provider with the attempts of the current month and
  minute, changed only inside SQLite transactions. What the file system says about a path and whether a
  connection or a transaction succeeds are arguments; a transaction that fails leaves the table as it
  was. Clock readings are the numbers Python's floats denote.
\<close>

datatype quota_error = QuotaLedgerError string | ClockOverflow

record path_facts =
  pf_parent_link :: bool
  pf_link :: bool
  pf_exists :: bool
  pf_regular :: bool
  pf_size :: "int option"

definition safe_storage_path :: "path_facts \<Rightarrow> int \<Rightarrow> quota_error + unit" where
  "safe_storage_path p maximum_bytes =
     (if pf_parent_link p then Inl (QuotaLedgerError ''storage parent must not be a symlink'')
      else if pf_link p then Inl (QuotaLedgerError ''storage file must not be a symlink'')
      else if \<not> pf_exists p then Inr ()
      else if \<not> pf_regular p then Inl (QuotaLedgerError ''storage path is not a regular file'')
      else (case pf_size p of
        None \<Rightarrow> Inl (QuotaLedgerError ''storage metadata is unavailable'')
      | Some n \<Rightarrow> assertE (n \<le> maximum_bytes) (QuotaLedgerError ''storage file exceeds size limit'')))"

record quota_row =
  qr_month :: string
  qr_month_attempts :: int
  qr_window :: int
  qr_minute_attempts :: int
  qr_next :: rat
  qr_failures :: int
  qr_status :: string

record quota_disk =
  qd_exists :: bool
  qd_marker :: json_file
  qd_rows :: "(string \<times> quota_row) list"

record quota_io =
  qi_name :: string
  qi_path :: path_facts
  qi_marker_path :: path_facts
  qi_connects :: bool
  qi_sql :: bool
  qi_intact :: bool
  qi_marker_writes :: bool

type_synonym 'a quota = "(quota_disk, quota_error, 'a) eff"

definition four_percent_below :: "int \<Rightarrow> int" where
  "four_percent_below n = n * 96 div 100"

definition allowed_providers :: "string list" where
  "allowed_providers = [''coingecko'', ''coinmarketcap'']"

definition max_ledger_bytes :: int where
  "max_ledger_bytes = 4 * 1024 * 1024"

subsection \<open>Windows of time\<close>

definition month_utc :: "rat \<Rightarrow> string option" where
  "month_utc now = map_option (\<lambda>m. take 7 (date_text (mo_utc m div day_us))) (from_timestamp now)"

definition minute_window :: "rat \<Rightarrow> int" where
  "minute_window now = \<lfloor>now / 60\<rfloor>"

subsection \<open>Opening the ledger\<close>

definition marker_value :: "string \<Rightarrow> pyval" where
  "marker_value name = PDict [(''schema_version'', PInt 1), (''quota_database'', PStr name)]"

definition validate_marker :: "quota_io \<Rightarrow> bool quota" where
  "validate_marker io =
     bindW (liftW (safe_storage_path (qi_marker_path io) 4096)) (\<lambda>_.
     bindW (getW qd_marker) (\<lambda>marker. case marker of
         Missing \<Rightarrow> returnW False
       | Unreadable \<Rightarrow> raiseW (QuotaLedgerError ''quota installation marker is corrupt'')
       | Json v \<Rightarrow> if same v (marker_value (qi_name io)) then returnW True
                    else raiseW (QuotaLedgerError ''quota installation marker is invalid'')))"

definition create_marker :: "quota_io \<Rightarrow> unit quota" where
  "create_marker io =
     bindW (validate_marker io) (\<lambda>present.
     if present then returnW ()
     else bindW (guardW (qi_marker_writes io) (QuotaLedgerError ''quota installation marker is unavailable'')) (\<lambda>_.
     modifyW (\<lambda>d. d\<lparr>qd_marker := Json (marker_value (qi_name io))\<rparr>)))"

definition connect :: "quota_io \<Rightarrow> unit quota" where
  "connect io =
     bindW (liftW (safe_storage_path (qi_path io) max_ledger_bytes)) (\<lambda>_.
     guardW (qi_connects io) (QuotaLedgerError ''quota ledger is unavailable''))"

definition initialize :: "quota_io \<Rightarrow> unit quota" where
  "initialize io =
     bindW (getW qd_exists) (\<lambda>existed.
     bindW (validate_marker io) (\<lambda>marker_existed.
     if marker_existed \<and> \<not> existed
     then raiseW (QuotaLedgerError ''quota database disappeared after initialization; refusing a zero reset'')
     else
     bindW (connect io) (\<lambda>_.
     bindW (guardW (qi_sql io) (QuotaLedgerError ''quota ledger is corrupt'')) (\<lambda>_.
     bindW (modifyW (\<lambda>d. d\<lparr>qd_exists := True\<rparr>)) (\<lambda>_.
     bindW (guardW (qi_intact io) (QuotaLedgerError ''quota ledger integrity check failed'')) (\<lambda>_.
     create_marker io))))))"

subsection \<open>Rows\<close>

definition check_caps :: "string \<Rightarrow> int \<Rightarrow> int \<Rightarrow> quota_error + unit" where
  "check_caps provider minute_cap monthly_cap =
     (if provider \<notin> set allowed_providers then Inl (QuotaLedgerError ''unsupported quota provider'')
      else assertE (1 \<le> minute_cap \<and> 1 \<le> monthly_cap) (QuotaLedgerError ''quota caps must be positive''))"

definition fresh_row :: "string \<Rightarrow> int \<Rightarrow> quota_row" where
  "fresh_row month window = \<lparr>qr_month = month, qr_month_attempts = 0, qr_window = window, qr_minute_attempts = 0,
     qr_next = 0, qr_failures = 0, qr_status = ''never''\<rparr>"

definition roll_over :: "string \<Rightarrow> int \<Rightarrow> quota_row \<Rightarrow> quota_row" where
  "roll_over month window r =
     (let r1 = (if qr_month r \<noteq> month then r\<lparr>qr_month := month, qr_month_attempts := 0\<rparr> else r) in
      if qr_window r1 \<noteq> window then r1\<lparr>qr_window := window, qr_minute_attempts := 0\<rparr> else r1)"

definition normalize_row :: "rat \<Rightarrow> quota_row option \<Rightarrow> quota_error + quota_row" where
  "normalize_row now row =
     bindE (of_option ClockOverflow (month_utc now)) (\<lambda>month.
     Inr (case row of None \<Rightarrow> fresh_row month (minute_window now) | Some r \<Rightarrow> roll_over month (minute_window now) r))"

text \<open>\<open>round(x, 3)\<close>, and what the operator sees; the \<open>None\<close>s are those of a missing ledger.\<close>

definition round3 :: "rat \<Rightarrow> rat" where
  "round3 x = of_int (round_even (x * 1000)) / 1000"

record quota_view =
  qv_month :: "string option"
  qv_month_used :: "int option"
  qv_month_cap :: int
  qv_window :: "int option"
  qv_minute_used :: "int option"
  qv_minute_cap :: int
  qv_next :: "rat option"
  qv_wait :: "rat option"

definition public_view :: "quota_row \<Rightarrow> int \<Rightarrow> int \<Rightarrow> rat \<Rightarrow> quota_view" where
  "public_view r minute_cap monthly_cap now =
     \<lparr>qv_month = Some (qr_month r), qv_month_used = Some (qr_month_attempts r), qv_month_cap = monthly_cap,
      qv_window = Some (qr_window r), qv_minute_used = Some (qr_minute_attempts r), qv_minute_cap = minute_cap,
      qv_next = Some (round3 (qr_next r)), qv_wait = Some (round3 (max 0 (qr_next r - now)))\<rparr>"

text \<open>
  One transaction: \<open>BEGIN IMMEDIATE\<close>, the row of the provider, its new value and \<open>COMMIT\<close>. A
  failing statement rolls back and raises with the text given.
\<close>

definition transaction :: "quota_io \<Rightarrow> string \<Rightarrow> string \<Rightarrow> rat \<Rightarrow> (quota_row \<Rightarrow> 'a \<times> quota_row) \<Rightarrow> 'a quota" where
  "transaction io failure provider now step =
     bindW (connect io) (\<lambda>_.
     bindW (guardW (qi_sql io) (QuotaLedgerError failure)) (\<lambda>_.
     bindW (askW (\<lambda>d. normalize_row now (map_of (qd_rows d) provider))) (\<lambda>r.
     let (x, r') = step r in
     bindW (modifyW (\<lambda>d. d\<lparr>qd_rows := alist_put provider r' (qd_rows d)\<rparr>)) (\<lambda>_. returnW x))))"

subsection \<open>Reserving and reporting\<close>

record decision =
  dc_allowed :: bool
  dc_reason :: string
  dc_quota :: quota_view

definition reserve_row :: "rat \<Rightarrow> int \<Rightarrow> int \<Rightarrow> int \<Rightarrow> quota_row \<Rightarrow> (bool \<times> string) \<times> quota_row" where
  "reserve_row now minute_cap monthly_cap interval r =
     (if now < qr_next r
      then ((False, if qr_status r \<in> {''success'', ''reserved'', ''never''} then ''refresh_wait'' else ''backoff''), r)
      else if monthly_cap \<le> qr_month_attempts r then ((False, ''monthly_quota_exhausted''), r)
      else if minute_cap \<le> qr_minute_attempts r
      then ((False, ''minute_rate_limited''),
        r\<lparr>qr_next := max (qr_next r) (of_int ((qr_window r + 1) * 60)), qr_status := ''minute_rate_limited''\<rparr>)
      else ((True, ''reserved''),
        r\<lparr>qr_month_attempts := qr_month_attempts r + 1, qr_minute_attempts := qr_minute_attempts r + 1,
          qr_next := now + of_int interval, qr_status := ''reserved''\<rparr>))"

definition reserve :: "quota_io \<Rightarrow> string \<Rightarrow> rat \<Rightarrow> int \<Rightarrow> int \<Rightarrow> int \<Rightarrow> decision quota" where
  "reserve io provider now minute_cap monthly_cap interval =
     bindW (liftW (check_caps provider minute_cap monthly_cap)) (\<lambda>_.
     transaction io ''quota reservation failed closed'' provider now (\<lambda>r.
       let ((allowed, reason), r') = reserve_row now minute_cap monthly_cap interval r in
       (\<lparr>dc_allowed = allowed, dc_reason = reason, dc_quota = public_view r' minute_cap monthly_cap now\<rparr>, r')))"

definition mark_success :: "quota_io \<Rightarrow> string \<Rightarrow> rat \<Rightarrow> int \<Rightarrow> int \<Rightarrow> int \<Rightarrow> quota_view quota" where
  "mark_success io provider now minute_cap monthly_cap interval =
     bindW (liftW (check_caps provider minute_cap monthly_cap)) (\<lambda>_.
     transaction io ''quota state update failed'' provider now (\<lambda>r.
       let r' = r\<lparr>qr_failures := 0, qr_status := ''success'', qr_next := max (qr_next r) (now + of_int interval)\<rparr> in
       (public_view r' minute_cap monthly_cap now, r')))"

definition failure_statuses :: "string list" where
  "failure_statuses = [''auth_error'', ''plan_error'', ''rate_limited'', ''provider_error'', ''transport_error'',
     ''payload_error'', ''http_error'']"

text \<open>\<open>retry_after_seconds or minimum_interval_seconds\<close>: a zero counts as absent.\<close>

definition failure_delay :: "string \<Rightarrow> int \<Rightarrow> int \<Rightarrow> int option \<Rightarrow> int" where
  "failure_delay status failures interval retry_after =
     (if status = ''auth_error'' \<or> status = ''plan_error'' then 3600
      else if status = ''rate_limited''
      then max 60 (case retry_after of None \<Rightarrow> interval | Some n \<Rightarrow> if n = 0 then interval else n)
      else min 3600 (max interval (300 * 2 ^ nat (min (failures - 1) 4))))"

definition mark_failure :: "quota_io \<Rightarrow> string \<Rightarrow> rat \<Rightarrow> int \<Rightarrow> int \<Rightarrow> string \<Rightarrow> int \<Rightarrow> int option \<Rightarrow> quota_view quota" where
  "mark_failure io provider now minute_cap monthly_cap status interval retry_after =
     bindW (liftW (check_caps provider minute_cap monthly_cap)) (\<lambda>_.
     bindW (guardW (status \<in> set failure_statuses) (QuotaLedgerError ''unsupported provider failure status'')) (\<lambda>_.
     transaction io ''quota failure state could not be persisted'' provider now (\<lambda>r.
       let failures = qr_failures r + 1;
           r' = r\<lparr>qr_failures := failures, qr_status := status,
             qr_next := max (qr_next r) (now + of_int (failure_delay status failures interval retry_after))\<rparr> in
       (public_view r' minute_cap monthly_cap now, r'))))"

definition quota_status :: "quota_io \<Rightarrow> string \<Rightarrow> rat \<Rightarrow> int \<Rightarrow> int \<Rightarrow> quota_view quota" where
  "quota_status io provider now minute_cap monthly_cap =
     bindW (liftW (check_caps provider minute_cap monthly_cap)) (\<lambda>_.
     transaction io ''quota status failed closed'' provider now (\<lambda>r. (public_view r minute_cap monthly_cap now, r)))"

subsection \<open>Counting in windows\<close>

text \<open>
  A counter that belongs to the window of the latest reading. \<open>window_inv\<close> relates it to the grants
  so far, newest first: \<open>t\<close> is the latest reading, \<open>k\<close> the window and \<open>n\<close> the counter.
\<close>

definition in_window :: "(rat \<Rightarrow> 'k) \<Rightarrow> 'k \<Rightarrow> rat list \<Rightarrow> int" where
  "in_window key k gs = int (length (List.filter (\<lambda>g. key g = k) gs))"

definition window_inv :: "(rat \<Rightarrow> 'k :: linorder) \<Rightarrow> (rat \<Rightarrow> bool) \<Rightarrow> int \<Rightarrow> rat \<Rightarrow> rat list \<Rightarrow> 'k \<Rightarrow> int \<Rightarrow> bool" where
  "window_inv key ok cap t gs k n \<longleftrightarrow> 0 \<le> n \<and> in_window key k gs \<le> n \<and> (\<forall>j. in_window key j gs \<le> cap)
     \<and> (\<forall>g \<in> set gs. key g \<le> k) \<and> (gs \<noteq> [] \<longrightarrow> ok t \<and> k \<le> key t)"

lemma in_window_simps [simp]:
  "in_window key k [] = 0" "in_window key k (g # gs) = in_window key k gs + (if key g = k then 1 else 0)"
  by (simp_all add: in_window_def)

lemma in_window_none: "\<forall>g \<in> set gs. key g \<noteq> k \<Longrightarrow> in_window key k gs = 0"
  by (induction gs) auto

locale counted_window =
  fixes key :: "rat \<Rightarrow> 'k :: linorder" and ok :: "rat \<Rightarrow> bool"
  assumes key_mono: "ok t \<Longrightarrow> ok u \<Longrightarrow> t \<le> u \<Longrightarrow> key t \<le> key u"
begin

lemma advance:
  assumes i: "window_inv key ok cap t gs k n" and u: "t \<le> u" "ok u"
  shows "window_inv key ok cap u gs (key u) (if k \<noteq> key u then 0 else n)"
proof -
  have le: "gs \<noteq> [] \<Longrightarrow> k \<le> key u"
    using i u key_mono [of t u] by (auto simp: window_inv_def)
  then have below: "\<forall>g \<in> set gs. key g \<le> key u" using i by (fastforce simp: window_inv_def)
  have "in_window key (key u) gs = 0" if "k \<noteq> key u"
  proof (rule in_window_none, rule ballI)
    fix g assume "g \<in> set gs"
    then have "gs \<noteq> []" "key g \<le> k" using i by (auto simp: window_inv_def)
    then have "key g \<le> k" "k < key u" using le that by (simp_all add: order_less_le)
    then show "key g \<noteq> key u" by auto
  qed
  then show ?thesis using i u below by (auto simp: window_inv_def)
qed

lemma advance_same: "window_inv key ok cap t gs (key u) n \<Longrightarrow> t \<le> u \<Longrightarrow> ok u \<Longrightarrow> window_inv key ok cap u gs (key u) n"
  using advance [of cap t gs "key u" n u] by simp

lemma take_one:
  assumes "window_inv key ok cap u gs (key u) n" "ok u" "n < cap"
  shows "window_inv key ok cap u (u # gs) (key u) (n + 1)"
  using assms by (auto simp: window_inv_def)

end

lemma window_start: "0 \<le> n \<Longrightarrow> 0 \<le> cap \<Longrightarrow> window_inv key ok cap t [] k n"
  by (simp add: window_inv_def)

subsection \<open>The two windows of the ledger\<close>

definition month_known :: "rat \<Rightarrow> bool" where
  "month_known t \<longleftrightarrow> month_utc t \<noteq> None"

definition month_of :: "rat \<Rightarrow> string" where
  "month_of t = the (month_utc t)"

lemma month_utc_known: "month_known t \<Longrightarrow> month_utc t = Some (month_of t)"
  by (auto simp: month_known_def month_of_def)

lemma take_mono: "s \<le> t \<Longrightarrow> take n s \<le> take n t" for s t :: string
proof (induction s arbitrary: n t)
  case (Cons c s)
  then show ?case by (cases n; cases t) auto
qed simp

lemma round_even_mono: "x \<le> y \<Longrightarrow> round_even x \<le> round_even y"
proof -
  assume le: "x \<le> y"
  then have f: "\<lfloor>x\<rfloor> \<le> \<lfloor>y\<rfloor>" by (rule floor_mono)
  show ?thesis
  proof (cases "\<lfloor>x\<rfloor> = \<lfloor>y\<rfloor>")
    case True
    then show ?thesis using le by (auto simp: round_even_def Let_def)
  next
    case False
    then show ?thesis using f by (auto simp: round_even_def Let_def)
  qed
qed

interpretation months: counted_window month_of month_known
proof
  fix t u
  assume k: "month_known t" "month_known u" "t \<le> u"
  define a b where ab: "a = epoch_us + round_even (t * 1000000)" "b = epoch_us + round_even (u * 1000000)"
  have le: "a \<le> b" using round_even_mono [of "t * 1000000" "u * 1000000"] k(3) by (simp add: ab)
  have r: "local_range a" "local_range b"
    using k(1,2) by (auto simp: month_known_def month_utc_def from_timestamp_def ab Let_def split: if_splits)
  then have "date_text (a div day_us) \<le> date_text (b div day_us)"
    using le by (intro date_text_mono) (auto simp: local_range_def day_us_def intro: zdiv_mono1)
  moreover have "month_of t = take 7 (date_text (a div day_us))" "month_of u = take 7 (date_text (b div day_us))"
    using r by (simp_all add: month_of_def month_utc_def from_timestamp_def ab Let_def mo_utc_def utc_moment_def)
  ultimately show "month_of t \<le> month_of u" by (simp add: take_mono)
qed

interpretation minutes: counted_window minute_window month_known
  by unfold_locales (auto simp: minute_window_def intro: floor_mono divide_right_mono)

subsection \<open>Runs of the ledger\<close>

text \<open>The calls a process makes for one provider, each with its own reading of the clock and its own fate of the storage.\<close>

datatype ledger_call =
    Reserve quota_io rat
  | Succeeded quota_io rat
  | Failed quota_io rat string "int option"
  | Status quota_io rat

fun clock_of :: "ledger_call \<Rightarrow> rat" where
  "clock_of (Reserve io now) = now"
| "clock_of (Succeeded io now) = now"
| "clock_of (Failed io now status retry) = now"
| "clock_of (Status io now) = now"

record quota_limits =
  ql_minute :: int
  ql_month :: int
  ql_interval :: int

definition was_granted :: "(quota_error + decision) \<times> quota_disk \<Rightarrow> bool" where
  "was_granted r = (case fst r of Inl e \<Rightarrow> False | Inr d \<Rightarrow> dc_allowed d)"

fun ledger_step :: "string \<Rightarrow> quota_limits \<Rightarrow> ledger_call \<Rightarrow> rat list \<times> quota_disk \<Rightarrow> rat list \<times> quota_disk" where
  "ledger_step p l (Reserve io now) (gs, d) =
     (let r = reserve io p now (ql_minute l) (ql_month l) (ql_interval l) d in
      (if was_granted r then now # gs else gs, snd r))"
| "ledger_step p l (Succeeded io now) (gs, d) =
     (gs, snd (mark_success io p now (ql_minute l) (ql_month l) (ql_interval l) d))"
| "ledger_step p l (Failed io now status retry) (gs, d) =
     (gs, snd (mark_failure io p now (ql_minute l) (ql_month l) status (ql_interval l) retry d))"
| "ledger_step p l (Status io now) (gs, d) = (gs, snd (quota_status io p now (ql_minute l) (ql_month l) d))"

definition run_quota :: "string \<Rightarrow> quota_limits \<Rightarrow> ledger_call list \<Rightarrow> quota_disk \<Rightarrow> rat list \<times> quota_disk" where
  "run_quota p l calls d = fold (ledger_step p l) calls ([], d)"

text \<open>The row of the provider against the grants so far.\<close>

definition row_inv :: "quota_limits \<Rightarrow> rat \<Rightarrow> rat list \<Rightarrow> quota_row option \<Rightarrow> bool" where
  "row_inv l t gs row = (case row of
       None \<Rightarrow> gs = []
     | Some r \<Rightarrow> window_inv month_of month_known (ql_month l) t gs (qr_month r) (qr_month_attempts r)
         \<and> window_inv minute_window month_known (ql_minute l) t gs (qr_window r) (qr_minute_attempts r)
         \<and> (gs \<noteq> [] \<longrightarrow> hd gs + of_int (ql_interval l) \<le> qr_next r))"

definition spaced :: "int \<Rightarrow> rat list \<Rightarrow> bool" where
  "spaced interval gs \<longleftrightarrow> successively (\<lambda>later earlier. earlier + of_int interval \<le> later) gs"

lemma normalize_row_Inr:
  assumes "normalize_row u row = Inr r"
  shows "month_known u \<and> r = (case row of None \<Rightarrow> fresh_row (month_of u) (minute_window u)
    | Some r0 \<Rightarrow> roll_over (month_of u) (minute_window u) r0)"
  using assms by (auto simp: normalize_row_def bindE_Inr_iff month_known_def month_of_def split: option.splits)

lemma roll_over_simps [simp]:
  "qr_month (roll_over m w r) = m" "qr_window (roll_over m w r) = w" "qr_next (roll_over m w r) = qr_next r"
  "qr_month_attempts (roll_over m w r) = (if qr_month r \<noteq> m then 0 else qr_month_attempts r)"
  "qr_minute_attempts (roll_over m w r) = (if qr_window r \<noteq> w then 0 else qr_minute_attempts r)"
  by (simp_all add: roll_over_def Let_def)

lemma normalized_inv:
  assumes "normalize_row u row = Inr r" "row_inv l t gs row" "t \<le> u" "0 \<le> ql_month l" "0 \<le> ql_minute l"
  shows "row_inv l u gs (Some r) \<and> month_known u \<and> qr_month r = month_of u \<and> qr_window r = minute_window u"
proof (cases row)
  case None
  then show ?thesis using normalize_row_Inr [OF assms(1)] assms(2,4,5)
    by (auto simp: row_inv_def fresh_row_def intro: window_start)
next
  case (Some r0)
  then show ?thesis using normalize_row_Inr [OF assms(1)] assms(2,3) months.advance [of _ t gs _ _ u] minutes.advance [of _ t gs _ _ u]
    by (auto simp: row_inv_def)
qed

subsection \<open>One call\<close>

lemma transaction_row:
  assumes "transaction io why p u step d = (r, d')"
  shows "(d' = d \<and> (\<exists>e. r = Inl e)) \<or> (\<exists>row x row'. normalize_row u (map_of (qd_rows d) p) = Inr row \<and> step row = (x, row')
    \<and> r = Inr x \<and> map_of (qd_rows d') p = Some row')"
  using assms by (auto simp: transaction_def connect_def eff_eval map_of_alist_put Let_def split: if_splits sum.splits prod.splits)

lemma reserve_row_inv:
  assumes "row_inv l u gs (Some r)" "month_known u" "qr_month r = month_of u" "qr_window r = minute_window u"
    and "reserve_row u (ql_minute l) (ql_month l) (ql_interval l) r = ((allowed, why), r')"
  shows "row_inv l u (if allowed then u # gs else gs) (Some r') \<and> (allowed \<longrightarrow> gs \<noteq> [] \<longrightarrow> hd gs + of_int (ql_interval l) \<le> u)"
  using assms months.take_one [of "ql_month l" u gs "qr_month_attempts r"] minutes.take_one [of "ql_minute l" u gs "qr_minute_attempts r"]
  by (auto simp: row_inv_def reserve_row_def split: if_splits)

lemma row_inv_later: "row_inv l u gs (Some r) \<Longrightarrow> qr_next r \<le> x \<Longrightarrow>
    row_inv l u gs (Some (r\<lparr>qr_failures := f, qr_status := st, qr_next := x\<rparr>))"
  by (auto simp: row_inv_def)


lemma disk_step_inv:
  assumes "transaction io why p u step d = (r, d')"
    and "row_inv l t gs (map_of (qd_rows d) p)" "t \<le> u" "0 \<le> ql_month l" "0 \<le> ql_minute l"
    and step: "\<And>row. row_inv l u gs (Some row) \<Longrightarrow> month_known u \<Longrightarrow> qr_month row = month_of u \<Longrightarrow>
      qr_window row = minute_window u \<Longrightarrow> row_inv l u gs' (Some (snd (step row))) \<and> Q (fst (step row))"
  shows "(\<exists>e. r = Inl e) \<and> d' = d \<or> (\<exists>x. r = Inr x \<and> Q x) \<and> row_inv l u gs' (map_of (qd_rows d') p)"
  using transaction_row [OF assms(1)] normalized_inv [OF _ assms(2,3,4,5)] step by fastforce

definition ledger_inv :: "string \<Rightarrow> quota_limits \<Rightarrow> rat \<Rightarrow> rat list \<times> quota_disk \<Rightarrow> bool" where
  "ledger_inv p l t st \<longleftrightarrow> row_inv l t (fst st) (map_of (qd_rows (snd st)) p) \<and> spaced (ql_interval l) (fst st)"

lemma lifted_transaction:
  assumes "bindW (liftW c) (\<lambda>_. m) d = (r, d')"
  shows "(\<exists>e. r = Inl e) \<and> d' = d \<or> m d = (r, d')"
  using assms by (auto simp: eff_eval split: sum.splits)

lemma guarded_transaction:
  assumes "bindW (guardW b e) (\<lambda>_. m) d = (r, d')"
  shows "(\<exists>e. r = Inl e) \<and> d' = d \<or> m d = (r, d')"
  using assms by (auto simp: eff_eval split: if_splits)

lemma reserve_inv:
  assumes "reserve io p u (ql_minute l) (ql_month l) (ql_interval l) d = (r, d')"
    and i: "row_inv l t gs (map_of (qd_rows d) p)" "t \<le> u" "0 \<le> ql_month l" "0 \<le> ql_minute l"
  shows "(\<exists>e. r = Inl e) \<and> d' = d \<or> (\<exists>x. r = Inr x \<and> row_inv l u (if dc_allowed x then u # gs else gs) (map_of (qd_rows d') p)
    \<and> (dc_allowed x \<longrightarrow> gs \<noteq> [] \<longrightarrow> hd gs + of_int (ql_interval l) \<le> u))"
proof -
  let ?step = "\<lambda>r. let ((allowed, reason), r') = reserve_row u (ql_minute l) (ql_month l) (ql_interval l) r in
    (\<lparr>dc_allowed = allowed, dc_reason = reason, dc_quota = public_view r' (ql_minute l) (ql_month l) u\<rparr>, r')"
  from lifted_transaction [OF assms(1) [unfolded reserve_def]] show ?thesis
  proof
    assume "transaction io ''quota reservation failed closed'' p u ?step d = (r, d')"
    from transaction_row [OF this] show ?thesis
    proof
      assume "\<exists>row x row'. normalize_row u (map_of (qd_rows d) p) = Inr row \<and> ?step row = (x, row')
        \<and> r = Inr x \<and> map_of (qd_rows d') p = Some row'"
      then obtain row x row' where n: "normalize_row u (map_of (qd_rows d) p) = Inr row" "?step row = (x, row')"
          "r = Inr x" "map_of (qd_rows d') p = Some row'" by blast
      obtain a why r1 where "reserve_row u (ql_minute l) (ql_month l) (ql_interval l) row = ((a, why), r1)"
        by (metis prod.exhaust)
      then have s: "normalize_row u (map_of (qd_rows d) p) = Inr row"
          "reserve_row u (ql_minute l) (ql_month l) (ql_interval l) row = ((a, why), row')"
          "r = Inr \<lparr>dc_allowed = a, dc_reason = why, dc_quota = public_view row' (ql_minute l) (ql_month l) u\<rparr>"
          "map_of (qd_rows d') p = Some row'" using n by (auto simp: Let_def)
      then show ?thesis using normalized_inv [OF s(1) i] reserve_row_inv [OF _ _ _ _ s(2), of gs] by auto
    qed auto
  qed auto
qed

lemma mark_inv:
  assumes "transaction io why p u (\<lambda>row. (view row, row\<lparr>qr_failures := f row, qr_status := s row, qr_next := max (qr_next row) (x row)\<rparr>)) d = (r, d')"
    and "row_inv l t gs (map_of (qd_rows d) p)" "t \<le> u" "0 \<le> ql_month l" "0 \<le> ql_minute l"
  shows "(\<exists>e. r = Inl e) \<and> d' = d \<or> row_inv l u gs (map_of (qd_rows d') p)"
proof -
  have "row_inv l u gs (Some row) \<Longrightarrow> row_inv l u gs (Some (row\<lparr>qr_failures := f row, qr_status := s row, qr_next := max (qr_next row) (x row)\<rparr>))" for row
    by (rule row_inv_later) simp_all
  then show ?thesis using disk_step_inv [OF assms, of gs "\<lambda>_. True"] by auto
qed

lemma ledger_step_inv:
  assumes "ledger_inv p l t st" "t \<le> clock_of c" "0 \<le> ql_month l" "0 \<le> ql_minute l"
  shows "ledger_inv p l t (ledger_step p l c st) \<or> ledger_inv p l (clock_of c) (ledger_step p l c st)"
proof (cases st)
  case (Pair gs d)
  have i: "row_inv l t gs (map_of (qd_rows d) p)" and sp: "spaced (ql_interval l) gs"
    using assms(1) by (simp_all add: ledger_inv_def Pair)
  show ?thesis
  proof (cases c)
    case (Reserve io u)
    obtain r d' where r: "reserve io p u (ql_minute l) (ql_month l) (ql_interval l) d = (r, d')" by fastforce
    from reserve_inv [OF r i] sp assms(2-4) i show ?thesis
      by (cases gs) (auto simp: Reserve Pair ledger_inv_def was_granted_def r Let_def spaced_def)
  next
    case (Succeeded io u)
    obtain r d' where r: "mark_success io p u (ql_minute l) (ql_month l) (ql_interval l) d = (r, d')" by fastforce
    have "(\<exists>e. r = Inl e) \<and> d' = d \<or> row_inv l u gs (map_of (qd_rows d') p)"
      using lifted_transaction [OF r [unfolded mark_success_def Let_def]] mark_inv [OF _ i] assms(2-4) by (fastforce simp: Succeeded)
    then show ?thesis using i sp by (auto simp: Succeeded Pair ledger_inv_def r)
  next
    case (Failed io u s a)
    obtain r d' where r: "mark_failure io p u (ql_minute l) (ql_month l) s (ql_interval l) a d = (r, d')" by fastforce
    have "(\<exists>e. r = Inl e) \<and> d' = d \<or> row_inv l u gs (map_of (qd_rows d') p)"
      using lifted_transaction [OF r [unfolded mark_failure_def Let_def]] guarded_transaction mark_inv [OF _ i] assms(2-4)
      by (fastforce simp: Failed)
    then show ?thesis using i sp by (auto simp: Failed Pair ledger_inv_def r)
  next
    case (Status io u)
    obtain r d' where r: "quota_status io p u (ql_minute l) (ql_month l) d = (r, d')" by fastforce
    have "(\<exists>e. r = Inl e) \<and> d' = d \<or> row_inv l u gs (map_of (qd_rows d') p)"
      using lifted_transaction [OF r [unfolded quota_status_def]] disk_step_inv [OF _ i, where gs' = gs and Q = "\<lambda>_. True"] assms(2-4)
      by (fastforce simp: Status)
    then show ?thesis using i sp by (auto simp: Status Pair ledger_inv_def r)
  qed
qed

lemma fold_ledger_inv:
  assumes "ledger_inv p l t st" "\<forall>c \<in> set calls. t \<le> clock_of c" "sorted (map clock_of calls)" "0 \<le> ql_month l" "0 \<le> ql_minute l"
  shows "\<exists>t'. ledger_inv p l t' (fold (ledger_step p l) calls st)"
  using assms
proof (induction calls arbitrary: t st)
  case (Cons c cs)
  then have "\<exists>t'. ledger_inv p l t' (ledger_step p l c st) \<and> t' \<le> clock_of c"
    using ledger_step_inv [of p l t st c] by fastforce
  then obtain t' where t: "ledger_inv p l t' (ledger_step p l c st)" "t' \<le> clock_of c" by blast
  have "\<forall>c' \<in> set cs. t' \<le> clock_of c'" using t(2) Cons.prems(3) by fastforce
  then show ?case using Cons.IH [OF t(1)] Cons.prems by simp
qed auto

text \<open>However the calls for a provider succeed or fail, and whatever the storage does, the ledger grants at most the
  monthly cap of reservations in each calendar month and at most the minute cap in each minute, and two
  successive grants lie at least the refresh interval apart, as long as the clock does not run backwards. The ledger
  may be an old one: its counters only have to be the non-negative numbers its table admits.\<close>

theorem quota_never_exceeded:
  assumes "sorted (map clock_of calls)" "0 \<le> ql_month l" "0 \<le> ql_minute l"
    and "\<forall>r. map_of (qd_rows d) p = Some r \<longrightarrow> 0 \<le> qr_month_attempts r \<and> 0 \<le> qr_minute_attempts r"
  shows "(\<forall>m. in_window month_of m (fst (run_quota p l calls d)) \<le> ql_month l)
    \<and> (\<forall>w. in_window minute_window w (fst (run_quota p l calls d)) \<le> ql_minute l)
    \<and> spaced (ql_interval l) (fst (run_quota p l calls d))"
proof -
  define t where "t = (case calls of [] \<Rightarrow> 0 | c # cs \<Rightarrow> clock_of c)"
  have t: "\<forall>c \<in> set calls. t \<le> clock_of c" using assms(1) by (cases calls) (auto simp: t_def)
  have "ledger_inv p l t ([], d)"
    using assms(2-4) by (auto simp: ledger_inv_def row_inv_def spaced_def intro: window_start split: option.splits)
  from fold_ledger_inv [OF this t assms(1-3)] obtain t' where i: "ledger_inv p l t' (run_quota p l calls d)"
    by (auto simp: run_quota_def)
  then show ?thesis
    using assms(2,3) by (auto simp: ledger_inv_def row_inv_def window_inv_def split: option.splits)
qed

definition calm_path :: path_facts where
  "calm_path = \<lparr>pf_parent_link = False, pf_link = False, pf_exists = True, pf_regular = True, pf_size = Some 8192\<rparr>"

definition calm_io :: quota_io where
  "calm_io = \<lparr>qi_name = ''quota.sqlite3'', qi_path = calm_path, qi_marker_path = calm_path\<lparr>pf_size := Some 60\<rparr>, qi_connects = True, qi_sql = True,
     qi_intact = True, qi_marker_writes = True\<rparr>"

definition empty_ledger :: quota_disk where
  "empty_ledger = \<lparr>qd_exists = True, qd_marker = Json (marker_value ''quota.sqlite3''), qd_rows = []\<rparr>"

definition small_limits :: quota_limits where
  "small_limits = \<lparr>ql_minute = 1, ql_month = 2, ql_interval = 10\<rparr>"

definition busy_minute :: "ledger_call list" where
  "busy_minute = [Reserve calm_io 0, Succeeded calm_io 1, Reserve calm_io 30, Reserve calm_io 90, Reserve calm_io 300]"

lemma busy_minute_grants: "fst (run_quota ''coingecko'' small_limits busy_minute empty_ledger) = [90, 0]"
  by code_simp

theorem quota_never_exceeded_witness:
  "(\<forall>m. in_window month_of m (fst (run_quota ''coingecko'' small_limits busy_minute empty_ledger)) \<le> 2)
    \<and> fst (run_quota ''coingecko'' small_limits busy_minute empty_ledger) = [90, 0]"
  using quota_never_exceeded [of busy_minute small_limits empty_ledger "''coingecko''"] busy_minute_grants
  by (simp add: busy_minute_def small_limits_def empty_ledger_def)

subsection \<open>A lost ledger\<close>

lemma validate_marker_cases: "validate_marker io d = (r, d') \<Longrightarrow> d' = d \<and> (r = Inr True \<longrightarrow> qd_marker d \<noteq> Missing)"
  by (auto simp: validate_marker_def eff_eval split: sum.splits json_file.splits if_splits)

lemma marker_refused:
  assumes "qd_marker d \<noteq> Missing"
  shows "fst (validate_marker io d) \<noteq> Inr False" "snd (validate_marker io d) = d"
  using assms by (auto simp: validate_marker_def eff_eval split: sum.splits json_file.splits if_splits)

lemma initialized_marker:
  assumes "initialize io d = (Inr (), d1)"
  shows "qd_marker d1 \<noteq> Missing"
  using assms validate_marker_cases [of io]
  by (fastforce simp: initialize_def create_marker_def eff_eval split: sum.splits prod.splits if_splits)

text \<open>C16: After a ledger was opened once, a database that is gone is never replaced by a fresh one with zero counters:
  every later start raises and leaves what is stored as it is, whatever else happens to the storage but the marker.\<close>

theorem lost_ledger_is_refused:
  assumes "initialize io d = (Inr (), d1)" "qd_marker d2 = qd_marker d1" "\<not> qd_exists d2"
  shows "\<exists>e. initialize io' d2 = (Inl e, d2)"
proof -
  have m: "qd_marker d2 \<noteq> Missing" using initialized_marker [OF assms(1)] assms(2) by simp
  obtain r d3 where r: "validate_marker io' d2 = (r, d3)" by fastforce
  then have "r \<noteq> Inr False" "d3 = d2" using marker_refused [OF m, of io'] by simp_all
  then show ?thesis using r assms(3)
    by (cases r) (auto simp: initialize_def bindW_def getW_def raiseW_def)
qed

theorem lost_ledger_is_refused_witness:
  "\<exists>d1 e. initialize calm_io (empty_ledger\<lparr>qd_exists := False, qd_marker := Missing\<rparr>) = (Inr (), d1)
     \<and> initialize calm_io (d1\<lparr>qd_exists := False\<rparr>) = (Inl e, d1\<lparr>qd_exists := False\<rparr>)"
proof -
  obtain d1 where d: "initialize calm_io (empty_ledger\<lparr>qd_exists := False, qd_marker := Missing\<rparr>) = (Inr (), d1)"
    by (simp add: initialize_def validate_marker_def create_marker_def connect_def safe_storage_path_def calm_io_def calm_path_def
      empty_ledger_def max_ledger_bytes_def eff_eval)
  show ?thesis using d lost_ledger_is_refused [OF d, of "d1\<lparr>qd_exists := False\<rparr>" calm_io] by auto
qed

end
