(* ===== verification/Provider_Client.thy ===== *)
theory Provider_Client
  imports Risk_Checks
begin

text \<open>
  The two third-party quote clients, \<open>services/moneyflow/external_clients.py\<close>: one GET each for
  the price of Bitcoin, a bounded read of the answer and its normalisation. The network is an
  argument (\<open>response\<close>, or no answer at all), and so are \<open>json.loads\<close> on the decoded bytes and the
  parser of HTTP dates, which gives the moment as seconds since the epoch. \<open>OtherProviderExn\<close> stands for
  an exception that is none of the client's own.
\<close>

datatype provider_error = HttpStatus int "int option" | TransportFailed | BadPayload string | OtherProviderExn

record response =
  rs_status :: int
  rs_retry :: "string option"
  rs_length :: "string option"
  rs_chunks :: "string list"
  rs_complete :: bool

record provider_tools =
  pt_loads :: "string \<Rightarrow> pyval option"
  pt_date :: "string \<Rightarrow> rat option"

definition max_response_bytes :: int where
  "max_response_bytes = 64 * 1024"

subsection \<open>Reading an answer\<close>

definition retry_seconds :: "(string \<Rightarrow> rat option) \<Rightarrow> rat \<Rightarrow> string option \<Rightarrow> int option" where
  "retry_seconds date now value =
     (case value of
        None \<Rightarrow> None
      | Some s \<Rightarrow>
          if s = [] then None
          else (case parse_int (strip s) of
            Some n \<Rightarrow> Some (max 0 (min n 86400))
          | None \<Rightarrow> map_option (\<lambda>t. max 0 (min \<lceil>t - now\<rceil> 86400)) (date s)))"

fun read_body :: "string \<Rightarrow> string list \<Rightarrow> provider_error + string" where
  "read_body acc [] = Inr acc"
| "read_body acc (c # cs) =
     (if max_response_bytes < int (length (acc @ c)) then Inl (BadPayload ''provider response exceeds size limit'')
      else read_body (acc @ c) cs)"

definition check_length :: "string option \<Rightarrow> provider_error + unit" where
  "check_length header =
     (case header of
        None \<Rightarrow> Inr ()
      | Some s \<Rightarrow>
          if s = [] then Inr ()
          else (case parse_int s of
            None \<Rightarrow> Inl (BadPayload ''provider returned invalid content length'')
          | Some n \<Rightarrow> assertE (n \<le> max_response_bytes) (BadPayload ''provider response exceeds size limit'')))"

definition read_json_response :: "provider_tools \<Rightarrow> rat \<Rightarrow> response \<Rightarrow> provider_error + pyval" where
  "read_json_response t now r =
     (if rs_status r \<noteq> 200 then Inl (HttpStatus (rs_status r) (retry_seconds (pt_date t) now (rs_retry r)))
      else
      bindE (check_length (rs_length r)) (\<lambda>_.
      bindE (read_body [] (rs_chunks r)) (\<lambda>payload.
      if \<not> rs_complete r then Inl OtherProviderExn
      else (case pt_loads t payload of
        None \<Rightarrow> Inl (BadPayload ''provider returned malformed JSON'')
      | Some v \<Rightarrow> if is_dict v \<or> is_list v then Inr v
                  else Inl (BadPayload ''provider response root must be an object or array'')))))"

text \<open>\<open>_JsonTransport.get\<close>; \<open>None\<close> where the request itself fails.\<close>

definition transport_get :: "provider_tools \<Rightarrow> rat \<Rightarrow> response option \<Rightarrow> provider_error + pyval" where
  "transport_get t now answer = (case answer of None \<Rightarrow> Inl TransportFailed | Some r \<Rightarrow> read_json_response t now r)"

subsection \<open>Normalisation\<close>

text \<open>
  A number from \<open>2 ^ 1024 - 2 ^ 970\<close> on is an infinity as a float; converting such an \<open>int\<close>
  raises the \<open>OverflowError\<close> that \<open>_number\<close> does not catch.
\<close>

definition float_range :: "dec \<Rightarrow> bool" where
  "float_range d \<longleftrightarrow> dlt (Dec (- (2 ^ 1024 - 2 ^ 970)) 0) d \<and> dlt d (Dec (2 ^ 1024 - 2 ^ 970) 0)"

definition bounded_number :: "dec option \<Rightarrow> dec option \<Rightarrow> dec \<Rightarrow> bool" where
  "bounded_number lo hi d \<longleftrightarrow> float_range d \<and> (case lo of None \<Rightarrow> True | Some a \<Rightarrow> \<not> dlt d a) \<and> (case hi of None \<Rightarrow> True | Some b \<Rightarrow> \<not> dlt b d)"

fun is_bool :: "pyval \<Rightarrow> bool" where
  "is_bool (PBool b) = True"
| "is_bool _ = False"

definition number :: "dec option \<Rightarrow> dec option \<Rightarrow> pyval \<Rightarrow> provider_error + pyval" where
  "number lo hi v =
     (if is_bool v then Inl (BadPayload ''must be numeric'')
      else (case to_float v of
        None \<Rightarrow> Inl (BadPayload ''must be numeric'')
      | Some (Fin d) \<Rightarrow>
          if \<not> float_range d then Inl (if is_int v then OtherProviderExn else BadPayload ''must be finite'')
          else if bounded_number lo hi d then Inr (PFloat (Fin d)) else Inl (BadPayload ''is outside its safe range'')
      | Some _ \<Rightarrow> Inl (BadPayload ''must be finite'')))"

definition iso_epoch :: "pyval \<Rightarrow> provider_error + pyval" where
  "iso_epoch v =
     (case from_iso (expand_z (pstr v)) of
        None \<Rightarrow> Inl (BadPayload ''must be an ISO-8601 timestamp'')
      | Some m \<Rightarrow> number (Some (Dec 1 0)) None (PFloat (Fin (Dec (mo_utc m - epoch_us) (-6)))))"

definition metric_bounds :: "string \<Rightarrow> dec option \<times> dec option" where
  "metric_bounds k =
     (if k = ''price_usd'' then (Some (Dec 1 (-8)), None)
      else if k = ''percent_change_24h'' then (Some (Dec (-100) 0), Some (Dec 1000000 0))
      else if k = ''source_updated_at_epoch'' then (Some (Dec 1 0), None)
      else (Some dzero, None))"

text \<open>The fields in order; the first that is out of its range refuses the quote.\<close>

definition normalized_metrics :: "(string \<times> pyval) list \<Rightarrow> provider_error + pydict" where
  "normalized_metrics = mapE (\<lambda>(k, v). bindE (number (fst (metric_bounds k)) (snd (metric_bounds k)) v) (\<lambda>n. Inr (k, n)))"

definition metric_names :: "string list" where
  "metric_names = [''price_usd'', ''market_cap_usd'', ''volume_24h_usd'', ''percent_change_24h'', ''source_updated_at_epoch'']"

definition identity_of :: "string \<Rightarrow> pydict" where
  "identity_of provider =
     [(''id'', if provider = ''coingecko'' then PStr ''bitcoin'' else PInt 1), (''symbol'', PStr ''BTC''), (''name'', PStr ''Bitcoin'')]"

definition quote_data :: "string \<Rightarrow> pydict \<Rightarrow> pydict" where
  "quote_data provider metrics = (''identity'', PDict (identity_of provider)) # metrics"

subsection \<open>CoinGecko\<close>

text \<open>What leaves: address, parameters and headers.\<close>

record outgoing =
  og_url :: string
  og_params :: "(string \<times> string) list"
  og_headers :: "(string \<times> string) list"

definition common_headers :: "(string \<times> string) list" where
  "common_headers = [(''Accept'', ''application/json''), (''User-Agent'', ''bitcoin-bot-external-context/1.0'')]"

definition coingecko_request :: "string \<Rightarrow> outgoing" where
  "coingecko_request key =
     \<lparr>og_url = ''https://api.coingecko.com/api/v3/simple/price'',
      og_params = [(''ids'', ''bitcoin''), (''vs_currencies'', ''usd''), (''include_market_cap'', ''true''),
        (''include_24hr_vol'', ''true''), (''include_24hr_change'', ''true''), (''include_last_updated_at'', ''true'')],
      og_headers = common_headers @ (if key = ''__KEYLESS_PUBLIC__'' then [] else [(''x-cg-demo-api-key'', key)])\<rparr>"

definition coingecko_quote :: "pyval \<Rightarrow> provider_error + pydict" where
  "coingecko_quote payload =
     (let d = items payload; row = items (get d ''bitcoin'') in
      if \<not> is_dict payload then Inl (BadPayload ''CoinGecko response root must be an object'')
      else if d = [] \<or> \<not> list_all (\<lambda>(k, v). k = ''bitcoin'') d \<or> \<not> is_dict (get d ''bitcoin'')
      then Inl (BadPayload ''CoinGecko identity mismatch'')
      else bindE (normalized_metrics (zip metric_names
          [get row ''usd'', get row ''usd_market_cap'', get row ''usd_24h_vol'', get row ''usd_24h_change'',
           get row ''last_updated_at''])) (\<lambda>m.
        Inr (quote_data ''coingecko'' m)))"

subsection \<open>CoinMarketCap\<close>

definition coinmarketcap_request :: "string \<Rightarrow> outgoing" where
  "coinmarketcap_request key =
     \<lparr>og_url = ''https://pro-api.coinmarketcap.com/v3/cryptocurrency/quotes/latest'',
      og_params = [(''id'', ''1''), (''convert'', ''USD'')],
      og_headers = common_headers @ [(''X-CMC_PRO_API_KEY'', key)]\<rparr>"

text \<open>\<open>type(code) is int\<close> excludes booleans and floats.\<close>

definition status_ok :: "pyval \<Rightarrow> bool" where
  "status_ok status \<longleftrightarrow> is_dict status \<and> get (items status) ''error_code'' \<in> {PInt 0, PStr ''0''}"

definition is_bitcoin_row :: "pydict \<Rightarrow> bool" where
  "is_bitcoin_row row \<longleftrightarrow> py_eq (get row ''id'') (PInt 1) \<and> upper (pstr (get_or row ''symbol'' (PStr []))) = ''BTC''
     \<and> lower (pstr (get_or row ''slug'' (PStr []))) = ''bitcoin'' \<and> lower (pstr (get_or row ''name'' (PStr []))) = ''bitcoin''"

definition coinmarketcap_quote :: "pyval \<Rightarrow> provider_error + pydict" where
  "coinmarketcap_quote payload =
     (if \<not> is_dict payload then Inl (BadPayload ''CoinMarketCap response is malformed'')
      else if \<not> status_ok (get (items payload) ''status'') then Inl (BadPayload ''CoinMarketCap request status is not successful'')
      else (case get (items payload) ''data'' of
        PList [r] \<Rightarrow>
          let row = items r in
          if \<not> is_dict r then Inl (BadPayload ''CoinMarketCap Bitcoin row is malformed'')
          else if \<not> is_bitcoin_row row then Inl (BadPayload ''CoinMarketCap identity mismatch'')
          else (case get row ''quote'' of
            PList [x] \<Rightarrow>
              let q = items x in
              if \<not> is_dict x then Inl (BadPayload ''CoinMarketCap USD quote is malformed'')
              else if upper (pstr (get_or q ''symbol'' (PStr []))) \<noteq> ''USD'' then Inl (BadPayload ''CoinMarketCap USD quote mismatch'')
              else bindE (iso_epoch (get q ''last_updated'')) (\<lambda>updated.
                bindE (normalized_metrics (zip metric_names
                  [get q ''price'', get q ''market_cap'', get q ''volume_24h'', get q ''percent_change_24h'', updated])) (\<lambda>m.
                Inr (quote_data ''coinmarketcap'' m)))
          | _ \<Rightarrow> Inl (BadPayload ''CoinMarketCap USD quote mismatch''))
      | _ \<Rightarrow> Inl (BadPayload ''CoinMarketCap identity mismatch'')))"

definition fetch_bitcoin_usd :: "provider_tools \<Rightarrow> string \<Rightarrow> rat \<Rightarrow> response option \<Rightarrow> provider_error + pydict" where
  "fetch_bitcoin_usd t provider now answer =
     bindE (transport_get t now answer) (if provider = ''coingecko'' then coingecko_quote else coinmarketcap_quote)"

subsection \<open>What a quote is\<close>

text \<open>A normalised quote: the fixed identity and five finite numbers inside their ranges.\<close>

definition sound_quote :: "string \<Rightarrow> pydict \<Rightarrow> bool" where
  "sound_quote provider d \<longleftrightarrow> map fst d = ''identity'' # metric_names \<and> get d ''identity'' = PDict (identity_of provider)
     \<and> list_all (\<lambda>k. case get d k of PFloat (Fin x) \<Rightarrow> bounded_number (fst (metric_bounds k)) (snd (metric_bounds k)) x
         | _ \<Rightarrow> False) metric_names"

lemma number_Inr: "number lo hi v = Inr w \<Longrightarrow> \<exists>d. w = PFloat (Fin d) \<and> bounded_number lo hi d"
  by (auto simp: number_def split: if_splits option.splits pydec.splits)

lemma number_again: "bounded_number lo hi d \<Longrightarrow> number lo hi (PFloat (Fin d)) = Inr (PFloat (Fin d))"
  by (simp add: number_def bounded_number_def)

lemma normalized_metrics_Inr:
  assumes "normalized_metrics kvs = Inr m"
  shows "list_all2 (\<lambda>(k, v) (k', w). k' = k \<and> (\<exists>d. w = PFloat (Fin d)
    \<and> bounded_number (fst (metric_bounds k)) (snd (metric_bounds k)) d)) kvs m"
  using mapE_Inr_list_all2 [THEN iffD1, OF assms [unfolded normalized_metrics_def]]
  by (rule list.rel_mono_strong) (auto simp: bindE_Inr_iff dest: number_Inr)

lemma five_metrics:
  assumes "normalized_metrics (zip metric_names [a, b, c, d, e]) = Inr m"
  shows "sound_quote provider (quote_data provider m)"
  using normalized_metrics_Inr [OF assms]
  by (auto simp: metric_names_def list_all2_Cons1 sound_quote_def quote_data_def get_def get_or_def)

text \<open>
  Whatever a provider answers, the client either refuses or returns a quote of exactly Bitcoin in US dollars: the fixed
  identity of the provider and five finite numbers, each inside its range.
\<close>

lemma fetched_quote:
  assumes "fetch_bitcoin_usd t provider now answer = Inr d" "provider \<in> {''coingecko'', ''coinmarketcap''}"
  shows "sound_quote provider d"
proof -
  obtain payload where p: "provider = ''coingecko'' \<Longrightarrow> coingecko_quote payload = Inr d"
      "provider \<noteq> ''coingecko'' \<Longrightarrow> coinmarketcap_quote payload = Inr d"
    using assms(1) by (auto simp: fetch_bitcoin_usd_def bindE_Inr_iff split: if_splits)
  show ?thesis
  proof (cases "provider = ''coingecko''")
    case True
    then show ?thesis using p(1) by (auto simp: coingecko_quote_def Let_def bindE_Inr_iff intro: five_metrics split: if_splits)
  next
    case False
    then have "provider = ''coinmarketcap''" using assms(2) by simp
    then show ?thesis using p(2)
      by (auto simp: coinmarketcap_quote_def Let_def bindE_Inr_iff intro: five_metrics split: if_splits pyval.splits list.splits)
  qed
qed

definition spot_price_body :: pyval where
  "spot_price_body = PDict [(''bitcoin'', PDict [(''usd'', PInt 64000), (''usd_market_cap'', PFloat (Fin (Dec 12 11))),
     (''usd_24h_vol'', PInt 30000000), (''usd_24h_change'', PFloat (Fin (Dec (-15) (-1)))), (''last_updated_at'', PInt 1700000000)])]"

definition canned_tools :: provider_tools where
  "canned_tools = \<lparr>pt_loads = (\<lambda>_. Some spot_price_body), pt_date = (\<lambda>_. None)\<rparr>"

definition plain_answer :: response where
  "plain_answer = \<lparr>rs_status = 200, rs_retry = None, rs_length = Some ''120'', rs_chunks = [''{'', ''}''], rs_complete = True\<rparr>"

definition spot_price_quote :: pydict where
  "spot_price_quote = quote_data ''coingecko'' (zip metric_names [PFloat (Fin (Dec 64000 0)), PFloat (Fin (Dec 12 11)),
     PFloat (Fin (Dec 30000000 0)), PFloat (Fin (Dec (-15) (-1))), PFloat (Fin (Dec 1700000000 0))])"

lemma spot_price_fetched: "fetch_bitcoin_usd canned_tools ''coingecko'' 0 (Some plain_answer) = Inr spot_price_quote"
  by code_simp

end
