(* ===== verification/External_Context.thy ===== *)
theory External_Context
  imports Quota_Ledger Provider_Client
begin

text \<open>
  The rest of \<open>services/moneyflow/external_context.py\<close>: the manager of the two providers. It serves a
  quote from its cache while it is young, asks the quota ledger before each request, and turns
  every failure into a status of the published context. Each snapshot comes with what the storage, the
  network and the cache file do during it (\<open>fetch_world\<close>). \<open>mg_sent\<close> is a ghost: the requests that
  left so far, newest first. Differences of clock readings are exact, as they are between floats of the size of
  today's clock.
\<close>

record provider_spec =
  ps_name :: string
  ps_enabled :: bool
  ps_key :: string
  ps_minute :: int
  ps_month :: int

record cached_quote =
  cq_at :: dec
  cq_data :: pydict

record context_config =
  cc_refresh :: int
  cc_stale :: int
  cc_timeout :: dec
  cc_specs :: "provider_spec list"

record manager =
  mg_disk :: quota_disk
  mg_ledger :: bool
  mg_error :: bool
  mg_cache :: "(string \<times> cached_quote) list"
  mg_file :: json_file
  mg_sent :: "(string \<times> dec) list"

type_synonym 'a ctx = "(manager, quota_error, 'a) eff"

record fetch_world =
  fw_status_io :: quota_io
  fw_reserve_io :: quota_io
  fw_mark_io :: quota_io
  fw_cache_path :: path_facts
  fw_write :: "write_step \<Rightarrow> string option"
  fw_answer :: "response option"
  fw_read_at :: rat
  fw_tools :: provider_tools

definition max_cache_bytes :: int where
  "max_cache_bytes = 256 * 1024"

subsection \<open>The cached quote\<close>

definition cached_value :: "cached_quote \<Rightarrow> pyval" where
  "cached_value c = PDict [(''fetched_at_epoch'', PFloat (Fin (cq_at c))), (''data'', PDict (cq_data c))]"

definition float_of :: "pyval \<Rightarrow> dec option" where
  "float_of v = (case v of PFloat (Fin d) \<Rightarrow> Some d | _ \<Rightarrow> None)"

definition finite_in :: "dec option \<Rightarrow> dec option \<Rightarrow> pyval \<Rightarrow> dec option" where
  "finite_in lo hi v = (case number lo hi v of Inl e \<Rightarrow> None | Inr w \<Rightarrow> float_of w)"

definition cached_shape :: "string \<Rightarrow> pyval \<Rightarrow> bool" where
  "cached_shape provider v \<longleftrightarrow> (let r = items v; data = get r ''data''; d = items data in
     is_dict v \<and> set (map fst r) = {''fetched_at_epoch'', ''data''}
     \<and> is_dict data \<and> set (map fst d) = set (''identity'' # metric_names)
     \<and> same (get d ''identity'') (PDict (identity_of provider)))"

definition sanitize_cached :: "string \<Rightarrow> pyval \<Rightarrow> cached_quote option" where
  "sanitize_cached provider v =
     (if \<not> cached_shape provider v then None
      else (case finite_in (Some (Dec 1 0)) None (get (items v) ''fetched_at_epoch'') of
        None \<Rightarrow> None
      | Some t \<Rightarrow> (case normalized_metrics (map (\<lambda>k. (k, get (items (get (items v) ''data'')) k)) metric_names) of
          Inl e \<Rightarrow> None
        | Inr m \<Rightarrow> Some \<lparr>cq_at = t, cq_data = quote_data provider m\<rparr>)))"

definition cache_payload :: "(string \<times> cached_quote) list \<Rightarrow> pyval" where
  "cache_payload cache = PDict [(''schema_version'', PInt 1), (''providers'', PDict (map (\<lambda>(p, c). (p, cached_value c)) cache))]"

definition clean_rows :: "pydict \<Rightarrow> (string \<times> cached_quote) list" where
  "clean_rows rows = List.map_filter (\<lambda>p. map_option (Pair p) (sanitize_cached p (get rows p))) allowed_providers"

definition load_cache :: "path_facts \<Rightarrow> json_file \<Rightarrow> (string \<times> cached_quote) list" where
  "load_cache path file =
     (case safe_storage_path path max_cache_bytes of
        Inl e \<Rightarrow> []
      | Inr u \<Rightarrow> (case file of
          Json v \<Rightarrow>
            (if \<not> is_dict v \<or> \<not> py_eq (get (items v) ''schema_version'') (PInt 1) \<or> \<not> is_dict (get (items v) ''providers'') then []
             else clean_rows (items (get (items v) ''providers'')))
        | _ \<Rightarrow> []))"

text \<open>The bool says whether the file was written; an \<open>OSError\<close> of any step is swallowed.\<close>

definition save_cache :: "fetch_world \<Rightarrow> bool ctx" where
  "save_cache w =
     bindW (getW (\<lambda>m. m)) (\<lambda>m. case safe_storage_path (fw_cache_path w) max_cache_bytes of
         Inl e \<Rightarrow> returnW False
       | Inr u \<Rightarrow>
           let (r, f) = atomic_write_json (fw_write w) (cache_payload (mg_cache m)) \<lparr>target_file = mg_file m, temp_file = Missing\<rparr> in
           bindW (modifyW (\<lambda>m. m\<lparr>mg_file := target_file f\<rparr>)) (\<lambda>_. returnW (r = Inr ())))"

subsection \<open>What is published\<close>

record provider_view =
  pv_status :: string
  pv_enabled :: bool
  pv_available :: bool
  pv_fresh :: bool
  pv_quota :: quota_view
  pv_reason :: "string option"
  pv_age :: "rat option"
  pv_fetched :: "dec option"
  pv_data :: "pydict option"
  pv_persisted :: "bool option"

definition empty_quota :: "provider_spec \<Rightarrow> quota_view" where
  "empty_quota spec = \<lparr>qv_month = None, qv_month_used = None, qv_month_cap = ps_month spec, qv_window = None,
     qv_minute_used = None, qv_minute_cap = ps_minute spec, qv_next = None, qv_wait = None\<rparr>"

definition cache_age :: "dec \<Rightarrow> cached_quote \<Rightarrow> rat" where
  "cache_age now c = max 0 (dval now - dval (cq_at c))"

definition context_result ::
  "context_config \<Rightarrow> provider_spec \<Rightarrow> dec \<Rightarrow> string \<Rightarrow> string option \<Rightarrow> quota_view option \<Rightarrow> cached_quote option \<Rightarrow> provider_view" where
  "context_result cfg spec now status reason quota cached =
     (let out = \<lparr>pv_status = status, pv_enabled = ps_enabled spec, pv_available = False, pv_fresh = False,
        pv_quota = (case quota of None \<Rightarrow> empty_quota spec | Some q \<Rightarrow> q), pv_reason = reason, pv_age = None, pv_fetched = None,
        pv_data = None, pv_persisted = None\<rparr> in
      case cached of
        None \<Rightarrow> out
      | Some c \<Rightarrow>
          let out = out\<lparr>pv_available := True, pv_fresh := cache_age now c \<le> of_int (cc_stale cfg),
            pv_age := Some (round3 (cache_age now c)), pv_fetched := Some (cq_at c), pv_data := Some (cq_data c)\<rparr> in
          if of_int (cc_stale cfg) < cache_age now c then out\<lparr>pv_status := ''stale''\<rparr> else out)"

subsection \<open>One provider\<close>

definition on_ledger :: "'a quota \<Rightarrow> 'a ctx" where
  "on_ledger m = zoomW mg_disk (\<lambda>d s. s\<lparr>mg_disk := d\<rparr>) m"

definition result_now ::
  "context_config \<Rightarrow> provider_spec \<Rightarrow> dec \<Rightarrow> string \<Rightarrow> string option \<Rightarrow> quota_view option \<Rightarrow> provider_view ctx" where
  "result_now cfg spec now status reason quota =
     getW (\<lambda>m. context_result cfg spec now status reason quota (map_of (mg_cache m) (ps_name spec)))"

definition quota_now :: "quota_io \<Rightarrow> provider_spec \<Rightarrow> dec \<Rightarrow> quota_view ctx" where
  "quota_now io spec now =
     bindW (getW mg_ledger) (\<lambda>present.
     if \<not> present then returnW (empty_quota spec)
     else on_ledger (quota_status io (ps_name spec) (dval now) (ps_minute spec) (ps_month spec)))"

text \<open>\<open>except QuotaLedgerError\<close>; the exception of a clock outside the calendar passes.\<close>

definition or_ledger_error :: "'a ctx \<Rightarrow> 'a ctx \<Rightarrow> 'a ctx" where
  "or_ledger_error m h = catchW m (\<lambda>e. case e of QuotaLedgerError s \<Rightarrow> h | ClockOverflow \<Rightarrow> raiseW ClockOverflow)"

definition ledger_lost :: "'a \<Rightarrow> 'a ctx" where
  "ledger_lost x = bindW (modifyW (\<lambda>m. m\<lparr>mg_error := True\<rparr>)) (\<lambda>_. returnW x)"

definition failure_status :: "provider_error \<Rightarrow> string" where
  "failure_status e = (case e of
       HttpStatus c r \<Rightarrow>
         if c = 401 \<or> c = 403 then ''auth_error'' else if c = 402 then ''plan_error'' else if c = 429 then ''rate_limited''
         else if 500 \<le> c then ''provider_error'' else ''http_error''
     | TransportFailed \<Rightarrow> ''transport_error''
     | BadPayload s \<Rightarrow> ''payload_error''
     | OtherProviderExn \<Rightarrow> ''provider_error'')"

definition failure_retry :: "provider_error \<Rightarrow> int option" where
  "failure_retry e = (case e of HttpStatus c r \<Rightarrow> r | _ \<Rightarrow> None)"

definition fetch_failed :: "context_config \<Rightarrow> provider_spec \<Rightarrow> fetch_world \<Rightarrow> dec \<Rightarrow> decision \<Rightarrow> provider_error \<Rightarrow> provider_view ctx" where
  "fetch_failed cfg spec w now dc e =
     bindW (or_ledger_error (on_ledger (mark_failure (fw_mark_io w) (ps_name spec) (dval now) (ps_minute spec) (ps_month spec)
         (failure_status e) (cc_refresh cfg) (failure_retry e))) (ledger_lost (dc_quota dc))) (\<lambda>quota.
     result_now cfg spec now (failure_status e) (Some (failure_status e)) (Some quota))"

definition fetch_succeeded :: "context_config \<Rightarrow> provider_spec \<Rightarrow> fetch_world \<Rightarrow> dec \<Rightarrow> decision \<Rightarrow> pydict \<Rightarrow> provider_view ctx" where
  "fetch_succeeded cfg spec w now dc data =
     bindW (modifyW (\<lambda>m. m\<lparr>mg_cache := alist_put (ps_name spec) \<lparr>cq_at = now, cq_data = data\<rparr> (mg_cache m)\<rparr>)) (\<lambda>_.
     bindW (save_cache w) (\<lambda>persisted.
     bindW (or_ledger_error (on_ledger (mark_success (fw_mark_io w) (ps_name spec) (dval now) (ps_minute spec) (ps_month spec)
         (cc_refresh cfg))) (ledger_lost (dc_quota dc))) (\<lambda>quota.
     bindW (result_now cfg spec now ''fresh'' None (Some quota)) (\<lambda>v. returnW (v\<lparr>pv_persisted := Some persisted\<rparr>)))))"

definition send_request :: "provider_spec \<Rightarrow> fetch_world \<Rightarrow> dec \<Rightarrow> (provider_error + pydict) ctx" where
  "send_request spec w now =
     bindW (modifyW (\<lambda>m. m\<lparr>mg_sent := (ps_name spec, now) # mg_sent m\<rparr>)) (\<lambda>_.
     returnW (fetch_bitcoin_usd (fw_tools w) (ps_name spec) (fw_read_at w) (fw_answer w)))"

definition ask_provider :: "context_config \<Rightarrow> provider_spec \<Rightarrow> fetch_world \<Rightarrow> dec \<Rightarrow> provider_view ctx" where
  "ask_provider cfg spec w now =
     bindW (getW (\<lambda>m. mg_error m \<or> \<not> mg_ledger m)) (\<lambda>lost.
     if lost then result_now cfg spec now ''storage_error'' (Some ''quota_ledger_unavailable_fail_closed'') None
     else
     bindW (or_ledger_error (bindW (on_ledger (reserve (fw_reserve_io w) (ps_name spec) (dval now) (ps_minute spec) (ps_month spec)
         (cc_refresh cfg))) (\<lambda>dc. returnW (Some dc))) (ledger_lost None)) (\<lambda>answer. case answer of
       None \<Rightarrow> result_now cfg spec now ''storage_error'' (Some ''quota_reservation_failed_closed'') None
     | Some dc \<Rightarrow>
         if \<not> dc_allowed dc then result_now cfg spec now (dc_reason dc) (Some (dc_reason dc)) (Some (dc_quota dc))
         else bindW (send_request spec w now) (\<lambda>r. case r of
             Inl e \<Rightarrow> fetch_failed cfg spec w now dc e
           | Inr data \<Rightarrow> fetch_succeeded cfg spec w now dc data)))"

definition provider_context :: "context_config \<Rightarrow> provider_spec \<Rightarrow> fetch_world \<Rightarrow> dec \<Rightarrow> provider_view ctx" where
  "provider_context cfg spec w now =
     (if \<not> ps_enabled spec then returnW (context_result cfg spec now ''disabled'' (Some ''provider_disabled'') None None)
      else if ps_key spec = [] then returnW (context_result cfg spec now ''missing_key'' (Some ''enabled_provider_has_no_api_key'') None None)
      else
      bindW (getW (\<lambda>m. map_of (mg_cache m) (ps_name spec))) (\<lambda>cached.
      if (case cached of None \<Rightarrow> False | Some c \<Rightarrow> cache_age now c < of_int (cc_refresh cfg))
      then bindW (or_ledger_error (quota_now (fw_status_io w) spec now) (returnW (empty_quota spec))) (\<lambda>quota.
        result_now cfg spec now ''cached'' None (Some quota))
      else ask_provider cfg spec w now))"

text \<open>\<open>snapshot\<close>: CoinGecko, then CoinMarketCap, each with its own view of the world.\<close>

fun provider_contexts :: "context_config \<Rightarrow> (string \<Rightarrow> fetch_world) \<Rightarrow> dec \<Rightarrow> provider_spec list \<Rightarrow> (string \<times> provider_view) list ctx" where
  "provider_contexts cfg ws now [] = returnW []"
| "provider_contexts cfg ws now (spec # specs) =
     bindW (provider_context cfg spec (ws (ps_name spec)) now) (\<lambda>v.
     bindW (provider_contexts cfg ws now specs) (\<lambda>vs. returnW ((ps_name spec, v) # vs)))"

record context_snapshot =
  sn_generated :: dec
  sn_advisory :: bool
  sn_affects_entry :: bool
  sn_providers :: "(string \<times> provider_view) list"

definition snapshot :: "context_config \<Rightarrow> (string \<Rightarrow> fetch_world) \<Rightarrow> dec \<Rightarrow> context_snapshot ctx" where
  "snapshot cfg ws now =
     bindW (provider_contexts cfg ws now (cc_specs cfg)) (\<lambda>vs.
     returnW \<lparr>sn_generated = now, sn_advisory = True, sn_affects_entry = False, sn_providers = vs\<rparr>)"

subsection \<open>Configuration\<close>

definition free_quota :: "string \<Rightarrow> int \<times> int" where
  "free_quota provider = (if provider = ''coingecko'' then (100, 10000) else (30, 10000))"

definition safe_minute :: "string \<Rightarrow> int" where
  "safe_minute provider = four_percent_below (fst (free_quota provider))"

definition safe_month :: "string \<Rightarrow> int" where
  "safe_month provider = four_percent_below (snd (free_quota provider))"

definition env_flag :: "environ \<Rightarrow> string \<Rightarrow> config_error + bool" where
  "env_flag env name = bindE (env_choice env name ''false'' [''true'', ''false'']) (\<lambda>v. Inr (v = ''true''))"

definition env_key :: "environ \<Rightarrow> string \<Rightarrow> string" where
  "env_key env name = (case env name of None \<Rightarrow> [] | Some s \<Rightarrow> strip s)"

definition spec_from_env :: "environ \<Rightarrow> string \<Rightarrow> string \<Rightarrow> bool \<Rightarrow> config_error + provider_spec" where
  "spec_from_env env name prefix enabled =
     bindE (env_int env (prefix @ ''_MAX_REQUESTS_PER_MINUTE'') (safe_minute name) 1 (safe_minute name)) (\<lambda>minute.
     bindE (env_int env (prefix @ ''_MAX_MONTHLY_ATTEMPTS'') (safe_month name) 1 (safe_month name)) (\<lambda>month.
     Inr \<lparr>ps_name = name, ps_enabled = enabled, ps_key = env_key env (prefix @ ''_API_KEY''), ps_minute = minute, ps_month = month\<rparr>))"

definition context_from_env :: "environ \<Rightarrow> config_error + context_config" where
  "context_from_env env =
     bindE (env_int env ''EXTERNAL_MARKET_REFRESH_SECONDS'' 300 300 3600) (\<lambda>refresh.
     bindE (env_int env ''EXTERNAL_MARKET_STALE_AFTER_SECONDS'' 900 refresh 86400) (\<lambda>stale.
     bindE (env_float env ''EXTERNAL_MARKET_HTTP_TIMEOUT_SECONDS'' (of_int_dec 10) (of_int_dec 1) (of_int_dec 30)) (\<lambda>timeout.
     bindE (env_flag env ''COINGECKO_CONTEXT_ENABLED'') (\<lambda>cg.
     bindE (env_flag env ''COINMARKETCAP_CONTEXT_ENABLED'') (\<lambda>cmc.
     bindE (spec_from_env env ''coingecko'' ''COINGECKO'' cg) (\<lambda>s1.
     bindE (spec_from_env env ''coinmarketcap'' ''COINMARKETCAP'' cmc) (\<lambda>s2.
     Inr \<lparr>cc_refresh = refresh, cc_stale = stale, cc_timeout = timeout, cc_specs = [s1, s2]\<rparr>)))))))"

text \<open>The manager as it starts: the ledger is opened only when some provider will use it.\<close>

definition open_manager :: "context_config \<Rightarrow> quota_io \<Rightarrow> path_facts \<Rightarrow> quota_disk \<Rightarrow> json_file \<Rightarrow> manager" where
  "open_manager cfg io cache_path disk file =
     (let wanted = list_ex (\<lambda>s. ps_enabled s \<and> ps_key s \<noteq> []) (cc_specs cfg);
          opened = (if wanted then initialize io disk else (Inr (), disk));
          ok = (case fst opened of Inl e \<Rightarrow> False | Inr u \<Rightarrow> True) in
      \<lparr>mg_disk = snd opened, mg_ledger = wanted \<and> ok, mg_error = \<not> ok, mg_cache = load_cache cache_path file, mg_file = file, mg_sent = []\<rparr>)"

end
