(* ===== verification/Context_Guarantees.thy ===== *)
theory Context_Guarantees
  imports External_Context
begin

text \<open>
  What the context manager promises: the requests that leave are counted by the quota ledger, over any
  run of snapshots; only sound quotes are published; a cache that was written is read back.
\<close>

subsection \<open>Requests against grants\<close>

definition sent_to :: "string \<Rightarrow> manager \<Rightarrow> rat list" where
  "sent_to p m = map (\<lambda>(q, t). dval t) (List.filter (\<lambda>(q, t). q = p) (mg_sent m))"

definition spec_limits :: "context_config \<Rightarrow> provider_spec \<Rightarrow> quota_limits" where
  "spec_limits cfg spec = \<lparr>ql_minute = ps_minute spec, ql_month = ps_month spec, ql_interval = cc_refresh cfg\<rparr>"

text \<open>The ledger of \<open>p\<close> has counted every request of \<open>gs\<close>; \<open>t\<close> is a reading before \<open>u\<close>, the present one.\<close>

definition counted :: "string \<Rightarrow> quota_limits \<Rightarrow> rat \<Rightarrow> rat \<Rightarrow> rat list \<Rightarrow> quota_disk \<Rightarrow> bool" where
  "counted p l t u gs d \<longleftrightarrow> ledger_inv p l t (gs, d) \<or> ledger_inv p l u (gs, d)"

definition usable :: "quota_limits \<Rightarrow> bool" where
  "usable l \<longleftrightarrow> 0 \<le> ql_month l \<and> 0 \<le> ql_minute l"

lemma counted_step:
  assumes "counted p l t u gs d" "t \<le> u" "usable l" "clock_of c = u"
  shows "counted p l t u (fst (ledger_step p l c (gs, d))) (snd (ledger_step p l c (gs, d)))"
  using assms ledger_step_inv [of p l _ "(gs, d)" c] by (auto simp: counted_def usable_def)

lemma wp_state_only: "wp m (\<lambda>_. P) (\<lambda>_. P) s \<longleftrightarrow> P (snd (m s))"
  by (auto simp: wp_def split: sum.splits prod.splits)

lemma wp_counted:
  assumes "counted p l t u gs d" "t \<le> u" "usable l"
  shows "wp (quota_status io p u (ql_minute l) (ql_month l)) (\<lambda>_. counted p l t u gs) (\<lambda>_. counted p l t u gs) d"
    and "wp (mark_success io p u (ql_minute l) (ql_month l) (ql_interval l)) (\<lambda>_. counted p l t u gs) (\<lambda>_. counted p l t u gs) d"
    and "wp (mark_failure io p u (ql_minute l) (ql_month l) st (ql_interval l) a) (\<lambda>_. counted p l t u gs) (\<lambda>_. counted p l t u gs) d"
    and "wp (reserve io p u (ql_minute l) (ql_month l) (ql_interval l))
      (\<lambda>dc. counted p l t u (if dc_allowed dc then u # gs else gs)) (\<lambda>_. counted p l t u gs) d"
  using counted_step [OF assms, of "Status io u"] counted_step [OF assms, of "Succeeded io u"]
    counted_step [OF assms, of "Failed io u st a"] counted_step [OF assms, of "Reserve io u"]
  by (auto simp: wp_def was_granted_def Let_def split: sum.splits prod.splits if_splits)

text \<open>A transaction of one provider leaves the row of the other.\<close>

lemma other_row_kept:
  assumes "p \<noteq> q" "P (map_of (qd_rows d) p)"
  shows "wp (transaction io why q u step) (\<lambda>_ d. P (map_of (qd_rows d) p)) (\<lambda>_ d. P (map_of (qd_rows d) p)) d"
  using assms by (auto simp: wp_state_only transaction_def connect_def eff_eval map_of_alist_put Let_def split: sum.splits prod.splits)

lemma other_counted:
  assumes "p \<noteq> q" "counted p l t u gs d"
  shows "wp (transaction io why q x step) (\<lambda>_. counted p l t u gs) (\<lambda>_. counted p l t u gs) d"
proof -
  have eq: "counted p l t u gs = (\<lambda>d. (row_inv l t gs (map_of (qd_rows d) p) \<or> row_inv l u gs (map_of (qd_rows d) p)) \<and> spaced (ql_interval l) gs)"
    by (auto simp: counted_def ledger_inv_def fun_eq_iff)
  show ?thesis unfolding eq
    by (rule other_row_kept [OF assms(1), of "\<lambda>row. (row_inv l t gs row \<or> row_inv l u gs row) \<and> spaced (ql_interval l) gs"])
      (use assms(2) in \<open>simp add: eq\<close>)
qed

lemma wp_other:
  assumes "p \<noteq> q" "counted p l t u gs d"
  shows "wp (quota_status io q x a b) (\<lambda>_. counted p l t u gs) (\<lambda>_. counted p l t u gs) d"
    and "wp (mark_success io q x a b c) (\<lambda>_. counted p l t u gs) (\<lambda>_. counted p l t u gs) d"
    and "wp (mark_failure io q x a b st c e) (\<lambda>_. counted p l t u gs) (\<lambda>_. counted p l t u gs) d"
    and "wp (reserve io q x a b c) (\<lambda>_. counted p l t u gs) (\<lambda>_. counted p l t u gs) d"
  unfolding quota_status_def mark_success_def mark_failure_def reserve_def
  by (simp_all only: wp_bind wp_lift wp_guard) (auto simp: other_counted [OF assms] assms(2) split: sum.splits)

text \<open>The manager's steps.\<close>

definition within_quota :: "string \<Rightarrow> quota_limits \<Rightarrow> rat \<Rightarrow> rat \<Rightarrow> manager \<Rightarrow> bool" where
  "within_quota p l t u m \<longleftrightarrow> counted p l t u (sent_to p m) (mg_disk m)"

lemma wp_or_ledger_error:
  "wp (or_ledger_error m h) Q E s \<longleftrightarrow> wp m Q (\<lambda>e s. case e of QuotaLedgerError x \<Rightarrow> wp h Q E s | ClockOverflow \<Rightarrow> E ClockOverflow s) s"
  by (simp add: or_ledger_error_def) (rule arg_cong [of _ _ "\<lambda>E. wp m Q E s"], auto simp: fun_eq_iff split: quota_error.splits)

lemma sent_to_simps [simp]:
  "sent_to p (m\<lparr>mg_disk := d\<rparr>) = sent_to p m" "sent_to p (m\<lparr>mg_error := b\<rparr>) = sent_to p m"
  "sent_to p (m\<lparr>mg_cache := c\<rparr>) = sent_to p m" "sent_to p (m\<lparr>mg_file := f\<rparr>) = sent_to p m"
  "sent_to p (m\<lparr>mg_sent := (q, t) # mg_sent m\<rparr>) = (if q = p then dval t # sent_to p m else sent_to p m)"
  by (simp_all add: sent_to_def)

text \<open>What both lemmas above say, on the manager: \<open>grant\<close> is the list after a reservation that was granted.\<close>

definition after_grant :: "string \<Rightarrow> quota_limits \<Rightarrow> rat \<Rightarrow> rat \<Rightarrow> string \<Rightarrow> decision \<Rightarrow> manager \<Rightarrow> bool" where
  "after_grant p l t u q dc m \<longleftrightarrow> counted p l t u (if q = p \<and> dc_allowed dc then u # sent_to p m else sent_to p m) (mg_disk m)"

lemma wp_within:
  assumes "wp m (\<lambda>_. counted p l t u (sent_to p s)) (\<lambda>_. counted p l t u (sent_to p s)) (mg_disk s)"
  shows "wp (on_ledger m) (\<lambda>_. within_quota p l t u) (\<lambda>_. within_quota p l t u) s"
  using assms by (simp add: on_ledger_def wp_zoom within_quota_def)

lemma wp_manager_ledger:
  assumes "within_quota p l t (dval now) m" "t \<le> dval now" "usable l" "ps_name spec = p \<longrightarrow> l = spec_limits cfg spec"
  shows "wp (on_ledger (quota_status io (ps_name spec) (dval now) (ps_minute spec) (ps_month spec)))
      (\<lambda>_. within_quota p l t (dval now)) (\<lambda>_. within_quota p l t (dval now)) m"
    and "wp (on_ledger (mark_success io (ps_name spec) (dval now) (ps_minute spec) (ps_month spec) (cc_refresh cfg)))
      (\<lambda>_. within_quota p l t (dval now)) (\<lambda>_. within_quota p l t (dval now)) m"
    and "wp (on_ledger (mark_failure io (ps_name spec) (dval now) (ps_minute spec) (ps_month spec) st (cc_refresh cfg) a))
      (\<lambda>_. within_quota p l t (dval now)) (\<lambda>_. within_quota p l t (dval now)) m"
    and "wp (on_ledger (reserve io (ps_name spec) (dval now) (ps_minute spec) (ps_month spec) (cc_refresh cfg)))
      (\<lambda>dc. after_grant p l t (dval now) (ps_name spec) dc) (\<lambda>_. within_quota p l t (dval now)) m"
proof -
  have c: "counted p l t (dval now) (sent_to p m) (mg_disk m)" using assms(1) by (simp add: within_quota_def)
  show "wp (on_ledger (quota_status io (ps_name spec) (dval now) (ps_minute spec) (ps_month spec)))
      (\<lambda>_. within_quota p l t (dval now)) (\<lambda>_. within_quota p l t (dval now)) m"
    using wp_counted(1) [OF c assms(2,3), of io] wp_other(1) [OF _ c, of "ps_name spec" io] assms(4)
    by (intro wp_within) (cases "ps_name spec = p"; simp add: spec_limits_def)
  show "wp (on_ledger (mark_success io (ps_name spec) (dval now) (ps_minute spec) (ps_month spec) (cc_refresh cfg)))
      (\<lambda>_. within_quota p l t (dval now)) (\<lambda>_. within_quota p l t (dval now)) m"
    using wp_counted(2) [OF c assms(2,3), of io] wp_other(2) [OF _ c, of "ps_name spec" io] assms(4)
    by (intro wp_within) (cases "ps_name spec = p"; simp add: spec_limits_def)
  show "wp (on_ledger (mark_failure io (ps_name spec) (dval now) (ps_minute spec) (ps_month spec) st (cc_refresh cfg) a))
      (\<lambda>_. within_quota p l t (dval now)) (\<lambda>_. within_quota p l t (dval now)) m"
    using wp_counted(3) [OF c assms(2,3), of io st a] wp_other(3) [OF _ c, of "ps_name spec" io] assms(4)
    by (intro wp_within) (cases "ps_name spec = p"; simp add: spec_limits_def)
  show "wp (on_ledger (reserve io (ps_name spec) (dval now) (ps_minute spec) (ps_month spec) (cc_refresh cfg)))
      (\<lambda>dc. after_grant p l t (dval now) (ps_name spec) dc) (\<lambda>_. within_quota p l t (dval now)) m"
    using wp_counted(4) [OF c assms(2,3), of io] wp_other(4) [OF _ c, of "ps_name spec" io] assms(4)
    by (cases "ps_name spec = p")
      (auto simp: on_ledger_def wp_zoom within_quota_def after_grant_def spec_limits_def elim!: wp_mono split: if_splits)
qed

lemma within_quota_simps [simp]:
  "within_quota p l t u (m\<lparr>mg_error := b\<rparr>) = within_quota p l t u m"
  "within_quota p l t u (m\<lparr>mg_cache := c\<rparr>) = within_quota p l t u m"
  "within_quota p l t u (m\<lparr>mg_file := f\<rparr>) = within_quota p l t u m"
  by (simp_all add: within_quota_def)

lemma wp_result_now [simp, wps]: "wp (result_now cfg spec now st why q) Q E m
    = Q (context_result cfg spec now st why q (map_of (mg_cache m) (ps_name spec))) m"
  by (simp add: result_now_def)

lemmas wp_result_fun [simp] = ext [OF wp_result_now]

lemma wp_return_fun [simp]: "wp (returnW x) Q E = Q x"
  and wp_bind_fun [simp]: "wp (bindW m' f) Q E = wp m' (\<lambda>x. wp (f x) Q E) E"
  by (simp_all add: fun_eq_iff)

lemma wp_save_cache: "(\<And>b f. Q b (m\<lparr>mg_file := f\<rparr>)) \<Longrightarrow> (Q False m) \<Longrightarrow> wp (save_cache w) Q E m"
  by (auto simp: save_cache_def Let_def split: sum.splits prod.splits)

lemma wp_lost [simp, wps]: "wp (ledger_lost x) Q E m = Q x (m\<lparr>mg_error := True\<rparr>)"
  by (simp add: ledger_lost_def)

lemma wp_marked:
  assumes "wp m (\<lambda>_. I) (\<lambda>_. I) s" "\<And>s. I (s\<lparr>mg_error := True\<rparr>) = I s"
  shows "wp (or_ledger_error m (ledger_lost x)) (\<lambda>_. I) (\<lambda>_. I) s"
  using assms by (auto simp: wp_or_ledger_error elim!: wp_mono split: quota_error.splits)

lemma wp_fetch_failed:
  assumes "within_quota p l t (dval now) m" "t \<le> dval now" "usable l" "ps_name spec = p \<longrightarrow> l = spec_limits cfg spec"
  shows "wp (fetch_failed cfg spec w now dc e) (\<lambda>_. within_quota p l t (dval now)) (\<lambda>_. within_quota p l t (dval now)) m"
  using wp_marked [OF wp_manager_ledger(3) [OF assms]] by (simp add: fetch_failed_def)

lemma wp_fetch_succeeded:
  assumes "within_quota p l t (dval now) m" "t \<le> dval now" "usable l" "ps_name spec = p \<longrightarrow> l = spec_limits cfg spec"
  shows "wp (fetch_succeeded cfg spec w now dc data) (\<lambda>_. within_quota p l t (dval now)) (\<lambda>_. within_quota p l t (dval now)) m"
  using assms unfolding fetch_succeeded_def
  by (auto intro!: wp_save_cache wp_marked [OF wp_manager_ledger(2)])

lemma granted_request:
  assumes "after_grant p l t (dval now) (ps_name spec) dc m" "dc_allowed dc"
  shows "within_quota p l t (dval now) (m\<lparr>mg_sent := (ps_name spec, now) # mg_sent m\<rparr>)"
  using assms by (auto simp: after_grant_def within_quota_def)

lemma refused_request: "after_grant p l t u q dc m \<Longrightarrow> \<not> dc_allowed dc \<Longrightarrow> within_quota p l t u m"
  by (simp add: after_grant_def within_quota_def)

lemma wp_ask_provider:
  assumes "within_quota p l t (dval now) m" "t \<le> dval now" "usable l" "ps_name spec = p \<longrightarrow> l = spec_limits cfg spec"
  shows "wp (ask_provider cfg spec w now) (\<lambda>_. within_quota p l t (dval now)) (\<lambda>_. within_quota p l t (dval now)) m"
proof (cases "mg_error m \<or> \<not> mg_ledger m")
  case True
  then show ?thesis using assms(1) by (auto simp: ask_provider_def)
next
  case False
  have sent: "wp (send_request spec w now) (\<lambda>r. wp (case r of
        Inl e \<Rightarrow> fetch_failed cfg spec w now dc e | Inr data \<Rightarrow> fetch_succeeded cfg spec w now dc data)
      (\<lambda>_. within_quota p l t (dval now)) (\<lambda>_. within_quota p l t (dval now))) (\<lambda>_. within_quota p l t (dval now)) s"
    if "after_grant p l t (dval now) (ps_name spec) dc s" "dc_allowed dc" for dc s
    using granted_request [OF that]
    by (auto simp: send_request_def split: sum.splits intro!: wp_fetch_failed wp_fetch_succeeded assms(2-4))
  show ?thesis
    using False by (auto simp: ask_provider_def wp_or_ledger_error intro!: wp_mono [OF wp_manager_ledger(4) [OF assms]] sent
      intro: refused_request split: quota_error.splits)
qed

lemma wp_provider_context:
  assumes "within_quota p l t (dval now) m" "t \<le> dval now" "usable l" "ps_name spec = p \<longrightarrow> l = spec_limits cfg spec"
  shows "wp (provider_context cfg spec w now) (\<lambda>_. within_quota p l t (dval now)) (\<lambda>_. within_quota p l t (dval now)) m"
proof -
  have s: "wp (quota_now io spec now) (\<lambda>_. within_quota p l t (dval now)) (\<lambda>_. within_quota p l t (dval now)) m" for io
    using wp_manager_ledger(1) [OF assms] assms(1) by (simp add: quota_now_def)
  have q: "wp (or_ledger_error (quota_now io spec now) (returnW x)) (\<lambda>_. within_quota p l t (dval now)) (\<lambda>_. within_quota p l t (dval now)) m" for io x
    by (simp add: wp_or_ledger_error) (rule wp_mono [OF s], auto split: quota_error.splits)
  show ?thesis using assms(1) wp_ask_provider [OF assms] q by (simp add: provider_context_def)
qed

lemma wp_provider_contexts:
  assumes "within_quota p l t (dval now) m" "t \<le> dval now" "usable l"
    and "\<forall>spec \<in> set specs. ps_name spec = p \<longrightarrow> l = spec_limits cfg spec"
  shows "wp (provider_contexts cfg ws now specs) (\<lambda>_. within_quota p l t (dval now)) (\<lambda>_. within_quota p l t (dval now)) m"
  using assms
proof (induction specs arbitrary: m)
  case (Cons spec specs)
  have h: "wp (provider_context cfg spec (ws (ps_name spec)) now) (\<lambda>_. within_quota p l t (dval now)) (\<lambda>_. within_quota p l t (dval now)) m"
    using Cons.prems by (intro wp_provider_context) auto
  have r: "wp (provider_contexts cfg ws now specs) (\<lambda>_. within_quota p l t (dval now)) (\<lambda>_. within_quota p l t (dval now)) m'"
    if "within_quota p l t (dval now) m'" for m' using Cons.IH [OF that] Cons.prems by simp
  show ?case by (simp) (rule wp_mono [OF h], auto intro: r)
qed simp

subsection \<open>Runs of the manager\<close>

definition run_snapshots :: "context_config \<Rightarrow> ((string \<Rightarrow> fetch_world) \<times> dec) list \<Rightarrow> manager \<Rightarrow> manager" where
  "run_snapshots cfg rounds m = fold (\<lambda>(ws, now) m. snd (snapshot cfg ws now m)) rounds m"

lemma snapshot_within:
  assumes "within_quota p l t t m" "t \<le> dval now" "usable l" "\<forall>spec \<in> set (cc_specs cfg). ps_name spec = p \<longrightarrow> l = spec_limits cfg spec"
  shows "\<exists>t' \<le> dval now. within_quota p l t' t' (snd (snapshot cfg ws now m))"
proof -
  have "within_quota p l t (dval now) m" using assms(1) by (simp add: within_quota_def counted_def)
  from wp_provider_contexts [OF this assms(2-4), of ws]
  have "within_quota p l t (dval now) (snd (snapshot cfg ws now m))"
    by (auto simp: snapshot_def wp_def bindW_def returnW_def split: sum.splits prod.splits)
  then show ?thesis using assms(2) by (auto simp: within_quota_def counted_def)
qed

lemma run_within:
  assumes "within_quota p l t t m" "\<forall>r \<in> set rounds. t \<le> dval (snd r)" "sorted (map (dval \<circ> snd) rounds)" "usable l"
    and "\<forall>spec \<in> set (cc_specs cfg). ps_name spec = p \<longrightarrow> l = spec_limits cfg spec"
  shows "\<exists>t'. within_quota p l t' t' (run_snapshots cfg rounds m)"
  using assms
proof (induction rounds arbitrary: t m)
  case (Cons r rounds)
  obtain ws now where r: "r = (ws, now)" by fastforce
  obtain t' where t': "t' \<le> dval now" "within_quota p l t' t' (snd (snapshot cfg ws now m))"
    using snapshot_within [OF Cons.prems(1) _ Cons.prems(4,5), of now ws] Cons.prems(2) r by auto
  have "\<forall>r \<in> set rounds. t' \<le> dval (snd r)" using t'(1) Cons.prems(3) by (fastforce simp: r)
  from Cons.IH [OF t'(2) this _ Cons.prems(4,5)] Cons.prems(3)
  show ?case by (simp add: run_snapshots_def r)
qed (auto simp: run_snapshots_def)

lemma within_quota_bounds:
  assumes "within_quota p l t t m" "usable l"
  shows "(\<forall>k. in_window month_of k (sent_to p m) \<le> ql_month l) \<and> (\<forall>k. in_window minute_window k (sent_to p m) \<le> ql_minute l)
    \<and> spaced (ql_interval l) (sent_to p m)"
  using assms by (auto simp: within_quota_def counted_def usable_def ledger_inv_def row_inv_def window_inv_def split: option.splits)

subsection \<open>The configured manager keeps the published quotas\<close>

lemma initialize_rows: "qd_rows (snd (initialize io d)) = qd_rows d"
  by (auto simp: initialize_def create_marker_def validate_marker_def connect_def eff_eval split: sum.splits prod.splits json_file.splits)

lemma opened_rows: "qd_rows (mg_disk (open_manager cfg io path d f)) = qd_rows d"
  by (simp add: open_manager_def Let_def initialize_rows)

lemma opened_sent [simp]: "sent_to p (open_manager cfg io path d f) = []"
  by (simp add: open_manager_def Let_def sent_to_def)

lemma configured:
  assumes "context_from_env env = Inr cfg"
  shows "300 \<le> cc_refresh cfg" "map ps_name (cc_specs cfg) = allowed_providers"
    and "spec \<in> set (cc_specs cfg) \<Longrightarrow> 1 \<le> ps_minute spec \<and> ps_minute spec \<le> safe_minute (ps_name spec)
      \<and> 1 \<le> ps_month spec \<and> ps_month spec \<le> safe_month (ps_name spec)"
  using assms
  by (auto simp: context_from_env_def spec_from_env_def bindE_Inr_iff allowed_providers_def dest!: env_int_bounds)

lemma configured_unique:
  assumes "context_from_env env = Inr cfg" "spec \<in> set (cc_specs cfg)" "spec' \<in> set (cc_specs cfg)" "ps_name spec' = ps_name spec"
  shows "spec' = spec"
proof -
  have "distinct (map ps_name (cc_specs cfg))" by (simp add: configured(2) [OF assms(1)] allowed_providers_def)
  then show ?thesis using assms(2-4) by (auto simp: distinct_map dest: inj_onD)
qed

lemma spaced_mono: "spaced b gs \<Longrightarrow> a \<le> b \<Longrightarrow> spaced a gs"
proof (induction gs rule: induct_list012)
  case (3 x y zs)
  then have "rat_of_int a \<le> of_int b" by simp
  with 3 show ?case by (auto simp: spaced_def)
qed (simp_all add: spaced_def)

text \<open>C15: However often the context is collected and whatever the providers, the network and the storage do,
  the requests that leave for a provider stay four percent below its free plan: at most 9600 in a calendar
  month, at most 96 a minute for CoinGecko and 28 for CoinMarketCap, never two within 300 seconds. The
  environment can only lower this. The clock must not run backwards, and the ledger may hold any old counts.
\<close>

theorem context_requests_within_quota:
  assumes "context_from_env env = Inr cfg" "sorted (map (dval \<circ> snd) rounds)" "p \<in> set allowed_providers"
    and "\<forall>r. map_of (qd_rows d) p = Some r \<longrightarrow> 0 \<le> qr_month_attempts r \<and> 0 \<le> qr_minute_attempts r"
  shows "(\<forall>k. in_window month_of k (sent_to p (run_snapshots cfg rounds (open_manager cfg io path d f))) \<le> 9600)
    \<and> (\<forall>k. in_window minute_window k (sent_to p (run_snapshots cfg rounds (open_manager cfg io path d f)))
        \<le> (if p = ''coingecko'' then 96 else 28))
    \<and> spaced 300 (sent_to p (run_snapshots cfg rounds (open_manager cfg io path d f)))"
proof -
  let ?m = "open_manager cfg io path d f"
  have "p \<in> ps_name ` set (cc_specs cfg)" using configured(2) [OF assms(1)] assms(3) by (metis set_map)
  then obtain spec where spec: "spec \<in> set (cc_specs cfg)" "ps_name spec = p" by blast
  define l where "l = spec_limits cfg spec"
  have b: "1 \<le> ps_minute spec" "ps_minute spec \<le> safe_minute p" "1 \<le> ps_month spec" "ps_month spec \<le> safe_month p"
    using configured(3) [OF assms(1) spec(1)] spec(2) by auto
  then have u: "usable l" by (simp add: usable_def l_def spec_limits_def)
  define t where "t = (case rounds of [] \<Rightarrow> 0 | r # rs \<Rightarrow> dval (snd r))"
  have t: "\<forall>r \<in> set rounds. t \<le> dval (snd r)" using assms(2) by (cases rounds) (auto simp: t_def)
  have "within_quota p l t t ?m"
    using assms(4) u by (auto simp: within_quota_def counted_def ledger_inv_def row_inv_def spaced_def opened_rows usable_def
        intro: window_start split: option.splits)
  moreover have "\<forall>spec' \<in> set (cc_specs cfg). ps_name spec' = p \<longrightarrow> l = spec_limits cfg spec'"
    using configured_unique [OF assms(1) spec(1)] spec(2) by (auto simp: l_def)
  ultimately obtain t' where "within_quota p l t' t' (run_snapshots cfg rounds ?m)"
    using run_within [OF _ t assms(2) u] by blast
  from within_quota_bounds [OF this u] show ?thesis
    using b configured(1) [OF assms(1)] assms(3)
    by (auto simp: l_def spec_limits_def safe_minute_def safe_month_def four_percent_below_def free_quota_def allowed_providers_def
        intro: order_trans spaced_mono)
qed

subsection \<open>Only sound quotes are published\<close>

definition cache_sound :: "(string \<times> cached_quote) list \<Rightarrow> bool" where
  "cache_sound cache \<longleftrightarrow> (\<forall>p c. (p, c) \<in> set cache \<longrightarrow> p \<in> set allowed_providers \<and> sound_quote p (cq_data c))"

definition view_sound :: "context_config \<Rightarrow> dec \<Rightarrow> string \<Rightarrow> provider_view \<Rightarrow> bool" where
  "view_sound cfg now p v \<longleftrightarrow> (pv_available v \<longleftrightarrow> pv_data v \<noteq> None) \<and> (\<forall>d. pv_data v = Some d \<longrightarrow> sound_quote p d)
     \<and> (pv_fresh v \<longrightarrow> (\<exists>t. pv_fetched v = Some t \<and> dval now - dval t \<le> of_int (cc_stale cfg)))"

lemma map_of_sound: "cache_sound cache \<Longrightarrow> map_of cache p = Some c \<Longrightarrow> sound_quote p (cq_data c)"
  by (auto simp: cache_sound_def dest: map_of_SomeD)

lemma result_sound:
  assumes "case cached of None \<Rightarrow> True | Some c \<Rightarrow> sound_quote p (cq_data c)"
  shows "view_sound cfg now p (context_result cfg spec now st why q cached)"
  using assms by (auto simp: view_sound_def context_result_def cache_age_def Let_def split: option.splits)

lemma result_now_sound:
  "cache_sound (mg_cache m) \<Longrightarrow> view_sound cfg now (ps_name spec) (context_result cfg spec now st why q (map_of (mg_cache m) (ps_name spec)))"
  by (rule result_sound) (auto split: option.splits dest: map_of_sound)

lemma alist_put_sound: "cache_sound cache \<Longrightarrow> p \<in> set allowed_providers \<Longrightarrow> sound_quote p (cq_data c) \<Longrightarrow> cache_sound (alist_put p c cache)"
  unfolding cache_sound_def using set_alist_put [of p c cache] by blast

lemma wp_ledger_cache:
  "cache_sound (mg_cache m) \<Longrightarrow> wp (on_ledger q) (\<lambda>_ m. cache_sound (mg_cache m)) (\<lambda>_ m. cache_sound (mg_cache m)) m"
  by (simp add: on_ledger_def wp_zoom) (simp add: wp_def split: sum.splits prod.splits)

abbreviation sound_after :: "context_config \<Rightarrow> dec \<Rightarrow> string \<Rightarrow> provider_view \<Rightarrow> manager \<Rightarrow> bool" where
  "sound_after cfg now p v m \<equiv> cache_sound (mg_cache m) \<and> view_sound cfg now p v"

lemma wp_marked_cache:
  assumes "cache_sound (mg_cache m)"
  shows "wp (or_ledger_error (on_ledger q) (ledger_lost x)) (\<lambda>_ m. cache_sound (mg_cache m)) (\<lambda>_ m. cache_sound (mg_cache m)) m"
  by (rule wp_marked [OF wp_ledger_cache [OF assms]]) simp

lemma fetch_failed_sound:
  assumes "cache_sound (mg_cache m)"
  shows "wp (fetch_failed cfg spec w now dc e) (sound_after cfg now (ps_name spec)) (\<lambda>_ m. cache_sound (mg_cache m)) m"
  by (simp add: fetch_failed_def) (rule wp_mono [OF wp_marked_cache [OF assms]], auto intro: result_now_sound)

lemma fetch_succeeded_sound:
  assumes "cache_sound (mg_cache m)" "ps_name spec \<in> set allowed_providers" "sound_quote (ps_name spec) data"
  shows "wp (fetch_succeeded cfg spec w now dc data) (sound_after cfg now (ps_name spec)) (\<lambda>_ m. cache_sound (mg_cache m)) m"
proof -
  have p: "view_sound cfg now p (v\<lparr>pv_persisted := b\<rparr>) = view_sound cfg now p v" for p v b by (simp add: view_sound_def)
  show ?thesis unfolding fetch_succeeded_def
    by (auto intro!: wp_save_cache wp_mono [OF wp_marked_cache] alist_put_sound assms intro: result_now_sound simp: p)
qed

lemma wp_send_request: "wp (send_request spec w now) Q E m
    = Q (fetch_bitcoin_usd (fw_tools w) (ps_name spec) (fw_read_at w) (fw_answer w)) (m\<lparr>mg_sent := (ps_name spec, now) # mg_sent m\<rparr>)"
  by (simp add: send_request_def)

lemma fetched_sound: "fetch_bitcoin_usd t p u a = Inr d \<Longrightarrow> p \<in> set allowed_providers \<Longrightarrow> sound_quote p d"
  by (simp add: allowed_providers_def fetched_quote)

lemma ask_provider_sound:
  assumes "cache_sound (mg_cache m)" "ps_name spec \<in> set allowed_providers"
  shows "wp (ask_provider cfg spec w now) (sound_after cfg now (ps_name spec)) (\<lambda>_ m. cache_sound (mg_cache m)) m"
  using assms
  by (auto simp: ask_provider_def wp_or_ledger_error wp_send_request
      intro!: wp_mono [OF wp_ledger_cache [OF assms(1)]] fetch_failed_sound fetch_succeeded_sound
      intro: result_now_sound fetched_sound split: sum.splits quota_error.splits)

lemma provider_context_sound:
  assumes "cache_sound (mg_cache m)" "ps_name spec \<in> set allowed_providers"
  shows "wp (provider_context cfg spec w now) (sound_after cfg now (ps_name spec)) (\<lambda>_ m. cache_sound (mg_cache m)) m"
proof -
  have q: "wp (or_ledger_error (quota_now io spec now) (returnW x)) (\<lambda>_ m. cache_sound (mg_cache m)) (\<lambda>_ m. cache_sound (mg_cache m)) m" for io x
    using assms(1) by (auto simp: wp_or_ledger_error quota_now_def intro!: wp_mono [OF wp_ledger_cache] split: quota_error.splits)
  have none: "view_sound cfg now p (context_result cfg spec now st why x None)" for p st why x by (rule result_sound) simp
  show ?thesis
    using assms ask_provider_sound [OF assms] none
    by (auto simp: provider_context_def intro!: wp_mono [OF q] intro: result_now_sound)
qed

lemma provider_contexts_sound:
  assumes "cache_sound (mg_cache m)" "ps_name ` set specs \<subseteq> set allowed_providers"
  shows "wp (provider_contexts cfg ws now specs) (\<lambda>vs m. cache_sound (mg_cache m) \<and> (\<forall>p v. (p, v) \<in> set vs \<longrightarrow> view_sound cfg now p v))
    (\<lambda>_ m. cache_sound (mg_cache m)) m"
  using assms
proof (induction specs arbitrary: m)
  case (Cons spec specs)
  have h: "wp (provider_context cfg spec (ws (ps_name spec)) now) (sound_after cfg now (ps_name spec)) (\<lambda>_ m. cache_sound (mg_cache m)) m"
    using Cons.prems by (intro provider_context_sound) auto
  have "ps_name ` set specs \<subseteq> set allowed_providers" using Cons.prems(2) by auto
  note ih = Cons.IH [OF _ this]
  show ?case by simp (rule wp_mono [OF h], auto intro!: wp_mono [OF ih])
qed simp

lemma snapshot_sound:
  assumes "cache_sound (mg_cache m)" "map ps_name (cc_specs cfg) = allowed_providers"
  shows "wp (snapshot cfg ws now) (\<lambda>sn m. cache_sound (mg_cache m) \<and> (\<forall>p v. (p, v) \<in> set (sn_providers sn) \<longrightarrow> view_sound cfg now p v)
      \<and> sn_advisory sn \<and> \<not> sn_affects_entry sn) (\<lambda>_ m. cache_sound (mg_cache m)) m"
proof -
  have "ps_name ` set (cc_specs cfg) \<subseteq> set allowed_providers" using assms(2) by (metis set_map order_refl)
  from wp_mono [OF provider_contexts_sound [OF assms(1) this]] show ?thesis by (simp add: snapshot_def)
qed

lemma run_cache_sound:
  assumes "cache_sound (mg_cache m)" "map ps_name (cc_specs cfg) = allowed_providers"
  shows "cache_sound (mg_cache (run_snapshots cfg rounds m))"
  using assms(1)
proof (induction rounds arbitrary: m)
  case (Cons r rounds)
  obtain ws now where r: "r = (ws, now)" by fastforce
  obtain out m' where out: "snapshot cfg ws now m = (out, m')" by fastforce
  have "cache_sound (mg_cache (snd (snapshot cfg ws now m)))"
    using snapshot_sound [OF Cons.prems assms(2), of ws now] by (cases out) (simp_all add: wp_def out)
  from Cons.IH [OF this] show ?case by (simp add: run_snapshots_def r)
qed (simp add: run_snapshots_def)

subsection \<open>The cache file\<close>

lemma metrics_sound:
  assumes "normalized_metrics (map (\<lambda>k. (k, f k)) metric_names) = Inr m"
  shows "sound_quote p (quote_data p m)"
proof -
  have "map (\<lambda>k. (k, f k)) metric_names = zip metric_names [f ''price_usd'', f ''market_cap_usd'', f ''volume_24h_usd'',
      f ''percent_change_24h'', f ''source_updated_at_epoch'']"
    by (simp only: metric_names_def list.map zip_Cons_Cons zip_Nil)
  from assms [unfolded this] show ?thesis by (rule five_metrics)
qed

lemma sanitized_Some:
  assumes "sanitize_cached p v = Some c"
  shows "\<exists>m. normalized_metrics (map (\<lambda>k. (k, get (items (get (items v) ''data'')) k)) metric_names) = Inr m \<and> cq_data c = quote_data p m"
  using assms unfolding sanitize_cached_def by (auto split: if_split_asm option.split_asm sum.split_asm)

lemma sanitized_sound: "sanitize_cached p v = Some c \<Longrightarrow> sound_quote p (cq_data c)"
  by (drule sanitized_Some, elim exE conjE) (simp only: metrics_sound)

lemma loaded_sound: "cache_sound (load_cache path file)"
proof -
  have "cache_sound (clean_rows rows)" for rows
    unfolding cache_sound_def clean_rows_def List.map_filter_def by (auto intro: sanitized_sound)
  then show ?thesis by (auto simp: load_cache_def cache_sound_def split: sum.splits json_file.splits)
qed

text \<open>C17: Whatever the cache file held at the start and whatever was collected since, a snapshot publishes, for each provider, either no
  quote or a sound one of that provider, calls it fresh only while its age is within the configured bound, and
  declares itself advisory only, outside the entry decision.
\<close>

theorem published_context_is_sound:
  assumes "context_from_env env = Inr cfg"
    and "fst (snapshot cfg ws now (run_snapshots cfg rounds (open_manager cfg io path d file))) = Inr sn"
  shows "(\<forall>p v. (p, v) \<in> set (sn_providers sn) \<longrightarrow> view_sound cfg now p v) \<and> sn_advisory sn \<and> \<not> sn_affects_entry sn"
proof -
  have "cache_sound (mg_cache (open_manager cfg io path d file))" by (simp add: open_manager_def Let_def loaded_sound)
  from snapshot_sound [OF run_cache_sound [OF this configured(2) [OF assms(1)]] configured(2) [OF assms(1)], of ws now rounds]
  show ?thesis using assms(2) by (auto simp: wp_def split: sum.splits prod.splits)
qed

lemma normalized_again:
  assumes "list_all (\<lambda>(k, v). case v of PFloat (Fin x) \<Rightarrow> bounded_number (fst (metric_bounds k)) (snd (metric_bounds k)) x | _ \<Rightarrow> False) kvs"
  shows "normalized_metrics kvs = Inr kvs"
  using assms unfolding normalized_metrics_def
  by (induction kvs) (auto simp: number_again split: pyval.splits pydec.splits)

lemma sound_quote_metrics:
  assumes "sound_quote p d"
  shows "normalized_metrics (map (\<lambda>k. (k, get d k)) metric_names) = Inr (map (\<lambda>k. (k, get d k)) metric_names)"
  using assms by (intro normalized_again) (auto simp: sound_quote_def list_all_iff)

lemma sound_quote_shape:
  assumes "sound_quote p d"
  shows "quote_data p (map (\<lambda>k. (k, get d k)) metric_names) = d"
proof -
  have f: "map fst d = ''identity'' # metric_names" and i: "get d ''identity'' = PDict (identity_of p)"
    using assms by (simp_all add: sound_quote_def)
  have "distinct (map fst d)" by (simp add: f metric_names_def)
  then have "map (\<lambda>x. (fst x, get d (fst x))) d = d"
    by (intro map_idI) (auto simp: get_def get_or_def)
  then have "map (\<lambda>k. (k, get d k)) (map fst d) = d" by (simp add: comp_def)
  then show ?thesis by (simp only: f list.map i quote_data_def)
qed

definition timely :: "cached_quote \<Rightarrow> bool" where
  "timely c \<longleftrightarrow> bounded_number (Some (Dec 1 0)) None (cq_at c)"

lemma sanitize_again:
  assumes "sound_quote p (cq_data c)" "timely c"
  shows "sanitize_cached p (cached_value c) = Some c"
proof -
  have r: "items (cached_value c) = [(''fetched_at_epoch'', PFloat (Fin (cq_at c))), (''data'', PDict (cq_data c))]"
    by (simp add: cached_value_def)
  have g: "get (items (cached_value c)) ''fetched_at_epoch'' = PFloat (Fin (cq_at c))" "get (items (cached_value c)) ''data'' = PDict (cq_data c)"
    by (simp_all add: r get_def get_or_def)
  have "keys_distinct (PDict (identity_of p))" by (simp add: identity_of_def)
  then have i: "same (get (cq_data c) ''identity'') (PDict (identity_of p))" and k: "set (map fst (cq_data c)) = set (''identity'' # metric_names)"
    using assms(1) by (simp_all only: sound_quote_def same_refl)
  have "set (map fst (items (cached_value c))) = {''fetched_at_epoch'', ''data''}" by (auto simp: r)
  then have "cached_shape p (cached_value c)"
    using i k unfolding cached_shape_def Let_def g by (simp add: cached_value_def del: list.set)
  moreover have "finite_in (Some (Dec 1 0)) None (PFloat (Fin (cq_at c))) = Some (cq_at c)"
    using assms(2) by (simp add: finite_in_def float_of_def number_again timely_def)
  ultimately show ?thesis
    by (simp add: sanitize_cached_def g sound_quote_metrics [OF assms(1)] sound_quote_shape [OF assms(1)])
qed

lemma map_of_filtered:
  "distinct ps \<Longrightarrow> map_of (List.map_filter (\<lambda>p. map_option (Pair p) (f p)) ps) q = (if q \<in> set ps then f q else None)"
  by (induction ps) (auto simp: List.map_filter_def split: option.splits)

lemma get_cached_rows: "get (map (\<lambda>(p, c). (p, cached_value c)) cache) q = (case map_of cache q of None \<Rightarrow> PNone | Some c \<Rightarrow> cached_value c)"
  by (induction cache) (auto simp: get_def get_or_def)

lemma saved_value:
  assumes "save_cache w m = (Inr True, m')"
  shows "mg_file m' = Json (cache_payload (mg_cache m)) \<and> safe_storage_path (fw_cache_path w) max_cache_bytes = Inr ()"
proof -
  have p: "safe_storage_path (fw_cache_path w) max_cache_bytes = Inr ()"
    using assms by (auto simp: save_cache_def eff_eval split: sum.splits)
  obtain r f where f: "atomic_write_json (fw_write w) (cache_payload (mg_cache m)) \<lparr>target_file = mg_file m, temp_file = Missing\<rparr> = (r, f)"
    by fastforce
  have "r = Inr () \<and> m' = m\<lparr>mg_file := target_file f\<rparr>"
    using assms by (auto simp: save_cache_def eff_eval p f)
  then show ?thesis using p atomic_write_target(1) [of "fw_write w"] f by auto
qed

text \<open>C18: A cache that was written is read back by the next start unchanged: every sound, dated quote passes the checks of the
  loader, and no other quote appears.
\<close>

theorem cache_survives_restart:
  assumes "save_cache w m = (Inr True, m')" "cache_sound (mg_cache m)" "\<forall>(p, c) \<in> set (mg_cache m). timely c"
  shows "map_of (load_cache (fw_cache_path w) (mg_file m')) = map_of (mg_cache m)"
proof
  fix q
  let ?rows = "map (\<lambda>(p, c). (p, cached_value c)) (mg_cache m)"
  have "load_cache (fw_cache_path w) (mg_file m') = clean_rows ?rows"
    using saved_value [OF assms(1)] by (simp add: load_cache_def cache_payload_def get_def get_or_def py_eq_def)
  moreover have "distinct allowed_providers" by (simp add: allowed_providers_def)
  ultimately have "map_of (load_cache (fw_cache_path w) (mg_file m')) q
      = (if q \<in> set allowed_providers then sanitize_cached q (get ?rows q) else None)"
    by (simp only: clean_rows_def map_of_filtered)
  moreover have "sanitize_cached q PNone = None" by (simp add: sanitize_cached_def cached_shape_def)
  moreover have "map_of (mg_cache m) q = Some c \<Longrightarrow> q \<in> set allowed_providers \<and> sanitize_cached q (cached_value c) = Some c" for c
    using assms(2,3) by (auto simp: cache_sound_def intro!: sanitize_again dest!: map_of_SomeD)
  ultimately show "map_of (load_cache (fw_cache_path w) (mg_file m')) q = map_of (mg_cache m) q"
    by (auto simp: get_cached_rows split: option.splits)
qed

subsection \<open>A run\<close>

definition calm_world :: fetch_world where
  "calm_world = \<lparr>fw_status_io = calm_io, fw_reserve_io = calm_io, fw_mark_io = calm_io, fw_cache_path = calm_path,
     fw_write = (\<lambda>_. None), fw_answer = None, fw_read_at = 1700000000, fw_tools = canned_tools\<rparr>"

definition context_environ :: environ where
  "context_environ k = (if k = ''COINGECKO_CONTEXT_ENABLED'' then Some ''true''
     else if k = ''COINGECKO_API_KEY'' then Some ''__KEYLESS_PUBLIC__'' else None)"

definition default_context :: context_config where
  "default_context = \<lparr>cc_refresh = 300, cc_stale = 900, cc_timeout = of_int_dec 10, cc_specs =
     [\<lparr>ps_name = ''coingecko'', ps_enabled = True, ps_key = ''__KEYLESS_PUBLIC__'', ps_minute = 96, ps_month = 9600\<rparr>,
      \<lparr>ps_name = ''coinmarketcap'', ps_enabled = False, ps_key = [], ps_minute = 28, ps_month = 9600\<rparr>]\<rparr>"

lemma context_environ_read: "context_from_env context_environ = Inr default_context"
  by (simp add: context_from_env_def spec_from_env_def env_int_def env_float_def env_choice_def env_flag_def env_key_def
    context_environ_def default_context_def blank_def safe_minute_def safe_month_def four_percent_below_def free_quota_def
    strip_def is_space_def dle_def dlt_def aligned_def of_int_dec_def upper_eval)

definition two_rounds :: "((string \<Rightarrow> fetch_world) \<times> dec) list" where
  "two_rounds = [(\<lambda>_. calm_world, Dec 60 0), (\<lambda>_. calm_world, Dec 460 0)]"

theorem context_requests_within_quota_witness:
  "in_window month_of ''1970-01'' (sent_to ''coingecko'' (run_snapshots default_context two_rounds
      (open_manager default_context calm_io calm_path empty_ledger Missing))) \<le> 9600"
  using context_requests_within_quota [OF context_environ_read, of two_rounds "''coingecko''" empty_ledger calm_io calm_path Missing]
  by (simp add: two_rounds_def dval_def allowed_providers_def empty_ledger_def)

text \<open>A start with a cached quote and a ledger that cannot be opened: the quote is published, nothing is requested.\<close>

definition old_quote :: cached_quote where
  "old_quote = \<lparr>cq_at = Dec 1700000000 0, cq_data = spot_price_quote\<rparr>"

definition broken_io :: quota_io where
  "broken_io = calm_io\<lparr>qi_connects := False\<rparr>"

definition cached_start :: manager where
  "cached_start = open_manager default_context broken_io calm_path empty_ledger (Json (cache_payload [(''coingecko'', old_quote)]))"

lemma old_quote_cached: "cache_sound [(''coingecko'', old_quote)]" "timely old_quote"
  using fetched_quote [OF spot_price_fetched]
  by (simp_all add: cache_sound_def allowed_providers_def old_quote_def) code_simp

lemma cached_start_cache: "map_of (mg_cache cached_start) ''coingecko'' = Some old_quote"
proof -
  have "load_cache calm_path (Json (cache_payload [(''coingecko'', old_quote)])) = clean_rows [(''coingecko'', cached_value old_quote)]"
    by (simp add: load_cache_def cache_payload_def get_def get_or_def py_eq_def safe_storage_path_def calm_path_def max_cache_bytes_def)
  then show ?thesis
    using old_quote_cached
    by (simp add: cached_start_def open_manager_def Let_def clean_rows_def List.map_filter_def allowed_providers_def get_def get_or_def
        cache_sound_def sanitize_again)
qed

lemma cached_start_lost: "mg_ledger cached_start = False" "mg_error cached_start"
  by (simp_all add: cached_start_def open_manager_def Let_def default_context_def initialize_def validate_marker_def connect_def eff_eval
    broken_io_def calm_io_def calm_path_def empty_ledger_def safe_storage_path_def marker_value_def max_ledger_bytes_def same_refl [of "PDict _"])

definition cached_view :: provider_view where
  "cached_view = context_result default_context (hd (cc_specs default_context)) (Dec 1700000100 0) ''cached'' None
     (Some (empty_quota (hd (cc_specs default_context)))) (Some old_quote)"

lemma cached_snapshot: "\<exists>sn. fst (snapshot default_context (\<lambda>_. calm_world) (Dec 1700000100 0) cached_start) = Inr sn
    \<and> (''coingecko'', cached_view) \<in> set (sn_providers sn)"
  using cached_start_cache cached_start_lost
  by (simp add: snapshot_def default_context_def provider_context_def cache_age_def old_quote_def quota_now_def or_ledger_error_def
    result_now_def eff_eval dval_def cached_view_def)

theorem published_context_is_sound_witness:
  "view_sound default_context (Dec 1700000100 0) ''coingecko'' cached_view"
  using cached_snapshot published_context_is_sound [OF context_environ_read, of "\<lambda>_. calm_world" "Dec 1700000100 0" "[]" broken_io calm_path
    empty_ledger "Json (cache_payload [(''coingecko'', old_quote)])"]
  by (auto simp: run_snapshots_def cached_start_def)

theorem cache_survives_restart_witness:
  "\<exists>m'. save_cache calm_world (cached_start\<lparr>mg_cache := [(''coingecko'', old_quote)]\<rparr>) = (Inr True, m')
     \<and> map_of (load_cache calm_path (mg_file m')) = map_of [(''coingecko'', old_quote)]"
proof -
  obtain m' where s: "save_cache calm_world (cached_start\<lparr>mg_cache := [(''coingecko'', old_quote)]\<rparr>) = (Inr True, m')"
    by (simp add: save_cache_def calm_world_def calm_path_def safe_storage_path_def max_cache_bytes_def atomic_write_json_def write_temp_def
      step_of_def eff_eval)
  show ?thesis using s cache_survives_restart [OF s] old_quote_cached by (simp add: calm_world_def)
qed

end
