(* ===== verification/Spec2Isabelle.thy ===== *)
theory Spec2Isabelle
  imports Store_Safety Filters Market_Policy Py_Special Pair_Guarantees Envelope Evidence Risk_Guarantees Adapter_Safety
    Public_Client Callbacks Signal_Desk Live_Evidence Context_Guarantees
begin

text \<open>
  A verification development for the Bitcoin Spot trading bot: the execution sidecar
  (\<open>services/execution_sidecar\<close>) and the modules of \<open>services/common\<close> it stands on.

  \<^bold>\<open>The program.\<close> The sidecar owns the authenticated connection to the exchange. A signal
  (or a signed owner command) reaches \<open>BitcoinSpotAdapter\<close>, which asks the pair controller
  for the one active pair, reads the exchange's rules for it, builds an order request with
  \<open>OrderRequestFactory\<close>, lets \<open>SpotFilterValidator\<close> compare the request with the published
  filters, and sends it through \<open>BinanceSpotGateway\<close>. Before a request is sent it is
  committed to the SQLite store (\<open>ExecutionStateStore\<close>) as an \<^emph>\<open>intent\<close>, and what the
  exchange answers, over REST or over the user stream, is recorded there as events which move the
  lifecycle of the trade. The guard (\<open>SignalGuard\<close>) counts stop-outs and pauses trading. A
  reconciliation compares the store with everything the exchange lists as open; entries are armed
  only after one succeeded. The pair controller switches the pair through a stage file, only
  when the adapter reports the desk flat.

  \<^bold>\<open>Theories and code.\<close>
  \<^item> \<open>Prelude\<close>: the error monad on sums (\<open>bindE\<close>, \<open>mapE\<close>), association lists as Python
    dicts, text functions, and the simp collections of the development.
  \<^item> \<open>Py_Decimal\<close>, \<open>Py_Decimal_Exact\<close>, \<open>Py_Special\<close>: \<open>decimal.Decimal\<close> in the default
    context, 28 digits, half-even rounding, as coefficient and exponent; when an operation is
    exact; infinities and NaN.
  \<^item> \<open>Py_Value\<close>: the values of JSON and of the exchange's answers, truth values, \<open>str\<close>,
    \<open>int\<close>, \<open>float\<close> and \<open>Decimal\<close> of a value; \<open>Py_Time\<close>: calendar dates, ISO times and
    the clock.
  \<^item> \<open>Models\<close>: \<open>common/models.py\<close>, \<open>config_bounds.py\<close>, \<open>package_mode.py\<close>,
    \<open>client_ids.py\<close>.
  \<^item> \<open>Market_Policy\<close>: \<open>common/market_policy.py\<close>, canonical pairs and exchange metadata.
  \<^item> \<open>Protection_Modes\<close>: \<open>protection_modes.py\<close>, the requests of the three protection modes.
  \<^item> \<open>Filters\<close>: \<open>filters.py\<close>, the validation of a request against the exchange's filters.
  \<^item> \<open>Claim_Ledger\<close>, \<open>Intents\<close>, \<open>State_Store\<close>, \<open>Store_Safety\<close>: \<open>state_store.py\<close>, one
    table per association list; the locale of a write-once ledger, the intent table, the
    trades, signals, commands and events, and the properties of runs of store operations.
  \<^item> \<open>Effects\<close>: a state and error monad in which a failing step keeps the state it reached, with
    the weakest-precondition rules every later theory uses.
  \<^item> \<open>Json_File\<close>: \<open>common/atomic.py\<close>; \<open>Pair_Registry\<close>: \<open>common/pair_registry.py\<close>;
    \<open>Pair_Control\<close>, \<open>Pair_Switch\<close>, \<open>Pair_Guarantees\<close>: \<open>pair_control.py\<close>, its files,
    its stage machine and the properties of a switch.
  \<^item> \<open>Envelope\<close>, \<open>Evidence\<close>: \<open>common/envelope.py\<close> and \<open>evidence_signature.py\<close>.
  \<^item> \<open>Risk_Checks\<close>, \<open>Risk_Guarantees\<close>: \<open>risk_checks.py\<close>, the guard over its file and the store.
  \<^item> \<open>Spot_Gateway\<close>: \<open>spot_gateway.py\<close>, the world outside (\<open>outside\<close>: what the exchange
    answers, what the clocks read) and the state of the desk (\<open>desk\<close>: the store, the guard,
    the adapter's memory, and the list of requests that left).
  \<^item> \<open>Adapter_Base\<close> to \<open>Adapter_Desk\<close>: \<open>bitcoin_adapter.py\<close> in its own order: helpers and
    events, submission, recovery of intents, entries that are not filled, reconciliation,
    protection and exits, and the entry points. \<open>desk_step\<close> is one operation of any kind and
    \<open>run_desk\<close> any sequence of operations, restarts and pair switches.
  \<^item> \<open>Adapter_Ledger\<close>: the locale \<open>desk_invariant\<close>, which proves once that a predicate kept by
    the elementary writes is kept by every operation of the adapter; \<open>Adapter_Guarantees\<close> and
    \<open>Adapter_Safety\<close> interpret it and hold the properties of the adapter.
  \<^item> \<open>Signal_Desk\<close>: \<open>order_manager.py\<close>, the consumer of signed signals over the desk; it extends
    \<open>desk_invariant\<close> to runs of signal files and adapter operations.
  \<^item> \<open>Fingerprint\<close>, \<open>Live_Evidence\<close>: \<open>common/strategy_fingerprint.py\<close> and
    \<open>live_evidence.py\<close>, the gate of live trading over a signed document and a backtest archive.
  \<^item> \<open>Provider_Client\<close>: \<open>moneyflow/external_clients.py\<close>; \<open>Quota_Ledger\<close> and \<open>External_Context\<close>:
    \<open>moneyflow/external_context.py\<close>, the request quota kept in SQLite and the manager of the two
    quote providers; \<open>Context_Guarantees\<close>: its runs.
  \<^item> \<open>Public_Client\<close>: \<open>common/binance_public.py\<close>, public requests with retries and the ban
    latch; \<open>Callbacks\<close>: \<open>telegram_broker/callbacks.py\<close> and \<open>authorization.py\<close>, the
    single-use confirmations of the owner.

  \<^bold>\<open>Interfaces.\<close> A ledger whose entries are claimed once (\<open>Claim_Ledger\<close>) is interpreted by the
  intent table, the signals and the commands. A counter that belongs to the window of
  its last reading (\<open>counted_window\<close>) is interpreted by calendar months and by minutes. The adapter reaches the exchange only through the
  functions of \<open>outside\<close>, which are arbitrary: every property holds for any exchange, any
  clock and any failure. The invariants of the adapter rest on the laws of \<open>desk_invariant\<close>.

  \<^bold>\<open>What is proved.\<close> The numbered statements stand where their theorems are. Of the adapter: a
  request leaves only for a committed intent and at most once; an unproven outcome disarms the
  desk; a reconciliation that succeeds leaves nothing unexplained; flatness is what the
  exchange said; a REST answer counts as the stream's report. Of the store: intents and events are
  applied once, settled trades stay settled. Of requests: they carry the planned numbers and
  conform to the filters. Of the pair: it changes only when flat and the stage machine is
  followed. Of the guard: a stop-out blocks re-entry and budgets hold. Of signed messages: what is
  accepted was signed, for this purpose and this time. Of signals: one is handed to the adapter at
  most once and only after every check. Of live trading: the evidence is for exactly this
  deployment and its backtest passes the gate. Of public requests: they end, and a ban is
  respected. Of the quote providers: what leaves stays under the quotas of the free plans, a lost ledger
  is never taken for an empty one, and only sound quotes are published. Of confirmations: a token is used once, for what it was issued for.

  \<^bold>\<open>Bounds.\<close> No definition needs fuel: loops run over lists the program has in hand. Integers
  of Python are unbounded and so are those of the model; the counter of client identifiers
  is taken modulo 65536 and the time stamp modulo \<open>2 ^ 32\<close> as in the code.

  \<^bold>\<open>Parameters.\<close> SHA-256, HMAC, Ed25519, \<open>json.loads\<close>, the redaction of texts, random numbers,
  clocks, the answers of the exchange and the success of disk steps are arguments.

  \<^bold>\<open>Not modelled.\<close> Locks and threads (operations of the adapter hold its lock and are taken as
  atomic), the audit log, the notifier and the texts of read-only reports. The user stream's
  websocket; its handlers are operations of the adapter and starting it is an argument.
  Identifiers that a refused request would have drawn are not drawn. The set of symbols to
  recover is taken in insertion order. A decimal of the exchange that is not finite counts as
  malformed where the code would raise or refuse later, and the difference of two clock readings
  is a difference of decimals. The order-book and candle statistics of the money-flow service are
  binary floating point shown to the operator; the Telegram user interface, monitoring, deployment scripts and the Freqtrade strategy
  are user interface, packaging or third-party computation.
\<close>

end
